(* ===== verification/Prelude.thy ===== *)
theory Prelude
  imports Main
begin

text \<open>
  Shared vocabulary of the development: instants and durations, the errors the store returns,
  results as sums, SQL tables as lists of rows with the four statements the store uses on them,
  and reachability of a transition system with its invariant rule.

  An instant is an \<^typ>\<open>int\<close>: nanoseconds since the Unix epoch, as Go's \<^verbatim>\<open>time.Time\<close> counts
  them; a duration is a difference of instants. Strings are Go strings: sequences of bytes,
  \<^typ>\<open>string\<close> being a list of 8-bit characters.
\<close>

named_theorems table_simps \<open>rewrite rules on tables\<close>
named_theorems audit_simps \<open>what an operation leaves of the audit trail\<close>

type_synonym time = int
type_synonym duration = int

abbreviation second :: duration where "second \<equiv> 1000000000"
abbreviation minute :: duration where "minute \<equiv> 60 * second"
abbreviation hour :: duration where "hour \<equiv> 60 * minute"

subsection \<open>Errors and results\<close>

text \<open>
  The sentinel errors of \<^verbatim>\<open>internal/store/store.go\<close> and of the files of the store that declare
  their own. \<open>ErrBlocked\<close> is \<^verbatim>\<open>PreflightBlockedError\<close> with its blockers. \<open>ErrConflict\<close> is the
  driver's refusal of a write that breaks a unique constraint of the schema, which the code
  recognises by its text; \<open>ErrNoRow\<close> is a bare \<^verbatim>\<open>sql.ErrNoRows\<close> a caller passes on, \<open>ErrDriver\<close> any
  other error of the driver (a foreign key without its row) or of a decoder that is passed on.
\<close>

datatype err =
    ErrForbidden | ErrInvalid | ErrNotFound | ErrAlreadyExists | ErrInUse
  | ErrEndpointOffline | ErrDeploymentPlanned | ErrDeploymentInProgress
  | ErrAdoptionChanged | ErrMigrationOpen | ErrRemovalTooLarge
  | ErrRevisionCorrupt | ErrUnreadableResult | ErrMappingRequired | ErrRuntimeUnsupported
  | ErrPolicyNotPaused | ErrPolicyChanged
  | ErrInvalidTimezone | ErrInvalidWindow | ErrInvalidWeekdays | ErrInvalidMode
  | ErrNoPrincipal | ErrConflict | ErrNoRow
  | ErrLastAdmin | ErrPairingCodesExhausted | ErrAgentTokenLimit | ErrStatusFeedLimit
  | ErrStatusFeedThrottled | ErrRotationBlocked | ErrRotationPending
  | ErrKeyRetired | ErrKeyPendingReview | ErrInstallerOwned | ErrNoBootstrapAccount
  | ErrDriver
  | ErrBlocked "string list"

type_synonym 'a res = "err + 'a"

definition and_then :: "'a res \<Rightarrow> ('a \<Rightarrow> 'b res) \<Rightarrow> 'b res" where
  "and_then m f = (case m of Inl e \<Rightarrow> Inl e | Inr x \<Rightarrow> f x)"

lemma and_then_simps [simp]:
  "and_then (Inl e) f = Inl e"
  "and_then (Inr x) f = f x"
  by (simp_all add: and_then_def)

lemma and_then_Inr [simp]:
  "and_then m f = Inr y \<longleftrightarrow> (\<exists>x. m = Inr x \<and> f x = Inr y)"
  by (cases m) auto

lemma and_then_InrE [elim!]:
  assumes "and_then m f = Inr y"
  obtains x where "m = Inr x" "f x = Inr y"
  using assms by auto

lemma and_then_assoc: "and_then (and_then m f) g = and_then m (\<lambda>x. and_then (f x) g)"
  by (cases m) auto

definition require :: "bool \<Rightarrow> err \<Rightarrow> unit res" where
  "require b e = (if b then Inr () else Inl e)"

lemma require_simps [simp]:
  "require True e = Inr ()"
  "require False e = Inl e"
  "require b e = Inr u \<longleftrightarrow> b"
  "require b e = Inl e' \<longleftrightarrow> \<not> b \<and> e' = e"
  by (auto simp: require_def)

text \<open>A row that must be there: \<^verbatim>\<open>sql.ErrNoRows\<close> turned into the caller's error.\<close>

definition row_or :: "err \<Rightarrow> 'r option \<Rightarrow> 'r res" where
  "row_or e x = (case x of None \<Rightarrow> Inl e | Some r \<Rightarrow> Inr r)"

lemma row_or_simps [simp]:
  "row_or e None = Inl e"
  "row_or e (Some r) = Inr r"
  "row_or e x = Inr r \<longleftrightarrow> x = Some r"
  "row_or e x = Inl e' \<longleftrightarrow> x = None \<and> e' = e"
  by (auto simp: row_or_def split: option.splits)

text \<open>A loop over a list that stops at the first error, threading a state.\<close>

fun each :: "('a \<Rightarrow> 's \<Rightarrow> 's res) \<Rightarrow> 'a list \<Rightarrow> 's \<Rightarrow> 's res" where
  "each f [] s = Inr s"
| "each f (x # xs) s = and_then (f x s) (each f xs)"

lemma each_invariant:
  assumes "each f xs s = Inr s'" and "P s"
    and "\<And>x s s'. x \<in> set xs \<Longrightarrow> P s \<Longrightarrow> f x s = Inr s' \<Longrightarrow> P s'"
  shows "P s'"
  using assms by (induction xs arbitrary: s) auto

lemma each_append: "each f (xs @ ys) s = and_then (each f xs s) (each f ys)"
  by (induction xs arbitrary: s) (simp_all add: and_then_assoc and_then_def split: sum.splits)

subsection \<open>Tables\<close>

text \<open>
  A table is the list of its rows in insertion order. \<^verbatim>\<open>SELECT ... WHERE\<close> is \<^const>\<open>filter\<close>, a
  \<^verbatim>\<open>QueryRow\<close> is \<^const>\<open>List.find\<close>, and the writes are these.
\<close>

type_synonym 'r table = "'r list"

definition update_where :: "('r \<Rightarrow> bool) \<Rightarrow> ('r \<Rightarrow> 'r) \<Rightarrow> 'r table \<Rightarrow> 'r table" where
  "update_where P f t = map (\<lambda>r. if P r then f r else r) t"

definition delete_where :: "('r \<Rightarrow> bool) \<Rightarrow> 'r table \<Rightarrow> 'r table" where
  "delete_where P t = filter (\<lambda>r. \<not> P r) t"

definition count_where :: "('r \<Rightarrow> bool) \<Rightarrow> 'r table \<Rightarrow> nat" where
  "count_where P t = length (filter P t)"

text \<open>An INSERT is refused when \<open>clash\<close> finds a row that breaks a unique constraint.\<close>

definition insert_row :: "('r \<Rightarrow> 'r \<Rightarrow> bool) \<Rightarrow> 'r \<Rightarrow> 'r table \<Rightarrow> 'r table res" where
  "insert_row clash r t = (if \<exists>x\<in>set t. clash r x then Inl ErrConflict else Inr (t @ [r]))"

lemma update_where_simps [table_simps, simp]:
  "update_where P f [] = []"
  "update_where P f (r # t) = (if P r then f r else r) # update_where P f t"
  "update_where P f (t @ u) = update_where P f t @ update_where P f u"
  "length (update_where P f t) = length t"
  by (simp_all add: update_where_def)

lemma delete_where_simps [table_simps, simp]:
  "delete_where P [] = []"
  "delete_where P (r # t) = (if P r then delete_where P t else r # delete_where P t)"
  "delete_where P (t @ u) = delete_where P t @ delete_where P u"
  "set (delete_where P t) = {r \<in> set t. \<not> P r}"
  by (auto simp: delete_where_def)

lemma count_where_simps [table_simps, simp]:
  "count_where P [] = 0"
  "count_where P (r # t) = (if P r then Suc (count_where P t) else count_where P t)"
  "count_where P (t @ u) = count_where P t + count_where P u"
  by (auto simp: count_where_def)

lemma count_where_0 [simp]: "count_where P t = 0 \<longleftrightarrow> (\<forall>r\<in>set t. \<not> P r)"
  by (auto simp: count_where_def filter_empty_conv)

lemma count_where_pos [simp]: "0 < count_where P t \<longleftrightarrow> (\<exists>r\<in>set t. P r)"
  using count_where_0 [of P t] by (metis gr0I less_irrefl_nat)

lemma in_update_where: "r \<in> set (update_where P f t) \<longleftrightarrow> (\<exists>x\<in>set t. r = (if P x then f x else x))"
  by (auto simp: update_where_def)

lemma in_update_where_unset:
  "q \<in> set (update_where P f t) \<Longrightarrow> (\<And>x. P x \<Longrightarrow> R (f x)) \<Longrightarrow> \<not> R q \<Longrightarrow> q \<in> set t \<and> \<not> P q"
  by (metis in_update_where)

lemma update_where_id: "(\<And>r. r \<in> set t \<Longrightarrow> P r \<Longrightarrow> f r = r) \<Longrightarrow> update_where P f t = t"
  by (induction t) auto

lemma update_where_none: "(\<And>r. r \<in> set t \<Longrightarrow> \<not> P r) \<Longrightarrow> update_where P f t = t"
  by (induction t) auto

lemma update_where_keys:
  "(\<And>r. r \<in> set t \<Longrightarrow> P r \<Longrightarrow> k (f r) = k r) \<Longrightarrow> map k (update_where P f t) = map k t"
  by (induction t) auto

lemma delete_where_distinct: "distinct (map k t) \<Longrightarrow> distinct (map k (delete_where P t))"
  by (auto simp: delete_where_def distinct_map_filter)

lemma count_update_where_le:
  "\<forall>r\<in>set t. P r \<longrightarrow> Q (f r) \<longrightarrow> Q r \<Longrightarrow> count_where Q (update_where P f t) \<le> count_where Q t"
  by (induction t) auto

lemma count_delete_where_le: "count_where Q (delete_where P t) \<le> count_where Q t"
  by (induction t) auto

lemma count_where_cong: "(\<And>r. r \<in> set t \<Longrightarrow> P r = Q r) \<Longrightarrow> count_where P t = count_where Q t"
  by (induction t) auto

lemma find_Some_in: "List.find P t = Some r \<Longrightarrow> r \<in> set t \<and> P r"
  by (auto simp: find_Some_iff)

lemma find_None_in: "List.find P t = None \<longleftrightarrow> (\<forall>r\<in>set t. \<not> P r)"
  by (auto simp: find_None_iff)

lemma find_update_where:
  assumes "\<And>r. r \<in> set t \<Longrightarrow> P r \<Longrightarrow> Q (f r) = Q r"
  shows "List.find Q (update_where P f t) = map_option (\<lambda>r. if P r then f r else r) (List.find Q t)"
  using assms by (induction t) auto

lemma find_cong_in: "(\<And>r. r \<in> set t \<Longrightarrow> P r = Q r) \<Longrightarrow> List.find P t = List.find Q t"
  by (induction t) auto

lemma distinct_map_eq:
  "distinct (map k t) \<Longrightarrow> x \<in> set t \<Longrightarrow> y \<in> set t \<Longrightarrow> k x = k y \<Longrightarrow> x = y"
  by (auto simp: distinct_map inj_on_def)

lemma find_by_key:
  assumes "distinct (map k t)" and "r \<in> set t"
  shows "List.find (\<lambda>x. k x = k r) t = Some r"
proof -
  obtain x where x: "List.find (\<lambda>x. k x = k r) t = Some x"
    using assms(2) by (cases "List.find (\<lambda>x. k x = k r) t") (auto simp: find_None_in)
  with find_Some_in [OF x] distinct_map_eq [OF assms(1) _ assms(2)] show ?thesis by auto
qed

lemma count_where_unique:
  assumes "distinct (map k t)" and "\<And>x y. x \<in> set t \<Longrightarrow> y \<in> set t \<Longrightarrow> P x \<Longrightarrow> P y \<Longrightarrow> k x = k y"
  shows "count_where P t \<le> 1"
  using assms by (induction t) (auto simp: image_iff)

lemma insert_row_Inr [simp]:
  "insert_row clash r t = Inr t' \<longleftrightarrow> t' = t @ [r] \<and> (\<forall>x\<in>set t. \<not> clash r x)"
  by (auto simp: insert_row_def)

lemma insert_row_Inl [simp]:
  "insert_row clash r t = Inl e \<longleftrightarrow> e = ErrConflict \<and> (\<exists>x\<in>set t. clash r x)"
  by (auto simp: insert_row_def)

subsection \<open>Transition systems\<close>

text \<open>
  A component with state is a start predicate and a step relation; its reachable states are the
  least set that holds the start states and is closed under steps.
\<close>

inductive reach :: "('s \<Rightarrow> bool) \<Rightarrow> ('s \<Rightarrow> 's \<Rightarrow> bool) \<Rightarrow> 's \<Rightarrow> bool" for init step where
  reach_init: "init s \<Longrightarrow> reach init step s"
| reach_step: "reach init step s \<Longrightarrow> step s t \<Longrightarrow> reach init step t"

text \<open>The contract of an inductive invariant, and what it gives every reachable state.\<close>

locale invariant_system =
  fixes init :: "'s \<Rightarrow> bool" and step :: "'s \<Rightarrow> 's \<Rightarrow> bool" and inv :: "'s \<Rightarrow> bool"
  assumes init_inv: "init s \<Longrightarrow> inv s"
    and step_inv: "step s t \<Longrightarrow> inv s \<Longrightarrow> inv t"
begin

lemma reach_inv: "reach init step s \<Longrightarrow> inv s"
  by (induction rule: reach.induct) (auto intro: init_inv step_inv)

lemma steps_inv: "step\<^sup>*\<^sup>* s t \<Longrightarrow> inv s \<Longrightarrow> inv t"
  by (induction rule: rtranclp_induct) (auto intro: step_inv)

end

end
