(* ===== verification/Regex.thy ===== *)
theory Regex
  imports Prelude
begin

text \<open>
  Go's \<^verbatim>\<open>regexp.MatchString\<close> on the anchored expressions the program uses. An expression
  \<^verbatim>\<open>^r$\<close> is a term of \<open>rx\<close>; \<open>MatchString\<close> takes Brzozowski derivatives, and agrees with the
  language \<open>rx_lang\<close> the expression denotes. The classes of the program are ASCII, so matching
  bytes is matching runes: a byte of a longer rune, or of invalid UTF-8, is in no class.
\<close>

datatype rx =
    Never
  | Eps
  | Cls "(char \<times> char) list"
  | Seq rx rx
  | Alt rx rx
  | Star rx

definition in_class :: "(char \<times> char) list \<Rightarrow> char \<Rightarrow> bool" where
  "in_class rs c \<longleftrightarrow>
    (\<exists>r\<in>set rs. (of_char (fst r) :: nat) \<le> of_char c \<and> (of_char c :: nat) \<le> of_char (snd r))"

subsection \<open>The language of an expression\<close>

inductive rx_lang :: "rx \<Rightarrow> string \<Rightarrow> bool" where
  lang_Eps: "rx_lang Eps []"
| lang_Cls: "in_class rs c \<Longrightarrow> rx_lang (Cls rs) [c]"
| lang_Seq: "rx_lang r s \<Longrightarrow> rx_lang q t \<Longrightarrow> rx_lang (Seq r q) (s @ t)"
| lang_Alt1: "rx_lang r s \<Longrightarrow> rx_lang (Alt r q) s"
| lang_Alt2: "rx_lang q s \<Longrightarrow> rx_lang (Alt r q) s"
| lang_Star0: "rx_lang (Star r) []"
| lang_Star1: "rx_lang r s \<Longrightarrow> rx_lang (Star r) t \<Longrightarrow> rx_lang (Star r) (s @ t)"

inductive_cases lang_StarE: "rx_lang (Star r) s"
inductive_cases lang_SeqE: "rx_lang (Seq r q) s"

inductive_simps rx_lang_Never [simp]: "rx_lang Never s"
inductive_simps rx_lang_Eps [simp]: "rx_lang Eps s"
inductive_simps rx_lang_Cls: "rx_lang (Cls rs) s"
inductive_simps rx_lang_Seq: "rx_lang (Seq r q) s"
inductive_simps rx_lang_Alt: "rx_lang (Alt r q) s"

lemmas rx_lang_simps = rx_lang_Cls rx_lang_Seq rx_lang_Alt

subsection \<open>Matching\<close>

fun nullable :: "rx \<Rightarrow> bool" where
  "nullable Never = False"
| "nullable Eps = True"
| "nullable (Cls rs) = False"
| "nullable (Seq r q) = (nullable r \<and> nullable q)"
| "nullable (Alt r q) = (nullable r \<or> nullable q)"
| "nullable (Star r) = True"

definition seq :: "rx \<Rightarrow> rx \<Rightarrow> rx" where
  "seq r q = (if r = Never then Never else if r = Eps then q else Seq r q)"

definition alt :: "rx \<Rightarrow> rx \<Rightarrow> rx" where
  "alt r q = (if r = Never then q else if q = Never then r else Alt r q)"

fun deriv :: "char \<Rightarrow> rx \<Rightarrow> rx" where
  "deriv c Never = Never"
| "deriv c Eps = Never"
| "deriv c (Cls rs) = (if in_class rs c then Eps else Never)"
| "deriv c (Seq r q) =
    (if nullable r then alt (seq (deriv c r) q) (deriv c q) else seq (deriv c r) q)"
| "deriv c (Alt r q) = alt (deriv c r) (deriv c q)"
| "deriv c (Star r) = seq (deriv c r) (Star r)"

fun MatchString :: "rx \<Rightarrow> string \<Rightarrow> bool" where
  "MatchString r [] = nullable r"
| "MatchString r (c # s) = MatchString (deriv c r) s"

lemma lang_seq [simp]: "rx_lang (seq r q) s \<longleftrightarrow> rx_lang (Seq r q) s"
  by (auto simp: seq_def rx_lang_simps)

lemma lang_alt [simp]: "rx_lang (alt r q) s \<longleftrightarrow> rx_lang r s \<or> rx_lang q s"
  by (auto simp: alt_def rx_lang_simps)

lemma lang_nullable: "nullable r \<longleftrightarrow> rx_lang r []"
  by (induction r) (auto simp: rx_lang_simps intro: lang_Star0)

lemma lang_Star_Cons:
  "rx_lang (Star r) (c # s) \<longleftrightarrow> (\<exists>t u. s = t @ u \<and> rx_lang r (c # t) \<and> rx_lang (Star r) u)"
proof
  have "\<exists>t u. s = t @ u \<and> rx_lang r (c # t) \<and> rx_lang (Star r) u"
    if "rx_lang q w" "q = Star r" "w = c # s" for q w
    using that
  proof (induction arbitrary: s rule: rx_lang.induct)
    case (lang_Star1 p x y)
    show ?case
    proof (cases x)
      case Nil
      with lang_Star1.prems lang_Star1.IH(2) [of s] show ?thesis by simp
    next
      case (Cons d x')
      with lang_Star1.prems lang_Star1.hyps show ?thesis by auto
    qed
  qed simp_all
  then show "rx_lang (Star r) (c # s)
      \<Longrightarrow> \<exists>t u. s = t @ u \<and> rx_lang r (c # t) \<and> rx_lang (Star r) u" by blast
next
  assume "\<exists>t u. s = t @ u \<and> rx_lang r (c # t) \<and> rx_lang (Star r) u"
  then show "rx_lang (Star r) (c # s)" by (metis append_Cons lang_Star1)
qed

lemma lang_Seq_Cons:
  "rx_lang (Seq r q) (c # s) \<longleftrightarrow>
    (rx_lang r [] \<and> rx_lang q (c # s)) \<or> (\<exists>t u. s = t @ u \<and> rx_lang r (c # t) \<and> rx_lang q u)"
  unfolding rx_lang_Seq Cons_eq_append_conv by blast

lemma lang_Seq_Nil: "rx_lang (Seq r q) [] \<longleftrightarrow> rx_lang r [] \<and> rx_lang q []"
  by (simp add: rx_lang_Seq)

lemma lang_deriv: "rx_lang (deriv c r) s \<longleftrightarrow> rx_lang r (c # s)"
proof (induction r arbitrary: s)
  case (Seq r q)
  have "rx_lang (Seq (deriv c r) q) s \<longleftrightarrow> (\<exists>t u. s = t @ u \<and> rx_lang r (c # t) \<and> rx_lang q u)"
    unfolding rx_lang_Seq Seq.IH(1) by blast
  then show ?case by (auto simp: Seq.IH(2) lang_nullable lang_Seq_Cons)
next
  case (Star r)
  show ?case unfolding deriv.simps lang_seq rx_lang_Seq lang_Star_Cons Star.IH by blast
qed (auto simp: rx_lang_simps)

lemma MatchString_lang: "MatchString r s \<longleftrightarrow> rx_lang r s"
  by (induction s arbitrary: r) (simp_all add: lang_nullable lang_deriv)

subsection \<open>Shorthands of the syntax\<close>

text \<open>\<^verbatim>\<open>r{n}\<close>, \<^verbatim>\<open>r{0,n}\<close>, \<^verbatim>\<open>r+\<close>, \<^verbatim>\<open>(r)?\<close> and a literal.\<close>

fun times :: "nat \<Rightarrow> rx \<Rightarrow> rx" where
  "times 0 r = Eps"
| "times (Suc n) r = Seq r (times n r)"

fun at_most :: "nat \<Rightarrow> rx \<Rightarrow> rx" where
  "at_most 0 r = Eps"
| "at_most (Suc n) r = Alt Eps (Seq r (at_most n r))"

definition plus_rx :: "rx \<Rightarrow> rx" where "plus_rx r = Seq r (Star r)"

definition opt :: "rx \<Rightarrow> rx" where "opt r = Alt Eps r"

fun lit :: "string \<Rightarrow> rx" where
  "lit [] = Eps"
| "lit (c # s) = Seq (Cls [(c, c)]) (lit s)"

lemma in_class_single [simp]: "in_class [(c, c)] d \<longleftrightarrow> d = c"
  using inj_of_char [where 'a = nat] by (auto simp: in_class_def inj_def)

lemma lang_lit [simp]: "rx_lang (lit w) s \<longleftrightarrow> s = w"
proof (induction w arbitrary: s)
  case (Cons c w)
  then show ?case by (cases s) (auto simp: lang_Seq_Nil lang_Seq_Cons rx_lang_Cls)
qed simp

lemma in_class_simps:
  "\<not> in_class [] d"
  "in_class ((c, c) # rs) d \<longleftrightarrow> d = c \<or> in_class rs d"
  "in_class ((a, b) # rs) d \<longleftrightarrow>
    (of_char a :: nat) \<le> of_char d \<and> (of_char d :: nat) \<le> of_char b \<or> in_class rs d"
  using in_class_single [of c d] by (auto simp: in_class_def)

lemma lang_opt [simp]: "rx_lang (opt r) s \<longleftrightarrow> s = [] \<or> rx_lang r s"
  by (simp add: opt_def rx_lang_Alt)

lemma lang_Cls_single: "rx_lang (Cls rs) s \<longleftrightarrow> (\<exists>c. in_class rs c \<and> s = [c])"
  by (auto simp: rx_lang_Cls)

lemma lang_times:
  assumes "\<And>s. rx_lang r s \<longleftrightarrow> (\<exists>c. P c \<and> s = [c])"
  shows "rx_lang (times n r) s \<longleftrightarrow> length s = n \<and> list_all P s"
proof (induction n arbitrary: s)
  case (Suc n)
  then show ?case by (cases s) (auto simp: lang_Seq_Nil lang_Seq_Cons assms)
qed auto

lemma lang_at_most:
  assumes "\<And>s. rx_lang r s \<longleftrightarrow> (\<exists>c. P c \<and> s = [c])"
  shows "rx_lang (at_most n r) s \<longleftrightarrow> length s \<le> n \<and> list_all P s"
proof (induction n arbitrary: s)
  case (Suc n)
  then show ?case by (cases s) (auto simp: rx_lang_Alt lang_Seq_Nil lang_Seq_Cons assms)
qed auto

lemma lang_Star_Cls:
  "rx_lang (Star (Cls rs)) s \<longleftrightarrow> list_all (in_class rs) s"
  by (induction s) (simp_all add: lang_Star0 lang_Star_Cons lang_Cls_single)

lemmas lang_class_times = lang_times [OF lang_Cls_single]
lemmas lang_class_at_most = lang_at_most [OF lang_Cls_single]

lemma lang_plus_class:
  "rx_lang (plus_rx (Cls rs)) s \<longleftrightarrow> s \<noteq> [] \<and> list_all (in_class rs) s"
  by (cases s) (simp_all add: plus_rx_def lang_Cls_single lang_Star_Cls lang_Seq_Cons lang_Seq_Nil)

declare lit.simps [simp del]

text \<open>Appending a word of a repetition keeps what appending each of its words keeps.\<close>

lemma lang_Star_append:
  assumes "rx_lang (Star r) w" and "P x" and "\<And>x s. P x \<Longrightarrow> rx_lang r s \<Longrightarrow> P (x @ s)"
  shows "P (x @ w)"
proof -
  have "P x \<Longrightarrow> P (x @ w)" if "rx_lang q w" "q = Star r" for q
    using that
  proof (induction arbitrary: x rule: rx_lang.induct)
    case (lang_Star1 p y z)
    from assms(3) [OF lang_Star1.prems(1)] lang_Star1.hyps lang_Star1.prems(2)
    have "P (x @ y)" by simp
    from lang_Star1.IH(2) [OF this lang_Star1.prems(2)] show ?case by simp
  qed simp_all
  with assms(1,2) show ?thesis by blast
qed

text \<open>The characters an expression may use bound the characters of its words.\<close>

fun rx_all :: "(char \<Rightarrow> bool) \<Rightarrow> rx \<Rightarrow> bool" where
  "rx_all P Never = True"
| "rx_all P Eps = True"
| "rx_all P (Cls rs) = (\<forall>c. in_class rs c \<longrightarrow> P c)"
| "rx_all P (Seq r q) = (rx_all P r \<and> rx_all P q)"
| "rx_all P (Alt r q) = (rx_all P r \<and> rx_all P q)"
| "rx_all P (Star r) = rx_all P r"

lemma rx_all_lang: "rx_lang r s \<Longrightarrow> rx_all P r \<Longrightarrow> list_all P s"
  by (induction rule: rx_lang.induct) auto

lemma rx_all_shorthands [simp]:
  "rx_all P (times n r) \<longleftrightarrow> n = 0 \<or> rx_all P r"
  "rx_all P (at_most n r) \<longleftrightarrow> n = 0 \<or> rx_all P r"
  "rx_all P (plus_rx r) \<longleftrightarrow> rx_all P r"
  "rx_all P (opt r) \<longleftrightarrow> rx_all P r"
  "rx_all P (lit w) \<longleftrightarrow> list_all P w"
  by (induction n; auto) (induction n; auto | auto simp: plus_rx_def opt_def | induction w; auto simp: lit.simps)+

end
