(* ===== verification/Grammar.thy ===== *)
theory Grammar
  imports Regex
begin

text \<open>
  The grammars of \<^verbatim>\<open>internal/agent/protocol\<close>: container and image references
  (\<^verbatim>\<open>reference.go\<close>), deployment, request and stream identities (\<^verbatim>\<open>deployment.go\<close>,
  \<^verbatim>\<open>exec.go\<close>), Kubernetes names (\<^verbatim>\<open>kubernetes.go\<close>, \<^verbatim>\<open>kubernetes_deploy.go\<close>), each the regular
  expression of the source. A reference becomes part of a path on the Docker socket, so the
  lemmas say what no accepted reference can hold.
\<close>

abbreviation lower_c :: "char \<times> char" where "lower_c \<equiv> (CHR ''a'', CHR ''z'')"
abbreviation upper_c :: "char \<times> char" where "upper_c \<equiv> (CHR ''A'', CHR ''Z'')"
abbreviation digit_c :: "char \<times> char" where "digit_c \<equiv> (CHR ''0'', CHR ''9'')"
abbreviation chr_c :: "char \<Rightarrow> char \<times> char" where "chr_c c \<equiv> (c, c)"
abbreviation alnum :: rx where "alnum \<equiv> Cls [lower_c, upper_c, digit_c]"
abbreviation hex_digit :: rx where "hex_digit \<equiv> Cls [(CHR ''a'', CHR ''f''), digit_c]"

subsection \<open>Containers and images\<close>

definition containerID :: rx where
  "containerID = Seq alnum (at_most 127 (Cls [lower_c, upper_c, digit_c, chr_c CHR ''_'', chr_c CHR ''.'', chr_c CHR ''-'']))"

definition ValidContainerID :: "string \<Rightarrow> bool" where
  "ValidContainerID s = MatchString containerID s"

definition containerHexID :: rx where "containerHexID = times 64 hex_digit"

definition ValidContainerHexID :: "string \<Rightarrow> bool" where
  "ValidContainerHexID s = MatchString containerHexID s"

definition imageComponent :: rx where
  "imageComponent =
    Seq (plus_rx alnum) (Star (Seq (Cls [chr_c CHR ''.'', chr_c CHR ''_'', chr_c CHR ''-'']) (plus_rx alnum)))"

definition image_tag :: rx where
  "image_tag = Seq (lit '':'') (Seq (Cls [lower_c, upper_c, digit_c, chr_c CHR ''_''])
    (at_most 127 (Cls [lower_c, upper_c, digit_c, chr_c CHR ''.'', chr_c CHR ''_'', chr_c CHR ''-''])))"

definition image_digest :: rx where
  "image_digest = Seq (lit ''@sha256:'') (times 64 hex_digit)"

definition imageReference :: rx where
  "imageReference =
    Seq imageComponent
     (Seq (opt (Seq (lit '':'') (plus_rx (Cls [digit_c]))))
      (Seq (Star (Seq (lit ''/'') imageComponent))
       (opt (Alt image_tag image_digest))))"

definition imageID :: rx where "imageID = Seq (lit ''sha256:'') (times 64 hex_digit)"

definition MaxImageReferenceBytes :: nat where "MaxImageReferenceBytes = 512"

definition ValidImageReference :: "string \<Rightarrow> bool" where
  "ValidImageReference s =
    (if length s = 0 \<or> length s > MaxImageReferenceBytes then False
     else MatchString imageReference s \<or> MatchString imageID s)"

text \<open>\<^verbatim>\<open>strings.LastIndex\<close> of a single byte: its position, or -1.\<close>

fun LastIndex :: "string \<Rightarrow> char \<Rightarrow> int" where
  "LastIndex [] c = - 1"
| "LastIndex (x # s) c =
    (let i = LastIndex s c in if i \<ge> 0 then i + 1 else if x = c then 0 else - 1)"

definition SplitImageReference :: "string \<Rightarrow> string \<times> string" where
  "SplitImageReference s =
    (let at = LastIndex s CHR ''@'' in
     if at \<ge> 0 then (take (nat at) s, drop (nat at + 1) s)
     else
      (let colon = LastIndex s CHR '':'' in
       if colon > LastIndex s CHR ''/'' then (take (nat colon) s, drop (nat colon + 1) s)
       else (s, '''')))"

definition fullImageID :: "string \<Rightarrow> bool" where
  "fullImageID s \<longleftrightarrow> take 7 s = ''sha256:'' \<and> MatchString containerHexID (drop 7 s)"

subsection \<open>Deployments and frames\<close>

definition deploymentUUID :: rx where
  "deploymentUUID =
    Seq (times 8 hex_digit) (Seq (lit ''-'') (Seq (times 4 hex_digit) (Seq (lit ''-'')
     (Seq (times 4 hex_digit) (Seq (lit ''-'') (Seq (times 4 hex_digit) (Seq (lit ''-'')
      (times 12 hex_digit))))))))"

definition deploymentProject :: rx where
  "deploymentProject = Seq alnum (at_most 63 (Cls [lower_c, upper_c, digit_c, chr_c CHR ''_'', chr_c CHR ''.'', chr_c CHR ''-'']))"

definition deploymentService :: rx where
  "deploymentService = Seq (Cls [lower_c, digit_c]) (at_most 62 (Cls [lower_c, digit_c, chr_c CHR ''_'', chr_c CHR ''-'']))"

definition requestID :: rx where
  "requestID = (let c = Cls [upper_c, lower_c, digit_c, chr_c CHR ''_'', chr_c CHR ''-''] in Seq c (at_most 63 c))"

definition execStreamID :: rx where
  "execStreamID = (let c = Cls [lower_c, upper_c, digit_c, chr_c CHR ''_'', chr_c CHR ''-''] in Seq c (at_most 127 c))"

definition statusDetail :: rx where
  "statusDetail = Seq (Cls [(CHR ''1'', CHR ''5'')]) (times 2 (Cls [digit_c]))"

definition hostConfig :: rx where
  "hostConfig = Seq (lit ''host_config:'') (Seq alnum (at_most 63 alnum))"

definition ValidRequestID :: "string \<Rightarrow> bool" where "ValidRequestID s = MatchString requestID s"
definition ValidDeploymentID :: "string \<Rightarrow> bool" where "ValidDeploymentID s = MatchString deploymentUUID s"
definition ValidServiceName :: "string \<Rightarrow> bool" where "ValidServiceName s = MatchString deploymentService s"

subsection \<open>Kubernetes names\<close>

abbreviation dns_end :: rx where "dns_end \<equiv> Cls [lower_c, digit_c]"

definition dnsLabel :: rx where
  "dnsLabel = Seq dns_end (opt (Seq (at_most 61 (Cls [chr_c CHR ''-'', lower_c, digit_c])) dns_end))"

definition ValidDNSLabel :: "string \<Rightarrow> bool" where "ValidDNSLabel s = MatchString dnsLabel s"

definition dns_part :: rx where
  "dns_part = Seq dns_end (opt (Seq (Star (Cls [chr_c CHR ''-'', lower_c, digit_c])) dns_end))"

definition dnsSubdomain :: rx where
  "dnsSubdomain = Seq dns_part (Star (Seq (lit ''.'') dns_part))"

definition ValidDNSSubdomain :: "string \<Rightarrow> bool" where
  "ValidDNSSubdomain s \<longleftrightarrow> length s \<le> 253 \<and> MatchString dnsSubdomain s"

definition labelValue :: rx where
  "labelValue = opt (Seq alnum
    (opt (Seq (at_most 61 (Cls [chr_c CHR ''-'', upper_c, lower_c, digit_c, chr_c CHR ''_'', chr_c CHR ''.''])) alnum)))"

definition ValidLabelValue :: "string \<Rightarrow> bool" where "ValidLabelValue s = MatchString labelValue s"

fun alts :: "rx list \<Rightarrow> rx" where
  "alts [] = Never"
| "alts (r # rs) = Alt r (alts rs)"

definition kubeObject :: rx where
  "kubeObject =
    Seq (alts (map lit [''Deployment'', ''Service'', ''ConfigMap'', ''Secret'', ''PersistentVolumeClaim'']))
     (Seq (lit ''/'')
      (Seq dns_end (opt (Seq (at_most 241 (Cls [chr_c CHR ''-'', lower_c, digit_c, chr_c CHR ''.''])) dns_end))))"

definition rolloutReason :: rx where
  "rolloutReason =
    Alt (Seq (alts (map lit [''progressing'', ''available'', ''replicafailure'', ''pod'']))
          (Seq (lit ''='') (Seq (Cls [upper_c, lower_c]) (at_most 63 (Cls [upper_c, lower_c])))))
        (Seq (lit ''claim='') (alts (map lit [''Pending'', ''Lost''])))"

definition rolloutDetail :: rx where
  "rolloutDetail = opt (Seq rolloutReason (at_most 2 (Seq (lit '','') rolloutReason)))"

subsection \<open>What an accepted reference cannot hold\<close>

definition alnum_char :: "char \<Rightarrow> bool" where
  "alnum_char c = in_class [lower_c, upper_c, digit_c] c"

text \<open>
  A slash of \<open>s\<close> stands between two alphanumeric characters: no component is empty, and none
  starts with a dot, so none is \<^verbatim>\<open>.\<close> or \<^verbatim>\<open>..\<close>.
\<close>

definition slash_safe :: "string \<Rightarrow> bool" where
  "slash_safe s \<longleftrightarrow> s \<noteq> [] \<and> alnum_char (hd s) \<and>
    (\<forall>pre post. s = pre @ CHR ''/'' # post \<longrightarrow>
      pre \<noteq> [] \<and> alnum_char (last pre) \<and> post \<noteq> [] \<and> alnum_char (hd post))"

definition ends_safe :: "string \<Rightarrow> bool" where
  "ends_safe s \<longleftrightarrow> slash_safe s \<and> alnum_char (last s)"

definition component :: "string \<Rightarrow> bool" where
  "component s \<longleftrightarrow> s \<noteq> [] \<and> alnum_char (hd s) \<and> alnum_char (last s) \<and> CHR ''/'' \<notin> set s"

lemma component_ends_safe: "component s \<Longrightarrow> ends_safe s"
  by (auto simp: component_def ends_safe_def slash_safe_def)

lemma slash_left:
  assumes "x @ t = pre @ c # post" and "c \<notin> set t"
  obtains post' where "x = pre @ c # post'" and "post = post' @ t"
proof -
  consider us where "x = pre @ us" "us @ t = c # post" | us where "pre = x @ us" "t = us @ c # post"
    using assms(1) by (auto simp: append_eq_append_conv2)
  then show ?thesis
  proof cases
    case 1
    then show ?thesis using assms(2) that by (cases us) auto
  next
    case 2
    then show ?thesis using assms(2) by auto
  qed
qed

lemma last_split:
  assumes "p @ c # q = x @ c # y" and "c \<notin> set q" and "c \<notin> set y"
  shows "p = x \<and> q = y"
proof -
  consider us where "p = x @ us" "us @ c # q = c # y" | us where "x = p @ us" "us @ c # y = c # q"
    using assms(1) by (auto simp: append_eq_append_conv2)
  then show ?thesis using assms(2,3) by cases (auto simp: append_eq_Cons_conv)
qed

lemma ends_safe_slash:
  assumes "ends_safe x" and "component y"
  shows "ends_safe (x @ CHR ''/'' # y)"
proof -
  have "pre \<noteq> [] \<and> alnum_char (last pre) \<and> post \<noteq> [] \<and> alnum_char (hd post)"
    if "x @ CHR ''/'' # y = pre @ CHR ''/'' # post" for pre post
  proof (cases "CHR ''/'' \<in> set post")
    case False
    with that assms(2) have "x = pre \<and> y = post"
      by (intro last_split) (auto simp: component_def)
    with assms show ?thesis by (auto simp: ends_safe_def slash_safe_def component_def)
  next
    case True
    then obtain p q where post: "post = p @ CHR ''/'' # q" "CHR ''/'' \<notin> set q"
      by (metis split_list_last)
    with that assms(2) have "x = pre @ CHR ''/'' # p \<and> y = q"
      by (intro last_split [of x "CHR ''/''" y]) (auto simp: component_def)
    with assms(1) post show ?thesis by (auto simp: ends_safe_def slash_safe_def)
  qed
  with assms show ?thesis by (auto simp: ends_safe_def slash_safe_def component_def)
qed

lemma slash_safe_append:
  assumes "slash_safe x" and "CHR ''/'' \<notin> set t"
  shows "slash_safe (x @ t)"
proof -
  have "pre \<noteq> [] \<and> alnum_char (last pre) \<and> post \<noteq> [] \<and> alnum_char (hd post)"
    if eq: "x @ t = pre @ CHR ''/'' # post" for pre post
  proof -
    from eq assms(2) obtain post' where "x = pre @ CHR ''/'' # post'" "post = post' @ t"
      by (rule slash_left)
    with assms(1) show ?thesis by (auto simp: slash_safe_def)
  qed
  with assms(1) show ?thesis by (auto simp: slash_safe_def)
qed

lemma ends_safe_append:
  assumes "ends_safe x" and "CHR ''/'' \<notin> set t" and "t \<noteq> [] \<Longrightarrow> alnum_char (last t)"
  shows "ends_safe (x @ t)"
  using assms slash_safe_append [of x t] by (cases "t = []") (auto simp: ends_safe_def)

lemma alnum_not [simp]: "\<not> alnum_char CHR ''/''"
  by (simp add: alnum_char_def in_class_def)

lemma lang_alnums:
  "rx_lang (plus_rx alnum) s \<longleftrightarrow> s \<noteq> [] \<and> list_all alnum_char s"
  unfolding alnum_char_def [abs_def] by (rule lang_plus_class)

lemma alnums_component: "s \<noteq> [] \<Longrightarrow> list_all alnum_char s \<Longrightarrow> component s"
  by (auto simp: component_def list_all_iff)

lemma imageComponent_component: "rx_lang imageComponent s \<Longrightarrow> component s"
proof -
  assume "rx_lang imageComponent s"
  then obtain a w where s: "s = a @ w" and a: "rx_lang (plus_rx alnum) a"
    and w: "rx_lang (Star (Seq (Cls [chr_c CHR ''.'', chr_c CHR ''_'', chr_c CHR ''-'']) (plus_rx alnum))) w"
    by (auto simp: imageComponent_def rx_lang_Seq)
  from a have "component a" by (simp add: lang_alnums alnums_component)
  with w show "component s" unfolding s
  proof (rule lang_Star_append)
    fix x t
    assume x: "component x"
      and "rx_lang (Seq (Cls [chr_c CHR ''.'', chr_c CHR ''_'', chr_c CHR ''-'']) (plus_rx alnum)) t"
    then obtain c y where t: "t = c # y" "in_class [chr_c CHR ''.'', chr_c CHR ''_'', chr_c CHR ''-''] c"
      and y: "y \<noteq> []" "list_all alnum_char y"
      by (auto simp: rx_lang_Seq rx_lang_Cls lang_alnums)
    from t(2) have "c \<noteq> CHR ''/''" by (auto simp: in_class_def)
    moreover from alnums_component [OF y] have "component y" .
    ultimately show "component (x @ t)" using x y t(1) by (auto simp: component_def)
  qed
qed

lemma imageReference_parts:
  assumes "rx_lang imageReference s"
  obtains a port w suf where "s = ((a @ port) @ w) @ suf" and "rx_lang imageComponent a"
    and "rx_lang (opt (Seq (lit '':'') (plus_rx (Cls [digit_c])))) port"
    and "rx_lang (Star (Seq (lit ''/'') imageComponent)) w"
    and "rx_lang (opt (Alt image_tag image_digest)) suf"
proof -
  from assms show ?thesis
    unfolding imageReference_def by (elim lang_SeqE) (rule that, auto)
qed

lemma imageReference_slash_safe: "rx_lang imageReference s \<Longrightarrow> slash_safe s"
proof -
  assume "rx_lang imageReference s"
  then obtain a port w suf where s: "s = ((a @ port) @ w) @ suf"
    and a: "rx_lang imageComponent a"
    and port: "port = [] \<or> rx_lang (Seq (lit '':'') (plus_rx (Cls [digit_c]))) port"
    and w: "rx_lang (Star (Seq (lit ''/'') imageComponent)) w"
    and suf: "suf = [] \<or> rx_lang (Alt image_tag image_digest) suf"
    using imageReference_parts [of s] unfolding lang_opt by blast
  have "CHR ''/'' \<notin> set port \<and> (port \<noteq> [] \<longrightarrow> alnum_char (last port))"
  proof (cases "port = []")
    case False
    with port obtain t where t: "port = '':'' @ t" "t \<noteq> []" "list_all (in_class [digit_c]) t"
      by (auto simp: rx_lang_Seq lang_plus_class)
    then have "list_all alnum_char t" by (auto simp: list_all_iff alnum_char_def in_class_simps)
    with t show ?thesis using alnums_component [of t] by (auto simp: component_def)
  qed simp
  with imageComponent_component [OF a] have "ends_safe (a @ port)"
    by (auto intro: ends_safe_append component_ends_safe)
  with w have "ends_safe ((a @ port) @ w)"
    by (rule lang_Star_append)
      (auto simp: rx_lang_Seq dest!: imageComponent_component intro: ends_safe_slash)
  moreover have "CHR ''/'' \<notin> set suf"
  proof -
    have "rx_all (\<lambda>c. c \<noteq> CHR ''/'') (Alt image_tag image_digest)"
      by (auto simp: image_tag_def image_digest_def in_class_def)
    from suf rx_all_lang [OF _ this, of suf] show ?thesis by (auto simp: list_all_iff)
  qed
  ultimately show ?thesis using slash_safe_append [of "(a @ port) @ w" suf] by (simp add: s ends_safe_def)
qed

definition reference_char :: "char \<Rightarrow> bool" where
  "reference_char c \<longleftrightarrow> alnum_char c \<or> c \<in> set ''._-:@/''"

lemma reference_chars:
  "rx_all reference_char imageReference" "rx_all reference_char imageID"
  "rx_all reference_char containerID"
  by (auto simp: imageReference_def imageComponent_def image_tag_def image_digest_def imageID_def
      containerID_def reference_char_def alnum_char_def in_class_simps)

lemma hex_alnum: "in_class [(CHR ''a'', CHR ''f''), digit_c] c \<Longrightarrow> alnum_char c"
  by (auto simp: alnum_char_def in_class_simps)

lemma imageID_slash_safe: "rx_lang imageID s \<Longrightarrow> slash_safe s"
proof -
  assume "rx_lang imageID s"
  then obtain t where s: "s = ''sha256:'' @ t" and "length t = 64"
    and "list_all (in_class [(CHR ''a'', CHR ''f''), digit_c]) t"
    by (auto simp: imageID_def rx_lang_Seq lang_class_times)
  then have "t \<noteq> []" and "list_all alnum_char t"
    by (auto simp: list_all_iff dest: hex_alnum)
  then have "component t" by (rule alnums_component)
  then have "component s"
    unfolding s by (auto simp: component_def) (simp add: alnum_char_def in_class_simps)
  then show ?thesis using component_ends_safe by (simp add: ends_safe_def)
qed

lemma LastIndex_bounds: "- 1 \<le> LastIndex s c \<and> LastIndex s c < int (length s)"
  by (induction s) (auto simp: Let_def)

lemma LastIndex_neg: "LastIndex s c < 0 \<longleftrightarrow> c \<notin> set s"
  by (induction s) (auto simp: Let_def)

lemma LastIndex_split:
  "LastIndex s c \<ge> 0 \<Longrightarrow>
    s = take (nat (LastIndex s c)) s @ c # drop (nat (LastIndex s c) + 1) s
    \<and> c \<notin> set (drop (nat (LastIndex s c) + 1) s)"
proof (induction s)
  case (Cons x s)
  show ?case
  proof (cases "LastIndex s c \<ge> 0")
    case True
    then have "nat (LastIndex s c + 1) = Suc (nat (LastIndex s c))" by simp
    with True Cons.IH show ?thesis by (simp add: Let_def)
  next
    case False
    then have "c \<notin> set s" by (simp add: LastIndex_neg [symmetric])
    with False Cons.prems show ?thesis by (auto simp: Let_def split: if_splits)
  qed
qed simp

lemma LastIndex_append:
  "c \<notin> set t \<Longrightarrow> LastIndex (s @ c # t) c = int (length s)"
proof (induction s)
  case Nil
  then have "\<not> LastIndex t c \<ge> 0" by (simp add: LastIndex_neg not_le)
  then show ?case by (simp add: Let_def)
qed (simp add: Let_def)

text \<open>A reference with a digest is \<open>name @ digest\<close>, and the digest is a full image identity.\<close>

lemma digest_split:
  assumes "rx_lang imageReference s" and "CHR ''@'' \<in> set s"
  obtains name hex where "s = name @ CHR ''@'' # ''sha256:'' @ hex"
    and "rx_lang (times 64 hex_digit) hex" and "CHR ''@'' \<notin> set name"
proof -
  obtain a port w suf where s: "s = ((a @ port) @ w) @ suf"
    and lang: "rx_lang imageComponent a"
      "rx_lang (opt (Seq (lit '':'') (plus_rx (Cls [digit_c])))) port"
      "rx_lang (Star (Seq (lit ''/'') imageComponent)) w"
    and suf: "rx_lang (opt (Alt image_tag image_digest)) suf"
    using imageReference_parts [OF assms(1)] .
  have no_at: "rx_all (\<lambda>c. c \<noteq> CHR ''@'') imageComponent"
      "rx_all (\<lambda>c. c \<noteq> CHR ''@'') (opt (Seq (lit '':'') (plus_rx (Cls [digit_c]))))"
      "rx_all (\<lambda>c. c \<noteq> CHR ''@'') (Star (Seq (lit ''/'') imageComponent))"
      "rx_all (\<lambda>c. c \<noteq> CHR ''@'') image_tag"
    by (auto simp: imageComponent_def image_tag_def in_class_simps)
  have name: "CHR ''@'' \<notin> set ((a @ port) @ w)"
    using rx_all_lang [OF lang(1) no_at(1)] rx_all_lang [OF lang(2) no_at(2)]
      rx_all_lang [OF lang(3) no_at(3)] by (auto simp: list_all_iff)
  with assms(2) s have at: "CHR ''@'' \<in> set suf" by auto
  with rx_all_lang [OF _ no_at(4), of suf] have "\<not> rx_lang image_tag suf"
    by (auto simp: list_all_iff)
  with suf at have "rx_lang image_digest suf" by (auto simp: rx_lang_Alt)
  then obtain hex where "suf = ''@sha256:'' @ hex" "rx_lang (times 64 hex_digit) hex"
    by (auto simp: image_digest_def rx_lang_Seq)
  with s name that [of "(a @ port) @ w" hex] show ?thesis by simp
qed

text \<open>
  C19. A container name or image reference that the server and the agent accept cannot change the
  Engine API route it becomes part of: a container name holds no slash; in an image reference
  every slash stands between two alphanumeric characters, so no path component is empty, \<^verbatim>\<open>.\<close> or
  \<^verbatim>\<open>..\<close>; both start with an alphanumeric character and use only alphanumerics and \<^verbatim>\<open>._-:@/\<close>, so
  neither holds a question mark, a percent sign or a backslash.
\<close>

theorem reference_route_safe:
  "(ValidContainerID s \<longrightarrow> s \<noteq> [] \<and> alnum_char (hd s) \<and> list_all reference_char s \<and> CHR ''/'' \<notin> set s)
   \<and> (ValidImageReference s \<longrightarrow> slash_safe s \<and> list_all reference_char s)"
proof (intro conjI impI)
  assume "ValidContainerID s"
  then have lang: "rx_lang containerID s" by (simp add: ValidContainerID_def MatchString_lang)
  then show "s \<noteq> []" "alnum_char (hd s)"
    by (auto simp: containerID_def rx_lang_Seq rx_lang_Cls alnum_char_def)
  show "list_all reference_char s" using rx_all_lang [OF lang] reference_chars by blast
  have "rx_all (\<lambda>c. c \<noteq> CHR ''/'') containerID" by (auto simp: containerID_def in_class_simps)
  from rx_all_lang [OF lang this] show "CHR ''/'' \<notin> set s" by (auto simp: list_all_iff)
next
  assume "ValidImageReference s"
  then have lang: "rx_lang imageReference s \<or> rx_lang imageID s"
    by (auto simp: ValidImageReference_def MatchString_lang split: if_splits)
  then show "slash_safe s" using imageReference_slash_safe imageID_slash_safe by blast
  show "list_all reference_char s"
    using lang rx_all_lang [OF _ reference_chars(1), of s] rx_all_lang [OF _ reference_chars(2), of s] by blast
qed

theorem reference_route_safe_witness:
  "ValidContainerID ''web-1'' \<and> ValidImageReference ''ghcr.io:443/acme/web:1.2''
   \<and> \<not> ValidImageReference ''acme/../web'' \<and> CHR ''/'' \<notin> set ''web-1''
   \<and> slash_safe ''ghcr.io:443/acme/web:1.2''"
proof -
  have c: "ValidContainerID ''web-1''" by code_simp
  have i: "ValidImageReference ''ghcr.io:443/acme/web:1.2''" by code_simp
  have n: "\<not> ValidImageReference ''acme/../web''" by code_simp
  from c i n reference_route_safe [of "''web-1''"] reference_route_safe [of "''ghcr.io:443/acme/web:1.2''"]
  show ?thesis by blast
qed

lemma SplitImageReference_digest:
  assumes "ValidImageReference s" and "CHR ''@'' \<in> set s" and "SplitImageReference s = (name, tag)"
  shows "s = name @ CHR ''@'' # tag \<and> MatchString imageID tag \<and> CHR ''@'' \<notin> set name"
proof -
  have "rx_all (\<lambda>c. c \<noteq> CHR ''@'') imageID" by (auto simp: imageID_def in_class_simps)
  from rx_all_lang [OF _ this, of s] assms(2) have "\<not> rx_lang imageID s" by (auto simp: list_all_iff)
  with assms(1) have "rx_lang imageReference s"
    by (auto simp: ValidImageReference_def MatchString_lang split: if_splits)
  then obtain n hex where s: "s = n @ CHR ''@'' # ''sha256:'' @ hex"
    and hex: "rx_lang (times 64 hex_digit) hex" and n: "CHR ''@'' \<notin> set n"
    using assms(2) by (rule digest_split)
  have "rx_all (\<lambda>c. c \<noteq> CHR ''@'') (times 64 hex_digit)" by (auto simp: in_class_simps)
  from rx_all_lang [OF hex this] have "CHR ''@'' \<notin> set (''sha256:'' @ hex)"
    by (auto simp: list_all_iff)
  from LastIndex_append [OF this, of n] have "LastIndex s (CHR ''@'') = int (length n)" by (simp add: s)
  with assms(3) s have "name = n \<and> tag = ''sha256:'' @ hex"
    by (auto simp: SplitImageReference_def Let_def)
  with s n hex show ?thesis by (auto simp: MatchString_lang imageID_def rx_lang_Seq)
qed

lemma SplitImageReference_tag:
  assumes "CHR ''@'' \<notin> set s" and "SplitImageReference s = (name, tag)" and "tag \<noteq> []"
  shows "s = name @ CHR '':'' # tag \<and> CHR ''/'' \<notin> set tag \<and> CHR '':'' \<notin> set tag"
proof -
  let ?i = "LastIndex s (CHR '':'')"
  from assms(1) have "\<not> 0 \<le> LastIndex s (CHR ''@'')" by (simp add: not_le LastIndex_neg)
  with assms(2,3) have lt: "LastIndex s (CHR ''/'') < ?i"
    and nt: "name = take (nat ?i) s" "tag = drop (nat ?i + 1) s"
    by (auto simp: SplitImageReference_def Let_def split: if_splits)
  from lt LastIndex_bounds [of s "CHR ''/''"] have "?i \<ge> 0" by linarith
  from LastIndex_split [OF this] nt have s: "s = name @ CHR '':'' # tag" and c: "CHR '':'' \<notin> set tag"
    by auto
  have "CHR ''/'' \<notin> set tag"
  proof
    assume "CHR ''/'' \<in> set tag"
    then obtain u v where "tag = u @ CHR ''/'' # v" "CHR ''/'' \<notin> set v" by (metis split_list_last)
    with s LastIndex_append [of "CHR ''/''" v "name @ CHR '':'' # u"]
      LastIndex_append [OF c, of name] lt show False by simp
  qed
  with s c show ?thesis by simp
qed



end
