(* ===== verification/Text.thy ===== *)
theory Text
  imports Prelude
begin

text \<open>
  Text as Go handles it: the rune-by-rune reading of a byte string that \<^verbatim>\<open>for _, r := range s\<close>
  does, the UTF-8 encoding \<^verbatim>\<open>WriteRune\<close> does, and the two filters KyYard puts between a caller or
  an agent and what it stores: \<^verbatim>\<open>CleanText\<close> (\<^verbatim>\<open>internal/agent/protocol/inventory.go\<close>) and
  \<^verbatim>\<open>displaySafe\<close> with \<^verbatim>\<open>validTenantName\<close> (\<^verbatim>\<open>internal/store/tenant_access.go\<close>).

  A rune is a code point, a \<^typ>\<open>nat\<close>. The tables of package \<^verbatim>\<open>unicode\<close> are written out where
  they are finite and small: \<^verbatim>\<open>Cc\<close>, \<^verbatim>\<open>Zl\<close>, \<^verbatim>\<open>Zp\<close> and \<^verbatim>\<open>White_Space\<close>.
\<close>

type_synonym rune = nat

definition RuneError :: rune where "RuneError = 0xFFFD"

definition byte :: "char \<Rightarrow> nat" where "byte c = of_char c"

definition continuation :: "nat \<Rightarrow> bool" where
  "continuation b \<longleftrightarrow> 0x80 \<le> b \<and> b \<le> 0xBF"

text \<open>
  \<^verbatim>\<open>utf8.DecodeRune\<close> on the bytes of a string: the rune and its width. An encoding that is
  short, overlong, a surrogate or past the last code point is \<^const>\<open>RuneError\<close>, width 1.
\<close>

fun decode_bytes :: "nat list \<Rightarrow> rune \<times> nat" where
  "decode_bytes [] = (RuneError, 0)"
| "decode_bytes (b0 # bs) =
    (if b0 < 0x80 then (b0, 1)
     else if 0xC2 \<le> b0 \<and> b0 \<le> 0xDF then
       (case bs of
          b1 # _ \<Rightarrow> if continuation b1 then ((b0 - 0xC0) * 64 + (b1 - 0x80), 2) else (RuneError, 1)
        | _ \<Rightarrow> (RuneError, 1))
     else if 0xE0 \<le> b0 \<and> b0 \<le> 0xEF then
       (case bs of
          b1 # b2 # _ \<Rightarrow>
            if (if b0 = 0xE0 then 0xA0 else 0x80) \<le> b1 \<and> b1 \<le> (if b0 = 0xED then 0x9F else 0xBF)
               \<and> continuation b2
            then ((b0 - 0xE0) * 4096 + (b1 - 0x80) * 64 + (b2 - 0x80), 3) else (RuneError, 1)
        | _ \<Rightarrow> (RuneError, 1))
     else if 0xF0 \<le> b0 \<and> b0 \<le> 0xF4 then
       (case bs of
          b1 # b2 # b3 # _ \<Rightarrow>
            if (if b0 = 0xF0 then 0x90 else 0x80) \<le> b1 \<and> b1 \<le> (if b0 = 0xF4 then 0x8F else 0xBF)
               \<and> continuation b2 \<and> continuation b3
            then ((b0 - 0xF0) * 262144 + (b1 - 0x80) * 4096 + (b2 - 0x80) * 64 + (b3 - 0x80), 4)
            else (RuneError, 1)
        | _ \<Rightarrow> (RuneError, 1))
     else (RuneError, 1))"

definition decode_rune :: "string \<Rightarrow> rune \<times> nat" where
  "decode_rune s = decode_bytes (map byte s)"

lemma decode_bytes_width: "decode_bytes (b # bs) = (r, w) \<Longrightarrow> 1 \<le> w"
  by (auto split: if_splits list.splits)

text \<open>The runes of a string, each with the bytes it was read from.\<close>

fun chunks :: "string \<Rightarrow> (rune \<times> string) list" where
  "chunks [] = []"
| "chunks (c # cs) =
    (case decode_rune (c # cs) of (r, w) \<Rightarrow> (r, take w (c # cs)) # chunks (drop (w - 1) cs))"

definition runes :: "string \<Rightarrow> rune list" where
  "runes s = map fst (chunks s)"

subsection \<open>Encoding\<close>

definition surrogate :: "rune \<Rightarrow> bool" where
  "surrogate r \<longleftrightarrow> 0xD800 \<le> r \<and> r \<le> 0xDFFF"

text \<open>A Unicode scalar value: what \<^verbatim>\<open>range\<close> yields and \<^verbatim>\<open>WriteRune\<close> writes as it is.\<close>

definition scalar :: "rune \<Rightarrow> bool" where
  "scalar r \<longleftrightarrow> r \<le> 0x10FFFF \<and> \<not> surrogate r"

definition rune_len :: "rune \<Rightarrow> int" where
  "rune_len r =
    (if r < 0x80 then 1 else if r < 0x800 then 2 else if surrogate r then -1
     else if r < 0x10000 then 3 else if r \<le> 0x10FFFF then 4 else -1)"

definition encode_bytes :: "rune \<Rightarrow> nat list" where
  "encode_bytes r0 =
    (let r = (if scalar r0 then r0 else RuneError) in
     if r < 0x80 then [r]
     else if r < 0x800 then [0xC0 + r div 64, 0x80 + r mod 64]
     else if r < 0x10000 then [0xE0 + r div 4096, 0x80 + r div 64 mod 64, 0x80 + r mod 64]
     else [0xF0 + r div 262144, 0x80 + r div 4096 mod 64, 0x80 + r div 64 mod 64, 0x80 + r mod 64])"

definition encode_rune :: "rune \<Rightarrow> string" where
  "encode_rune r = map char_of (encode_bytes r)"

lemma length_encode_rune: "scalar r \<Longrightarrow> int (length (encode_rune r)) = rune_len r"
  by (auto simp: encode_rune_def encode_bytes_def rune_len_def scalar_def surrogate_def Let_def)

lemma encode_bytes_byte: "b \<in> set (encode_bytes r) \<Longrightarrow> b < 256"
  by (auto simp: encode_bytes_def scalar_def RuneError_def Let_def split: if_splits)

lemma map_byte_encode: "map byte (encode_rune r) = encode_bytes r"
  using encode_bytes_byte by (auto simp: encode_rune_def byte_def intro!: map_idI)

lemma encode_rune_Nil [simp]: "encode_rune r \<noteq> []"
  by (simp add: encode_rune_def encode_bytes_def Let_def)

lemma decode_encode_2:
  assumes "0x80 \<le> r" "r < 0x800"
  shows "decode_bytes (encode_bytes r @ bs) = (r, 2)"
proof -
  have "r div 64 \<le> 31" "2 \<le> r div 64" using assms by linarith+
  then show ?thesis using assms
    by (auto simp: encode_bytes_def scalar_def surrogate_def continuation_def Let_def)
qed

lemma split_64: "(r::nat) = r div 64 * 64 + r mod 64"
  by simp

lemma split_4096: "(r::nat) = r div 4096 * 4096 + r div 64 mod 64 * 64 + r mod 64"
proof -
  have "r div 4096 = r div 64 div 64" using div_mult2_eq [of r 64 64] by simp
  then show ?thesis using split_64 [of r] split_64 [of "r div 64"] by linarith
qed

lemma split_262144:
  "(r::nat) = r div 262144 * 262144 + r div 4096 mod 64 * 4096 + r div 64 mod 64 * 64 + r mod 64"
proof -
  have "r div 262144 = r div 4096 div 64" using div_mult2_eq [of r 4096 64] by simp
  then show ?thesis using split_4096 [of r] split_64 [of "r div 4096"] by linarith
qed

lemma decode_encode_3:
  assumes "0x800 \<le> r" "r < 0x10000" "\<not> surrogate r"
  shows "decode_bytes (encode_bytes r @ bs) = (r, 3)"
proof -
  let ?a = "r div 4096" and ?b = "r div 64 mod 64" and ?c = "r mod 64"
  have r: "r = ?a * 4096 + ?b * 64 + ?c" by (rule split_4096)
  have a: "?a \<le> 15" using assms by linarith
  have b: "?b \<le> 63" "?c \<le> 63" by simp_all
  have lo: "?a = 0 \<Longrightarrow> 32 \<le> ?b" using assms(1) r b by linarith
  have hi: "?a = 13 \<Longrightarrow> ?b \<le> 31" using assms(3) r b unfolding surrogate_def by linarith
  have "encode_bytes r = [0xE0 + ?a, 0x80 + ?b, 0x80 + ?c]"
    using assms by (simp add: encode_bytes_def scalar_def Let_def)
  then show ?thesis using a b lo hi r by (auto simp: continuation_def)
qed

lemma decode_encode_4:
  assumes "0x10000 \<le> r" "r \<le> 0x10FFFF"
  shows "decode_bytes (encode_bytes r @ bs) = (r, 4)"
proof -
  let ?a = "r div 262144" and ?b = "r div 4096 mod 64" and ?c = "r div 64 mod 64" and ?d = "r mod 64"
  have r: "r = ?a * 262144 + ?b * 4096 + ?c * 64 + ?d" by (rule split_262144)
  have a: "?a \<le> 4" using assms by linarith
  have b: "?b \<le> 63" "?c \<le> 63" "?d \<le> 63" by simp_all
  have lo: "?a = 0 \<Longrightarrow> 16 \<le> ?b" using assms(1) r b by linarith
  have hi: "?a = 4 \<Longrightarrow> ?b \<le> 15" using assms(2) r b by linarith
  have "encode_bytes r = [0xF0 + ?a, 0x80 + ?b, 0x80 + ?c, 0x80 + ?d]"
    using assms by (simp add: encode_bytes_def scalar_def surrogate_def Let_def)
  then show ?thesis using a b lo hi r by (auto simp: continuation_def)
qed

lemma decode_encode:
  assumes "scalar r"
  shows "decode_rune (encode_rune r @ s) = (r, length (encode_rune r))"
proof -
  have len: "length (encode_rune r) = length (encode_bytes r)" by (simp add: encode_rune_def)
  have "decode_bytes (encode_bytes r @ map byte s) = (r, length (encode_bytes r))"
  proof (cases "r < 0x80")
    case True
    then show ?thesis by (simp add: encode_bytes_def scalar_def surrogate_def)
  next
    case False
    then show ?thesis
      using assms decode_encode_2 [of r] decode_encode_3 [of r] decode_encode_4 [of r]
      by (auto simp: scalar_def encode_bytes_def Let_def not_less)
  qed
  then show ?thesis by (simp add: decode_rune_def map_byte_encode len)
qed

text \<open>Reading back what was written: the round trip of the encoding.\<close>

lemma chunks_encode:
  assumes "scalar r"
  shows "chunks (encode_rune r @ s) = (r, encode_rune r) # chunks s"
proof -
  obtain c cs where e: "encode_rune r = c # cs" by (cases "encode_rune r") auto
  show ?thesis using decode_encode [OF assms, of s] by (simp add: e)
qed

lemma chunks_encodes:
  "(\<And>r. r \<in> set rs \<Longrightarrow> scalar r) \<Longrightarrow> chunks (concat (map encode_rune rs)) = map (\<lambda>r. (r, encode_rune r)) rs"
  by (induction rs) (simp_all add: chunks_encode)

lemma runes_encodes:
  "(\<And>r. r \<in> set rs \<Longrightarrow> scalar r) \<Longrightarrow> runes (concat (map encode_rune rs)) = rs"
  by (simp add: runes_def chunks_encodes comp_def)

lemma scalar_RuneError: "scalar RuneError"
  by (simp add: scalar_def surrogate_def RuneError_def)

lemma decode_bytes_scalar: "scalar (fst (decode_bytes bs))"
proof (cases bs)
  case (Cons b0 bs')
  consider "b0 < 0x80" | "0xC2 \<le> b0 \<and> b0 \<le> 0xDF" | "0xE0 \<le> b0 \<and> b0 \<le> 0xEF"
    | "0xF0 \<le> b0 \<and> b0 \<le> 0xF4" | "\<not> b0 < 0x80 \<and> \<not> (0xC2 \<le> b0 \<and> b0 \<le> 0xF4)"
    by linarith
  then show ?thesis
  proof cases
    case 1
    then show ?thesis by (simp add: Cons scalar_def surrogate_def)
  next
    case 2
    then show ?thesis
      by (auto simp: Cons scalar_RuneError continuation_def
          split: list.split)
        (auto simp: scalar_def surrogate_def)
  next
    case 3
    then have "scalar ((b0 - 0xE0) * 4096 + (b1 - 0x80) * 64 + (b2 - 0x80))"
      if "0x80 \<le> b1" "b1 \<le> (if b0 = 0xED then 0x9F else 0xBF)" "continuation b2" for b1 b2
      using that by (cases "b0 \<le> 0xED"; cases "b0 = 0xED")
        (auto simp: scalar_def surrogate_def continuation_def split: if_splits)
    with 3 show ?thesis by (auto simp: Cons scalar_RuneError split: list.split)
  next
    case 4
    then have "scalar ((b0 - 0xF0) * 262144 + (b1 - 0x80) * 4096 + (b2 - 0x80) * 64 + (b3 - 0x80))"
      if "(if b0 = 0xF0 then 0x90 else 0x80) \<le> b1" "b1 \<le> (if b0 = 0xF4 then 0x8F else 0xBF)"
        "continuation b2" "continuation b3" for b1 b2 b3
      using that by (cases "b0 = 0xF0"; cases "b0 = 0xF4")
        (auto simp: scalar_def surrogate_def continuation_def)
    with 4 show ?thesis by (auto simp: Cons scalar_RuneError split: list.split)
  next
    case 5
    then show ?thesis by (auto simp: Cons scalar_RuneError)
  qed
qed (simp add: scalar_RuneError)

lemma byte_less [simp]: "byte c < 256"
  by (simp add: byte_def)

lemma runes_scalar: "r \<in> set (runes s) \<Longrightarrow> scalar r"
proof (induction s rule: chunks.induct)
  case (2 c cs)
  have "scalar (fst (decode_rune (c # cs)))"
    unfolding decode_rune_def by (rule decode_bytes_scalar)
  with 2 show ?case by (cases "decode_rune (c # cs)") (auto simp: runes_def)
qed (simp add: runes_def)

subsection \<open>CleanText\<close>

definition is_control :: "rune \<Rightarrow> bool" where
  "is_control r \<longleftrightarrow> r \<le> 0x1F \<or> (0x7F \<le> r \<and> r \<le> 0x9F)"

text \<open>Control characters, line and paragraph separators, bidi embeddings, overrides, isolates.\<close>

definition unsafe_rune :: "rune \<Rightarrow> bool" where
  "unsafe_rune r \<longleftrightarrow>
     is_control r \<or> r = 0x2028 \<or> r = 0x2029 \<or> (0x202A \<le> r \<and> r \<le> 0x202E) \<or> (0x2066 \<le> r \<and> r \<le> 0x2069)"

definition dropped :: "rune \<Rightarrow> bool" where
  "dropped r \<longleftrightarrow> unsafe_rune r \<or> r = RuneError"

text \<open>The loop over the runes, the builder's content as an argument.\<close>

fun clean_loop :: "int \<Rightarrow> rune list \<Rightarrow> string \<Rightarrow> string" where
  "clean_loop mx [] b = b"
| "clean_loop mx (r # rs) b =
    (if dropped r then clean_loop mx rs b
     else if int (length b) + rune_len r > mx then b
     else clean_loop mx rs (b @ encode_rune r))"

definition CleanText :: "string \<Rightarrow> int \<Rightarrow> string" where
  "CleanText s mx = clean_loop mx (runes s) []"

text \<open>The runes kept: the longest run of kept runes whose encoding fits.\<close>

fun fitting :: "int \<Rightarrow> rune list \<Rightarrow> rune list" where
  "fitting n [] = []"
| "fitting n (r # rs) = (if rune_len r > n then [] else r # fitting (n - rune_len r) rs)"

lemma clean_loop_fitting:
  "(\<And>r. r \<in> set rs \<Longrightarrow> scalar r) \<Longrightarrow>
   clean_loop mx rs b = b @ concat (map encode_rune (fitting (mx - int (length b)) (filter (\<lambda>r. \<not> dropped r) rs)))"
proof (induction rs arbitrary: b)
  case (Cons r rs)
  have "scalar r" using Cons.prems by simp
  then have len: "int (length (encode_rune r)) = rune_len r" by (rule length_encode_rune)
  have "clean_loop mx rs b' = b' @ concat (map encode_rune
      (fitting (mx - int (length b')) (filter (\<lambda>r. \<not> dropped r) rs)))" for b'
    using Cons by simp
  then show ?case using len by (auto simp: algebra_simps)
qed simp

lemma fitting_subset: "set (fitting n rs) \<subseteq> set rs"
  by (induction n rs rule: fitting.induct) auto

lemma fitting_prefix: "\<exists>ys. rs = fitting n rs @ ys"
  by (induction n rs rule: fitting.induct) auto

lemma fitting_idem: "fitting n (fitting n rs) = fitting n rs"
  by (induction n rs rule: fitting.induct) auto

lemma length_fitting:
  "(\<And>r. r \<in> set rs \<Longrightarrow> scalar r) \<Longrightarrow> 0 \<le> n \<Longrightarrow>
   int (length (concat (map encode_rune (fitting n rs)))) \<le> n"
proof (induction n rs rule: fitting.induct)
  case (2 n r rs)
  show ?case
  proof (cases "rune_len r > n")
    case True
    then show ?thesis using "2.prems" by simp
  next
    case False
    have "int (length (encode_rune r)) = rune_len r" using "2.prems"(1) by (intro length_encode_rune) simp
    moreover have "int (length (concat (map encode_rune (fitting (n - rune_len r) rs)))) \<le> n - rune_len r"
      using "2.IH" False "2.prems" by simp
    ultimately show ?thesis using False by simp
  qed
qed simp

lemma CleanText_eq:
  "CleanText s mx = concat (map encode_rune (fitting mx (filter (\<lambda>r. \<not> dropped r) (runes s))))"
  unfolding CleanText_def by (subst clean_loop_fitting) (auto dest: runes_scalar)

lemma runes_CleanText:
  "runes (CleanText s mx) = fitting mx (filter (\<lambda>r. \<not> dropped r) (runes s))"
proof -
  have "scalar r" if "r \<in> set (fitting mx (filter (\<lambda>r. \<not> dropped r) (runes s)))" for r
    using that fitting_subset [of mx "filter (\<lambda>r. \<not> dropped r) (runes s)"] by (auto dest: runes_scalar)
  then show ?thesis by (simp add: CleanText_eq runes_encodes)
qed

lemma CleanText_kept: "r \<in> set (runes (CleanText s mx)) \<Longrightarrow> r \<in> set (runes s) \<and> \<not> dropped r"
  using fitting_subset [of mx "filter (\<lambda>r. \<not> dropped r) (runes s)"] by (auto simp: runes_CleanText)

lemma CleanText_length: "0 \<le> mx \<Longrightarrow> int (length (CleanText s mx)) \<le> mx"
  unfolding CleanText_eq by (rule length_fitting) (auto dest: runes_scalar)

lemma CleanText_idem: "CleanText (CleanText s mx) mx = CleanText s mx"
proof -
  have "filter (\<lambda>r. \<not> dropped r) (runes (CleanText s mx)) = runes (CleanText s mx)"
    by (rule filter_True) (auto dest: CleanText_kept)
  then have "CleanText (CleanText s mx) mx = concat (map encode_rune (fitting mx (runes (CleanText s mx))))"
    by (subst CleanText_eq) simp
  also have "\<dots> = CleanText s mx"
    unfolding runes_CleanText fitting_idem by (rule CleanText_eq [symmetric])
  finally show ?thesis .
qed

subsection \<open>displaySafe and validTenantName\<close>

definition displaySafe :: "string \<Rightarrow> bool" where
  "displaySafe s \<longleftrightarrow> length s \<le> 255 \<and> (\<forall>r\<in>set (runes s). \<not> unsafe_rune r)"

definition is_space :: "rune \<Rightarrow> bool" where
  "is_space r \<longleftrightarrow> (9 \<le> r \<and> r \<le> 13) \<or> r = 0x20 \<or> r = 0x85 \<or> r = 0xA0 \<or> r = 0x1680
     \<or> (0x2000 \<le> r \<and> r \<le> 0x200A) \<or> r = 0x2028 \<or> r = 0x2029 \<or> r = 0x202F \<or> r = 0x205F \<or> r = 0x3000"

text \<open>\<^verbatim>\<open>strings.TrimSpace\<close>: white space runes taken off both ends.\<close>

definition TrimSpace :: "string \<Rightarrow> string" where
  "TrimSpace s =
    concat (map snd (rev (dropWhile (\<lambda>(r, _). is_space r)
      (rev (dropWhile (\<lambda>(r, _). is_space r) (chunks s))))))"

definition validTenantName :: "string \<Rightarrow> bool" where
  "validTenantName name \<longleftrightarrow> TrimSpace name \<noteq> [] \<and> displaySafe name"

lemma displaySafe_CleanText: "displaySafe (CleanText s 255)"
  using CleanText_length [of 255 s] CleanText_kept [of _ s 255]
  by (auto simp: displaySafe_def dropped_def)

text \<open>Text without a dropped rune that fits is left as it is.\<close>

lemma fitting_all:
  "(\<And>r. r \<in> set rs \<Longrightarrow> scalar r) \<Longrightarrow> int (length (concat (map encode_rune rs))) \<le> n \<Longrightarrow> fitting n rs = rs"
proof (induction n rs rule: fitting.induct)
  case (2 n r rs)
  have "int (length (encode_rune r)) = rune_len r" using "2.prems"(1) by (intro length_encode_rune) simp
  then show ?case using 2 by auto
qed simp

lemma CleanText_fixed:
  assumes "\<And>r. r \<in> set rs \<Longrightarrow> scalar r \<and> \<not> dropped r" and "s = concat (map encode_rune rs)"
    and "int (length s) \<le> mx"
  shows "CleanText s mx = s"
proof -
  have "runes s = rs" using assms(1,2) by (simp add: runes_encodes)
  moreover have "filter (\<lambda>r. \<not> dropped r) rs = rs" using assms(1) by (simp add: filter_id_conv)
  ultimately show ?thesis using assms by (simp add: CleanText_eq fitting_all)
qed

lemma encode_ascii: "byte c < 128 \<Longrightarrow> encode_rune (byte c) = [c]"
  by (simp add: encode_rune_def encode_bytes_def byte_def scalar_def surrogate_def)

lemma CleanText_ascii:
  assumes "\<forall>c\<in>set s. 32 \<le> byte c \<and> byte c < 127" and "int (length s) \<le> mx"
  shows "CleanText s mx = s"
proof (rule CleanText_fixed [where rs = "map byte s"])
  have "concat (map (\<lambda>c. encode_rune (byte c)) s) = s"
    using assms(1) by (induction s) (auto simp: encode_ascii)
  then show "s = concat (map encode_rune (map byte s))" by (simp add: o_def)
qed (use assms in \<open>auto simp: scalar_def surrogate_def dropped_def unsafe_rune_def is_control_def RuneError_def\<close>)

subsection \<open>Decimal numbers and lists\<close>

text \<open>\<^verbatim>\<open>strconv.Itoa\<close> and \<^verbatim>\<open>strconv.Atoi\<close> on 64-bit integers.\<close>

fun itoa_nat :: "nat \<Rightarrow> string" where
  "itoa_nat n = (if n < 10 then [char_of (48 + n)] else itoa_nat (n div 10) @ [char_of (48 + n mod 10)])"

declare itoa_nat.simps [simp del]

definition Itoa :: "int \<Rightarrow> string" where
  "Itoa n = (if n < 0 then CHR ''-'' # itoa_nat (nat (- n)) else itoa_nat (nat n))"

definition is_digit :: "char \<Rightarrow> bool" where
  "is_digit c \<longleftrightarrow> 48 \<le> (of_char c :: nat) \<and> (of_char c :: nat) \<le> 57"

definition digits_value :: "string \<Rightarrow> nat" where
  "digits_value s = foldl (\<lambda>n c. 10 * n + (of_char c - 48)) 0 s"

definition Atoi :: "string \<Rightarrow> int option" where
  "Atoi s =
    (let neg = (s \<noteq> [] \<and> hd s = CHR ''-'');
         ds = (if s \<noteq> [] \<and> (hd s = CHR ''-'' \<or> hd s = CHR ''+'') then tl s else s);
         n = (if neg then - int (digits_value ds) else int (digits_value ds))
     in if ds = [] \<or> \<not> list_all is_digit ds \<or> n < - (2 ^ 63) \<or> n \<ge> 2 ^ 63 then None else Some n)"

lemma digit_char: "n < 10 \<Longrightarrow> (of_char (char_of (48 + n)) :: nat) = 48 + n"
  by simp

lemma itoa_digits: "itoa_nat n \<noteq> [] \<and> list_all is_digit (itoa_nat n)"
proof (induction n rule: itoa_nat.induct)
  case (1 n)
  have digit: "is_digit (char_of (48 + n mod 10))"
    using mod_less_divisor [of 10 n] by (simp add: is_digit_def)
  with 1 show ?case
    by (cases "n < 10"; subst itoa_nat.simps; subst (2) itoa_nat.simps) simp_all
qed

lemma digits_itoa: "digits_value (itoa_nat n) = n"
proof (induction n rule: itoa_nat.induct)
  case (1 n)
  show ?case
  proof (cases "n < 10")
    case True
    then show ?thesis by (subst itoa_nat.simps) (simp add: digits_value_def)
  next
    case False
    from False 1 have "digits_value (itoa_nat (n div 10)) = n div 10" by simp
    moreover have "of_char (char_of (48 + n mod 10)) = 48 + n mod 10" by (rule digit_char) simp
    ultimately show ?thesis
      using False by (subst itoa_nat.simps) (simp add: digits_value_def del: of_char_of)
  qed
qed

lemma Atoi_Itoa:
  assumes "- (2 ^ 63) \<le> n" and "n < 2 ^ 63"
  shows "Atoi (Itoa n) = Some n"
proof -
  have no_sign: "hd (itoa_nat k) \<noteq> CHR ''-''" "hd (itoa_nat k) \<noteq> CHR ''+''" for k
    using itoa_digits [of k] by (cases "itoa_nat k"; auto simp: is_digit_def)+
  show ?thesis
  proof (cases "n < 0")
    case True
    with assms itoa_digits [of "nat (- n)"] show ?thesis
      by (simp add: Atoi_def Itoa_def digits_itoa)
  next
    case False
    with assms itoa_digits [of "nat n"] no_sign [of "nat n"] show ?thesis
      by (simp add: Atoi_def Itoa_def digits_itoa)
  qed
qed

text \<open>\<^verbatim>\<open>strings.Split\<close> on a one-byte separator and \<^verbatim>\<open>strings.Join\<close>.\<close>

fun Split :: "string \<Rightarrow> char \<Rightarrow> string list" where
  "Split [] c = [[]]"
| "Split (x # s) c = (if x = c then [] # Split s c else
    (case Split s c of [] \<Rightarrow> [[x]] | w # ws \<Rightarrow> (x # w) # ws))"

fun Join :: "string list \<Rightarrow> char \<Rightarrow> string" where
  "Join [] c = []"
| "Join [w] c = w"
| "Join (w # ws) c = w @ c # Join ws c"

lemma Split_nonempty [simp]: "Split s c \<noteq> []"
  by (induction s) (auto split: list.splits)

lemma Split_word: "c \<notin> set w \<Longrightarrow> Split w c = [w]"
  by (induction w) auto

lemma Split_append: "c \<notin> set w \<Longrightarrow> Split (w @ c # s) c = w # Split s c"
  by (induction w) auto

lemma Split_Join:
  "ws \<noteq> [] \<Longrightarrow> \<forall>w\<in>set ws. c \<notin> set w \<Longrightarrow> Split (Join ws c) c = ws"
  by (induction ws c rule: Join.induct) (auto simp: Split_word Split_append)

end
