(* ===== verification/Json.thy ===== *)
theory Json
  imports Text "HOL-Library.List_Lexorder" "HOL-Library.Char_ord"
begin

text \<open>
  \<^verbatim>\<open>json.Marshal\<close> of \<^verbatim>\<open>encoding/json\<close>, as far as the store measures or keeps its output: strings
  with the HTML-safe escaping that is its default, integers, arrays, structs in field order and
  maps in key order. The bounds on stored columns and on frames are bounds on this output.
\<close>

datatype json =
    JNull
  | JBool bool
  | JNum int
  | JStr string
  | JArr "json list"
  | JObj "(string \<times> json) list"

definition json_hex :: "nat \<Rightarrow> char" where
  "json_hex n = (if n < 10 then char_of (48 + n) else char_of (87 + n))"

text \<open>One rune of a string: \<open>b\<close> is the bytes it was read from.\<close>

definition escape :: "rune \<times> string \<Rightarrow> string" where
  "escape rb = (case rb of (r, b) \<Rightarrow>
    if r = 0x5C \<or> r = 0x22 then CHR 0x5C # b
    else if r = 8 then [CHR 0x5C, CHR ''b'']
    else if r = 12 then [CHR 0x5C, CHR ''f'']
    else if r = 10 then [CHR 0x5C, CHR ''n'']
    else if r = 13 then [CHR 0x5C, CHR ''r'']
    else if r = 9 then [CHR 0x5C, CHR ''t'']
    else if r < 0x20 \<or> r = 0x3C \<or> r = 0x3E \<or> r = 0x26
      then CHR 0x5C # ''u00'' @ [json_hex (r div 16), json_hex (r mod 16)]
    else if r = RuneError \<and> length b = 1 then CHR 0x5C # ''ufffd''
    else if r = 0x2028 \<or> r = 0x2029 then CHR 0x5C # ''u202'' @ [json_hex (r mod 16)]
    else b)"

definition quote :: "string \<Rightarrow> string" where
  "quote s = CHR 0x22 # concat (map escape (chunks s)) @ [CHR 0x22]"

fun Marshal :: "json \<Rightarrow> string" where
  "Marshal JNull = ''null''"
| "Marshal (JBool b) = (if b then ''true'' else ''false'')"
| "Marshal (JNum n) = Itoa n"
| "Marshal (JStr s) = quote s"
| "Marshal (JArr js) = CHR ''['' # Join (map Marshal js) CHR '','' @ '']''"
| "Marshal (JObj kvs) =
    CHR ''{'' # Join (map (\<lambda>kv. quote (fst kv) @ CHR '':'' # Marshal (snd kv)) kvs) CHR '','' @ ''}''"

text \<open>A map is written in the byte order of its keys; an \<^verbatim>\<open>omitempty\<close> field only when it is set.\<close>

definition JMap :: "(string \<times> json) list \<Rightarrow> json" where
  "JMap kvs = JObj (sort_key fst kvs)"

definition omit_empty :: "string \<Rightarrow> string \<Rightarrow> (string \<times> json) list" where
  "omit_empty k s = (if s = [] then [] else [(k, JStr s)])"

lemma chunk_widths: "length (concat (map snd (chunks s))) = length s"
proof (induction s rule: chunks.induct)
  case (2 c cs)
  obtain r w where d: "decode_rune (c # cs) = (r, w)" by (cases "decode_rune (c # cs)")
  with decode_bytes_width [of "byte c" "map byte cs"] have "1 \<le> w" by (auto simp: decode_rune_def)
  then obtain v where w: "w = Suc v" by (cases w) auto
  from 2 [OF d [symmetric]] have "length (concat (map snd (chunks (drop v cs)))) = length cs - v"
    by (simp add: w)
  then show ?case by (simp add: d w)
qed simp

lemma chunk_nonempty: "(r, b) \<in> set (chunks s) \<Longrightarrow> b \<noteq> []"
proof (induction s rule: chunks.induct)
  case (2 c cs)
  obtain q w where d: "decode_rune (c # cs) = (q, w)" by (cases "decode_rune (c # cs)")
  with decode_bytes_width [of "byte c" "map byte cs"] have "1 \<le> w" by (auto simp: decode_rune_def)
  with 2 d show ?case by auto
qed simp

text \<open>Escaping grows a string at most sixfold: the bound that sizes a stored column.\<close>

lemma length_escape: "b \<noteq> [] \<Longrightarrow> length (escape (r, b)) \<le> 6 * length b"
  by (cases b) (auto simp: escape_def)

lemma length_quote: "length (quote s) \<le> 6 * length s + 2"
proof -
  have "length (concat (map escape cs)) \<le> 6 * length (concat (map snd cs))"
    if "\<forall>rb\<in>set cs. snd rb \<noteq> []" for cs
    using that
  proof (induction cs)
    case (Cons rb cs)
    then show ?case using length_escape [of "snd rb" "fst rb"] by auto
  qed simp
  then have "length (concat (map escape (chunks s))) \<le> 6 * length (concat (map snd (chunks s)))"
    using chunk_nonempty by fastforce
  then show ?thesis by (simp add: quote_def chunk_widths)
qed

end
