(* ===== verification/Frames.thy ===== *)
theory Frames
  imports Grammar Json
begin

text \<open>
  The data a deployment, an inspection and an inventory carry on the wire, with the checks the
  server makes of an agent's answer: \<^verbatim>\<open>internal/agent/protocol/deployment.go\<close>, \<^verbatim>\<open>inspection.go\<close>,
  \<^verbatim>\<open>workload.go\<close>, \<^verbatim>\<open>kubernetes.go\<close>, \<^verbatim>\<open>kubernetes_deploy.go\<close>, \<^verbatim>\<open>kubernetes_claims.go\<close>.
\<close>

subsection \<open>Targets and identities\<close>

record WorkloadRef =
  wr_namespace :: string
  wr_kind :: string
  wr_name :: string
  wr_uid :: string

definition no_workload :: WorkloadRef where
  "no_workload = \<lparr>wr_namespace = [], wr_kind = [], wr_name = [], wr_uid = []\<rparr>"

record InspectionTarget =
  it_container_id :: string
  it_image_id :: string
  it_created_unix :: int
  it_workload :: WorkloadRef

definition no_target :: InspectionTarget where
  "no_target = \<lparr>it_container_id = [], it_image_id = [], it_created_unix = 0, it_workload = no_workload\<rparr>"

definition InspectionTarget_Validate :: "InspectionTarget \<Rightarrow> bool" where
  "InspectionTarget_Validate t \<longleftrightarrow>
    MatchString containerHexID (it_container_id t) \<and> fullImageID (it_image_id t)
    \<and> it_created_unix t > 0 \<and> it_workload t = no_workload"

record Mount =
  mt_kind :: string
  mt_source :: string
  mt_target :: string
  mt_read_only :: bool

record KubernetesClaim =
  kc_name :: string
  kc_storage_class :: string
  kc_size :: string
  kc_access_mode :: string

record KubernetesMount =
  km_claim :: string
  km_mount_path :: string
  km_read_only :: bool

record DeploymentIdentity =
  di_service :: string
  di_container_id :: string
  di_image_id :: string
  di_created_unix :: int
  di_image_digest :: string
  di_kind :: string
  di_namespace :: string
  di_name :: string
  di_uid :: string
  di_generation :: int

definition KindDeployment :: string where "KindDeployment = ''Deployment''"
definition RuntimeDocker :: string where "RuntimeDocker = ''docker''"
definition RuntimeKubernetes :: string where "RuntimeKubernetes = ''kubernetes''"

definition DeploymentIdentity_valid :: "DeploymentIdentity \<Rightarrow> bool" where
  "DeploymentIdentity_valid i =
    (if di_kind i = '''' then
       di_namespace i = '''' \<and> di_name i = '''' \<and> di_uid i = '''' \<and> di_generation i = 0
       \<and> InspectionTarget_Validate \<lparr>it_container_id = di_container_id i, it_image_id = di_image_id i,
           it_created_unix = di_created_unix i, it_workload = no_workload\<rparr>
       \<and> (di_image_digest i = '''' \<or> MatchString imageID (di_image_digest i))
     else
       di_kind i = KindDeployment \<and> di_container_id i = '''' \<and> di_image_id i = ''''
       \<and> di_created_unix i = 0 \<and> ValidDNSLabel (di_namespace i) \<and> ValidDNSLabel (di_name i)
       \<and> MatchString deploymentUUID (di_uid i) \<and> di_generation i \<ge> 1
       \<and> MatchString imageID (di_image_digest i))"

subsection \<open>Results\<close>

abbreviation OutcomeSucceeded :: string where "OutcomeSucceeded \<equiv> ''succeeded''"
abbreviation OutcomeFailed :: string where "OutcomeFailed \<equiv> ''failed''"
abbreviation OutcomeDenied :: string where "OutcomeDenied \<equiv> ''denied''"
abbreviation OutcomeTimedOut :: string where "OutcomeTimedOut \<equiv> ''timed_out''"
abbreviation OutcomeUnknown :: string where "OutcomeUnknown \<equiv> ''unknown''"
abbreviation OutcomeSkipped :: string where "OutcomeSkipped \<equiv> ''skipped''"
abbreviation CodeLegacy :: string where "CodeLegacy \<equiv> ''legacy''"
abbreviation StepPrecondition :: string where "StepPrecondition \<equiv> ''precondition''"
abbreviation StepVolume :: string where "StepVolume \<equiv> ''volume''"
abbreviation StepStop :: string where "StepStop \<equiv> ''stop''"
abbreviation StepRemove :: string where "StepRemove \<equiv> ''remove''"
abbreviation DetailRetained :: string where "DetailRetained \<equiv> ''retained''"

record DeploymentStep =
  st_service :: string
  st_step :: string
  st_outcome :: string
  st_code :: string
  st_detail :: string

record DeploymentResult =
  dr_deployment :: string
  dr_request_id :: string
  dr_outcome :: string
  dr_code :: string
  dr_steps :: "DeploymentStep list"
  dr_services :: "DeploymentIdentity list"

datatype detailRule =
    detailNone | detailUnsupported | detailContainerID | detailStatus | detailObject
  | detailRollout | detailPodSecurity

definition stepCodes :: "(string \<times> detailRule) list" where
  "stepCodes = map (\<lambda>c. (c, detailNone))
     [''runtime_unreadable'', ''container_missing'', ''identity_mismatch'',
      ''image_identity_mismatch'', ''configuration_unreported'', ''bind_missing'',
      ''volume_mount_missing'', ''volume_not_owned'', ''volume_missing'', ''volume_create_failed'',
      ''image_missing'', ''pinned_image_missing'', ''configuration_drift'', ''name_reserved'',
      ''identity_unusable'', ''dependents'', ''deadline'', ''pull_failed'', ''pull_unauthorized'',
      ''pull_not_found'', ''pull_digest_mismatch'', ''cancelled'', ''runtime_timeout'',
      ''runtime_error'', CodeLegacy, ''forbidden'', ''rollback_failed'',
      ''start_failed_rolled_back'', ''exited_early'', ''application_managed'',
      ''namespace_not_granted'', ''pvc_retention'', ''secret_ref_refused'', ''self_protected'']
   @ [(''unsupported'', detailUnsupported), (''name_taken'', detailObject),
      (''identity_unreadable'', detailContainerID), (''identity_unverified'', detailContainerID),
      (''runtime_status'', detailStatus), (''rollout_timeout'', detailRollout),
      (''conflict'', detailObject), (''pod_security'', detailPodSecurity),
      (''admission_denied'', detailObject), (''claim_immutable'', detailObject),
      (''service_ip_immutable'', detailObject), (''service_ip_unavailable'', detailObject)]"

definition resultCodes :: "string list" where
  "resultCodes = [''step_failed'', ''clock_skew'', ''invalid_request'', ''wrong_endpoint'', ''busy'',
     ''restarted'', ''unreadable'', CodeLegacy]"

definition UnsupportedCodes :: "string list" where
  "UnsupportedCodes =
    [''mount_type'', ''anonymous_volume'', ''volumes_from'', ''volume_driver'', ''mount_options'',
     ''tmpfs'', ''auto_remove'', ''read_only_rootfs'', ''privileged'', ''capabilities'',
     ''security_opt'', ''devices'', ''pid_mode'', ''ipc_mode'', ''user'', ''runtime'',
     ''resource_limits'', ''ulimits'', ''sysctls'', ''device_requests'', ''init'', ''userns_mode'',
     ''cgroup_parent'', ''group_add'', ''extra_hosts'', ''dns'', ''links'', ''network'',
     ''image_config'', ''k8s_volume'', ''k8s_host_ip'', ''k8s_restart'', ''k8s_name'',
     ''k8s_namespace'', ''k8s_volume_shared'', ''k8s_name_taken'', ''k8s_service_renamed'']"

definition MaxUnsupported :: nat where "MaxUnsupported = 40"

definition knownCodes :: "string list \<Rightarrow> bool" where
  "knownCodes codes \<longleftrightarrow>
    length codes \<le> MaxUnsupported \<and> distinct codes \<and> list_all (\<lambda>c. c \<in> set UnsupportedCodes) codes"

definition unsupportedDetail :: "string list \<Rightarrow> bool" where
  "unsupportedDetail codes \<longleftrightarrow>
    distinct codes \<and> list_all (\<lambda>c. MatchString hostConfig c \<or> knownCodes [c]) codes
    \<and> length codes \<le> MaxUnsupported"

definition podSecurityDetail :: "string list" where
  "podSecurityDetail = ['''', ''missing'', ''privileged'', ''invalid'']"

definition validStepCode :: "string \<Rightarrow> string \<Rightarrow> bool" where
  "validStepCode code detail =
    (case map_of stepCodes code of
       None \<Rightarrow> False
     | Some detailUnsupported \<Rightarrow> unsupportedDetail (Split detail CHR '','')
     | Some detailContainerID \<Rightarrow> MatchString containerHexID detail
     | Some detailStatus \<Rightarrow> MatchString statusDetail detail
     | Some detailObject \<Rightarrow> detail = '''' \<or> MatchString kubeObject detail
     | Some detailRollout \<Rightarrow> MatchString rolloutDetail detail
     | Some detailPodSecurity \<Rightarrow> detail \<in> set podSecurityDetail
     | Some detailNone \<Rightarrow> detail = '''')"

definition MaxDeploymentServices :: nat where "MaxDeploymentServices = 100"
definition MaxDeploymentVolumes :: nat where "MaxDeploymentVolumes = 64"
definition MaxDeploymentStepDetailBytes :: nat where "MaxDeploymentStepDetailBytes = 256"
definition MaxDeploymentResultSteps :: nat where
  "MaxDeploymentResultSteps = 8 * MaxDeploymentServices + MaxDeploymentVolumes + 1"

definition deploymentSteps :: "string list" where
  "deploymentSteps = [''apply'', ''rollout'', ''rollback'', StepVolume, StepPrecondition, ''image'',
     ''pull'', StepStop, ''rename'', ''create'', ''start'', StepRemove, ''recheck'']"

definition resultOutcomes :: "string list" where
  "resultOutcomes = [OutcomeSucceeded, OutcomeFailed, OutcomeDenied, OutcomeTimedOut, OutcomeUnknown]"

definition DeploymentStep_valid :: "DeploymentStep \<Rightarrow> bool" where
  "DeploymentStep_valid s =
    (let quiet = (st_outcome s = OutcomeSucceeded \<or> st_outcome s = OutcomeSkipped);
         retained = (st_outcome s = OutcomeSkipped \<and> st_step s = StepVolume \<and> st_code s = ''''
                     \<and> st_detail s = DetailRetained)
     in MatchString deploymentService (st_service s) \<and> st_step s \<in> set deploymentSteps
        \<and> (st_outcome s \<in> set resultOutcomes \<or> st_outcome s = OutcomeSkipped)
        \<and> length (st_detail s) \<le> MaxDeploymentStepDetailBytes
        \<and> \<not> (quiet \<and> \<not> retained \<and> (st_code s \<noteq> '''' \<or> st_detail s \<noteq> ''''))
        \<and> \<not> (\<not> quiet \<and> \<not> validStepCode (st_code s) (st_detail s)))"

definition DeploymentResult_Validate :: "DeploymentResult \<Rightarrow> bool" where
  "DeploymentResult_Validate r \<longleftrightarrow>
    MatchString deploymentUUID (dr_deployment r) \<and> dr_outcome r \<in> set resultOutcomes
    \<and> (dr_request_id r = '''' \<or> ValidRequestID (dr_request_id r))
    \<and> length (dr_steps r) \<le> MaxDeploymentResultSteps \<and> length (dr_services r) \<le> MaxDeploymentServices
    \<and> (dr_outcome r = OutcomeSucceeded) = (dr_code r = '''')
    \<and> (dr_code r = '''' \<or> dr_code r \<in> set resultCodes)
    \<and> list_all DeploymentStep_valid (dr_steps r)
    \<and> list_all (\<lambda>i. MatchString deploymentService (di_service i) \<and> DeploymentIdentity_valid i) (dr_services r)"

subsection \<open>Inspections and workload status\<close>

record PodContainer =
  pc_name :: string
  pc_image :: string
  pc_image_id :: string
  pc_state :: string
  pc_reason :: string
  pc_ready :: bool
  pc_restart_count :: int

record PodStatus =
  ps_name :: string
  ps_uid :: string
  ps_phase :: string
  ps_containers :: "PodContainer list"

record WorkloadStatus =
  ws_uid :: string
  ws_generation :: int
  ws_observed_generation :: int
  ws_desired :: int
  ws_updated :: int
  ws_ready :: int
  ws_available :: int
  ws_pods :: "PodStatus list"
  ws_missing :: bool

text \<open>The part of \<^verbatim>\<open>ContainerInspection\<close> that health validation reads.\<close>

record ContainerInspection =
  ci_target :: InspectionTarget
  ci_state :: string
  ci_health :: string
  ci_restart_count :: int
  ci_workload :: "WorkloadStatus option"

subsection \<open>Inventory snapshots\<close>

text \<open>
  What an agent reports of its runtime. A nil slice and an empty one are both the empty list,
  except a container's mounts, where nil (an option here) says the agent did not report them. A
  map of labels is the list of its entries in the order of the keys, as \<^verbatim>\<open>encoding/json\<close> writes it.
\<close>

record Port =
  po_host_ip :: string
  po_host :: int
  po_container :: int
  po_protocol :: string

record NetworkAttachment =
  na_name :: string
  na_ip :: string
  na_ip6 :: string

record Engine =
  en_runtime :: string
  en_version :: string
  en_api_version :: string
  en_os :: string
  en_arch :: string
  en_kernel :: string
  en_cpus :: int
  en_memory_bytes :: int
  en_hostname :: string

record Container =
  co_id :: string
  co_name :: string
  co_image :: string
  co_image_id :: string
  co_state :: string
  co_status :: string
  co_created_at :: time
  co_started_at :: time
  co_health :: string
  co_restart_policy :: string
  co_ports :: "Port list"
  co_labels :: "(string \<times> string) list"
  co_networks :: "string list"
  co_network_attachments :: "NetworkAttachment list"
  co_compose_project :: string
  co_mounts :: "Mount list option"
  co_mounts_truncated :: bool

record Image =
  im_id :: string
  im_tags :: "string list"
  im_digests :: "string list"
  im_size_bytes :: int
  im_created_at :: time

record Network =
  nw_id :: string
  nw_name :: string
  nw_driver :: string
  nw_scope :: string

record Volume =
  vo_name :: string
  vo_driver :: string
  vo_mountpoint :: string
  vo_created_at :: time
  vo_plain :: bool

record Node =
  no_name :: string
  no_kubelet_version :: string
  no_os :: string
  no_arch :: string
  no_ready :: bool
  no_roles :: "string list"
  no_unschedulable :: bool

record Workload =
  wl_kind :: string
  wl_namespace :: string
  wl_name :: string
  wl_desired :: int
  wl_ready :: int
  wl_updated :: int
  wl_images :: "string list"
  wl_paused :: bool
  wl_application :: string
  wl_instance :: string

record Pod =
  pd_namespace :: string
  pd_name :: string
  pd_uid :: string
  pd_phase :: string
  pd_node :: string
  pd_owner_kind :: string
  pd_owner_name :: string
  pd_started_at :: time
  pd_containers :: "PodContainer list"

record Service =
  se_namespace :: string
  se_name :: string
  se_type :: string
  se_cluster_ip :: string
  se_ports :: "string list"
  se_instance :: string
  se_service :: string

record Claim =
  cl_namespace :: string
  cl_name :: string
  cl_phase :: string
  cl_storage_class :: string
  cl_capacity :: string

record StorageClass =
  sc_name :: string
  sc_default :: bool

record KubernetesInventory =
  ki_nodes :: "Node list"
  ki_namespaces :: "string list"
  ki_workloads :: "Workload list"
  ki_pods :: "Pod list"
  ki_services :: "Service list"
  ki_claims :: "Claim list"
  ki_storage_classes :: "StorageClass list"

record Snapshot =
  sn_generation :: nat
  sn_observed_at :: time
  sn_engine :: Engine
  sn_containers :: "Container list"
  sn_images :: "Image list"
  sn_networks :: "Network list"
  sn_volumes :: "Volume list"
  sn_kubernetes :: "KubernetesInventory option"
  sn_truncated :: "string list"

end
