(* ===== verification/Schema.thy ===== *)
theory Schema
  imports Frames
begin

text \<open>
  The tables of \<^verbatim>\<open>internal/store/migrations/migrations.go\<close> that the modelled operations read or
  write, one record per table with the columns they use, and the database as the record of the
  tables. A column under a CHECK with a closed vocabulary that only the store writes is a
  datatype; a column a caller's string may reach stays a string. A nullable column is an option.
  A column that holds the JSON of a value the store itself encoded holds that value here; an
  inventory's snapshot is an option, None for text that does not decode.
\<close>

subsection \<open>Organizations, users and audit\<close>

record user =
  u_id :: string
  u_username :: string
  u_email :: string
  u_display_name :: string
  u_role :: string
  u_status :: string
  u_sso_provider :: string
  u_must_change_password :: bool
  u_created_at :: time
  u_updated_at :: time

record Organization =
  o_id :: string
  o_name :: string
  o_created_at :: time

record OrganizationMembership =
  m_organization_id :: string
  m_user_id :: string
  m_role :: string
  m_status :: string

record Environment =
  env_id :: string
  env_organization_id :: string
  env_name :: string

record AuditRecord =
  au_id :: nat
  au_user_id :: string
  au_action :: string
  au_resource :: string
  au_details :: string
  au_ip_address :: string
  au_created_at :: time
  au_scope :: string
  au_organization_id :: string
  au_environment_id :: string
  au_correlation_id :: string
  au_result :: string

subsection \<open>Service tokens, pairing codes and status feeds\<close>

record ServiceToken =
  tk_id :: string
  tk_organization_id :: string
  tk_name :: string
  tk_token_hash :: string
  tk_created_by :: string
  tk_created_at :: time
  tk_last_used_at :: "time option"
  tk_last_ip :: string
  tk_revoked_at :: "time option"
  tk_revoked_by :: string
  tk_scope :: string

record ServicePairing =
  sp_id :: string
  sp_organization_id :: string
  sp_code_hash :: string
  sp_created_by :: string
  sp_created_at :: time
  sp_expires_at :: time
  sp_consumed_at :: "time option"

record StatusFeed =
  sf_id :: string
  sf_organization_id :: string
  sf_name :: string
  sf_token_hash :: string
  sf_created_by :: string
  sf_created_at :: time
  sf_last_used_at :: "time option"
  sf_last_ip :: string
  sf_revoked_at :: "time option"
  sf_revoked_by :: string

subsection \<open>Endpoints, their keys and their enrollment\<close>

datatype endpoint_state = EpPending | EpApproved | EpActive | EpOffline | EpRevoked

datatype key_state = KeyApproved | KeyPendingReview | KeyRetired

record Endpoint =
  ep_id :: string
  ep_organization_id :: string
  ep_environment_id :: string
  ep_name :: string
  ep_runtime :: string
  ep_state :: endpoint_state
  ep_facts :: "(string \<times> string) list"
  ep_created_at :: time
  ep_approved_at :: "time option"
  ep_approved_by :: string
  ep_revoked_at :: "time option"
  ep_last_seen_at :: "time option"
  ep_inventory_generation :: nat
  ep_deploy_namespaces :: "string list"

record endpoint_key =
  ek_endpoint_id :: string
  ek_fingerprint :: string
  ek_public_key :: string
  ek_state :: key_state
  ek_created_at :: time
  ek_acknowledged_at :: "time option"
  ek_retired_at :: "time option"

record EnrollmentToken =
  et_id :: string
  et_organization_id :: string
  et_environment_id :: string
  et_runtime :: string
  et_token_hash :: string
  et_created_by :: string
  et_created_at :: time
  et_expires_at :: time
  et_consumed_at :: "time option"
  et_endpoint_id :: string
  et_agent_image :: string
  et_deploy_namespaces :: "string list"

record EndpointEvent =
  ev_id :: nat
  ev_endpoint_id :: string
  ev_organization_id :: string
  ev_environment_id :: string
  ev_severity :: string
  ev_kind :: string
  ev_details :: string
  ev_created_at :: time
  ev_acknowledged_at :: "time option"

record endpoint_inventory =
  iv_endpoint_id :: string
  iv_generation :: nat
  iv_observed_at :: time
  iv_received_at :: time
  iv_snapshot :: "Snapshot option"
  iv_cluster_health :: string

record endpoint_capability =
  cap_endpoint_id :: string
  cap_capability :: string

record Expectation =
  ex_image_digest :: string
  ex_state :: string
  ex_replicas :: "int option"

record Command =
  cmd_id :: string
  cmd_endpoint_id :: string
  cmd_organization_id :: string
  cmd_environment_id :: string
  cmd_actor_id :: string
  cmd_request_id :: string
  cmd_action :: string
  cmd_container_id :: string
  cmd_reference :: string
  cmd_expects :: Expectation
  cmd_deadline :: time
  cmd_outcome :: string
  cmd_detail :: string
  cmd_created_at :: time
  cmd_dispatched_at :: "time option"
  cmd_settled_at :: "time option"
  cmd_result :: "DeploymentResult option"
  cmd_result_container_id :: string

subsection \<open>Applications and their instances\<close>

record Application =
  app_id :: string
  app_organization_id :: string
  app_environment_id :: string
  app_name :: string
  app_latest_revision :: int
  app_created_by :: string
  app_created_at :: time
  app_removed_at :: "time option"

record ApplicationInstance =
  in_id :: string
  in_organization_id :: string
  in_environment_id :: string
  in_application_id :: string
  in_endpoint_id :: string
  in_project :: string
  in_revision :: int
  in_namespace :: string
  in_mapping_version :: int
  in_current_revision :: int
  in_previous_revision :: int

record application_resource =
  re_instance_id :: string
  re_endpoint_id :: string
  re_container_id :: string
  re_name :: string
  re_image_id :: string
  re_created_unix :: int
  re_service_name :: string

record image_check =
  ic_instance_id :: string
  ic_service_name :: string

record ApplicationMigration =
  mg_id :: string
  mg_organization_id :: string
  mg_environment_id :: string
  mg_application_id :: string
  mg_destination_application_id :: string
  mg_status :: string

subsection \<open>Deployments\<close>

datatype deployment_state =
  DPlanned | DApplying | DSucceeded | DFailed | DDenied | DTimedOut | DUnknown

datatype deployment_kind = KindApply | KindRemove

record KubernetesObject =
  ko_namespace :: string
  ko_name :: string

record PlannedService =
  pl_name :: string
  pl_reference :: string
  pl_image_id :: string
  pl_container_id :: string
  pl_replaces :: InspectionTarget
  pl_pull_reference :: string
  pl_pull_digest :: string
  pl_mounts :: "Mount list"
  pl_object :: "KubernetesObject option"
  pl_claim_mounts :: "KubernetesMount list"
  pl_cluster_ip :: string

record RemovalPlanTarget =
  rt_service :: string
  rt_container_id :: string
  rt_image_id :: string
  rt_created_unix :: int
  rt_name :: string

record DeploymentPlan =
  plan_project :: string
  plan_services :: "PlannedService list"
  plan_containers :: "RemovalPlanTarget list"
  plan_volumes :: "string list"
  plan_namespace :: string
  plan_claims :: "KubernetesClaim list"

record Deployment =
  d_id :: string
  d_organization_id :: string
  d_environment_id :: string
  d_application_id :: string
  d_instance_id :: string
  d_endpoint_id :: string
  d_project :: string
  d_kind :: deployment_kind
  d_state :: deployment_state
  d_revision :: int
  d_spec_digest :: string
  d_mapping_version :: int
  d_plan :: DeploymentPlan
  d_created_by :: string
  d_created_at :: time
  d_expires_at :: time
  d_applied_by :: string
  d_applied_at :: "time option"
  d_deadline :: "time option"
  d_settled_at :: "time option"
  d_detail :: string
  d_result :: "DeploymentResult option"
  d_correlation_id :: string
  d_policy_run_id :: "string option"
  d_migration_id :: "string option"

subsection \<open>Update policies, their runs, and health validations\<close>

datatype policy_status = PolicyActive | PolicyPaused

datatype run_outcome =
    RunOpen
  | RunSkippedMissed | RunSkippedBusy | RunNoUpdate | RunPlanned | RunApplied | RunBlocked
  | RunFailed | RunPaused

record UpdatePolicy =
  p_id :: string
  p_organization_id :: string
  p_environment_id :: string
  p_application_id :: string
  p_created_by :: string
  p_mode :: string
  p_timezone :: string
  p_weekdays :: string
  p_start_minute :: int
  p_end_minute :: int
  p_status :: policy_status
  p_paused_reason :: string
  p_consecutive_failures :: nat
  p_created_at :: time
  p_updated_at :: time

record PolicyRun =
  r_id :: string
  r_policy_id :: string
  r_organization_id :: string
  r_environment_id :: string
  r_application_id :: string
  r_occurrence :: time
  r_started_at :: time
  r_finished_at :: "time option"
  r_outcome :: run_outcome
  r_deployment_id :: "string option"
  r_detail :: string
  r_correlation_id :: string

datatype phase = PhaseGrace | PhaseObserving | PhaseDone

datatype verdict =
    NoVerdict
  | VerdictHealthy | VerdictUnhealthy | VerdictExited | VerdictRestarting | VerdictUnverifiable
  | VerdictChanged

datatype rollback_outcome = NoRollback | RollbackApplied | RollbackIneligible | RollbackFailed

record ServiceBaseline =
  sb_container_id :: string
  sb_restart_count :: int
  sb_pod_restarts :: "(string \<times> int) list"

record Validation =
  v_deployment_id :: string
  v_organization_id :: string
  v_environment_id :: string
  v_application_id :: string
  v_instance_id :: string
  v_endpoint_id :: string
  v_policy_run_id :: "string option"
  v_automated :: bool
  v_is_rollback :: bool
  v_phase :: phase
  v_started_at :: time
  v_observe_until :: time
  v_verdict :: verdict
  v_detail :: string
  v_baseline :: "(string \<times> ServiceBaseline) list option"
  v_rollback_deployment_id :: "string option"
  v_rollback_outcome :: rollback_outcome
  v_rollback_detail :: string
  v_correlation_id :: string
  v_finished_at :: "time option"

subsection \<open>The database\<close>

record db =
  users :: "user table"
  organizations :: "Organization table"
  memberships :: "OrganizationMembership table"
  environments :: "Environment table"
  audit :: "AuditRecord table"
  service_tokens :: "ServiceToken table"
  pairings :: "ServicePairing table"
  status_feeds :: "StatusFeed table"
  endpoints :: "Endpoint table"
  endpoint_keys :: "endpoint_key table"
  enrollment_tokens :: "EnrollmentToken table"
  endpoint_events :: "EndpointEvent table"
  inventories :: "endpoint_inventory table"
  capabilities :: "endpoint_capability table"
  commands :: "Command table"
  applications :: "Application table"
  instances :: "ApplicationInstance table"
  resources :: "application_resource table"
  image_checks :: "image_check table"
  migrations :: "ApplicationMigration table"
  deployments :: "Deployment table"
  policies :: "UpdatePolicy table"
  policy_runs :: "PolicyRun table"
  validations :: "Validation table"
  next_audit_id :: nat
  next_event_id :: nat
  tenancy_bootstrap :: "time option"
  server_settings :: "(string \<times> string) table"

definition empty_db :: db where
  "empty_db = \<lparr>users = [], organizations = [], memberships = [], environments = [], audit = [],
    service_tokens = [], pairings = [], status_feeds = [], endpoints = [], endpoint_keys = [],
    enrollment_tokens = [], endpoint_events = [], inventories = [], capabilities = [], commands = [],
    applications = [], instances = [], resources = [], image_checks = [], migrations = [],
    deployments = [], policies = [], policy_runs = [], validations = [],
    next_audit_id = 1, next_event_id = 1, tenancy_bootstrap = None, server_settings = []\<rparr>"

end
