(* ===== verification/Permissions.thy ===== *)
theory Permissions
  imports Prelude
begin

text \<open>
  The permission matrix, \<^verbatim>\<open>internal/permissions/permissions.go\<close>. An action is a constructor; its
  audit identifier, the value of the Go constant, is \<open>action_name\<close>. A role stays a string,
  because the role column of a membership is what the store compares.
\<close>

datatype Action =
    ApplicationAdopt | ApplicationRelease | SecretReveal | ApplicationRead | ApplicationImport
  | ApplicationEdit | ApplicationDestroy | PlatformAdmin | OrganizationRead | MembersManage
  | EnvironmentRead | EnvironmentCreate | EnvironmentUpdate | EnvironmentDelete | AuditRead
  | EndpointRead | EndpointEnroll | EndpointUpdate | EndpointRevoke | ContainerOperate
  | ContainerDestroy | ImagePull | ImageDestroy | ContainerLogs | ContainerExec
  | ContainerConfigure | ApplicationDeploy | RegistryRead | RegistryManage | ApplicationPolicy
  | ApplicationMigrate | ServiceTokensManage | AgentTokensManage | StatusFeedsManage
  | SuiteRead | SuiteManage

fun action_name :: "Action \<Rightarrow> string" where
  "action_name ApplicationAdopt = ''application.adopt''"
| "action_name ApplicationRelease = ''application.release''"
| "action_name SecretReveal = ''secret.reveal''"
| "action_name ApplicationRead = ''application.read''"
| "action_name ApplicationImport = ''application.import''"
| "action_name ApplicationEdit = ''application.edit''"
| "action_name ApplicationDestroy = ''application.destroy''"
| "action_name PlatformAdmin = ''platform.admin''"
| "action_name OrganizationRead = ''organization.read''"
| "action_name MembersManage = ''organization.members.manage''"
| "action_name EnvironmentRead = ''environment.read''"
| "action_name EnvironmentCreate = ''environment.create''"
| "action_name EnvironmentUpdate = ''environment.update''"
| "action_name EnvironmentDelete = ''environment.delete''"
| "action_name AuditRead = ''organization.audit.read''"
| "action_name EndpointRead = ''endpoint.read''"
| "action_name EndpointEnroll = ''endpoint.enroll''"
| "action_name EndpointUpdate = ''endpoint.update''"
| "action_name EndpointRevoke = ''endpoint.revoke''"
| "action_name ContainerOperate = ''container.operate''"
| "action_name ContainerDestroy = ''container.destroy''"
| "action_name ImagePull = ''image.pull''"
| "action_name ImageDestroy = ''image.destroy''"
| "action_name ContainerLogs = ''container.logs''"
| "action_name ContainerExec = ''container.exec''"
| "action_name ContainerConfigure = ''container.configure''"
| "action_name ApplicationDeploy = ''application.deploy''"
| "action_name RegistryRead = ''registry.read''"
| "action_name RegistryManage = ''registry.manage''"
| "action_name ApplicationPolicy = ''application.policy''"
| "action_name ApplicationMigrate = ''application.migrate''"
| "action_name ServiceTokensManage = ''organization.service_tokens.manage''"
| "action_name AgentTokensManage = ''organization.agent_tokens.manage''"
| "action_name StatusFeedsManage = ''organization.status_feeds.manage''"
| "action_name SuiteRead = ''suite.read''"
| "action_name SuiteManage = ''suite.manage''"

definition RolePulseReader :: string where "RolePulseReader = ''pulse_reader''"
definition RoleAgentReader :: string where "RoleAgentReader = ''agent_reader''"
definition RoleAgentOperator :: string where "RoleAgentOperator = ''agent_operator''"

definition PlatformAllows :: "string \<Rightarrow> Action \<Rightarrow> bool" where
  "PlatformAllows role action \<longleftrightarrow> role = ''admin'' \<and> action \<in> {PlatformAdmin, SuiteRead, SuiteManage}"

text \<open>The action lists of the branches of \<^verbatim>\<open>Allows\<close>, in the order of the code.\<close>

definition organization_admin_actions :: "Action set" where
  "organization_admin_actions =
    {ApplicationAdopt, ApplicationRelease, SecretReveal, ApplicationRead, ApplicationImport,
     ApplicationEdit, ApplicationDestroy, ApplicationDeploy, ApplicationPolicy, ApplicationMigrate,
     ContainerExec, ContainerConfigure, OrganizationRead, MembersManage, EnvironmentRead,
     EnvironmentCreate, EnvironmentUpdate, EnvironmentDelete, AuditRead, EndpointRead,
     EndpointEnroll, EndpointUpdate, EndpointRevoke, ContainerOperate, ContainerDestroy, ImagePull,
     ImageDestroy, ContainerLogs, RegistryRead, RegistryManage, ServiceTokensManage,
     AgentTokensManage, StatusFeedsManage}"

definition environment_admin_actions :: "Action set" where
  "environment_admin_actions =
    {ApplicationAdopt, ApplicationRelease, ApplicationRead, ApplicationImport, ApplicationEdit,
     ApplicationDestroy, ApplicationDeploy, OrganizationRead, EnvironmentRead, EnvironmentCreate,
     EnvironmentUpdate, EnvironmentDelete, EndpointRead, EndpointEnroll, EndpointUpdate,
     EndpointRevoke, ContainerOperate, ContainerDestroy, ImagePull, ImageDestroy, ContainerLogs,
     RegistryRead}"

definition operator_actions :: "Action set" where
  "operator_actions =
    {ApplicationRead, OrganizationRead, EnvironmentRead, EndpointRead, ContainerOperate, ImagePull,
     ContainerLogs, RegistryRead}"

definition developer_actions :: "Action set" where
  "developer_actions =
    {ApplicationRead, ApplicationEdit, ApplicationDeploy, OrganizationRead, EnvironmentRead,
     EndpointRead, ContainerLogs, RegistryRead}"

definition pulse_reader_actions :: "Action set" where
  "pulse_reader_actions =
    {OrganizationRead, EnvironmentRead, EndpointRead, ContainerLogs, AuditRead}"

definition agent_reader_actions :: "Action set" where
  "agent_reader_actions =
    {OrganizationRead, EnvironmentRead, EndpointRead, ContainerLogs, ApplicationRead}"

definition agent_operator_actions :: "Action set" where
  "agent_operator_actions =
    {OrganizationRead, EnvironmentRead, EndpointRead, ContainerLogs, ApplicationRead,
     ContainerOperate, ApplicationDeploy}"

definition read_only_actions :: "Action set" where
  "read_only_actions =
    {ApplicationRead, OrganizationRead, EnvironmentRead, EndpointRead, RegistryRead}"

lemmas role_actions =
  organization_admin_actions_def environment_admin_actions_def operator_actions_def
  developer_actions_def pulse_reader_actions_def agent_reader_actions_def
  agent_operator_actions_def read_only_actions_def

definition Allows :: "string \<Rightarrow> Action \<Rightarrow> bool" where
  "Allows role action =
    (if role = ''organization_admin'' then action \<in> organization_admin_actions
     else if role = ''environment_admin'' then action \<in> environment_admin_actions
     else if role = ''operator'' then action \<in> operator_actions
     else if role = ''developer'' then action \<in> developer_actions
     else if role = RolePulseReader then action \<in> pulse_reader_actions
     else if role = RoleAgentReader then action \<in> agent_reader_actions
     else if role = RoleAgentOperator then action \<in> agent_operator_actions
     else if role = ''read_only'' then action \<in> read_only_actions
     else False)"

lemmas role_names = RolePulseReader_def RoleAgentReader_def RoleAgentOperator_def

lemma Allows_role [simp]:
  "Allows ''organization_admin'' x \<longleftrightarrow> x \<in> organization_admin_actions"
  "Allows ''environment_admin'' x \<longleftrightarrow> x \<in> environment_admin_actions"
  "Allows ''operator'' x \<longleftrightarrow> x \<in> operator_actions"
  "Allows ''developer'' x \<longleftrightarrow> x \<in> developer_actions"
  "Allows RolePulseReader x \<longleftrightarrow> x \<in> pulse_reader_actions"
  "Allows RoleAgentReader x \<longleftrightarrow> x \<in> agent_reader_actions"
  "Allows RoleAgentOperator x \<longleftrightarrow> x \<in> agent_operator_actions"
  "Allows ''read_only'' x \<longleftrightarrow> x \<in> read_only_actions"
  by (simp_all add: Allows_def role_names)

text \<open>Every role of the matrix is below the organization administrator.\<close>

lemma Allows_admin: "Allows role x \<Longrightarrow> x \<in> organization_admin_actions"
  by (auto simp: Allows_def role_actions split: if_splits)

lemma Allows_not_platform: "Allows role x \<Longrightarrow> \<not> PlatformAllows role' x"
  by (drule Allows_admin) (auto simp: PlatformAllows_def organization_admin_actions_def)

text \<open>Audit identifiers are pairwise different, so a row's action names its permission.\<close>

lemma action_name_inject: "action_name x = action_name y \<longleftrightarrow> x = y"
  by (cases x; cases y) simp_all

end
