(* ===== verification/Access.thy ===== *)
theory Access
  imports Schema Permissions "HOL-Library.Product_Lexorder"
begin

text \<open>
  Tenant authorization and its audit trail, \<^verbatim>\<open>internal/store/tenant_access.go\<close>, with the
  environments of an organization. An operation of the store runs inside \<open>runAs\<close>: the caller's
  live role is read in the transaction, the permission matrix is asked, and the operation commits
  together with its audit row, or rolls back and leaves one failure row.

  The clock and fresh UUIDs are arguments: \<open>now\<close> is the instant of the call, \<open>cid\<close> a UUID for a
  request that brought no correlation ID. Errors of the driver other than a broken unique
  constraint (a lost connection, a full disk) are not modelled.
\<close>

subsection \<open>The audit trail\<close>

text \<open>The zero \<^verbatim>\<open>time.Time\<close>: the first instant of year 1.\<close>

definition zero_time :: time where "zero_time = - 62135596800 * second"

definition insert_audit :: "AuditRecord \<Rightarrow> db \<Rightarrow> db" where
  "insert_audit r d = d\<lparr>audit := audit d @ [r\<lparr>au_id := next_audit_id d\<rparr>],
     next_audit_id := next_audit_id d + 1\<rparr>"

definition LogAudit :: "time \<Rightarrow> AuditRecord \<Rightarrow> db \<Rightarrow> db" where
  "LogAudit now r d =
    insert_audit (r\<lparr>au_resource := CleanText (au_resource r) 255,
      au_scope := (if au_scope r = '''' then ''platform'' else au_scope r),
      au_result := (if au_result r = '''' then ''unknown'' else au_result r),
      au_created_at := (if au_created_at r = zero_time then now else au_created_at r)\<rparr>) d"

subsection \<open>Principals\<close>

record TenantAccess =
  ActorID :: string
  OrganizationID :: string
  EnvironmentID :: string
  CorrelationID :: string
  IPAddress :: string
  ServiceTokenID :: string

definition Principal :: "TenantAccess \<Rightarrow> string" where
  "Principal a = (if ServiceTokenID a \<noteq> '''' then ''service:'' @ ServiceTokenID a else ActorID a)"

definition ScopePulse :: string where "ScopePulse = ''pulse''"
definition ScopeMCPRead :: string where "ScopeMCPRead = ''mcp:read''"
definition ScopeMCPOperate :: string where "ScopeMCPOperate = ''mcp:operate''"

definition serviceRole :: "db \<Rightarrow> TenantAccess \<Rightarrow> string res" where
  "serviceRole d a =
    (case List.find (\<lambda>t. tk_id t = ServiceTokenID a \<and> tk_organization_id t = OrganizationID a) (service_tokens d) of
       None \<Rightarrow> Inl ErrNoPrincipal
     | Some t \<Rightarrow>
        if tk_revoked_at t \<noteq> None then Inl ErrForbidden
        else if tk_scope t = ScopePulse then Inr RolePulseReader
        else if tk_scope t = ScopeMCPRead then Inr RoleAgentReader
        else if tk_scope t = ScopeMCPOperate then Inr RoleAgentOperator
        else Inl ErrForbidden)"

definition principalRole :: "db \<Rightarrow> TenantAccess \<Rightarrow> string res" where
  "principalRole d a =
    (if ServiceTokenID a \<noteq> '''' then serviceRole d a
     else case List.find (\<lambda>u. u_id u = ActorID a) (users d) of
       None \<Rightarrow> Inl ErrNoPrincipal
     | Some u \<Rightarrow>
       (case List.find (\<lambda>m. m_user_id m = u_id u \<and> m_organization_id m = OrganizationID a) (memberships d) of
          None \<Rightarrow> Inl ErrNoPrincipal
        | Some m \<Rightarrow>
          if u_status u \<noteq> ''active'' \<or> u_must_change_password u \<or> m_status m \<noteq> ''active''
          then Inl ErrForbidden else Inr (m_role m)))"

subsection \<open>Running an operation\<close>

text \<open>
  An operation gets the database of its transaction and gives the target and details its audit
  row is to carry (it may learn them inside the transaction) and, unless it fails, the new
  database and its result. Its writes before an error are dropped with it: that is the rollback.
\<close>

type_synonym 'a op = "db \<Rightarrow> (string \<times> string) \<times> (db \<times> 'a) res"

definition keep :: "string \<Rightarrow> string \<Rightarrow> (db \<Rightarrow> (db \<times> 'a) res) \<Rightarrow> 'a op" where
  "keep target details f d = ((target, details), f d)"

definition auditedReads :: "Action \<Rightarrow> bool" where
  "auditedReads action \<longleftrightarrow> action \<in> {AuditRead, MembersManage, ContainerLogs}"

definition authorize :: "db \<Rightarrow> TenantAccess \<Rightarrow> Action \<Rightarrow> unit res" where
  "authorize d a action =
    and_then (principalRole d a) (\<lambda>role.
    and_then (require (Allows role action) ErrForbidden) (\<lambda>_.
    require (EnvironmentID a = '''' \<or> action = EnvironmentCreate
      \<or> (\<exists>e\<in>set (environments d). env_organization_id e = OrganizationID a \<and> env_id e = EnvironmentID a)) ErrNotFound))"

definition audit_record :: "time \<Rightarrow> TenantAccess \<Rightarrow> string \<Rightarrow> string \<Rightarrow> string \<Rightarrow> string \<Rightarrow> AuditRecord" where
  "audit_record now a name target details result =
    \<lparr>au_id = 0, au_user_id = Principal a, au_action = name,
     au_resource = CleanText (if target \<noteq> '''' then target
       else if EnvironmentID a \<noteq> '''' then EnvironmentID a else OrganizationID a) 255,
     au_details = details, au_ip_address = IPAddress a, au_created_at = now,
     au_scope = ''organization'', au_organization_id = OrganizationID a,
     au_environment_id = EnvironmentID a, au_correlation_id = CorrelationID a, au_result = result\<rparr>"

definition runAs :: "time \<Rightarrow> string \<Rightarrow> TenantAccess \<Rightarrow> Action \<Rightarrow> string \<Rightarrow> string \<Rightarrow> bool \<Rightarrow> 'a op \<Rightarrow> db \<Rightarrow> db \<times> 'a res" where
  "runAs now cid a0 action name target lock op d =
    (if (ActorID a0 = '''' \<and> ServiceTokenID a0 = '''') \<or> OrganizationID a0 = '''' then (d, Inl ErrForbidden)
     else
      let a = (if CorrelationID a0 = '''' then a0\<lparr>CorrelationID := cid\<rparr> else a0) in
      if principalRole d a = Inl ErrNoPrincipal then (d, Inl ErrForbidden)
      else
       (case (case authorize d a action of Inl e \<Rightarrow> ((target, ''''), Inl e) | Inr _ \<Rightarrow> op d) of
          ((tg, dt), Inl e) \<Rightarrow>
            if \<not> lock \<and> e = ErrNotFound then (d, Inl e)
            else (LogAudit now (audit_record now a name tg '''' (if e = ErrForbidden then ''denied'' else ''failure'')) d,
                  Inl (if e = ErrConflict then ErrAlreadyExists else e))
        | ((tg, dt), Inr (d', x)) \<Rightarrow>
            if \<not> lock \<and> (\<not> auditedReads action \<or> ServiceTokenID a \<noteq> '''') then (d', Inr x)
            else (insert_audit (audit_record now a name tg (CleanText dt 255) ''success'') d', Inr x)))"

definition run :: "time \<Rightarrow> string \<Rightarrow> TenantAccess \<Rightarrow> Action \<Rightarrow> string \<Rightarrow> bool \<Rightarrow> 'a op \<Rightarrow> db \<Rightarrow> db \<times> 'a res" where
  "run now cid a action target lock op = runAs now cid a action (action_name action) target lock op"

definition withTenant :: "time \<Rightarrow> string \<Rightarrow> TenantAccess \<Rightarrow> Action \<Rightarrow> (db \<Rightarrow> (db \<times> 'a) res) \<Rightarrow> db \<Rightarrow> db \<times> 'a res" where
  "withTenant now cid a action f = run now cid a action '''' True (keep '''' '''' f)"

definition withTenantTarget :: "time \<Rightarrow> string \<Rightarrow> TenantAccess \<Rightarrow> Action \<Rightarrow> string \<Rightarrow> (db \<Rightarrow> (db \<times> 'a) res) \<Rightarrow> db \<Rightarrow> db \<times> 'a res" where
  "withTenantTarget now cid a action target f = run now cid a action target True (keep target '''' f)"

definition withTenantTargetDetails :: "time \<Rightarrow> string \<Rightarrow> TenantAccess \<Rightarrow> Action \<Rightarrow> string \<Rightarrow> 'a op \<Rightarrow> db \<Rightarrow> db \<times> 'a res" where
  "withTenantTargetDetails now cid a action target op = run now cid a action target True op"

text \<open>A read changes no table, so it is a function to its answer.\<close>

definition readTenant :: "time \<Rightarrow> string \<Rightarrow> TenantAccess \<Rightarrow> Action \<Rightarrow> (db \<Rightarrow> 'a res) \<Rightarrow> db \<Rightarrow> db \<times> 'a res" where
  "readTenant now cid a action f =
    run now cid a action '''' False (keep '''' '''' (\<lambda>d. and_then (f d) (\<lambda>x. Inr (d, x))))"

subsection \<open>Organizations and environments\<close>

definition tenantChangeResult :: "nat \<Rightarrow> unit res" where
  "tenantChangeResult n = require (n \<noteq> 0) ErrNotFound"

definition ReadOrganization :: "time \<Rightarrow> string \<Rightarrow> TenantAccess \<Rightarrow> db \<Rightarrow> db \<times> Organization res" where
  "ReadOrganization now cid a =
    readTenant now cid a OrganizationRead (\<lambda>d.
      row_or ErrNotFound (List.find (\<lambda>r. o_id r = OrganizationID a) (organizations d)))"

definition ReadEnvironment :: "time \<Rightarrow> string \<Rightarrow> TenantAccess \<Rightarrow> db \<Rightarrow> db \<times> Environment res" where
  "ReadEnvironment now cid a =
    readTenant now cid a EnvironmentRead (\<lambda>d.
      row_or ErrNotFound (List.find (\<lambda>e. env_organization_id e = OrganizationID a \<and> env_id e = EnvironmentID a) (environments d)))"

text \<open>\<^verbatim>\<open>LIMIT ? OFFSET ?\<close> on rows already in order.\<close>

definition page :: "int \<Rightarrow> int \<Rightarrow> 'r list \<Rightarrow> 'r list" where
  "page offset limit rows = take (nat limit) (drop (nat offset) rows)"

definition ListEnvironments :: "time \<Rightarrow> string \<Rightarrow> TenantAccess \<Rightarrow> int \<Rightarrow> int \<Rightarrow> db \<Rightarrow> db \<times> Environment list res" where
  "ListEnvironments now cid a offset limit =
    readTenant now cid a EnvironmentRead (\<lambda>d.
      if offset < 0 \<or> limit < 1 \<or> limit > 200 then Inl ErrInvalid
      else Inr (page offset limit
        (sort_key env_id (filter (\<lambda>e. env_organization_id e = OrganizationID a) (environments d)))))"

text \<open>The unique keys of \<^verbatim>\<open>environments\<close>: its ID, and its name within its organization.\<close>

definition environment_clash :: "Environment \<Rightarrow> Environment \<Rightarrow> bool" where
  "environment_clash e x \<longleftrightarrow> env_id e = env_id x
    \<or> (env_organization_id e = env_organization_id x \<and> env_name e = env_name x)"

definition add_environment :: "TenantAccess \<Rightarrow> string \<Rightarrow> db \<Rightarrow> (db \<times> Environment) res" where
  "add_environment a name d =
    (if \<not> validTenantName name then Inl ErrInvalid
     else
      let e = \<lparr>env_id = EnvironmentID a, env_organization_id = OrganizationID a, env_name = TrimSpace name\<rparr>
      in and_then (insert_row environment_clash e (environments d)) (\<lambda>t. Inr (d\<lparr>environments := t\<rparr>, e)))"

definition AddEnvironment :: "time \<Rightarrow> string \<Rightarrow> string \<Rightarrow> TenantAccess \<Rightarrow> string \<Rightarrow> db \<Rightarrow> db \<times> Environment res" where
  "AddEnvironment now cid uid a0 name =
    (let a = a0\<lparr>EnvironmentID := uid\<rparr> in withTenant now cid a EnvironmentCreate (add_environment a name))"

definition update_environment :: "TenantAccess \<Rightarrow> string \<Rightarrow> db \<Rightarrow> (db \<times> unit) res" where
  "update_environment a name d =
    (if \<not> validTenantName name then Inl ErrInvalid
     else
      let P = (\<lambda>e. env_organization_id e = OrganizationID a \<and> env_id e = EnvironmentID a);
          taken = (\<exists>e\<in>set (environments d). P e)
            \<and> (\<exists>e\<in>set (environments d). \<not> P e \<and> env_organization_id e = OrganizationID a \<and> env_name e = TrimSpace name)
      in if taken then Inl ErrConflict
         else and_then (tenantChangeResult (count_where P (environments d))) (\<lambda>_.
           Inr (d\<lparr>environments := update_where P (\<lambda>e. e\<lparr>env_name := TrimSpace name\<rparr>) (environments d)\<rparr>, ())))"

definition UpdateEnvironment :: "time \<Rightarrow> string \<Rightarrow> TenantAccess \<Rightarrow> string \<Rightarrow> db \<Rightarrow> db \<times> unit res" where
  "UpdateEnvironment now cid a name = withTenant now cid a EnvironmentUpdate (update_environment a name)"

text \<open>
  Deleting endpoints takes their keys, events, capabilities, inventory and commands with them, deleting an
  environment its enrollment tokens: the cascades of the schema.
\<close>

definition delete_endpoints :: "(Endpoint \<Rightarrow> bool) \<Rightarrow> db \<Rightarrow> db" where
  "delete_endpoints P d =
    (let gone = (\<lambda>i. \<exists>e\<in>set (endpoints d). P e \<and> ep_id e = i) in
     d\<lparr>endpoints := delete_where P (endpoints d),
       endpoint_keys := delete_where (\<lambda>k. gone (ek_endpoint_id k)) (endpoint_keys d),
       endpoint_events := delete_where (\<lambda>k. gone (ev_endpoint_id k)) (endpoint_events d),
       inventories := delete_where (\<lambda>k. gone (iv_endpoint_id k)) (inventories d),
       capabilities := delete_where (\<lambda>k. gone (cap_endpoint_id k)) (capabilities d),
       commands := delete_where (\<lambda>k. gone (cmd_endpoint_id k)) (commands d)\<rparr>)"

definition remove_environment :: "TenantAccess \<Rightarrow> db \<Rightarrow> (db \<times> unit) res" where
  "remove_environment a d =
    (let E = (\<lambda>e. ep_organization_id e = OrganizationID a \<and> ep_environment_id e = EnvironmentID a);
         P = (\<lambda>e. env_organization_id e = OrganizationID a \<and> env_id e = EnvironmentID a)
     in if count_where (\<lambda>p. app_organization_id p = OrganizationID a \<and> app_environment_id p = EnvironmentID a) (applications d) > 0
        then Inl ErrInUse
        else if count_where (\<lambda>e. E e \<and> ep_state e \<noteq> EpRevoked) (endpoints d) > 0 then Inl ErrInUse
        else and_then (tenantChangeResult (count_where P (environments d))) (\<lambda>_.
          let d' = delete_endpoints E d in
          Inr (d'\<lparr>environments := delete_where P (environments d'),
                 enrollment_tokens := delete_where (\<lambda>t. et_organization_id t = OrganizationID a
                   \<and> et_environment_id t = EnvironmentID a) (enrollment_tokens d')\<rparr>, ())))"

definition RemoveEnvironment :: "time \<Rightarrow> string \<Rightarrow> TenantAccess \<Rightarrow> db \<Rightarrow> db \<times> unit res" where
  "RemoveEnvironment now cid a = withTenant now cid a EnvironmentDelete (remove_environment a)"

subsection \<open>Reading the audit trail\<close>

definition readAudit :: "time \<Rightarrow> string \<Rightarrow> TenantAccess \<Rightarrow> int \<Rightarrow> int \<Rightarrow> int \<Rightarrow> bool \<Rightarrow> db \<Rightarrow> db \<times> AuditRecord list res" where
  "readAudit now cid a offset afterID limit cursor =
    readTenant now cid a AuditRead (\<lambda>d.
      if offset < 0 \<or> afterID < 0 \<or> limit < 1 \<or> limit > 200 then Inl ErrInvalid
      else
       let rows = filter (\<lambda>r. au_scope r = ''organization'' \<and> au_organization_id r = OrganizationID a
             \<and> (EnvironmentID a = '''' \<or> au_environment_id r = EnvironmentID a)) (audit d)
       in if cursor
          then Inr (take (nat limit) (sort_key au_id (filter (\<lambda>r. int (au_id r) > afterID) rows)))
          else Inr (page offset limit (rev (sort_key (\<lambda>r. (au_created_at r, au_id r)) rows))))"

definition ReadAudit :: "time \<Rightarrow> string \<Rightarrow> TenantAccess \<Rightarrow> int \<Rightarrow> int \<Rightarrow> db \<Rightarrow> db \<times> AuditRecord list res" where
  "ReadAudit now cid a offset limit = readAudit now cid a offset 0 limit False"

definition ReadAuditAfter :: "time \<Rightarrow> string \<Rightarrow> TenantAccess \<Rightarrow> int \<Rightarrow> int \<Rightarrow> db \<Rightarrow> db \<times> AuditRecord list res" where
  "ReadAuditAfter now cid a afterID limit = readAudit now cid a 0 afterID limit True"

subsection \<open>What a run leaves behind\<close>

lemma principalRole_CorrelationID [simp]:
  "principalRole d (a\<lparr>CorrelationID := c\<rparr>) = principalRole d a"
  by (simp add: principalRole_def serviceRole_def split: option.split)

lemma authorize_CorrelationID [simp]:
  "authorize d (a\<lparr>CorrelationID := c\<rparr>) action = authorize d a action"
  by (simp add: authorize_def)

lemma Principal_CorrelationID [simp]: "Principal (a\<lparr>CorrelationID := c\<rparr>) = Principal a"
  by (simp add: Principal_def)

text \<open>An audit row of the caller's own organization, in its bounds.\<close>

definition own_row :: "TenantAccess \<Rightarrow> string \<Rightarrow> string \<Rightarrow> AuditRecord \<Rightarrow> bool" where
  "own_row a name result r \<longleftrightarrow>
    au_user_id r = Principal a \<and> au_action r = name \<and> au_result r = result
    \<and> au_scope r = ''organization'' \<and> au_organization_id r = OrganizationID a
    \<and> au_environment_id r = EnvironmentID a \<and> au_ip_address r = IPAddress a
    \<and> length (au_resource r) \<le> 255 \<and> length (au_details r) \<le> 255"

lemma CleanText_255: "length (CleanText s 255) \<le> 255"
  using CleanText_length [of 255 s] by simp

lemma own_audit_record:
  "length details \<le> 255 \<Longrightarrow>
   own_row a name result (audit_record now (if b then a\<lparr>CorrelationID := c\<rparr> else a) name target details result)"
  by (auto simp: own_row_def audit_record_def CleanText_255)

lemma LogAudit_insert:
  assumes "own_row a name result r" and "result \<noteq> ''''"
  shows "\<exists>r'. LogAudit now r d = insert_audit r' d \<and> own_row a name result r'"
proof -
  have "own_row a name result (r\<lparr>au_resource := CleanText (au_resource r) 255,
      au_scope := (if au_scope r = '''' then ''platform'' else au_scope r),
      au_result := (if au_result r = '''' then ''unknown'' else au_result r),
      au_created_at := (if au_created_at r = zero_time then now else au_created_at r)\<rparr>)"
    using assms unfolding own_row_def by (simp add: CleanText_255)
  then show ?thesis unfolding LogAudit_def by blast
qed

lemma runAs_failure:
  assumes "runAs now cid a action name target lock op d = (d', Inl e)"
  shows "d' = d \<or> (\<exists>r. d' = insert_audit r d
    \<and> own_row a name (if e = ErrForbidden then ''denied'' else ''failure'') r)"
proof -
  let ?a = "if CorrelationID a = '''' then a\<lparr>CorrelationID := cid\<rparr> else a"
  have log: "\<exists>r'. LogAudit now (audit_record now ?a name tg '''' result) d = insert_audit r' d
      \<and> own_row a name result r'" if "result \<noteq> ''''" for tg result
    by (rule LogAudit_insert) (use own_audit_record [of "''''"] that in simp_all)
  from assms show ?thesis
    unfolding runAs_def
    by (auto simp: Let_def split: if_splits sum.splits prod.splits
        dest!: log [of "''denied''"] intro!: disjI2)
      (use log in fastforce)+
qed

lemma runAs_success:
  assumes "runAs now cid a action name target lock op d = (d', Inr x)"
  obtains tg dt d1 role where "op d = ((tg, dt), Inr (d1, x))"
    and "principalRole d a = Inr role" and "Allows role action"
    and "EnvironmentID a = '''' \<or> action = EnvironmentCreate
      \<or> (\<exists>e\<in>set (environments d). env_organization_id e = OrganizationID a \<and> env_id e = EnvironmentID a)"
    and "if \<not> lock \<and> (\<not> auditedReads action \<or> ServiceTokenID a \<noteq> '''') then d' = d1
      else \<exists>r. d' = insert_audit r d1 \<and> own_row a name ''success'' r"
proof -
  let ?a = "if CorrelationID a = '''' then a\<lparr>CorrelationID := cid\<rparr> else a"
  have a [simp]: "principalRole d ?a = principalRole d a" "authorize d ?a action = authorize d a action"
    "ServiceTokenID ?a = ServiceTokenID a" by auto
  from assms obtain tg dt d1 where op: "op d = ((tg, dt), Inr (d1, x))"
    and auth: "authorize d a action = Inr ()"
    and d': "d' = (if \<not> lock \<and> (\<not> auditedReads action \<or> ServiceTokenID a \<noteq> '''') then d1
      else insert_audit (audit_record now ?a name tg (CleanText dt 255) ''success'') d1)"
    unfolding runAs_def by (auto simp: Let_def simp del: a split: if_splits sum.splits prod.splits)
  from auth obtain role where "principalRole d a = Inr role" "Allows role action"
    "EnvironmentID a = '''' \<or> action = EnvironmentCreate
      \<or> (\<exists>e\<in>set (environments d). env_organization_id e = OrganizationID a \<and> env_id e = EnvironmentID a)"
    by (auto simp: authorize_def)
  moreover have "if \<not> lock \<and> (\<not> auditedReads action \<or> ServiceTokenID a \<noteq> '''') then d' = d1
      else \<exists>r. d' = insert_audit r d1 \<and> own_row a name ''success'' r"
  proof (cases "\<not> lock \<and> (\<not> auditedReads action \<or> ServiceTokenID a \<noteq> '''')")
    case False
    with d' have "d' = insert_audit (audit_record now ?a name tg (CleanText dt 255) ''success'') d1"
      by (simp only: if_False)
    moreover have "own_row a name ''success'' (audit_record now ?a name tg (CleanText dt 255) ''success'')"
      by (rule own_audit_record [OF CleanText_255])
    ultimately show ?thesis using False by (simp only: if_False) blast
  qed (simp add: d')
  ultimately show ?thesis by (rule that [OF op])
qed

text \<open>An allowed caller's operation is answered: with its result, after one audit row.\<close>

lemma runAs_answers:
  assumes "ActorID a \<noteq> '''' \<or> ServiceTokenID a \<noteq> ''''" and "OrganizationID a \<noteq> ''''"
    and "authorize d a action = Inr ()" and "snd (op d) = Inr (d1, x)"
  shows "\<exists>r. runAs now cid a action name target True op d = (insert_audit r d1, Inr x)"
proof -
  obtain tg dt where "op d = ((tg, dt), Inr (d1, x))" using assms(4) by (metis prod.collapse)
  moreover have "principalRole d a \<noteq> Inl ErrNoPrincipal" using assms(3) by (auto simp: authorize_def)
  ultimately show ?thesis using assms(1,2,3) by (auto simp: runAs_def Let_def)
qed

lemma withTenant_answers:
  assumes "ActorID a \<noteq> '''' \<or> ServiceTokenID a \<noteq> ''''" and "OrganizationID a \<noteq> ''''"
    and "authorize d a action = Inr ()" and "f d = Inr (d1, x)"
  shows "\<exists>r. withTenant now cid a action f d = (insert_audit r d1, Inr x)"
    and "\<exists>r. withTenantTarget now cid a action target f d = (insert_audit r d1, Inr x)"
  unfolding withTenant_def withTenantTarget_def run_def
  by (rule runAs_answers [OF assms(1-3)]; simp add: keep_def assms(4))+

lemma runAs_no_principal:
  "principalRole d a = Inl ErrNoPrincipal \<Longrightarrow> runAs now cid a action name target lock op d = (d, Inl ErrForbidden)"
  by (simp add: runAs_def)

text \<open>A predicate the operation and an audit row keep is kept by the run.\<close>

lemma runAs_invariant:
  assumes "\<And>d' x. snd (op d) = Inr (d', x) \<Longrightarrow> P d'" and "P d" and "\<And>r d. P d \<Longrightarrow> P (insert_audit r d)"
  shows "P (fst (runAs now cid a action name target lock op d))"
proof (cases "runAs now cid a action name target lock op d")
  case (Pair d' r)
  show ?thesis
  proof (cases r)
    case (Inl e)
    with Pair assms show ?thesis by (auto dest: runAs_failure)
  next
    case (Inr x)
    with Pair assms show ?thesis by (auto elim!: runAs_success split: if_splits)
  qed
qed

lemmas tenant_run_defs = withTenant_def withTenantTarget_def withTenantTargetDetails_def readTenant_def run_def

text \<open>
  A row of the caller's organization is refused to a caller with no role there: the transaction
  never runs, and what is written is at most one row of the caller's own organization.
\<close>

lemma runAs_denied:
  assumes "\<And>role. principalRole d a = Inr role \<Longrightarrow> \<not> Allows role action"
  shows "\<exists>e. snd (runAs now cid a action name target lock op d) = Inl e"
proof (cases "runAs now cid a action name target lock op d")
  case (Pair d' r)
  with assms show ?thesis by (cases r) (auto elim!: runAs_success)
qed

subsection \<open>Organizations do not see each other\<close>

text \<open>The primary keys of the schema.\<close>

definition wf :: "db \<Rightarrow> bool" where
  "wf d \<longleftrightarrow>
    distinct (map u_id (users d)) \<and> distinct (map o_id (organizations d))
    \<and> distinct (map (\<lambda>m. (m_organization_id m, m_user_id m)) (memberships d))
    \<and> distinct (map env_id (environments d)) \<and> distinct (map tk_id (service_tokens d))
    \<and> distinct (map sp_id (pairings d)) \<and> distinct (map sf_id (status_feeds d))
    \<and> distinct (map ep_id (endpoints d)) \<and> distinct (map et_id (enrollment_tokens d))
    \<and> distinct (map (\<lambda>k. (ek_endpoint_id k, ek_fingerprint k)) (endpoint_keys d))
    \<and> distinct (map app_id (applications d)) \<and> distinct (map in_id (instances d))
    \<and> distinct (map d_id (deployments d)) \<and> distinct (map p_id (policies d))
    \<and> distinct (map r_id (policy_runs d)) \<and> distinct (map v_deployment_id (validations d))
    \<and> distinct (map cmd_id (commands d))"

lemma wf_empty: "wf empty_db"
  by (simp add: wf_def empty_db_def)

text \<open>Replacing a table by one with unique keys keeps \<^const>\<open>wf\<close>.\<close>

lemma wf_tables:
  "wf d \<Longrightarrow> distinct (map u_id t1) \<Longrightarrow> wf (d\<lparr>users := t1\<rparr>)"
  "wf d \<Longrightarrow> distinct (map o_id t2) \<Longrightarrow> wf (d\<lparr>organizations := t2\<rparr>)"
  "wf d \<Longrightarrow> distinct (map (\<lambda>m. (m_organization_id m, m_user_id m)) t3) \<Longrightarrow> wf (d\<lparr>memberships := t3\<rparr>)"
  "wf d \<Longrightarrow> distinct (map env_id t4) \<Longrightarrow> wf (d\<lparr>environments := t4\<rparr>)"
  "wf d \<Longrightarrow> distinct (map tk_id t5) \<Longrightarrow> wf (d\<lparr>service_tokens := t5\<rparr>)"
  "wf d \<Longrightarrow> distinct (map sp_id t6) \<Longrightarrow> wf (d\<lparr>pairings := t6\<rparr>)"
  "wf d \<Longrightarrow> distinct (map sf_id t7) \<Longrightarrow> wf (d\<lparr>status_feeds := t7\<rparr>)"
  "wf d \<Longrightarrow> distinct (map ep_id t8) \<Longrightarrow> wf (d\<lparr>endpoints := t8\<rparr>)"
  "wf d \<Longrightarrow> distinct (map et_id t9) \<Longrightarrow> wf (d\<lparr>enrollment_tokens := t9\<rparr>)"
  "wf d \<Longrightarrow> distinct (map (\<lambda>k. (ek_endpoint_id k, ek_fingerprint k)) t10) \<Longrightarrow> wf (d\<lparr>endpoint_keys := t10\<rparr>)"
  "wf d \<Longrightarrow> distinct (map app_id t11) \<Longrightarrow> wf (d\<lparr>applications := t11\<rparr>)"
  "wf d \<Longrightarrow> distinct (map in_id t12) \<Longrightarrow> wf (d\<lparr>instances := t12\<rparr>)"
  "wf d \<Longrightarrow> distinct (map d_id t13) \<Longrightarrow> wf (d\<lparr>deployments := t13\<rparr>)"
  "wf d \<Longrightarrow> distinct (map p_id t14) \<Longrightarrow> wf (d\<lparr>policies := t14\<rparr>)"
  "wf d \<Longrightarrow> distinct (map r_id t15) \<Longrightarrow> wf (d\<lparr>policy_runs := t15\<rparr>)"
  "wf d \<Longrightarrow> distinct (map v_deployment_id t16) \<Longrightarrow> wf (d\<lparr>validations := t16\<rparr>)"
  "wf d \<Longrightarrow> distinct (map cmd_id t17) \<Longrightarrow> wf (d\<lparr>commands := t17\<rparr>)"
  by (simp_all add: wf_def)

lemma wf_other_tables [simp]:
  "wf (d\<lparr>endpoint_events := s1\<rparr>) = wf d"
  "wf (d\<lparr>inventories := s2\<rparr>) = wf d"
  "wf (d\<lparr>capabilities := s3\<rparr>) = wf d"
  "wf (d\<lparr>resources := s4\<rparr>) = wf d"
  "wf (d\<lparr>image_checks := s5\<rparr>) = wf d"
  "wf (d\<lparr>migrations := s6\<rparr>) = wf d"
  "wf (d\<lparr>next_event_id := s7\<rparr>) = wf d"
  by (simp_all add: wf_def)

lemma wf_keys:
  assumes "wf d"
  shows "distinct (map u_id (users d))"
    and "distinct (map o_id (organizations d))"
    and "distinct (map (\<lambda>m. (m_organization_id m, m_user_id m)) (memberships d))"
    and "distinct (map env_id (environments d))"
    and "distinct (map tk_id (service_tokens d))"
    and "distinct (map sp_id (pairings d))"
    and "distinct (map sf_id (status_feeds d))"
    and "distinct (map ep_id (endpoints d))"
    and "distinct (map et_id (enrollment_tokens d))"
    and "distinct (map (\<lambda>k. (ek_endpoint_id k, ek_fingerprint k)) (endpoint_keys d))"
    and "distinct (map app_id (applications d))"
    and "distinct (map in_id (instances d))"
    and "distinct (map d_id (deployments d))"
    and "distinct (map p_id (policies d))"
    and "distinct (map r_id (policy_runs d))"
    and "distinct (map v_deployment_id (validations d))"
    and "distinct (map cmd_id (commands d))"
  using assms by (simp_all add: wf_def)

definition endpoint_in :: "string \<Rightarrow> db \<Rightarrow> string \<Rightarrow> bool" where
  "endpoint_in org d i \<longleftrightarrow> (\<exists>e\<in>set (endpoints d). ep_id e = i \<and> ep_organization_id e = org)"

definition instance_in :: "string \<Rightarrow> db \<Rightarrow> string \<Rightarrow> bool" where
  "instance_in org d i \<longleftrightarrow> (\<exists>e\<in>set (instances d). in_id e = i \<and> in_organization_id e = org)"

text \<open>
  What belongs to one organization: its rows of every table, and of the tables without an
  organization column the rows of its endpoints and instances. Counters of identities are not
  part of it, the users of the platform are.
\<close>

definition org_view :: "string \<Rightarrow> db \<Rightarrow> db" where
  "org_view org d = d\<lparr>
    organizations := filter (\<lambda>r. o_id r = org) (organizations d),
    memberships := filter (\<lambda>r. m_organization_id r = org) (memberships d),
    environments := filter (\<lambda>r. env_organization_id r = org) (environments d),
    audit := map (\<lambda>r. r\<lparr>au_id := 0\<rparr>) (filter (\<lambda>r. au_organization_id r = org) (audit d)),
    service_tokens := filter (\<lambda>r. tk_organization_id r = org) (service_tokens d),
    pairings := filter (\<lambda>r. sp_organization_id r = org) (pairings d),
    status_feeds := filter (\<lambda>r. sf_organization_id r = org) (status_feeds d),
    endpoints := filter (\<lambda>r. ep_organization_id r = org) (endpoints d),
    endpoint_keys := filter (\<lambda>r. endpoint_in org d (ek_endpoint_id r)) (endpoint_keys d),
    enrollment_tokens := filter (\<lambda>r. et_organization_id r = org) (enrollment_tokens d),
    endpoint_events := map (\<lambda>r. r\<lparr>ev_id := 0\<rparr>) (filter (\<lambda>r. endpoint_in org d (ev_endpoint_id r)) (endpoint_events d)),
    inventories := filter (\<lambda>r. endpoint_in org d (iv_endpoint_id r)) (inventories d),
    capabilities := filter (\<lambda>r. endpoint_in org d (cap_endpoint_id r)) (capabilities d),
    commands := filter (\<lambda>r. endpoint_in org d (cmd_endpoint_id r)) (commands d),
    applications := filter (\<lambda>r. app_organization_id r = org) (applications d),
    instances := filter (\<lambda>r. in_organization_id r = org) (instances d),
    resources := filter (\<lambda>r. instance_in org d (re_instance_id r)) (resources d),
    image_checks := filter (\<lambda>r. instance_in org d (ic_instance_id r)) (image_checks d),
    migrations := filter (\<lambda>r. mg_organization_id r = org) (migrations d),
    deployments := filter (\<lambda>r. d_organization_id r = org) (deployments d),
    policies := filter (\<lambda>r. p_organization_id r = org) (policies d),
    policy_runs := filter (\<lambda>r. r_organization_id r = org) (policy_runs d),
    validations := filter (\<lambda>r. v_organization_id r = org) (validations d),
    next_audit_id := 0, next_event_id := 0\<rparr>"

lemma filter_update_where_other [table_simps]:
  "\<forall>r\<in>set t. P r \<longrightarrow> \<not> Q r \<and> \<not> Q (f r) \<Longrightarrow> filter Q (update_where P f t) = filter Q t"
  by (induction t) auto

lemma filter_delete_where_other [table_simps]:
  "\<forall>r\<in>set t. P r \<longrightarrow> \<not> Q r \<Longrightarrow> filter Q (delete_where P t) = filter Q t"
  by (induction t) auto

lemma filter_cong_in: "(\<And>r. r \<in> set t \<Longrightarrow> P r = Q r) \<Longrightarrow> filter P t = filter Q t"
  by (rule filter_cong) auto

text \<open>Replacing one table keeps the view when it keeps the organization's rows of that table.\<close>

lemma endpoint_in_filter:
  "endpoint_in org d i \<longleftrightarrow> (\<exists>e\<in>set (filter (\<lambda>r. ep_organization_id r = org) (endpoints d)). ep_id e = i)"
  by (auto simp: endpoint_in_def)

lemma instance_in_filter:
  "instance_in org d i \<longleftrightarrow> (\<exists>e\<in>set (filter (\<lambda>r. in_organization_id r = org) (instances d)). in_id e = i)"
  by (auto simp: instance_in_def)

lemma view_tables:
  "filter (\<lambda>r. o_id r = org) t1 = filter (\<lambda>r. o_id r = org) (organizations d) \<Longrightarrow>
    org_view org (d\<lparr>organizations := t1\<rparr>) = org_view org d"
  "filter (\<lambda>r. m_organization_id r = org) t2 = filter (\<lambda>r. m_organization_id r = org) (memberships d) \<Longrightarrow>
    org_view org (d\<lparr>memberships := t2\<rparr>) = org_view org d"
  "filter (\<lambda>r. env_organization_id r = org) t3 = filter (\<lambda>r. env_organization_id r = org) (environments d) \<Longrightarrow>
    org_view org (d\<lparr>environments := t3\<rparr>) = org_view org d"
  "filter (\<lambda>r. tk_organization_id r = org) t4 = filter (\<lambda>r. tk_organization_id r = org) (service_tokens d) \<Longrightarrow>
    org_view org (d\<lparr>service_tokens := t4\<rparr>) = org_view org d"
  "filter (\<lambda>r. sp_organization_id r = org) t5 = filter (\<lambda>r. sp_organization_id r = org) (pairings d) \<Longrightarrow>
    org_view org (d\<lparr>pairings := t5\<rparr>) = org_view org d"
  "filter (\<lambda>r. sf_organization_id r = org) t6 = filter (\<lambda>r. sf_organization_id r = org) (status_feeds d) \<Longrightarrow>
    org_view org (d\<lparr>status_feeds := t6\<rparr>) = org_view org d"
  "filter (\<lambda>r. ep_organization_id r = org) t7 = filter (\<lambda>r. ep_organization_id r = org) (endpoints d) \<Longrightarrow>
    org_view org (d\<lparr>endpoints := t7\<rparr>) = org_view org d"
  "filter (\<lambda>r. endpoint_in org d (ek_endpoint_id r)) t8 = filter (\<lambda>r. endpoint_in org d (ek_endpoint_id r)) (endpoint_keys d) \<Longrightarrow>
    org_view org (d\<lparr>endpoint_keys := t8\<rparr>) = org_view org d"
  "filter (\<lambda>r. et_organization_id r = org) t9 = filter (\<lambda>r. et_organization_id r = org) (enrollment_tokens d) \<Longrightarrow>
    org_view org (d\<lparr>enrollment_tokens := t9\<rparr>) = org_view org d"
  "filter (\<lambda>r. endpoint_in org d (ev_endpoint_id r)) t10 = filter (\<lambda>r. endpoint_in org d (ev_endpoint_id r)) (endpoint_events d) \<Longrightarrow>
    org_view org (d\<lparr>endpoint_events := t10\<rparr>) = org_view org d"
  "filter (\<lambda>r. endpoint_in org d (iv_endpoint_id r)) t11 = filter (\<lambda>r. endpoint_in org d (iv_endpoint_id r)) (inventories d) \<Longrightarrow>
    org_view org (d\<lparr>inventories := t11\<rparr>) = org_view org d"
  "filter (\<lambda>r. endpoint_in org d (cap_endpoint_id r)) t12 = filter (\<lambda>r. endpoint_in org d (cap_endpoint_id r)) (capabilities d) \<Longrightarrow>
    org_view org (d\<lparr>capabilities := t12\<rparr>) = org_view org d"
  "filter (\<lambda>r. endpoint_in org d (cmd_endpoint_id r)) t13 = filter (\<lambda>r. endpoint_in org d (cmd_endpoint_id r)) (commands d) \<Longrightarrow>
    org_view org (d\<lparr>commands := t13\<rparr>) = org_view org d"
  by (simp_all add: org_view_def endpoint_in_filter instance_in_filter)

lemma view_tables_app:
  "filter (\<lambda>r. app_organization_id r = org) t1 = filter (\<lambda>r. app_organization_id r = org) (applications d) \<Longrightarrow>
    org_view org (d\<lparr>applications := t1\<rparr>) = org_view org d"
  "filter (\<lambda>r. in_organization_id r = org) t2 = filter (\<lambda>r. in_organization_id r = org) (instances d) \<Longrightarrow>
    org_view org (d\<lparr>instances := t2\<rparr>) = org_view org d"
  "filter (\<lambda>r. instance_in org d (re_instance_id r)) t3 = filter (\<lambda>r. instance_in org d (re_instance_id r)) (resources d) \<Longrightarrow>
    org_view org (d\<lparr>resources := t3\<rparr>) = org_view org d"
  "filter (\<lambda>r. instance_in org d (ic_instance_id r)) t4 = filter (\<lambda>r. instance_in org d (ic_instance_id r)) (image_checks d) \<Longrightarrow>
    org_view org (d\<lparr>image_checks := t4\<rparr>) = org_view org d"
  "filter (\<lambda>r. d_organization_id r = org) t5 = filter (\<lambda>r. d_organization_id r = org) (deployments d) \<Longrightarrow>
    org_view org (d\<lparr>deployments := t5\<rparr>) = org_view org d"
  "filter (\<lambda>r. p_organization_id r = org) t6 = filter (\<lambda>r. p_organization_id r = org) (policies d) \<Longrightarrow>
    org_view org (d\<lparr>policies := t6\<rparr>) = org_view org d"
  "filter (\<lambda>r. r_organization_id r = org) t7 = filter (\<lambda>r. r_organization_id r = org) (policy_runs d) \<Longrightarrow>
    org_view org (d\<lparr>policy_runs := t7\<rparr>) = org_view org d"
  "filter (\<lambda>r. v_organization_id r = org) t8 = filter (\<lambda>r. v_organization_id r = org) (validations d) \<Longrightarrow>
    org_view org (d\<lparr>validations := t8\<rparr>) = org_view org d"
  "org_view org (d\<lparr>next_event_id := n\<rparr>) = org_view org d"
  by (simp_all add: org_view_def endpoint_in_filter instance_in_filter)

lemma org_view_audit [audit_simps]:
  "au_organization_id r \<noteq> org \<Longrightarrow> org_view org (insert_audit r d) = org_view org d"
  by (simp add: org_view_def insert_audit_def endpoint_in_def instance_in_def)

lemma wf_audit [simp]: "wf (insert_audit r d) = wf d"
  by (simp add: wf_def insert_audit_def)

text \<open>
  The contract of an operation of one organization: in a database with unique keys it keeps the
  keys unique and touches no row of another organization. Running it under \<^const>\<open>runAs\<close> keeps both.
\<close>

locale tenant_op =
  fixes a :: TenantAccess and op :: "'a op"
  assumes op_wf: "snd (op d) = Inr (d', x) \<Longrightarrow> wf d \<Longrightarrow> wf d'"
    and op_isolated: "snd (op d) = Inr (d', x) \<Longrightarrow> wf d \<Longrightarrow> OrganizationID a \<noteq> org \<Longrightarrow>
      org_view org d' = org_view org d"
begin

lemma runAs_keeps:
  assumes "wf d"
  shows "wf (fst (runAs now cid a action name target lock op d))"
    and "OrganizationID a \<noteq> org \<Longrightarrow>
      org_view org (fst (runAs now cid a action name target lock op d)) = org_view org d"
proof -
  obtain d' r where run: "runAs now cid a action name target lock op d = (d', r)" by fastforce
  have "wf d' \<and> (OrganizationID a \<noteq> org \<longrightarrow> org_view org d' = org_view org d)"
  proof (cases r)
    case (Inl e)
    from runAs_failure [OF run [unfolded Inl]] assms show ?thesis
      by (auto simp: own_row_def org_view_audit)
  next
    case (Inr x)
    from run Inr obtain tg dt d1 where "op d = ((tg, dt), Inr (d1, x))"
      and d': "d' = d1 \<or> (\<exists>r. d' = insert_audit r d1 \<and> own_row a name ''success'' r)"
      by (auto elim!: runAs_success split: if_splits)
    with op_wf [of d d1 x] op_isolated [of d d1 x org] assms
    have "wf d1 \<and> (OrganizationID a \<noteq> org \<longrightarrow> org_view org d1 = org_view org d)" by simp
    with d' show ?thesis by (auto simp: own_row_def org_view_audit)
  qed
  with run show "wf (fst (runAs now cid a action name target lock op d))"
    and "OrganizationID a \<noteq> org \<Longrightarrow>
      org_view org (fst (runAs now cid a action name target lock op d)) = org_view org d" by auto
qed

end

lemma snd_keep [simp]: "snd (keep target details f d) = f d"
  by (simp add: keep_def)



text \<open>The environments and the reads meet the contract.\<close>

interpretation read_op: tenant_op a "keep t s (\<lambda>d. and_then (f d) (\<lambda>x. Inr (d, x)))" for a t s f
  by unfold_locales auto

interpretation add_environment: tenant_op a "keep t s (add_environment a name)" for a t s name
  by unfold_locales
    (auto simp: add_environment_def Let_def wf_def view_tables environment_clash_def split: if_splits)

lemma update_environment_Inr:
  "update_environment a name d = Inr (d', x) \<Longrightarrow>
   d' = d\<lparr>environments := update_where (\<lambda>e. env_organization_id e = OrganizationID a \<and> env_id e = EnvironmentID a)
     (\<lambda>e. e\<lparr>env_name := TrimSpace name\<rparr>) (environments d)\<rparr>"
  by (auto simp: update_environment_def Let_def split: if_splits)

interpretation update_environment: tenant_op a "keep t s (update_environment a name)" for a t s name
  by unfold_locales
    (auto dest!: update_environment_Inr simp: wf_def view_tables update_where_keys filter_update_where_other)

lemma distinct_ids_same:
  "distinct (map k t) \<Longrightarrow> x \<in> set t \<Longrightarrow> y \<in> set t \<Longrightarrow> k x = k y \<Longrightarrow> g x = g y"
  using distinct_map_eq by metis

lemma delete_endpoints_wf: "wf d \<Longrightarrow> wf (delete_endpoints P d)"
  by (simp add: delete_endpoints_def Let_def wf_def delete_where_distinct)

lemma wf_endpoint_eq:
  "wf d \<Longrightarrow> x \<in> set (endpoints d) \<Longrightarrow> y \<in> set (endpoints d) \<Longrightarrow> ep_id x = ep_id y \<Longrightarrow> x = y"
  using distinct_map_eq [of ep_id "endpoints d"] by (simp add: wf_def)

lemma endpoint_children_other:
  assumes "wf d" and "\<And>e. P e \<Longrightarrow> ep_organization_id e \<noteq> org"
  shows "filter (\<lambda>r. endpoint_in org d (k r)) (delete_where (\<lambda>r. \<exists>e\<in>set (endpoints d). P e \<and> ep_id e = k r) t)
    = filter (\<lambda>r. endpoint_in org d (k r)) t"
proof (intro filter_delete_where_other ballI impI)
  fix r
  assume "\<exists>e\<in>set (endpoints d). P e \<and> ep_id e = k r"
  then show "\<not> endpoint_in org d (k r)"
    using assms(2) wf_endpoint_eq [OF assms(1)] unfolding endpoint_in_def by metis
qed

lemma delete_endpoints_isolated:
  assumes "wf d" and "\<And>e. P e \<Longrightarrow> ep_organization_id e \<noteq> org"
  shows "org_view org (delete_endpoints P d) = org_view org d"
proof -
  have eps: "filter (\<lambda>r. ep_organization_id r = org) (delete_where P (endpoints d))
      = filter (\<lambda>r. ep_organization_id r = org) (endpoints d)"
    using assms(2) by (auto intro: filter_delete_where_other)
  have inside: "endpoint_in org (delete_endpoints P d) i = endpoint_in org d i" for i
    using assms(2) by (auto simp: endpoint_in_def delete_endpoints_def Let_def)
  show ?thesis
    unfolding org_view_def inside
    by (simp add: instance_in_def delete_endpoints_def Let_def eps endpoint_children_other [OF assms])
qed

interpretation remove_environment: tenant_op a "keep t s (remove_environment a)" for a t s
proof unfold_locales
  fix d d' x org
  assume "snd (keep t s (remove_environment a) d) = Inr (d', x)" and wf: "wf d"
  then obtain E where d': "d' = (delete_endpoints E d)\<lparr>
      environments := delete_where (\<lambda>e. env_organization_id e = OrganizationID a \<and> env_id e = EnvironmentID a)
        (environments (delete_endpoints E d)),
      enrollment_tokens := delete_where (\<lambda>t. et_organization_id t = OrganizationID a
        \<and> et_environment_id t = EnvironmentID a) (enrollment_tokens (delete_endpoints E d))\<rparr>"
    and E: "\<And>e. E e \<Longrightarrow> ep_organization_id e = OrganizationID a"
    by (auto simp: remove_environment_def Let_def split: if_splits)
  from delete_endpoints_wf [OF wf] show "wf d'" by (simp add: d' wf_def delete_where_distinct)
  assume "OrganizationID a \<noteq> org"
  with delete_endpoints_isolated [OF wf, of E org] E show "org_view org d' = org_view org d"
    by (auto simp: d' view_tables filter_delete_where_other)
qed

lemma runAs_locked_failure:
  assumes "runAs now cid a action name target True op d = (d', Inl e)" and "d' = d"
  shows "e = ErrForbidden \<and> ((ActorID a = '''' \<and> ServiceTokenID a = '''') \<or> OrganizationID a = ''''
    \<or> principalRole d a = Inl ErrNoPrincipal)"
proof -
  have "next_audit_id (insert_audit r d) \<noteq> next_audit_id d" for r
    by (simp add: insert_audit_def)
  then have "insert_audit r d \<noteq> d" for r by metis
  then have "LogAudit now r d \<noteq> d" for r by (simp add: LogAudit_def)
  with assms show ?thesis
    unfolding runAs_def by (auto simp: Let_def split: if_splits sum.splits prod.splits)
qed

text \<open>
  C1. A mutation and its audit row are one: when a locked run answers, the caller held a live role
  that the permission matrix allows the action, the operation's writes are committed, and exactly
  one success row of the caller and their organization was appended after them. When it fails
  nothing but the audit trail changed, by exactly one denied or failure row of the caller's own
  organization; only a caller with no principal row there (a non-member, an unknown or foreign
  token) leaves no row at all, so nobody can write into another organization's history. Every
  row's resource and details fit 255 bytes.
\<close>

theorem tenant_run_audited:
  "case runAs now cid a action name target True op d of
     (d', Inr x) \<Rightarrow> \<exists>role d1 r. principalRole d a = Inr role \<and> Allows role action
       \<and> snd (op d) = Inr (d1, x) \<and> d' = insert_audit r d1 \<and> own_row a name ''success'' r
   | (d', Inl e) \<Rightarrow>
       if (ActorID a = '''' \<and> ServiceTokenID a = '''') \<or> OrganizationID a = '''' \<or> principalRole d a = Inl ErrNoPrincipal
       then d' = d \<and> e = ErrForbidden
       else \<exists>r. d' = insert_audit r d \<and> own_row a name (if e = ErrForbidden then ''denied'' else ''failure'') r"
proof -
  obtain d' res where run: "runAs now cid a action name target True op d = (d', res)" by fastforce
  show ?thesis
  proof (cases res)
    case (Inr x)
    with run have "runAs now cid a action name target True op d = (d', Inr x)" by simp
    then show ?thesis by (elim runAs_success) (auto simp: run Inr)
  next
    case (Inl e)
    with run have run': "runAs now cid a action name target True op d = (d', Inl e)" by simp
    show ?thesis
    proof (cases "(ActorID a = '''' \<and> ServiceTokenID a = '''') \<or> OrganizationID a = '''' \<or> principalRole d a = Inl ErrNoPrincipal")
      case True
      then have "runAs now cid a action name target True op d = (d, Inl ErrForbidden)"
        by (auto simp: runAs_def)
      with run' True show ?thesis by simp
    next
      case False
      with runAs_locked_failure [OF run'] have "d' \<noteq> d" by blast
      with runAs_failure [OF run'] False show ?thesis by (simp add: run' if_not_P [OF False])
    qed
  qed
qed

end
