(* ===== verification/Members.thy ===== *)
theory Members
  imports Access
begin

text \<open>
  Organizations and who administers them: \<^verbatim>\<open>internal/store/tenancy.go\<close>,
  \<^verbatim>\<open>internal/store/tenant_members.go\<close> and the account writes of \<^verbatim>\<open>internal/store/sqlstore.go\<close>
  that can take an organization's last administrator away. The contract is that a local change
  never does, and that whoever loses the administrator role loses the credentials they created.

  \<open>fresh n\<close> is the UUID drawn for the audit row \<open>n\<close>; \<open>pg\<close> says whether the driver is PostgreSQL,
  which locks the organization row where SQLite already holds its single writer lock. A SELECT
  without ORDER BY is read in insertion order.
\<close>

subsection \<open>Organizations and memberships\<close>

definition RoleOrganizationAdmin :: string where "RoleOrganizationAdmin = ''organization_admin''"
definition InitialOrganizationID :: string where "InitialOrganizationID = ''org_initial''"

definition validTenantRole :: "string \<Rightarrow> bool" where
  "validTenantRole role \<longleftrightarrow> role \<in>
    {RoleOrganizationAdmin, ''environment_admin'', ''operator'', ''developer'', ''read_only''}"

text \<open>A membership joined with its account, both active, in the administrator role.\<close>

definition admin_membership :: "db \<Rightarrow> string \<Rightarrow> OrganizationMembership \<Rightarrow> bool" where
  "admin_membership d org m \<longleftrightarrow>
    m_organization_id m = org \<and> m_role m = RoleOrganizationAdmin \<and> m_status m = ''active''
    \<and> (\<exists>u\<in>set (users d). u_id u = m_user_id m \<and> u_status u = ''active'')"

definition requireActiveAdmin :: "db \<Rightarrow> string \<Rightarrow> unit res" where
  "requireActiveAdmin d org =
    require (count_where (admin_membership d org) (memberships d) \<noteq> 0) ErrLastAdmin"

definition lockOrganization :: "bool \<Rightarrow> db \<Rightarrow> string \<Rightarrow> unit res" where
  "lockOrganization pg d org =
    (if \<not> pg then Inr () else require (\<exists>o'\<in>set (organizations d). o_id o' = org) ErrForbidden)"

text \<open>The upsert of \<^verbatim>\<open>ON CONFLICT (organization_id,user_id) DO UPDATE\<close>.\<close>

definition upsert_membership :: "OrganizationMembership \<Rightarrow> OrganizationMembership table \<Rightarrow> OrganizationMembership table" where
  "upsert_membership m t =
    (let same = (\<lambda>x. m_organization_id x = m_organization_id m \<and> m_user_id x = m_user_id m) in
     if \<exists>x\<in>set t. same x
     then update_where same (\<lambda>x. x\<lparr>m_role := m_role m, m_status := m_status m\<rparr>) t
     else t @ [m])"

definition organization_clash :: "Organization \<Rightarrow> Organization \<Rightarrow> bool" where
  "organization_clash r x \<longleftrightarrow> o_id r = o_id x \<or> o_name r = o_name x"

definition membership_clash :: "OrganizationMembership \<Rightarrow> OrganizationMembership \<Rightarrow> bool" where
  "membership_clash r x \<longleftrightarrow> m_organization_id r = m_organization_id x \<and> m_user_id r = m_user_id x"

definition Initialize :: "time \<Rightarrow> string \<Rightarrow> db \<Rightarrow> db res" where
  "Initialize now cid d =
    (if tenancy_bootstrap d \<noteq> None then Inr d
     else if users d = [] then Inl ErrNoBootstrapAccount
     else
      let candidates = sort_key (\<lambda>u. (if u_username u = ''admin'' then 0 else 1 :: nat, u_created_at u, u_id u))
            (filter (\<lambda>u. u_role u = ''admin'' \<and> u_status u = ''active'' \<and> u_sso_provider u = ''local'') (users d));
          userID = (case candidates of [] \<Rightarrow> '''' | u # _ \<Rightarrow> u_id u);
          row = \<lparr>au_id = 0, au_user_id = userID, au_action = ''organization.bootstrap'',
            au_resource = InitialOrganizationID,
            au_details = ''One-time initial organization membership migration'', au_ip_address = '''',
            au_created_at = now, au_scope = ''organization'', au_organization_id = InitialOrganizationID,
            au_environment_id = '''', au_correlation_id = cid, au_result = ''success''\<rparr>
      in and_then
          (if candidates = [] then Inr (memberships d)
           else insert_row membership_clash \<lparr>m_organization_id = InitialOrganizationID, m_user_id = userID,
                  m_role = RoleOrganizationAdmin, m_status = ''active''\<rparr> (memberships d))
          (\<lambda>t. Inr (insert_audit row (d\<lparr>tenancy_bootstrap := Some now, memberships := t\<rparr>))))"

definition CreateOrganization :: "time \<Rightarrow> string \<Rightarrow> string \<Rightarrow> db \<Rightarrow> db res" where
  "CreateOrganization now oid name d =
    and_then (insert_row organization_clash \<lparr>o_id = oid, o_name = name, o_created_at = now\<rparr> (organizations d))
      (\<lambda>t. Inr (d\<lparr>organizations := t\<rparr>))"

definition CreateOrganizationWithAdmin :: "time \<Rightarrow> string \<Rightarrow> string \<Rightarrow> string \<Rightarrow> db \<Rightarrow> db res" where
  "CreateOrganizationWithAdmin now oid name adminUserID d =
    and_then (row_or ErrNotFound (List.find (\<lambda>u. u_id u = adminUserID) (users d))) (\<lambda>u.
    if u_status u \<noteq> ''active'' then Inl ErrInvalid
    else if \<exists>o'\<in>set (organizations d). o_name o' = name then Inl ErrAlreadyExists
    else
      and_then (insert_row organization_clash \<lparr>o_id = oid, o_name = name, o_created_at = now\<rparr> (organizations d)) (\<lambda>os.
      and_then (insert_row membership_clash \<lparr>m_organization_id = oid, m_user_id = adminUserID,
          m_role = RoleOrganizationAdmin, m_status = ''active''\<rparr> (memberships d)) (\<lambda>ms.
      Inr (d\<lparr>organizations := os, memberships := ms\<rparr>))))"

definition ListOrganizations :: "db \<Rightarrow> (Organization \<times> nat) list" where
  "ListOrganizations d =
    map (\<lambda>r. (r, count_where (\<lambda>m. m_organization_id m = o_id r \<and> m_status m = ''active'') (memberships d)))
      (sort_key (\<lambda>r. (o_name r, o_id r)) (organizations d))"

definition GetOrganization :: "string \<Rightarrow> db \<Rightarrow> Organization res" where
  "GetOrganization i d = row_or ErrNotFound (List.find (\<lambda>r. o_id r = i) (organizations d))"

definition SetMembership :: "OrganizationMembership \<Rightarrow> db \<Rightarrow> db" where
  "SetMembership m d = d\<lparr>memberships := upsert_membership m (memberships d)\<rparr>"

definition GetMembership :: "string \<Rightarrow> string \<Rightarrow> db \<Rightarrow> OrganizationMembership res" where
  "GetMembership org user d =
    row_or ErrNotFound (List.find (\<lambda>m. m_organization_id m = org \<and> m_user_id m = user) (memberships d))"

text \<open>A membership joined with its account, and a caller's own organizations.\<close>

record OrganizationMember =
  om_user_id :: string
  om_username :: string
  om_role :: string
  om_status :: string

definition ListMembers :: "time \<Rightarrow> string \<Rightarrow> TenantAccess \<Rightarrow> int \<Rightarrow> int \<Rightarrow> db \<Rightarrow> db \<times> OrganizationMember list res" where
  "ListMembers now cid a offset limit =
    readTenant now cid a MembersManage (\<lambda>d.
      if offset < 0 \<or> limit < 1 \<or> limit > 200 then Inl ErrInvalid
      else Inr (page offset limit (sort_key (\<lambda>m. (om_username m, om_user_id m))
        (concat (map (\<lambda>m. map (\<lambda>u. \<lparr>om_user_id = m_user_id m, om_username = u_username u,
              om_role = m_role m, om_status = m_status m\<rparr>)
            (filter (\<lambda>u. u_id u = m_user_id m) (users d)))
          (filter (\<lambda>m. m_organization_id m = OrganizationID a) (memberships d)))))))"

definition ListMemberOrganizations :: "string \<Rightarrow> db \<Rightarrow> (string \<times> string \<times> string) list" where
  "ListMemberOrganizations user d =
    sort_key (\<lambda>(i, name, role). (name, i))
      (concat (map (\<lambda>m. map (\<lambda>r. (o_id r, o_name r, m_role m))
          (filter (\<lambda>r. o_id r = m_organization_id m) (organizations d)))
        (filter (\<lambda>m. m_user_id m = user \<and> m_status m = ''active'') (memberships d))))"

subsection \<open>Credentials of a lost administrator\<close>

definition AuditStatusFeedRevoke :: string where "AuditStatusFeedRevoke = ''status_feed.revoke''"

definition revocation_row :: "time \<Rightarrow> (nat \<Rightarrow> string) \<Rightarrow> string \<Rightarrow> string \<Rightarrow> string \<Rightarrow> string \<Rightarrow> string \<Rightarrow> db \<Rightarrow> AuditRecord" where
  "revocation_row now fresh org actor action details i d =
    \<lparr>au_id = 0, au_user_id = actor, au_action = action, au_resource = i, au_details = details,
     au_ip_address = '''', au_created_at = now, au_scope = ''organization'', au_organization_id = org,
     au_environment_id = '''', au_correlation_id = fresh (next_audit_id d), au_result = ''success''\<rparr>"

definition revoke_one :: "(string \<Rightarrow> db \<Rightarrow> db) \<Rightarrow> (string \<Rightarrow> db \<Rightarrow> AuditRecord) \<Rightarrow> string \<Rightarrow> db \<Rightarrow> db" where
  "revoke_one wr row i d = (let d' = wr i d in insert_audit (row i d') d')"

definition revoke_token :: "time \<Rightarrow> string \<Rightarrow> string \<Rightarrow> db \<Rightarrow> db" where
  "revoke_token now actor i d = d\<lparr>service_tokens :=
    update_where (\<lambda>t. tk_id t = i \<and> tk_revoked_at t = None)
      (\<lambda>t. t\<lparr>tk_revoked_at := Some now, tk_revoked_by := actor\<rparr>) (service_tokens d)\<rparr>"

definition revoke_feed :: "time \<Rightarrow> string \<Rightarrow> string \<Rightarrow> db \<Rightarrow> db" where
  "revoke_feed now actor i d = d\<lparr>status_feeds :=
    update_where (\<lambda>t. sf_id t = i \<and> sf_revoked_at t = None)
      (\<lambda>t. t\<lparr>sf_revoked_at := Some now, sf_revoked_by := actor\<rparr>) (status_feeds d)\<rparr>"

definition delete_pairing :: "string \<Rightarrow> db \<Rightarrow> db" where
  "delete_pairing i d = d\<lparr>pairings :=
    delete_where (\<lambda>p. sp_id p = i \<and> sp_consumed_at p = None) (pairings d)\<rparr>"

definition live_token_of :: "string \<Rightarrow> string \<Rightarrow> ServiceToken \<Rightarrow> bool" where
  "live_token_of org user t \<longleftrightarrow> tk_organization_id t = org \<and> tk_created_by t = user
    \<and> tk_scope t \<noteq> ScopePulse \<and> tk_revoked_at t = None"

definition live_feed_of :: "string \<Rightarrow> string \<Rightarrow> StatusFeed \<Rightarrow> bool" where
  "live_feed_of org user t \<longleftrightarrow> sf_organization_id t = org \<and> sf_created_by t = user \<and> sf_revoked_at t = None"

definition unclaimed_pairing_of :: "string \<Rightarrow> string \<Rightarrow> ServicePairing \<Rightarrow> bool" where
  "unclaimed_pairing_of org user p \<longleftrightarrow> sp_organization_id p = org \<and> sp_created_by p = user \<and> sp_consumed_at p = None"

definition revokeLostAdminCredentials :: "time \<Rightarrow> (nat \<Rightarrow> string) \<Rightarrow> string \<Rightarrow> string \<Rightarrow> string \<Rightarrow> db \<Rightarrow> db" where
  "revokeLostAdminCredentials now fresh org userID actor d =
    (if count_where (\<lambda>m. admin_membership d org m \<and> m_user_id m = userID) (memberships d) > 0 then d
     else
      let details = ''revoked: creator '' @ userID @ '' is no longer an organization administrator'';
          row = (\<lambda>action. revocation_row now fresh org actor action details);
          d1 = fold (revoke_one (revoke_token now actor) (row (action_name AgentTokensManage)))
                 (map tk_id (filter (live_token_of org userID) (service_tokens d))) d;
          d2 = fold (revoke_one (revoke_feed now actor) (row AuditStatusFeedRevoke))
                 (map sf_id (filter (live_feed_of org userID) (status_feeds d1))) d1
      in fold (revoke_one delete_pairing (row (action_name ServiceTokensManage)))
           (map sp_id (filter (unclaimed_pairing_of org userID) (pairings d2))) d2)"

subsection \<open>Changing a membership\<close>

definition user_visible :: "db \<Rightarrow> string \<Rightarrow> string \<Rightarrow> bool" where
  "user_visible d actor userID \<longleftrightarrow>
    (\<exists>u\<in>set (users d). u_id u = userID)
    \<and> ((\<exists>p\<in>set (users d). u_id p = actor \<and> u_role p = ''admin'')
       \<or> (\<exists>o'\<in>set (memberships d). \<exists>m\<in>set (memberships d). m_organization_id m = m_organization_id o'
            \<and> m_user_id o' = userID \<and> m_user_id m = actor \<and> m_status m = ''active''))"

definition put_membership :: "time \<Rightarrow> (nat \<Rightarrow> string) \<Rightarrow> bool \<Rightarrow> TenantAccess \<Rightarrow> string \<Rightarrow> string \<Rightarrow> string \<Rightarrow> db \<Rightarrow> (db \<times> unit) res" where
  "put_membership now fresh pg a userID role status d =
    (if userID = '''' \<or> length userID > 64 \<or> \<not> validTenantRole role \<or> (status \<noteq> ''active'' \<and> status \<noteq> ''disabled'')
     then Inl ErrInvalid
     else
      and_then (lockOrganization pg d (OrganizationID a)) (\<lambda>_.
      and_then (require (user_visible d (ActorID a) userID) ErrNotFound) (\<lambda>_.
      let d1 = d\<lparr>memberships := upsert_membership \<lparr>m_organization_id = OrganizationID a, m_user_id = userID,
                   m_role = role, m_status = status\<rparr> (memberships d)\<rparr>;
          d2 = revokeLostAdminCredentials now fresh (OrganizationID a) userID (Principal a) d1
      in and_then (requireActiveAdmin d2 (OrganizationID a)) (\<lambda>_. Inr (d2, ())))))"

definition PutMembership :: "time \<Rightarrow> string \<Rightarrow> (nat \<Rightarrow> string) \<Rightarrow> bool \<Rightarrow> TenantAccess \<Rightarrow> string \<Rightarrow> string \<Rightarrow> string \<Rightarrow> db \<Rightarrow> db \<times> unit res" where
  "PutMembership now cid fresh pg a userID role status =
    withTenantTarget now cid a MembersManage userID (put_membership now fresh pg a userID role status)"

definition remove_membership :: "time \<Rightarrow> (nat \<Rightarrow> string) \<Rightarrow> bool \<Rightarrow> TenantAccess \<Rightarrow> string \<Rightarrow> db \<Rightarrow> (db \<times> unit) res" where
  "remove_membership now fresh pg a userID d =
    and_then (lockOrganization pg d (OrganizationID a)) (\<lambda>_.
    let P = (\<lambda>m. m_organization_id m = OrganizationID a \<and> m_user_id m = userID) in
    and_then (tenantChangeResult (count_where P (memberships d))) (\<lambda>_.
    let d1 = d\<lparr>memberships := delete_where P (memberships d)\<rparr>;
        d2 = revokeLostAdminCredentials now fresh (OrganizationID a) userID (Principal a) d1
    in and_then (requireActiveAdmin d2 (OrganizationID a)) (\<lambda>_. Inr (d2, ()))))"

definition RemoveMembership :: "time \<Rightarrow> string \<Rightarrow> (nat \<Rightarrow> string) \<Rightarrow> bool \<Rightarrow> TenantAccess \<Rightarrow> string \<Rightarrow> db \<Rightarrow> db \<times> unit res" where
  "RemoveMembership now cid fresh pg a userID =
    withTenantTarget now cid a MembersManage userID (remove_membership now fresh pg a userID)"

subsection \<open>Account writes and the administrators they take away\<close>

definition installer_owned :: "db \<Rightarrow> string \<Rightarrow> bool" where
  "installer_owned d i \<longleftrightarrow> (\<exists>s\<in>set (server_settings d). fst s = ''installer.user.'' @ i)"

text \<open>Deleting an account takes its memberships with it.\<close>

definition deleteRow :: "string \<Rightarrow> db \<Rightarrow> (db \<times> nat) res" where
  "deleteRow i d =
    (if installer_owned d i then Inr (d, 0)
     else Inr (d\<lparr>users := delete_where (\<lambda>u. u_id u = i) (users d),
            memberships := delete_where (\<lambda>m. m_user_id m = i \<and> (\<exists>u\<in>set (users d). u_id u = i)) (memberships d)\<rparr>,
          count_where (\<lambda>u. u_id u = i) (users d)))"

definition last_admin_row :: "time \<Rightarrow> string \<Rightarrow> string \<Rightarrow> AuditRecord" where
  "last_admin_row now org userID =
    \<lparr>au_id = 0, au_user_id = ''directory'', au_action = ''organization.last_admin_lost'', au_resource = userID,
     au_details = ''repair: a platform administrator must grant a new organization administrator'',
     au_ip_address = '''', au_created_at = now, au_scope = ''organization'', au_organization_id = org,
     au_environment_id = '''', au_correlation_id = '''', au_result = ''success''\<rparr>"

definition quorum_check :: "time \<Rightarrow> (nat \<Rightarrow> string) \<Rightarrow> string \<Rightarrow> bool \<Rightarrow> string \<Rightarrow> db \<Rightarrow> db res" where
  "quorum_check now fresh userID external org d =
    (let d1 = revokeLostAdminCredentials now fresh org userID (if external then ''directory'' else ''system'') d
     in case requireActiveAdmin d1 org of
          Inr _ \<Rightarrow> Inr d1
        | Inl e \<Rightarrow> if e = ErrLastAdmin \<and> external then Inr (insert_audit (last_admin_row now org userID) d1) else Inl e)"

definition adminQuorum :: "time \<Rightarrow> (nat \<Rightarrow> string) \<Rightarrow> bool \<Rightarrow> string \<Rightarrow> bool \<Rightarrow> (db \<Rightarrow> (db \<times> nat) res) \<Rightarrow> db \<Rightarrow> db res" where
  "adminQuorum now fresh pg userID external write d =
    (let orgs = sort (map m_organization_id
           (filter (\<lambda>m. m_user_id m = userID \<and> admin_membership d (m_organization_id m) m) (memberships d)))
     in and_then (each (\<lambda>org s. and_then (lockOrganization pg d org) (\<lambda>_. Inr s)) orgs d) (\<lambda>_.
        and_then (write d) (\<lambda>(d1, n).
        if n = 0 then Inl (if installer_owned d1 userID then ErrInstallerOwned else ErrNotFound)
        else each (quorum_check now fresh userID external) orgs d1)))"

definition DeleteUser :: "time \<Rightarrow> (nat \<Rightarrow> string) \<Rightarrow> bool \<Rightarrow> string \<Rightarrow> db \<Rightarrow> db res" where
  "DeleteUser now fresh pg i = adminQuorum now fresh pg i False (deleteRow i)"

definition directory_DeleteUser :: "time \<Rightarrow> (nat \<Rightarrow> string) \<Rightarrow> bool \<Rightarrow> string \<Rightarrow> db \<Rightarrow> db res" where
  "directory_DeleteUser now fresh pg i = adminQuorum now fresh pg i True (deleteRow i)"

text \<open>\<open>lower\<close> is the database's LOWER, under which usernames are unique.\<close>

definition update_identity :: "(string \<Rightarrow> string) \<Rightarrow> time \<Rightarrow> user \<Rightarrow> db \<Rightarrow> (db \<times> nat) res" where
  "update_identity lower now u d =
    (let P = (\<lambda>x. u_id x = u_id u \<and> (\<not> installer_owned d (u_id u)
           \<or> (u_username x = u_username u \<and> u_role x = u_role u \<and> u_status x = u_status u)))
     in if (\<exists>x\<in>set (users d). P x)
           \<and> (\<exists>x\<in>set (users d). u_id x \<noteq> u_id u \<and> lower (u_username x) = lower (u_username u))
        then Inl ErrAlreadyExists
        else Inr (d\<lparr>users := update_where P (\<lambda>x. x\<lparr>u_username := u_username u, u_email := u_email u,
                 u_display_name := u_display_name u, u_role := u_role u, u_status := u_status u,
                 u_updated_at := now\<rparr>) (users d)\<rparr>,
               count_where P (users d)))"

definition UpdateUserIdentity :: "(string \<Rightarrow> string) \<Rightarrow> time \<Rightarrow> (nat \<Rightarrow> string) \<Rightarrow> bool \<Rightarrow> user \<Rightarrow> db \<Rightarrow> db res" where
  "UpdateUserIdentity lower now fresh pg u =
    adminQuorum now fresh pg (u_id u) True (update_identity lower now u)"

subsection \<open>What a revocation keeps\<close>

lemma fold_keeps: "P d \<Longrightarrow> (\<And>i d. i \<in> set xs \<Longrightarrow> P d \<Longrightarrow> P (f i d)) \<Longrightarrow> P (fold f xs d)"
  by (induction xs arbitrary: d) auto

lemmas revoke_defs = revoke_one_def revoke_token_def revoke_feed_def delete_pairing_def revocation_row_def
  insert_audit_def

text \<open>An equation that every single revocation keeps is kept by all of them.\<close>

lemma revokeLostAdminCredentials_keeps:
  assumes "P d"
    and "\<And>row i d. i \<in> tk_id ` {t \<in> set (service_tokens d0). tk_organization_id t = org} \<Longrightarrow> P d \<Longrightarrow>
      \<forall>i d. au_organization_id (row i d) = org \<Longrightarrow> P (revoke_one (revoke_token now actor) row i d)"
    and "\<And>row i d. i \<in> sf_id ` {t \<in> set (status_feeds d0). sf_organization_id t = org} \<Longrightarrow> P d \<Longrightarrow>
      \<forall>i d. au_organization_id (row i d) = org \<Longrightarrow> P (revoke_one (revoke_feed now actor) row i d)"
    and "\<And>row i d. i \<in> sp_id ` {t \<in> set (pairings d0). sp_organization_id t = org} \<Longrightarrow> P d \<Longrightarrow>
      \<forall>i d. au_organization_id (row i d) = org \<Longrightarrow> P (revoke_one delete_pairing row i d)"
    and "d0 = d"
  shows "P (revokeLostAdminCredentials now fresh org userID actor d)"
proof -
  let ?details = "''revoked: creator '' @ userID @ '' is no longer an organization administrator''"
  let ?row = "\<lambda>action. revocation_row now fresh org actor action ?details"
  let ?tok = "revoke_one (revoke_token now actor) (?row (action_name AgentTokensManage))"
  let ?feed = "revoke_one (revoke_feed now actor) (?row AuditStatusFeedRevoke)"
  let ?pair = "revoke_one delete_pairing (?row (action_name ServiceTokensManage))"
  define d1 where "d1 = fold ?tok (map tk_id (filter (live_token_of org userID) (service_tokens d))) d"
  define d2 where "d2 = fold ?feed (map sf_id (filter (live_feed_of org userID) (status_feeds d1))) d1"
  have keep1: "status_feeds d1 = status_feeds d \<and> pairings d1 = pairings d"
    unfolding d1_def by (rule fold_keeps) (simp_all add: revoke_defs Let_def)
  have keep2: "pairings d2 = pairings d"
    unfolding d2_def by (rule fold_keeps) (simp_all add: revoke_defs Let_def keep1)
  have "P d1" unfolding d1_def
    by (rule fold_keeps [where P = P]) (auto intro!: assms(1,2) simp: assms(5) live_token_of_def revocation_row_def)
  then have "P d2" unfolding d2_def
    by (rule fold_keeps [where P = P]) (auto intro!: assms(3) simp: assms(5) keep1 live_feed_of_def revocation_row_def)
  then have "P (fold ?pair (map sp_id (filter (unclaimed_pairing_of org userID) (pairings d2))) d2)"
    by (rule fold_keeps [where P = P]) (auto intro!: assms(4) simp: assms(5) keep2 unclaimed_pairing_of_def revocation_row_def)
  then show ?thesis
    using assms(1) by (simp add: revokeLostAdminCredentials_def Let_def d1_def d2_def)
qed

lemma revokeLostAdminCredentials_accounts [simp]:
  "users (revokeLostAdminCredentials now fresh org userID actor d) = users d"
  "memberships (revokeLostAdminCredentials now fresh org userID actor d) = memberships d"
  "organizations (revokeLostAdminCredentials now fresh org userID actor d) = organizations d"
  by (rule revokeLostAdminCredentials_keeps; simp add: revoke_defs Let_def)+

lemma revokeLostAdminCredentials_wf:
  "wf d \<Longrightarrow> wf (revokeLostAdminCredentials now fresh org userID actor d)"
  by (rule revokeLostAdminCredentials_keeps)
    (simp_all add: revoke_one_def Let_def revoke_token_def revoke_feed_def delete_pairing_def wf_def
      insert_audit_def update_where_keys delete_where_distinct)

lemma revoke_one_isolated:
  assumes "\<forall>i d. au_organization_id (row i d) = org" and "org \<noteq> other"
    and "org_view other (wr i d) = org_view other d"
  shows "org_view other (revoke_one wr row i d) = org_view other d"
  using assms by (simp add: revoke_one_def Let_def org_view_audit)

lemma revoke_writes_isolated:
  "\<forall>t\<in>set (service_tokens d). tk_id t = i \<longrightarrow> tk_organization_id t \<noteq> other \<Longrightarrow>
    org_view other (revoke_token now actor i d) = org_view other d"
  "\<forall>t\<in>set (status_feeds d). sf_id t = i \<longrightarrow> sf_organization_id t \<noteq> other \<Longrightarrow>
    org_view other (revoke_feed now actor i d) = org_view other d"
  "\<forall>t\<in>set (pairings d). sp_id t = i \<longrightarrow> sp_organization_id t \<noteq> other \<Longrightarrow>
    org_view other (delete_pairing i d) = org_view other d"
  by (simp_all add: revoke_token_def revoke_feed_def delete_pairing_def view_tables
      filter_update_where_other filter_delete_where_other)

lemma revoke_one_tables:
  "service_tokens (revoke_one wr row i d) = service_tokens (wr i d)"
  "status_feeds (revoke_one wr row i d) = status_feeds (wr i d)"
  "pairings (revoke_one wr row i d) = pairings (wr i d)"
  by (simp_all add: revoke_one_def Let_def insert_audit_def)

lemma revokeLostAdminCredentials_isolated:
  assumes "wf d" and "org \<noteq> other"
  shows "org_view other (revokeLostAdminCredentials now fresh org userID actor d) = org_view other d"
proof -
  define tks where "tks = tk_id ` {t \<in> set (service_tokens d). tk_organization_id t = org}"
  define sfs where "sfs = sf_id ` {t \<in> set (status_feeds d). sf_organization_id t = org}"
  define sps where "sps = sp_id ` {t \<in> set (pairings d). sp_organization_id t = org}"
  define own where "own s \<longleftrightarrow> (\<forall>t\<in>set (service_tokens s). tk_id t \<in> tks \<longrightarrow> tk_organization_id t = org)
    \<and> (\<forall>t\<in>set (status_feeds s). sf_id t \<in> sfs \<longrightarrow> sf_organization_id t = org)
    \<and> (\<forall>t\<in>set (pairings s). sp_id t \<in> sps \<longrightarrow> sp_organization_id t = org)" for s :: "db"
  have own: "own d"
    using assms(1) unfolding own_def tks_def sfs_def sps_def
    by (auto simp: wf_def dest: distinct_ids_same [where g = tk_organization_id]
      distinct_ids_same [where g = sf_organization_id] distinct_ids_same [where g = sp_organization_id])
  have keep: "own s \<Longrightarrow> own (revoke_token now actor i s) \<and> own (revoke_feed now actor i s) \<and> own (delete_pairing i s)" for s i
    unfolding own_def by (auto simp: revoke_token_def revoke_feed_def delete_pairing_def in_update_where)
  have same: "own (revoke_one w row i s) = own (w i s)" for w row i s
    by (simp add: own_def revoke_one_tables)
  let ?P = "\<lambda>s. org_view other s = org_view other d \<and> own s"
  have tok: "?P (revoke_one (revoke_token now actor) row i s)"
    if "i \<in> tks" "?P s" "\<forall>i d. au_organization_id (row i d) = org" for row i s
  proof -
    have "\<forall>t\<in>set (service_tokens s). tk_id t = i \<longrightarrow> tk_organization_id t \<noteq> other"
      using that assms(2) by (auto simp: own_def)
    then have "org_view other (revoke_token now actor i s) = org_view other s" by (rule revoke_writes_isolated)
    from revoke_one_isolated [OF that(3) assms(2), where wr = "revoke_token now actor", OF this] that keep
    show ?thesis by (simp add: same)
  qed
  have feed: "?P (revoke_one (revoke_feed now actor) row i s)"
    if "i \<in> sfs" "?P s" "\<forall>i d. au_organization_id (row i d) = org" for row i s
  proof -
    have "\<forall>t\<in>set (status_feeds s). sf_id t = i \<longrightarrow> sf_organization_id t \<noteq> other"
      using that assms(2) by (auto simp: own_def)
    then have "org_view other (revoke_feed now actor i s) = org_view other s" by (rule revoke_writes_isolated)
    from revoke_one_isolated [OF that(3) assms(2), where wr = "revoke_feed now actor", OF this] that keep
    show ?thesis by (simp add: same)
  qed
  have pair: "?P (revoke_one delete_pairing row i s)"
    if "i \<in> sps" "?P s" "\<forall>i d. au_organization_id (row i d) = org" for row i s
  proof -
    have "\<forall>t\<in>set (pairings s). sp_id t = i \<longrightarrow> sp_organization_id t \<noteq> other"
      using that assms(2) by (auto simp: own_def)
    then have "org_view other (delete_pairing i s) = org_view other s" by (rule revoke_writes_isolated)
    from revoke_one_isolated [OF that(3) assms(2), where wr = "delete_pairing", OF this] that keep
    show ?thesis by (simp add: same)
  qed
  have "?P (revokeLostAdminCredentials now fresh org userID actor d)"
    by (rule revokeLostAdminCredentials_keeps [where P = ?P and d0 = d])
      (use own in simp, (rule tok feed pair; simp add: tks_def sfs_def sps_def)+, simp)
  then show ?thesis ..
qed

subsection \<open>The membership operations belong to one organization\<close>

lemma put_membership_Inr:
  assumes "put_membership now fresh pg a userID role status d = Inr (d', x)"
  obtains d1 where "d1 = d\<lparr>memberships := upsert_membership \<lparr>m_organization_id = OrganizationID a, m_user_id = userID,
       m_role = role, m_status = status\<rparr> (memberships d)\<rparr>"
    and "d' = revokeLostAdminCredentials now fresh (OrganizationID a) userID (Principal a) d1"
    and "requireActiveAdmin d' (OrganizationID a) = Inr ()"
  using assms by (auto simp: put_membership_def Let_def split: if_splits)

lemma remove_membership_Inr:
  assumes "remove_membership now fresh pg a userID d = Inr (d', x)"
  obtains d1 where "d1 = d\<lparr>memberships := delete_where
       (\<lambda>m. m_organization_id m = OrganizationID a \<and> m_user_id m = userID) (memberships d)\<rparr>"
    and "d' = revokeLostAdminCredentials now fresh (OrganizationID a) userID (Principal a) d1"
    and "requireActiveAdmin d' (OrganizationID a) = Inr ()"
  using assms by (auto simp: remove_membership_def Let_def)

lemma upsert_membership_keys:
  assumes "distinct (map (\<lambda>m. (m_organization_id m, m_user_id m)) t)"
  shows "distinct (map (\<lambda>m. (m_organization_id m, m_user_id m)) (upsert_membership m t))"
  using assms by (auto simp: upsert_membership_def Let_def update_where_keys)

lemma upsert_membership_other:
  "m_organization_id m \<noteq> org \<Longrightarrow>
   filter (\<lambda>r. m_organization_id r = org) (upsert_membership m t) = filter (\<lambda>r. m_organization_id r = org) t"
  by (simp add: upsert_membership_def Let_def filter_update_where_other)

interpretation put_membership: tenant_op a "keep t s (put_membership now fresh pg a userID role status)"
  for a t s now fresh pg userID role status
  by unfold_locales
    (auto elim!: put_membership_Inr intro!: revokeLostAdminCredentials_wf
      simp: wf_tables wf_keys upsert_membership_keys revokeLostAdminCredentials_isolated view_tables upsert_membership_other)

interpretation remove_membership: tenant_op a "keep t s (remove_membership now fresh pg a userID)"
  for a t s now fresh pg userID
  by unfold_locales
    (auto elim!: remove_membership_Inr intro!: revokeLostAdminCredentials_wf
      simp: wf_tables wf_keys delete_where_distinct revokeLostAdminCredentials_isolated view_tables filter_delete_where_other)

subsection \<open>An organization keeps an administrator\<close>

definition administered :: "db \<Rightarrow> string \<Rightarrow> bool" where
  "administered d org \<longleftrightarrow> (\<exists>m\<in>set (memberships d). admin_membership d org m)"

lemma requireActiveAdmin_administered: "requireActiveAdmin d org = Inr u \<longleftrightarrow> administered d org"
  by (simp add: requireActiveAdmin_def administered_def)

lemma administered_cong:
  "users d' = users d \<Longrightarrow> filter (\<lambda>m. m_organization_id m = org) (memberships d')
     = filter (\<lambda>m. m_organization_id m = org) (memberships d) \<Longrightarrow> administered d' org = administered d org"
proof -
  assume u: "users d' = users d" and m: "filter (\<lambda>m. m_organization_id m = org) (memberships d')
     = filter (\<lambda>m. m_organization_id m = org) (memberships d)"
  from arg_cong [OF m, of set]
  have "m_organization_id x = org \<Longrightarrow> x \<in> set (memberships d') \<longleftrightarrow> x \<in> set (memberships d)" for x by auto
  then show ?thesis unfolding administered_def admin_membership_def u by blast
qed

lemma administered_audit [simp]: "administered (insert_audit r d) org = administered d org"
  by (rule administered_cong) (simp_all add: insert_audit_def)

lemma administered_revoke [simp]:
  "administered (revokeLostAdminCredentials now fresh o' userID actor d) org = administered d org"
  by (rule administered_cong) simp_all

lemma membership_ops_administered:
  "put_membership now fresh pg a userID role status d = Inr (d', x) \<Longrightarrow> administered d org \<Longrightarrow> administered d' org"
  "remove_membership now fresh pg a userID d = Inr (d', x) \<Longrightarrow> administered d org \<Longrightarrow> administered d' org"
proof -
  assume put: "put_membership now fresh pg a userID role status d = Inr (d', x)" and adm: "administered d org"
  show "administered d' org"
  proof (cases "org = OrganizationID a")
    case False
    with put have "administered d' org = administered d org"
      by (elim put_membership_Inr) (rule administered_cong; simp add: upsert_membership_other)
    with adm show ?thesis by simp
  qed (use put in \<open>auto elim!: put_membership_Inr simp: requireActiveAdmin_administered\<close>)
next
  assume rem: "remove_membership now fresh pg a userID d = Inr (d', x)" and adm: "administered d org"
  show "administered d' org"
  proof (cases "org = OrganizationID a")
    case False
    with rem have "administered d' org = administered d org"
      by (elim remove_membership_Inr) (rule administered_cong; simp add: filter_delete_where_other)
    with adm show ?thesis by simp
  qed (use rem in \<open>auto elim!: remove_membership_Inr simp: requireActiveAdmin_administered\<close>)
qed

lemma quorum_check_accounts:
  assumes "quorum_check now fresh userID external org d = Inr d'"
  shows "users d' = users d" and "memberships d' = memberships d"
    and "administered d' org \<or> external \<and> (\<exists>n. (last_admin_row now org userID)\<lparr>au_id := n\<rparr> \<in> set (audit d'))"
  using assms
  by (auto simp: quorum_check_def Let_def insert_audit_def requireActiveAdmin_administered requireActiveAdmin_def
      administered_def split: if_splits sum.splits)

lemma revokeLostAdminCredentials_audit:
  "set (audit d) \<subseteq> set (audit (revokeLostAdminCredentials now fresh org userID actor d))"
proof -
  have "set (audit d) \<subseteq> set (audit (revoke_one wr row i s))"
    if "set (audit d) \<subseteq> set (audit s)" "audit (wr i s) = audit s" for wr row i s
    using that by (auto simp: revoke_one_def Let_def insert_audit_def)
  then show ?thesis
    by (intro revokeLostAdminCredentials_keeps [where P = "\<lambda>s. set (audit d) \<subseteq> set (audit s)" and d0 = d])
      (simp_all add: revoke_token_def revoke_feed_def delete_pairing_def)
qed

lemma quorum_check_audit:
  "quorum_check now fresh userID external org d = Inr d' \<Longrightarrow> set (audit d) \<subseteq> set (audit d')"
  using revokeLostAdminCredentials_audit
  by (fastforce simp: quorum_check_def Let_def insert_audit_def split: if_splits sum.splits)

lemma each_quorum:
  assumes "each (quorum_check now fresh userID external) orgs d = Inr d'"
  shows "users d' = users d \<and> memberships d' = memberships d \<and> set (audit d) \<subseteq> set (audit d')
    \<and> (\<forall>org\<in>set orgs. administered d' org
        \<or> external \<and> (\<exists>n. (last_admin_row now org userID)\<lparr>au_id := n\<rparr> \<in> set (audit d')))"
  using assms
proof (induction orgs arbitrary: d)
  case (Cons o' orgs)
  then obtain d1 where d1: "quorum_check now fresh userID external o' d = Inr d1"
    and rest: "each (quorum_check now fresh userID external) orgs d1 = Inr d'" by auto
  note IH = Cons.IH [OF rest]
  have "administered d' o' = administered d1 o'" by (rule administered_cong) (simp_all add: IH)
  with quorum_check_accounts [OF d1] quorum_check_audit [OF d1] IH show ?case by auto
qed simp

text \<open>
  An account write that touches no other account and no other account's memberships leaves every
  organization its administrator or comes out in the trail.
\<close>

lemma adminQuorum_outcome:
  assumes "adminQuorum now fresh pg userID external w d = Inr d'" and adm: "administered d org"
    and w: "\<And>d1 n. w d = Inr (d1, n) \<Longrightarrow>
      (\<forall>u\<in>set (users d). u_id u \<noteq> userID \<longrightarrow> u \<in> set (users d1))
      \<and> (\<forall>m\<in>set (memberships d). m_user_id m \<noteq> userID \<longrightarrow> m \<in> set (memberships d1))"
  shows "administered d' org \<or> external \<and> (\<exists>n. (last_admin_row now org userID)\<lparr>au_id := n\<rparr> \<in> set (audit d'))"
proof -
  define orgs where "orgs = sort (map m_organization_id
    (filter (\<lambda>m. m_user_id m = userID \<and> admin_membership d (m_organization_id m) m) (memberships d)))"
  from assms(1) obtain d1 n where d1: "w d = Inr (d1, n)"
    and loop: "each (quorum_check now fresh userID external) orgs d1 = Inr d'"
    by (auto simp: adminQuorum_def Let_def orgs_def split: if_splits)
  note q = each_quorum [OF loop]
  show ?thesis
  proof (cases "org \<in> set orgs")
    case False
    from adm obtain m where m: "m \<in> set (memberships d)" "admin_membership d org m" by (auto simp: administered_def)
    with False have "m_user_id m \<noteq> userID" by (auto simp: orgs_def admin_membership_def)
    with m w [OF d1] have "m \<in> set (memberships d1)" and "admin_membership d1 org m"
      by (auto simp: admin_membership_def)
    with q have "administered d' org" by (auto simp: administered_def admin_membership_def)
    then show ?thesis ..
  qed (use q in blast)
qed

lemma deleteRow_others:
  "deleteRow i d = Inr (d1, n) \<Longrightarrow>
   (\<forall>u\<in>set (users d). u_id u \<noteq> i \<longrightarrow> u \<in> set (users d1))
   \<and> (\<forall>m\<in>set (memberships d). m_user_id m \<noteq> i \<longrightarrow> m \<in> set (memberships d1))"
  by (auto simp: deleteRow_def split: if_splits)

lemma update_identity_others:
  "update_identity lower now u d = Inr (d1, n) \<Longrightarrow>
   (\<forall>x\<in>set (users d). u_id x \<noteq> u_id u \<longrightarrow> x \<in> set (users d1))
   \<and> (\<forall>m\<in>set (memberships d). m_user_id m \<noteq> u_id u \<longrightarrow> m \<in> set (memberships d1))"
  by (auto simp: update_identity_def Let_def in_update_where split: if_splits)

subsection \<open>Nothing live is left of a lost administrator\<close>

lemma fold_done: "(\<And>i d. P (f i d) \<Longrightarrow> P d \<and> k \<noteq> i) \<Longrightarrow> P (fold f xs d) \<Longrightarrow> P d \<and> k \<notin> set xs"
proof (induction xs arbitrary: d)
  case (Cons x xs)
  from Cons.IH [of "f x d"] Cons.prems have "P (f x d)" "k \<notin> set xs" by auto
  with Cons.prems(1) [of x d] show ?case by simp
qed simp

lemma revoked_differs:
  "tk_revoked_at t = None \<Longrightarrow> t \<noteq> t\<lparr>tk_revoked_at := Some now, tk_revoked_by := actor\<rparr>"
  "sf_revoked_at f = None \<Longrightarrow> f \<noteq> f\<lparr>sf_revoked_at := Some now, sf_revoked_by := actor\<rparr>"
  by (cases t, simp) (cases f, simp)

lemma revoke_tokens_done:
  "t \<in> set (service_tokens (fold (revoke_one (revoke_token now actor) row) xs d)) \<Longrightarrow> tk_revoked_at t = None \<Longrightarrow>
   t \<in> set (service_tokens d) \<and> tk_id t \<notin> set xs"
  by (rule fold_done [where P = "\<lambda>d. t \<in> set (service_tokens d)"])
    (auto simp: revoke_one_tables revoke_token_def in_update_where revoked_differs split: if_splits)

lemma revoke_feeds_done:
  "t \<in> set (status_feeds (fold (revoke_one (revoke_feed now actor) row) xs d)) \<Longrightarrow> sf_revoked_at t = None \<Longrightarrow>
   t \<in> set (status_feeds d) \<and> sf_id t \<notin> set xs"
  by (rule fold_done [where P = "\<lambda>d. t \<in> set (status_feeds d)"])
    (auto simp: revoke_one_tables revoke_feed_def in_update_where revoked_differs split: if_splits)

lemma delete_pairings_done:
  "t \<in> set (pairings (fold (revoke_one delete_pairing row) xs d)) \<Longrightarrow> sp_consumed_at t = None \<Longrightarrow>
   t \<in> set (pairings d) \<and> sp_id t \<notin> set xs"
  by (rule fold_done [where P = "\<lambda>d. t \<in> set (pairings d)"])
    (auto simp: revoke_one_tables delete_pairing_def)

lemma revoke_stages:
  "service_tokens (fold (revoke_one (revoke_feed now actor) row) xs d) = service_tokens d"
  "service_tokens (fold (revoke_one delete_pairing row) xs d) = service_tokens d"
  "status_feeds (fold (revoke_one delete_pairing row) xs d) = status_feeds d"
  by (rule fold_keeps; simp add: revoke_one_tables revoke_feed_def delete_pairing_def)+

lemma revokeLostAdminCredentials_done:
  assumes "\<not> (\<exists>m\<in>set (memberships d). admin_membership d org m \<and> m_user_id m = userID)"
    and "d' = revokeLostAdminCredentials now fresh org userID actor d"
  shows "(\<forall>t\<in>set (service_tokens d'). \<not> live_token_of org userID t)
    \<and> (\<forall>t\<in>set (status_feeds d'). \<not> live_feed_of org userID t)
    \<and> (\<forall>t\<in>set (pairings d'). \<not> unclaimed_pairing_of org userID t)"
proof -
  from assms(1) have none: "\<not> 0 < count_where (\<lambda>m. admin_membership d org m \<and> m_user_id m = userID) (memberships d)"
    by simp
  obtain r1 r2 r3 d1 d2 where d1: "d1 = fold (revoke_one (revoke_token now actor) r1)
        (map tk_id (filter (live_token_of org userID) (service_tokens d))) d"
    and d2: "d2 = fold (revoke_one (revoke_feed now actor) r2)
        (map sf_id (filter (live_feed_of org userID) (status_feeds d1))) d1"
    and d': "d' = fold (revoke_one delete_pairing r3)
        (map sp_id (filter (unclaimed_pairing_of org userID) (pairings d2))) d2"
  proof (rule that [OF refl refl])
  qed (unfold assms(2) revokeLostAdminCredentials_def Let_def if_not_P [OF none], rule refl)
  have "\<not> live_token_of org userID t" if "t \<in> set (service_tokens d')" for t
  proof
    assume l: "live_token_of org userID t"
    from that have "t \<in> set (service_tokens d1)" by (simp add: d' d2 revoke_stages)
    from revoke_tokens_done [OF this [unfolded d1]] l show False by (auto simp: live_token_of_def)
  qed
  moreover have "\<not> live_feed_of org userID t" if "t \<in> set (status_feeds d')" for t
  proof
    assume l: "live_feed_of org userID t"
    from that have "t \<in> set (status_feeds d2)" by (simp add: d' revoke_stages)
    from revoke_feeds_done [OF this [unfolded d2]] l show False by (auto simp: live_feed_of_def)
  qed
  moreover have "\<not> unclaimed_pairing_of org userID t" if "t \<in> set (pairings d')" for t
  proof
    assume l: "unclaimed_pairing_of org userID t"
    from delete_pairings_done [OF that [unfolded d']] l show False by (auto simp: unclaimed_pairing_of_def)
  qed
  ultimately show ?thesis by blast
qed

subsection \<open>Properties\<close>

text \<open>A small installation the witnesses evaluate on: two organizations, one administrator each.\<close>

definition sample_user :: "string \<Rightarrow> user" where
  "sample_user i = \<lparr>u_id = i, u_username = i, u_email = '''', u_display_name = '''', u_role = ''user'', u_status = ''active'',
     u_sso_provider = ''local'', u_must_change_password = False, u_created_at = 0, u_updated_at = 0\<rparr>"

definition sample_db :: db where
  "sample_db = empty_db\<lparr>users := [sample_user ''alice'', sample_user ''bob''],
     organizations := [\<lparr>o_id = ''acme'', o_name = ''Acme'', o_created_at = 0\<rparr>, \<lparr>o_id = ''beta'', o_name = ''Beta'', o_created_at = 0\<rparr>],
     memberships := [\<lparr>m_organization_id = ''acme'', m_user_id = ''alice'', m_role = RoleOrganizationAdmin, m_status = ''active''\<rparr>,
       \<lparr>m_organization_id = ''beta'', m_user_id = ''bob'', m_role = RoleOrganizationAdmin, m_status = ''active''\<rparr>,
       \<lparr>m_organization_id = ''acme'', m_user_id = ''bob'', m_role = RoleOrganizationAdmin, m_status = ''active''\<rparr>]\<rparr>"

definition sample_access :: "string \<Rightarrow> string \<Rightarrow> TenantAccess" where
  "sample_access org user = \<lparr>ActorID = user, OrganizationID = org, EnvironmentID = '''', CorrelationID = ''r1'',
     IPAddress = '''', ServiceTokenID = ''''\<rparr>"

lemma sample_administered: "administered sample_db ''acme''"
  by (simp add: administered_def admin_membership_def sample_db_def sample_user_def)

text \<open>
  C2. An organization keeps an administrator. Whatever a membership is set to, whoever is removed
  and whichever account is deleted locally, successfully or not and by whomever, an organization
  that had an active administrator on an active account still has one: the change that would take
  the last one away rolls back. Creating an organization with its administrator gives it one.
\<close>

theorem organization_keeps_administrator:
  assumes "administered d org"
  shows "administered (fst (PutMembership now cid fresh pg a user role status d)) org
    \<and> administered (fst (RemoveMembership now cid fresh pg a user d)) org
    \<and> (case DeleteUser now fresh pg user d of Inr d' \<Rightarrow> administered d' org | Inl _ \<Rightarrow> True)
    \<and> (case CreateOrganizationWithAdmin now oid name user d of
         Inr d' \<Rightarrow> administered d' org \<and> administered d' oid | Inl _ \<Rightarrow> True)"
proof (intro conjI)
  show "administered (fst (PutMembership now cid fresh pg a user role status d)) org"
    unfolding PutMembership_def withTenantTarget_def run_def
    by (rule runAs_invariant) (auto intro: membership_ops_administered(1) assms)
  show "administered (fst (RemoveMembership now cid fresh pg a user d)) org"
    unfolding RemoveMembership_def withTenantTarget_def run_def
    by (rule runAs_invariant) (auto intro: membership_ops_administered(2) assms)
  have "administered d' org" if "DeleteUser now fresh pg user d = Inr d'" for d'
    using adminQuorum_outcome [OF that [unfolded DeleteUser_def] assms deleteRow_others] by simp
  then show "case DeleteUser now fresh pg user d of Inr d' \<Rightarrow> administered d' org | Inl _ \<Rightarrow> True"
    by (simp split: sum.split)
  have "administered d' org \<and> administered d' oid" if "CreateOrganizationWithAdmin now oid name user d = Inr d'" for d'
    using that assms
    by (auto simp: CreateOrganizationWithAdmin_def administered_def admin_membership_def dest!: find_Some_in split: if_splits)
  then show "case CreateOrganizationWithAdmin now oid name user d of
      Inr d' \<Rightarrow> administered d' org \<and> administered d' oid | Inl _ \<Rightarrow> True"
    by (simp split: sum.split)
qed

theorem organization_keeps_administrator_witness:
  "administered sample_db ''acme''
   \<and> administered (fst (RemoveMembership 7 ''c'' (\<lambda>_. ''u'') False (sample_access ''acme'' ''alice'') ''alice'' sample_db)) ''acme''"
  using organization_keeps_administrator [OF sample_administered] sample_administered by blast



text \<open>
  C13. Whoever stops being an organization's administrator leaves no live credential behind: when a
  membership change answers and the member holds no active administrator membership on an active
  account there any more, every AI agent token and status feed they created in it is revoked and
  every unclaimed pairing code they created is gone, in the same transaction.
\<close>

theorem lost_administrator_credentials_revoked:
  assumes "PutMembership now cid fresh pg a user role status d = (d', Inr ())
      \<or> RemoveMembership now cid fresh pg a user d = (d', Inr ())"
    and "\<not> (\<exists>m\<in>set (memberships d'). admin_membership d' (OrganizationID a) m \<and> m_user_id m = user)"
  shows "(\<forall>t\<in>set (service_tokens d'). \<not> live_token_of (OrganizationID a) user t)
    \<and> (\<forall>t\<in>set (status_feeds d'). \<not> live_feed_of (OrganizationID a) user t)
    \<and> (\<forall>t\<in>set (pairings d'). \<not> unclaimed_pairing_of (OrganizationID a) user t)"
proof -
  have tables: "memberships (insert_audit r x) = memberships x" "users (insert_audit r x) = users x"
    "service_tokens (insert_audit r x) = service_tokens x" "status_feeds (insert_audit r x) = status_feeds x"
    "pairings (insert_audit r x) = pairings x" for r x by (simp_all add: insert_audit_def)
  from assms(1) obtain r d1 d0 where "d' = insert_audit r d1"
    and d1: "d1 = revokeLostAdminCredentials now fresh (OrganizationID a) user (Principal a) d0"
    unfolding PutMembership_def RemoveMembership_def withTenantTarget_def run_def
    by (auto elim!: runAs_success put_membership_Inr remove_membership_Inr simp: keep_def)
  with assms(2) revokeLostAdminCredentials_done [OF _ d1] show ?thesis
    by (auto simp: tables admin_membership_def)
qed

theorem lost_administrator_credentials_revoked_witness:
  "\<exists>d'. RemoveMembership 7 ''c'' (\<lambda>_. ''u'') False (sample_access ''acme'' ''alice'') ''bob'' sample_db = (d', Inr ())
     \<and> (\<forall>t\<in>set (status_feeds d'). \<not> live_feed_of ''acme'' ''bob'' t)"
proof -
  let ?a = "sample_access ''acme'' ''alice''" and ?f = "\<lambda>_. ''u''"
  define d1 where "d1 = fst (projr (remove_membership 7 ?f False ?a ''bob'' sample_db))"
  have op: "remove_membership 7 ?f False ?a ''bob'' sample_db = Inr (d1, ())"
    and gone: "\<forall>m\<in>set (memberships d1). \<not> (m_organization_id m = ''acme'' \<and> m_user_id m = ''bob'')"
    unfolding d1_def by code_simp+
  have "authorize sample_db ?a MembersManage = Inr ()" by code_simp
  then obtain r where run: "RemoveMembership 7 ''c'' ?f False ?a ''bob'' sample_db = (insert_audit r d1, Inr ())"
    using withTenant_answers(2) [where f = "remove_membership 7 ?f False ?a ''bob''" and a = ?a, OF _ _ _ op, of MembersManage 7 "''c''" "''bob''"]
    unfolding RemoveMembership_def by (auto simp: sample_access_def)
  have "\<not> (\<exists>m\<in>set (memberships (insert_audit r d1)). admin_membership (insert_audit r d1) (OrganizationID ?a) m
      \<and> m_user_id m = ''bob'')"
    using gone by (auto simp: insert_audit_def admin_membership_def sample_access_def)
  from lost_administrator_credentials_revoked [OF disjI2 [OF run] this] run show ?thesis
    by (auto simp: sample_access_def)
qed

end
