(* ===== verification/Signing.thy ===== *)
theory Signing
  imports Text
begin

text \<open>
  Signed messages between the agent and the control plane, \<^verbatim>\<open>internal/agent/protocol/sign.go\<close> and
  the handshake preimages of \<^verbatim>\<open>messages.go\<close>. Byte strings are \<^typ>\<open>string\<close>. The Ed25519 check and
  the SHA-256 digest are cryptographic primitives: arguments \<open>verify\<close> and \<open>sha\<close>, of which nothing
  is assumed.
\<close>

definition ContextEnroll :: string where "ContextEnroll = ''kyyard-agent-enroll-v1''"
definition ContextAuth :: string where "ContextAuth = ''kyyard-agent-auth-v1''"
definition ContextRotate :: string where "ContextRotate = ''kyyard-agent-rotate-v1''"
definition ContextServer :: string where "ContextServer = ''kyyard-server-challenge-v2''"
definition TokenSize :: nat where "TokenSize = 32"
definition PublicKeySize :: nat where "PublicKeySize = 32"
definition SignatureSize :: nat where "SignatureSize = 64"

text \<open>\<^verbatim>\<open>binary.BigEndian.AppendUint32\<close> of \<^verbatim>\<open>uint32(n)\<close>: the conversion keeps the low 32 bits.\<close>

definition AppendUint32 :: "string \<Rightarrow> nat \<Rightarrow> string" where
  "AppendUint32 out n = (let m = n mod 2 ^ 32 in
    out @ [char_of (m div 2 ^ 24), char_of (m div 2 ^ 16 mod 256), char_of (m div 2 ^ 8 mod 256),
           char_of (m mod 256)])"

fun append_fields :: "string \<Rightarrow> string list \<Rightarrow> string" where
  "append_fields out [] = out"
| "append_fields out (f # fs) = append_fields (AppendUint32 out (length f) @ f) fs"

definition Preimage :: "string \<Rightarrow> string list \<Rightarrow> string" where
  "Preimage context fields =
    append_fields (AppendUint32 [] (length context) @ context) fields"

text \<open>\<^verbatim>\<open>hex.EncodeToString\<close>.\<close>

definition hex_char :: "nat \<Rightarrow> char" where
  "hex_char n = (if n < 10 then char_of (48 + n) else char_of (87 + n))"

fun EncodeToString :: "string \<Rightarrow> string" where
  "EncodeToString [] = []"
| "EncodeToString (c # s) = hex_char (of_char c div 16) # hex_char (of_char c mod 16) # EncodeToString s"

definition Fingerprint :: "(string \<Rightarrow> string) \<Rightarrow> string \<Rightarrow> string" where
  "Fingerprint sha publicKey = EncodeToString (sha publicKey)"

definition RawFingerprint :: "(string \<Rightarrow> string) \<Rightarrow> string \<Rightarrow> string" where
  "RawFingerprint sha publicKey = sha publicKey"

type_synonym verifier = "string \<Rightarrow> string \<Rightarrow> string \<Rightarrow> bool"

definition VerifyRotation :: "verifier \<Rightarrow> string \<Rightarrow> string \<Rightarrow> string \<Rightarrow> string \<Rightarrow> bool" where
  "VerifyRotation verify currentKey currentRawFingerprint newKey signature =
    (if length currentKey \<noteq> PublicKeySize \<or> length newKey \<noteq> PublicKeySize
        \<or> length signature \<noteq> SignatureSize then False
     else verify currentKey (Preimage ContextRotate [currentRawFingerprint, newKey]) signature)"

definition VerifyEnrollment :: "verifier \<Rightarrow> string \<Rightarrow> string \<Rightarrow> string \<Rightarrow> bool" where
  "VerifyEnrollment verify publicKey token prf =
    (if length publicKey \<noteq> PublicKeySize \<or> length token \<noteq> TokenSize
        \<or> length prf \<noteq> SignatureSize then False
     else verify publicKey (Preimage ContextEnroll [token]) prf)"

definition AuthPreimage :: "string \<Rightarrow> string \<Rightarrow> string \<Rightarrow> int \<Rightarrow> string" where
  "AuthPreimage endpointID nonce serverHost version =
    Preimage ContextAuth [endpointID, nonce, serverHost, Itoa version]"

definition VerifyAuth :: "verifier \<Rightarrow> string \<Rightarrow> string \<Rightarrow> string \<Rightarrow> string \<Rightarrow> int \<Rightarrow> string \<Rightarrow> bool" where
  "VerifyAuth verify publicKey endpointID nonce serverHost version signature =
    (if length publicKey \<noteq> PublicKeySize \<or> length nonce \<noteq> 32 \<or> length signature \<noteq> SignatureSize
     then False
     else verify publicKey (AuthPreimage endpointID nonce serverHost version) signature)"

definition ChallengePreimage :: "string \<Rightarrow> string \<Rightarrow> string \<Rightarrow> string \<Rightarrow> string" where
  "ChallengePreimage nonce agentNonce serverHost instanceFingerprint =
    Preimage ContextServer [nonce, agentNonce, serverHost, instanceFingerprint]"

record Challenge =
  ch_nonce :: string
  ch_instance_fingerprint :: string
  ch_instance_key :: string
  ch_signature :: string

definition Proven :: "(string \<Rightarrow> string) \<Rightarrow> verifier \<Rightarrow> Challenge \<Rightarrow> string \<Rightarrow> string \<Rightarrow> string \<Rightarrow> bool" where
  "Proven sha verify c agentNonce serverHost pinned =
    (if length (ch_instance_key c) \<noteq> PublicKeySize \<or> length (ch_nonce c) \<noteq> 32
        \<or> length agentNonce \<noteq> 32 \<or> length (ch_signature c) \<noteq> SignatureSize
        \<or> Fingerprint sha (ch_instance_key c) \<noteq> pinned then False
     else verify (ch_instance_key c) (ChallengePreimage (ch_nonce c) agentNonce serverHost pinned)
       (ch_signature c))"

subsection \<open>A preimage determines its context and its fields\<close>

text \<open>One field on the wire: four bytes of length, then the bytes.\<close>

definition field :: "string \<Rightarrow> string" where
  "field f = AppendUint32 [] (length f) @ f"

lemma append_fields_eq: "append_fields out fs = out @ concat (map field fs)"
  by (induction fs arbitrary: out) (simp_all add: field_def AppendUint32_def Let_def)

lemma Preimage_eq: "Preimage context fs = concat (map field (context # fs))"
  by (simp add: Preimage_def append_fields_eq field_def)

lemma AppendUint32_inj:
  assumes "AppendUint32 [] m @ x = AppendUint32 [] n @ y" and "m < 2 ^ 32" and "n < 2 ^ 32"
  shows "m = n \<and> x = y"
proof -
  have small: "k div 2 ^ 24 < 256" if "k < 2 ^ 32" for k :: nat
    using that by (simp add: less_mult_imp_div_less)
  have split: "k = (k div 2 ^ 24) * 2 ^ 24 + (k div 2 ^ 16 mod 256) * 2 ^ 16
      + (k div 2 ^ 8 mod 256) * 2 ^ 8 + k mod 256" for k :: nat
  proof -
    have d: "k div 256 div 256 = k div 65536" "k div 65536 div 256 = k div 16777216"
      by (simp_all add: div_mult2_eq [symmetric])
    have "k = k div 256 * 256 + k mod 256"
      "k div 256 = k div 65536 * 256 + k div 256 mod 256"
      "k div 65536 = k div 16777216 * 256 + k div 65536 mod 256"
      using div_mult_mod_eq [of "k div 256" 256] div_mult_mod_eq [of "k div 65536" 256]
      unfolding d by simp_all
    moreover have p: "(2::nat) ^ 24 = 16777216" "(2::nat) ^ 16 = 65536" "(2::nat) ^ 8 = 256" by simp_all
    ultimately show ?thesis unfolding p by linarith
  qed
  have char_inj: "char_of a = (char_of b :: char) \<longleftrightarrow> a = b" if "a < 256" "b < 256" for a b :: nat
    using that by (metis of_char_of mod_less)
  from assms small [OF assms(2)] small [OF assms(3)]
  have "m div 2 ^ 24 = n div 2 ^ 24" "m div 2 ^ 16 mod 256 = n div 2 ^ 16 mod 256"
    "m div 2 ^ 8 mod 256 = n div 2 ^ 8 mod 256" "m mod 256 = n mod 256" "x = y"
    by (simp_all add: AppendUint32_def Let_def char_inj del: power_numeral)
  with split [of m] split [of n] show ?thesis by metis
qed

lemma field_inj:
  assumes "field f @ x = field g @ y" and "length f < 2 ^ 32" and "length g < 2 ^ 32"
  shows "f = g \<and> x = y"
proof -
  from assms AppendUint32_inj [of "length f" "f @ x" "length g" "g @ y"]
  have "length f = length g" "f @ x = g @ y" by (auto simp: field_def)
  then show ?thesis by simp
qed

lemma field_nonempty [simp]: "field f \<noteq> []"
  by (simp add: field_def AppendUint32_def Let_def)

lemma fields_inj:
  assumes "concat (map field fs) = concat (map field gs)"
    and "\<forall>f\<in>set fs \<union> set gs. length f < 2 ^ 32"
  shows "fs = gs"
  using assms
proof (induction fs arbitrary: gs)
  case (Cons f fs)
  then obtain g gs' where gs: "gs = g # gs'" by (cases gs) auto
  with Cons.prems field_inj [of f "concat (map field fs)" g "concat (map field gs')"]
  have "f = g" "concat (map field fs) = concat (map field gs')" by auto
  with Cons gs show ?case by auto
qed (auto intro: ccontr simp: neq_Nil_conv)



end
