(* ===== verification/Clock.thy ===== *)
theory Clock
  imports Text
begin

text \<open>
  The calendar of \<^verbatim>\<open>package time\<close> in UTC: the civil date of a day number, the day of the week, and
  the RFC 3339 text of an instant in whole seconds.
\<close>

abbreviation day :: duration where "day \<equiv> 24 * hour"

text \<open>Days since 1 January 1970 to year, month and day of the proleptic Gregorian calendar.\<close>

definition civil :: "int \<Rightarrow> int \<times> int \<times> int" where
  "civil days =
    (let z = days + 719468;
         era = z div 146097;
         doe = z mod 146097;
         yoe = (doe - doe div 1460 + doe div 36524 - doe div 146096) div 365;
         doy = doe - (365 * yoe + yoe div 4 - yoe div 100);
         mp = (5 * doy + 2) div 153;
         d = doy - (153 * mp + 2) div 5 + 1;
         m = (if mp < 10 then mp + 3 else mp - 9)
     in (yoe + era * 400 + (if m \<le> 2 then 1 else 0), m, d))"

text \<open>\<^verbatim>\<open>time.Weekday\<close>: 0 is Sunday; day 0 was a Thursday.\<close>

definition weekday_of :: "int \<Rightarrow> nat" where
  "weekday_of days = nat ((days + 4) mod 7)"

lemma weekday_of_less: "weekday_of days < 7"
  by (simp add: weekday_of_def nat_less_iff)

definition pad :: "nat \<Rightarrow> int \<Rightarrow> string" where
  "pad w n = (let s = Itoa n in replicate (w - length s) CHR ''0'' @ s)"

definition RFC3339 :: "time \<Rightarrow> string" where
  "RFC3339 t =
    (let sec = t div second; days = sec div 86400; s = sec mod 86400;
         (y, m, d) = civil days
     in pad 4 y @ ''-'' @ pad 2 m @ ''-'' @ pad 2 d @ ''T'' @ pad 2 (s div 3600) @ '':''
        @ pad 2 (s div 60 mod 60) @ '':'' @ pad 2 (s mod 60) @ ''Z'')"

end
