(* ===== verification/Address.thy ===== *)
theory Address
  imports Text
begin

text \<open>
  IP addresses as \<^verbatim>\<open>net/netip\<close> reads them, as far as the server asks: whether a string is an
  address of a family, with no zone. \<^verbatim>\<open>cleanIP\<close> of \<^verbatim>\<open>internal/agent/protocol/inventory.go\<close> keeps an
  agent's address only then.
\<close>

subsection \<open>IPv4\<close>

text \<open>An octet: decimal, at most 255, and no leading zero.\<close>

definition octet :: "string \<Rightarrow> bool" where
  "octet f \<longleftrightarrow> f \<noteq> [] \<and> list_all is_digit f \<and> (length f = 1 \<or> hd f \<noteq> CHR ''0'')
    \<and> length f \<le> 3 \<and> digits_value f \<le> 255"

definition parseIPv4Fields :: "string \<Rightarrow> bool" where
  "parseIPv4Fields s \<longleftrightarrow> (let fs = Split s CHR ''.'' in length fs = 4 \<and> list_all octet fs)"

subsection \<open>IPv6\<close>

definition is_hex :: "char \<Rightarrow> bool" where
  "is_hex c \<longleftrightarrow> is_digit c \<or> (97 \<le> byte c \<and> byte c \<le> 102) \<or> (65 \<le> byte c \<and> byte c \<le> 70)"

text \<open>
  The loop of \<^verbatim>\<open>parseIPv6\<close> over the groups: \<open>n\<close> groups may still be read, \<open>ell\<close> says whether an
  ellipsis was seen. Its answer is whether the whole string was used and the groups come out right.
\<close>

fun groups6 :: "nat \<Rightarrow> bool \<Rightarrow> string \<Rightarrow> bool" where
  "groups6 0 ell s \<longleftrightarrow> s = [] \<and> \<not> ell"
| "groups6 (Suc n) ell s \<longleftrightarrow>
    (let g = takeWhile is_hex s; r = dropWhile is_hex s in
     if g = [] \<or> length g > 4 then False
     else case r of
       [] \<Rightarrow> if n = 0 then \<not> ell else ell
     | c # r' \<Rightarrow>
         if c = CHR ''.'' then
           (if \<not> ell \<and> n \<noteq> 1 then False else if n < 1 then False
            else parseIPv4Fields s \<and> (if n = 1 then \<not> ell else ell))
         else if c \<noteq> CHR '':'' \<or> r' = [] then False
         else if hd r' = CHR '':'' then
           (if ell then False else if tl r' = [] then n \<noteq> 0 else groups6 n True (tl r'))
         else groups6 n ell r')"

definition parseIPv6 :: "string \<Rightarrow> bool" where
  "parseIPv6 s \<longleftrightarrow>
    (if length s \<ge> 2 \<and> take 2 s = ''::'' then drop 2 s = [] \<or> groups6 8 True (drop 2 s)
     else groups6 8 False s)"

subsection \<open>Addresses without a zone\<close>

text \<open>\<^verbatim>\<open>ParseAddr\<close> takes the family from the first dot, colon or percent sign.\<close>

definition first_mark :: "string \<Rightarrow> char option" where
  "first_mark s = List.find (\<lambda>c. c = CHR ''.'' \<or> c = CHR '':'' \<or> c = CHR ''%'') s"

definition zoneless4 :: "string \<Rightarrow> bool" where
  "zoneless4 s \<longleftrightarrow> first_mark s = Some CHR ''.'' \<and> parseIPv4Fields s"

definition zoneless6 :: "string \<Rightarrow> bool" where
  "zoneless6 s \<longleftrightarrow> first_mark s = Some CHR '':'' \<and> CHR ''%'' \<notin> set s \<and> parseIPv6 s"

definition cleanIP :: "string \<Rightarrow> (string \<Rightarrow> bool) \<Rightarrow> string" where
  "cleanIP s family = (if family s then s else '''')"

lemma cleanIP_idem [simp]: "cleanIP (cleanIP s family) family = cleanIP s family"
  by (simp add: cleanIP_def)

end
