(* ===== verification/Inventory.thy ===== *)
theory Inventory
  imports Frames Address
begin

text \<open>
  What the server accepts of an agent's inventory, \<^verbatim>\<open>internal/agent/protocol/inventory.go\<close> and
  \<^verbatim>\<open>kubernetes.go\<close>: \<open>Clamp\<close> brings any snapshot into the declared schema, \<open>Shrink\<close> cuts one until
  its encoding fits the wire, \<open>ShrinkMetrics\<close> finds the largest prefix of samples that fits. The
  JSON encoder is an argument where only the length of its output matters.
\<close>

subsection \<open>Bounds\<close>

abbreviation MaxContainers :: nat where "MaxContainers \<equiv> 1000"
abbreviation MaxImages :: nat where "MaxImages \<equiv> 1000"
abbreviation MaxNetworks :: nat where "MaxNetworks \<equiv> 200"
abbreviation MaxVolumes :: nat where "MaxVolumes \<equiv> 500"
abbreviation MaxLabels :: nat where "MaxLabels \<equiv> 32"
abbreviation MaxLabelBytes :: int where "MaxLabelBytes \<equiv> 256"
abbreviation MaxSnapshotBytes :: nat where "MaxSnapshotBytes \<equiv> 1048576"
abbreviation MaxNameBytes :: int where "MaxNameBytes \<equiv> 255"
abbreviation MaxImageRefBytes :: int where "MaxImageRefBytes \<equiv> 512"
abbreviation MaxStatusBytes :: int where "MaxStatusBytes \<equiv> 128"
abbreviation MaxNetworkAttachments :: nat where "MaxNetworkAttachments \<equiv> 32"
abbreviation MaxMounts :: nat where "MaxMounts \<equiv> 32"
abbreviation MaxNodes :: nat where "MaxNodes \<equiv> 500"
abbreviation MaxNamespaces :: nat where "MaxNamespaces \<equiv> 500"
abbreviation MaxWorkloads :: nat where "MaxWorkloads \<equiv> 2000"
abbreviation MaxPods :: nat where "MaxPods \<equiv> 2000"
abbreviation MaxServices :: nat where "MaxServices \<equiv> 2000"
abbreviation MaxClaims :: nat where "MaxClaims \<equiv> 1000"
abbreviation MaxStorageClasses :: nat where "MaxStorageClasses \<equiv> 100"
abbreviation MaxPodContainers :: nat where "MaxPodContainers \<equiv> 32"
abbreviation MaxWorkloadImages :: nat where "MaxWorkloadImages \<equiv> 32"
abbreviation MaxNodeRoles :: nat where "MaxNodeRoles \<equiv> 16"
abbreviation MaxServicePorts :: nat where "MaxServicePorts \<equiv> 32"
abbreviation MaxKubeNameBytes :: int where "MaxKubeNameBytes \<equiv> 253"
abbreviation MaxKubeImageBytes :: int where "MaxKubeImageBytes \<equiv> 1024"
abbreviation MaxKubeShortBytes :: int where "MaxKubeShortBytes \<equiv> 64"

abbreviation MountVolume :: string where "MountVolume \<equiv> ''volume''"
abbreviation MountBind :: string where "MountBind \<equiv> ''bind''"
abbreviation MountOther :: string where "MountOther \<equiv> ''other''"

definition HealthStates :: "string list" where
  "HealthStates = [''none'', ''starting'', ''healthy'', ''unhealthy'']"

definition truncatable :: "string list" where
  "truncatable = [''containers'', ''images'', ''networks'', ''volumes'', ''labels'', ''nodes'',
     ''namespaces'', ''workloads'', ''pods'', ''services'', ''claims'', ''storage_classes'']"

subsection \<open>Clamp\<close>

text \<open>
  \<open>truncated\<close> of the code, a map to true, is the list of the names set. Cutting a list past its
  cap names it.
\<close>

definition cut :: "nat \<Rightarrow> string \<Rightarrow> 'a list \<Rightarrow> string list \<Rightarrow> 'a list \<times> string list" where
  "cut n name xs truncated = (if length xs > n then (take n xs, name # truncated) else (xs, truncated))"

definition cleanList :: "string list \<Rightarrow> nat \<Rightarrow> int \<Rightarrow> string list" where
  "cleanList xs mx bytes = map (\<lambda>s. CleanText s bytes) (take mx xs)"

text \<open>An assignment into a map whose entries are kept in the order of their keys.\<close>

fun map_put :: "string \<Rightarrow> string \<Rightarrow> (string \<times> string) list \<Rightarrow> (string \<times> string) list" where
  "map_put k v [] = [(k, v)]"
| "map_put k v ((k', v') # es) =
    (if k = k' then (k, v) # es else if k < k' then (k, v) # (k', v') # es else (k', v') # map_put k v es)"

fun label_loop :: "(string \<times> string) list \<Rightarrow> (string \<times> string) list \<Rightarrow> (string \<times> string) list" where
  "label_loop [] out = out"
| "label_loop ((k, v) # es) out =
    (if length out \<ge> MaxLabels then out
     else label_loop es (map_put (CleanText k MaxLabelBytes) (CleanText v MaxLabelBytes) out))"

definition cleanLabels :: "(string \<times> string) list \<Rightarrow> (string \<times> string) list" where
  "cleanLabels labels = label_loop (sort_key fst labels) []"

definition clamp_engine :: "Engine \<Rightarrow> Engine" where
  "clamp_engine e = \<lparr>en_runtime = CleanText (en_runtime e) 32, en_version = CleanText (en_version e) 64,
     en_api_version = CleanText (en_api_version e) 32, en_os = CleanText (en_os e) 64,
     en_arch = CleanText (en_arch e) 32, en_kernel = CleanText (en_kernel e) 128, en_cpus = en_cpus e,
     en_memory_bytes = en_memory_bytes e, en_hostname = CleanText (en_hostname e) MaxNameBytes\<rparr>"

definition clamp_port :: "Port \<Rightarrow> Port" where
  "clamp_port p = p\<lparr>po_host_ip := CleanText (po_host_ip p) 64, po_protocol := CleanText (po_protocol p) 8\<rparr>"

definition clamp_attachment :: "NetworkAttachment \<Rightarrow> NetworkAttachment" where
  "clamp_attachment n = n\<lparr>na_name := CleanText (na_name n) MaxNameBytes,
     na_ip := cleanIP (na_ip n) zoneless4, na_ip6 := cleanIP (na_ip6 n) zoneless6\<rparr>"

definition clamp_mount :: "Mount \<Rightarrow> Mount" where
  "clamp_mount m = m\<lparr>mt_kind := (if mt_kind m \<noteq> MountVolume \<and> mt_kind m \<noteq> MountBind then MountOther else mt_kind m),
     mt_source := CleanText (mt_source m) MaxImageRefBytes, mt_target := CleanText (mt_target m) MaxImageRefBytes\<rparr>"

definition mount_changed :: "Mount \<Rightarrow> bool" where
  "mount_changed m \<longleftrightarrow> CleanText (mt_source m) MaxImageRefBytes \<noteq> mt_source m
     \<or> CleanText (mt_target m) MaxImageRefBytes \<noteq> mt_target m"

definition clamp_container :: "Container \<Rightarrow> Container" where
  "clamp_container c =
    (let ms = map_option (take MaxMounts) (co_mounts c);
         over = (case co_mounts c of None \<Rightarrow> False | Some l \<Rightarrow> length l > MaxMounts);
         changed = (case ms of None \<Rightarrow> False | Some l \<Rightarrow> list_ex mount_changed l)
     in c\<lparr>co_id := CleanText (co_id c) 128, co_name := CleanText (co_name c) MaxNameBytes,
       co_image := CleanText (co_image c) MaxImageRefBytes, co_image_id := CleanText (co_image_id c) 128,
       co_state := CleanText (co_state c) 32, co_status := CleanText (co_status c) MaxStatusBytes,
       co_compose_project := CleanText (co_compose_project c) MaxNameBytes,
       co_labels := cleanLabels (co_labels c),
       co_ports := map clamp_port (take 64 (co_ports c)),
       co_health := (if co_health c \<in> set HealthStates then co_health c else ''''),
       co_restart_policy := CleanText (co_restart_policy c) 32,
       co_networks := map (\<lambda>n. CleanText n MaxNameBytes) (take MaxNetworkAttachments (co_networks c)),
       co_network_attachments := map clamp_attachment (take MaxNetworkAttachments (co_network_attachments c)),
       co_mounts := map_option (map clamp_mount) ms,
       co_mounts_truncated := co_mounts_truncated c \<or> over \<or> changed\<rparr>)"

definition clamp_image :: "Image \<Rightarrow> Image" where
  "clamp_image i = i\<lparr>im_id := CleanText (im_id i) 128, im_tags := cleanList (im_tags i) 32 MaxImageRefBytes,
     im_digests := cleanList (im_digests i) 32 MaxImageRefBytes\<rparr>"

definition clamp_network :: "Network \<Rightarrow> Network" where
  "clamp_network n = n\<lparr>nw_id := CleanText (nw_id n) 128, nw_name := CleanText (nw_name n) MaxNameBytes,
     nw_driver := CleanText (nw_driver n) 64, nw_scope := CleanText (nw_scope n) 32\<rparr>"

definition clamp_volume :: "Volume \<Rightarrow> Volume" where
  "clamp_volume v = v\<lparr>vo_name := CleanText (vo_name v) MaxNameBytes, vo_driver := CleanText (vo_driver v) 64,
     vo_mountpoint := CleanText (vo_mountpoint v) MaxImageRefBytes\<rparr>"

abbreviation short :: "string \<Rightarrow> string" where "short s \<equiv> CleanText s MaxKubeShortBytes"
abbreviation kname :: "string \<Rightarrow> string" where "kname s \<equiv> CleanText s MaxKubeNameBytes"

definition clamp_node :: "Node \<Rightarrow> Node" where
  "clamp_node n = n\<lparr>no_name := kname (no_name n), no_kubelet_version := short (no_kubelet_version n),
     no_os := short (no_os n), no_arch := short (no_arch n),
     no_roles := cleanList (no_roles n) MaxNodeRoles MaxKubeShortBytes\<rparr>"

definition clamp_workload :: "Workload \<Rightarrow> Workload" where
  "clamp_workload w = w\<lparr>wl_kind := short (wl_kind w), wl_namespace := kname (wl_namespace w),
     wl_name := kname (wl_name w), wl_application := short (wl_application w),
     wl_instance := short (wl_instance w),
     wl_images := cleanList (wl_images w) MaxWorkloadImages MaxKubeImageBytes\<rparr>"

definition clamp_pod_container :: "PodContainer \<Rightarrow> PodContainer" where
  "clamp_pod_container c = c\<lparr>pc_name := kname (pc_name c), pc_image := CleanText (pc_image c) MaxKubeImageBytes,
     pc_image_id := CleanText (pc_image_id c) MaxKubeImageBytes, pc_state := short (pc_state c),
     pc_reason := short (pc_reason c)\<rparr>"

definition clamp_pod :: "Pod \<Rightarrow> Pod" where
  "clamp_pod p = p\<lparr>pd_namespace := kname (pd_namespace p), pd_name := kname (pd_name p),
     pd_phase := short (pd_phase p), pd_node := kname (pd_node p), pd_owner_kind := short (pd_owner_kind p),
     pd_owner_name := kname (pd_owner_name p),
     pd_uid := (if MatchString deploymentUUID (pd_uid p) then pd_uid p else ''''),
     pd_containers := map clamp_pod_container (take MaxPodContainers (pd_containers p))\<rparr>"

definition clamp_service :: "Service \<Rightarrow> Service" where
  "clamp_service s = s\<lparr>se_namespace := kname (se_namespace s), se_name := kname (se_name s),
     se_type := short (se_type s), se_cluster_ip := short (se_cluster_ip s), se_instance := short (se_instance s),
     se_service := short (se_service s), se_ports := cleanList (se_ports s) MaxServicePorts MaxKubeShortBytes\<rparr>"

definition clamp_claim :: "Claim \<Rightarrow> Claim" where
  "clamp_claim c = c\<lparr>cl_namespace := kname (cl_namespace c), cl_name := kname (cl_name c),
     cl_phase := short (cl_phase c), cl_storage_class := kname (cl_storage_class c),
     cl_capacity := short (cl_capacity c)\<rparr>"

definition clampKubernetes :: "KubernetesInventory \<Rightarrow> string list \<Rightarrow> KubernetesInventory \<times> string list" where
  "clampKubernetes k t0 =
    (let (nodes, t1) = cut MaxNodes ''nodes'' (ki_nodes k) t0;
         (namespaces, t2) = cut MaxNamespaces ''namespaces'' (ki_namespaces k) t1;
         (workloads, t3) = cut MaxWorkloads ''workloads'' (ki_workloads k) t2;
         (pods, t4) = cut MaxPods ''pods'' (ki_pods k) t3;
         t5 = (if list_ex (\<lambda>p. length (pd_containers p) > MaxPodContainers) pods then ''pods'' # t4 else t4);
         (services, t6) = cut MaxServices ''services'' (ki_services k) t5;
         (claims, t7) = cut MaxClaims ''claims'' (ki_claims k) t6;
         (classes, t8) = cut MaxStorageClasses ''storage_classes'' (ki_storage_classes k) t7
     in (\<lparr>ki_nodes = map clamp_node nodes, ki_namespaces = cleanList namespaces MaxNamespaces MaxKubeNameBytes,
          ki_workloads = map clamp_workload workloads, ki_pods = map clamp_pod pods,
          ki_services = map clamp_service services, ki_claims = map clamp_claim claims,
          ki_storage_classes = map (\<lambda>c. c\<lparr>sc_name := kname (sc_name c)\<rparr>) classes\<rparr>, t8))"

definition Clamp :: "Snapshot \<Rightarrow> Snapshot" where
  "Clamp s =
    (let t0 = map (\<lambda>t. CleanText t 16) (sn_truncated s);
         (containers, t1) = cut MaxContainers ''containers'' (sn_containers s) t0;
         (images, t2) = cut MaxImages ''images'' (sn_images s) t1;
         (networks, t3) = cut MaxNetworks ''networks'' (sn_networks s) t2;
         (volumes, t4) = cut MaxVolumes ''volumes'' (sn_volumes s) t3;
         (kube, t5) = (case sn_kubernetes s of None \<Rightarrow> (None, t4)
                       | Some k \<Rightarrow> (case clampKubernetes k t4 of (k', t) \<Rightarrow> (Some k', t)))
     in s\<lparr>sn_engine := clamp_engine (sn_engine s), sn_containers := map clamp_container containers,
          sn_images := map clamp_image images, sn_networks := map clamp_network networks,
          sn_volumes := map clamp_volume volumes, sn_kubernetes := kube,
          sn_truncated := filter (\<lambda>n. n \<in> set t5) truncatable\<rparr>)"

subsection \<open>Shape, capabilities and cluster health\<close>

definition CheckRuntimeShape :: "string \<Rightarrow> Snapshot \<Rightarrow> bool" where
  "CheckRuntimeShape runtime s =
    (if runtime = RuntimeKubernetes
     then \<not> (sn_kubernetes s = None \<or> length (sn_containers s) + length (sn_images s)
            + length (sn_networks s) + length (sn_volumes s) > 0)
     else sn_kubernetes s = None)"

definition CapabilityInventoryRefresh :: string where "CapabilityInventoryRefresh = ''inventory.refresh''"

definition kubernetesCapabilities :: "string list" where
  "kubernetesCapabilities = [''kubernetes.inventory'', ''pod.logs'', ''kubernetes.deploy'', ''kubernetes.claims'',
     ''kubernetes.service_ips'', ''kubernetes.remove'', ''kubernetes.inspect'', ''kubernetes.workloads'',
     ''kubernetes.manifests.run'', ''kubernetes.workloads.run'', ''pod.exec'', ''kubernetes.names.subdomain'']"

definition CapabilitiesFit :: "string \<Rightarrow> string list \<Rightarrow> bool" where
  "CapabilitiesFit runtime caps =
    list_all (\<lambda>c. c = CapabilityInventoryRefresh
      \<or> (runtime = RuntimeKubernetes) = (c \<in> set kubernetesCapabilities)) caps"

definition ClusterHealth :: "bool \<Rightarrow> Snapshot option \<Rightarrow> string" where
  "ClusterHealth active s =
    (case (active, s) of
       (True, Some sn) \<Rightarrow>
         (case sn_kubernetes sn of
            None \<Rightarrow> ''unknown''
          | Some k \<Rightarrow>
             if ki_nodes k = [] then ''unknown''
             else if list_ex (\<lambda>n. \<not> no_ready n) (ki_nodes k) then ''degraded''
             else if ''nodes'' \<in> set (sn_truncated sn) then ''unknown'' else ''healthy'')
     | _ \<Rightarrow> ''unknown'')"

subsection \<open>Clamp is a projection onto the declared schema\<close>

text \<open>Text in its bound that cleaning leaves alone.\<close>

definition clean :: "int \<Rightarrow> string \<Rightarrow> bool" where
  "clean n s \<longleftrightarrow> int (length s) \<le> n \<and> CleanText s n = s"

lemma clean_CleanText [simp]: "0 \<le> n \<Longrightarrow> clean n (CleanText s n)"
  by (simp add: clean_def CleanText_idem CleanText_length)

lemma clean_fixed [simp]: "clean n s \<Longrightarrow> CleanText s n = s"
  by (simp add: clean_def)

definition clean_list :: "nat \<Rightarrow> int \<Rightarrow> string list \<Rightarrow> bool" where
  "clean_list mx n xs \<longleftrightarrow> length xs \<le> mx \<and> list_all (clean n) xs"

lemma clean_list_cleanList [simp]: "0 \<le> n \<Longrightarrow> clean_list mx n (cleanList xs mx n)"
  by (simp add: clean_list_def cleanList_def list_all_iff)

lemma cleanList_fixed [simp]: "clean_list mx n xs \<Longrightarrow> cleanList xs mx n = xs"
  by (simp add: clean_list_def cleanList_def list_all_iff map_idI)

definition clean_labels :: "(string \<times> string) list \<Rightarrow> bool" where
  "clean_labels es \<longleftrightarrow> length es \<le> MaxLabels \<and> sorted_wrt (\<lambda>x y. fst x < fst y) es
    \<and> list_all (\<lambda>(k, v). clean MaxLabelBytes k \<and> clean MaxLabelBytes v) es"

lemma set_map_put: "set (map_put k v es) \<subseteq> insert (k, v) (set es)"
  by (induction k v es rule: map_put.induct) auto

lemma length_map_put: "length (map_put k v es) \<le> Suc (length es)"
  by (induction k v es rule: map_put.induct) auto

lemma sorted_map_put:
  "sorted_wrt (\<lambda>x y. fst x < fst y) es \<Longrightarrow> sorted_wrt (\<lambda>x y. fst x < fst y) (map_put k v es)"
proof (induction k v es rule: map_put.induct)
  case (2 k v k' v' es)
  then have "\<forall>x\<in>set (map_put k v es). k' < fst x" if "k \<noteq> k'" "\<not> k < k'"
    using that set_map_put [of k v es] by fastforce
  with 2 show ?case by (auto intro: less_trans)
qed simp

lemma map_put_last:
  "\<forall>e\<in>set es. fst e < k \<Longrightarrow> map_put k v es = es @ [(k, v)]"
  by (induction k v es rule: map_put.induct) auto

lemma label_loop_clean:
  assumes "clean_labels out"
  shows "clean_labels (label_loop es out)"
  using assms
proof (induction es out rule: label_loop.induct)
  case (2 k v es out)
  show ?case
  proof (cases "length out \<ge> MaxLabels")
    case False
    let ?out = "map_put (CleanText k MaxLabelBytes) (CleanText v MaxLabelBytes) out"
    have "clean_labels ?out"
      using "2.prems" False length_map_put [of "CleanText k MaxLabelBytes" "CleanText v MaxLabelBytes" out]
        set_map_put [of "CleanText k MaxLabelBytes" "CleanText v MaxLabelBytes" out]
      unfolding clean_labels_def list_all_iff by (fastforce intro: sorted_map_put)
    with "2.IH" False show ?thesis by simp
  qed (use "2.prems" in simp)
qed simp

lemma label_loop_fixed:
  "clean_labels (out @ es) \<Longrightarrow> label_loop es out = out @ es"
proof (induction es arbitrary: out)
  case (Cons e es)
  obtain k v where e: "e = (k, v)" by fastforce
  from Cons.prems have "\<forall>x\<in>set out. fst x < k" and "clean MaxLabelBytes k" "clean MaxLabelBytes v"
    and "length out < MaxLabels"
    by (auto simp: clean_labels_def e sorted_wrt_append list_all_iff)
  then show ?case using Cons.IH [of "out @ [e]"] Cons.prems by (simp add: e map_put_last)
qed simp

lemma cleanLabels_clean [simp]: "clean_labels (cleanLabels es)"
  unfolding cleanLabels_def by (rule label_loop_clean) (simp add: clean_labels_def)

lemma cleanLabels_fixed [simp]: "clean_labels es \<Longrightarrow> cleanLabels es = es"
proof -
  assume c: "clean_labels es"
  then have "sorted_wrt (\<lambda>x y. fst x \<le> fst y) es"
    unfolding clean_labels_def by (auto elim!: sorted_wrt_mono_rel [rotated])
  then have "sorted (map fst es)" by (simp add: sorted_wrt_map)
  then have "sort_key fst es = es" by (rule sort_key_id_if_sorted)
  with c label_loop_fixed [of "[]" es] show ?thesis by (simp add: cleanLabels_def)
qed

text \<open>The declared schema, element by element: every text in its bound, every list under its cap.\<close>

definition engine_fits :: "Engine \<Rightarrow> bool" where
  "engine_fits e \<longleftrightarrow>
    clean 32 (en_runtime e) \<and> clean 64 (en_version e) \<and> clean 32 (en_api_version e) \<and> clean 64 (en_os e)
    \<and> clean 32 (en_arch e) \<and> clean 128 (en_kernel e) \<and> clean MaxNameBytes (en_hostname e)"

definition port_fits :: "Port \<Rightarrow> bool" where
  "port_fits p \<longleftrightarrow>
    clean 64 (po_host_ip p) \<and> clean 8 (po_protocol p)"

definition mount_fits :: "Mount \<Rightarrow> bool" where
  "mount_fits m \<longleftrightarrow>
    clean MaxImageRefBytes (mt_source m) \<and> clean MaxImageRefBytes (mt_target m)
    \<and> mt_kind m \<in> {MountVolume, MountBind, MountOther}"

definition attachment_fits :: "NetworkAttachment \<Rightarrow> bool" where
  "attachment_fits n \<longleftrightarrow>
    clean MaxNameBytes (na_name n) \<and> (na_ip n = '''' \<or> zoneless4 (na_ip n))
    \<and> (na_ip6 n = '''' \<or> zoneless6 (na_ip6 n))"

definition container_fits :: "Container \<Rightarrow> bool" where
  "container_fits c \<longleftrightarrow>
    clean 128 (co_id c) \<and> clean MaxNameBytes (co_name c) \<and> clean MaxImageRefBytes (co_image c)
    \<and> clean 128 (co_image_id c) \<and> clean 32 (co_state c) \<and> clean MaxStatusBytes (co_status c)
    \<and> clean MaxNameBytes (co_compose_project c) \<and> clean 32 (co_restart_policy c)
    \<and> clean_labels (co_labels c) \<and> length (co_ports c) \<le> 64 \<and> list_all port_fits (co_ports c)
    \<and> co_health c \<in> insert '''' (set HealthStates)
    \<and> clean_list MaxNetworkAttachments MaxNameBytes (co_networks c)
    \<and> length (co_network_attachments c) \<le> MaxNetworkAttachments
    \<and> list_all attachment_fits (co_network_attachments c)
    \<and> (case co_mounts c of None \<Rightarrow> True | Some l \<Rightarrow> length l \<le> MaxMounts \<and> list_all mount_fits l)"

definition image_fits :: "Image \<Rightarrow> bool" where
  "image_fits i \<longleftrightarrow>
    clean 128 (im_id i) \<and> clean_list 32 MaxImageRefBytes (im_tags i)
    \<and> clean_list 32 MaxImageRefBytes (im_digests i)"

definition network_fits :: "Network \<Rightarrow> bool" where
  "network_fits n \<longleftrightarrow>
    clean 128 (nw_id n) \<and> clean MaxNameBytes (nw_name n) \<and> clean 64 (nw_driver n) \<and> clean 32 (nw_scope n)"

definition volume_fits :: "Volume \<Rightarrow> bool" where
  "volume_fits v \<longleftrightarrow>
    clean MaxNameBytes (vo_name v) \<and> clean 64 (vo_driver v) \<and> clean MaxImageRefBytes (vo_mountpoint v)"

definition node_fits :: "Node \<Rightarrow> bool" where
  "node_fits n \<longleftrightarrow>
    clean MaxKubeNameBytes (no_name n) \<and> clean MaxKubeShortBytes (no_kubelet_version n)
    \<and> clean MaxKubeShortBytes (no_os n) \<and> clean MaxKubeShortBytes (no_arch n)
    \<and> clean_list MaxNodeRoles MaxKubeShortBytes (no_roles n)"

definition workload_fits :: "Workload \<Rightarrow> bool" where
  "workload_fits w \<longleftrightarrow>
    clean MaxKubeShortBytes (wl_kind w) \<and> clean MaxKubeNameBytes (wl_namespace w)
    \<and> clean MaxKubeNameBytes (wl_name w) \<and> clean MaxKubeShortBytes (wl_application w)
    \<and> clean MaxKubeShortBytes (wl_instance w)
    \<and> clean_list MaxWorkloadImages MaxKubeImageBytes (wl_images w)"

definition pod_container_fits :: "PodContainer \<Rightarrow> bool" where
  "pod_container_fits c \<longleftrightarrow>
    clean MaxKubeNameBytes (pc_name c) \<and> clean MaxKubeImageBytes (pc_image c)
    \<and> clean MaxKubeImageBytes (pc_image_id c) \<and> clean MaxKubeShortBytes (pc_state c)
    \<and> clean MaxKubeShortBytes (pc_reason c)"

definition pod_fits :: "Pod \<Rightarrow> bool" where
  "pod_fits p \<longleftrightarrow>
    clean MaxKubeNameBytes (pd_namespace p) \<and> clean MaxKubeNameBytes (pd_name p)
    \<and> clean MaxKubeShortBytes (pd_phase p) \<and> clean MaxKubeNameBytes (pd_node p)
    \<and> clean MaxKubeShortBytes (pd_owner_kind p) \<and> clean MaxKubeNameBytes (pd_owner_name p)
    \<and> (pd_uid p = '''' \<or> MatchString deploymentUUID (pd_uid p))
    \<and> length (pd_containers p) \<le> MaxPodContainers \<and> list_all pod_container_fits (pd_containers p)"

definition service_fits :: "Service \<Rightarrow> bool" where
  "service_fits s \<longleftrightarrow>
    clean MaxKubeNameBytes (se_namespace s) \<and> clean MaxKubeNameBytes (se_name s)
    \<and> clean MaxKubeShortBytes (se_type s) \<and> clean MaxKubeShortBytes (se_cluster_ip s)
    \<and> clean MaxKubeShortBytes (se_instance s) \<and> clean MaxKubeShortBytes (se_service s)
    \<and> clean_list MaxServicePorts MaxKubeShortBytes (se_ports s)"

definition claim_fits :: "Claim \<Rightarrow> bool" where
  "claim_fits c \<longleftrightarrow>
    clean MaxKubeNameBytes (cl_namespace c) \<and> clean MaxKubeNameBytes (cl_name c)
    \<and> clean MaxKubeShortBytes (cl_phase c) \<and> clean MaxKubeNameBytes (cl_storage_class c)
    \<and> clean MaxKubeShortBytes (cl_capacity c)"

lemmas fits_defs = engine_fits_def port_fits_def mount_fits_def attachment_fits_def container_fits_def image_fits_def network_fits_def volume_fits_def node_fits_def workload_fits_def pod_container_fits_def pod_fits_def service_fits_def claim_fits_def

lemmas clamp_defs = clamp_engine_def clamp_port_def clamp_mount_def clamp_attachment_def clamp_container_def clamp_image_def clamp_network_def clamp_volume_def clamp_node_def clamp_workload_def clamp_pod_container_def clamp_pod_def clamp_service_def clamp_claim_def

lemma leaf_fits:
  "engine_fits (clamp_engine e)" "port_fits (clamp_port p)" "mount_fits (clamp_mount m)"
  "attachment_fits (clamp_attachment a)" "image_fits (clamp_image i)" "network_fits (clamp_network n)"
  "volume_fits (clamp_volume v)" "node_fits (clamp_node nd)" "workload_fits (clamp_workload w)"
  "pod_container_fits (clamp_pod_container pc)" "service_fits (clamp_service s)" "claim_fits (clamp_claim c)"
  by (simp_all add: fits_defs clamp_defs cleanIP_def)

lemma leaf_fixed:
  "engine_fits e \<Longrightarrow> clamp_engine e = e" "port_fits p \<Longrightarrow> clamp_port p = p"
  "mount_fits m \<Longrightarrow> clamp_mount m = m" "attachment_fits a \<Longrightarrow> clamp_attachment a = a"
  "image_fits i \<Longrightarrow> clamp_image i = i" "network_fits n \<Longrightarrow> clamp_network n = n"
  "volume_fits v \<Longrightarrow> clamp_volume v = v" "node_fits nd \<Longrightarrow> clamp_node nd = nd"
  "workload_fits w \<Longrightarrow> clamp_workload w = w" "pod_container_fits pc \<Longrightarrow> clamp_pod_container pc = pc"
  "service_fits s \<Longrightarrow> clamp_service s = s" "claim_fits c \<Longrightarrow> clamp_claim c = c"
  by (auto simp add: fits_defs clamp_defs cleanIP_def)

lemma take_map_fits: "(\<And>x. fits (f x)) \<Longrightarrow> list_all fits (map f xs)"
  by (simp add: list_all_iff)

lemma map_take_fixed:
  "length xs \<le> n \<Longrightarrow> list_all fits xs \<Longrightarrow> (\<And>x. fits x \<Longrightarrow> f x = x) \<Longrightarrow> map f (take n xs) = xs"
  by (simp add: list_all_iff map_idI)

lemma mount_fits_unchanged: "mount_fits m \<Longrightarrow> \<not> mount_changed m"
  by (simp add: fits_defs mount_changed_def)

lemma container_fits: "container_fits (clamp_container c)"
  by (auto simp: clamp_container_def container_fits_def Let_def leaf_fits clean_list_def list_all_iff
      split: option.split)

lemma container_fixed: "container_fits c \<Longrightarrow> clamp_container c = c"
  by (cases c, cases "co_mounts c")
    (auto simp: clamp_container_def container_fits_def Let_def list_all_iff list_ex_iff map_idI leaf_fixed
      clean_list_def mount_fits_unchanged)

lemma pod_fits: "pod_fits (clamp_pod p)"
  by (auto simp: clamp_pod_def pod_fits_def list_all_iff leaf_fits)

lemma pod_fixed: "pod_fits p \<Longrightarrow> clamp_pod p = p"
  by (cases p) (auto simp: clamp_pod_def pod_fits_def list_all_iff map_idI leaf_fixed)

definition kubernetes_fits :: "KubernetesInventory \<Rightarrow> bool" where
  "kubernetes_fits k \<longleftrightarrow>
    length (ki_nodes k) \<le> MaxNodes \<and> list_all node_fits (ki_nodes k)
    \<and> clean_list MaxNamespaces MaxKubeNameBytes (ki_namespaces k)
    \<and> length (ki_workloads k) \<le> MaxWorkloads \<and> list_all workload_fits (ki_workloads k)
    \<and> length (ki_pods k) \<le> MaxPods \<and> list_all pod_fits (ki_pods k)
    \<and> length (ki_services k) \<le> MaxServices \<and> list_all service_fits (ki_services k)
    \<and> length (ki_claims k) \<le> MaxClaims \<and> list_all claim_fits (ki_claims k)
    \<and> length (ki_storage_classes k) \<le> MaxStorageClasses
    \<and> list_all (\<lambda>c. clean MaxKubeNameBytes (sc_name c)) (ki_storage_classes k)"

definition conforming :: "Snapshot \<Rightarrow> bool" where
  "conforming s \<longleftrightarrow>
    engine_fits (sn_engine s)
    \<and> length (sn_containers s) \<le> MaxContainers \<and> list_all container_fits (sn_containers s)
    \<and> length (sn_images s) \<le> MaxImages \<and> list_all image_fits (sn_images s)
    \<and> length (sn_networks s) \<le> MaxNetworks \<and> list_all network_fits (sn_networks s)
    \<and> length (sn_volumes s) \<le> MaxVolumes \<and> list_all volume_fits (sn_volumes s)
    \<and> (case sn_kubernetes s of None \<Rightarrow> True | Some k \<Rightarrow> kubernetes_fits k)
    \<and> sn_truncated s = filter (\<lambda>n. n \<in> set (sn_truncated s)) truncatable"

lemma fst_cut: "fst (cut n name xs t) = take n xs"
  by (simp add: cut_def)

lemma cut_fixed: "length xs \<le> n \<Longrightarrow> cut n name xs t = (xs, t)"
  by (simp add: cut_def)

lemma list_all_map_fits: "(\<And>x. fits (f x)) \<Longrightarrow> list_all fits (map f xs)"
  by (simp add: list_all_iff)

lemma list_all_fixed: "list_all fits xs \<Longrightarrow> (\<And>x. fits x \<Longrightarrow> f x = x) \<Longrightarrow> map f xs = xs"
  by (simp add: list_all_iff map_idI)

lemma kubernetes_fits: "kubernetes_fits (fst (clampKubernetes k t))"
  by (simp add: clampKubernetes_def kubernetes_fits_def Let_def split_beta fst_cut leaf_fits pod_fits list_all_iff)

lemma kubernetes_fixed: "kubernetes_fits k \<Longrightarrow> clampKubernetes k t = (k, t)"
proof -
  assume f: "kubernetes_fits k"
  have "map (\<lambda>c. c\<lparr>sc_name := kname (sc_name c)\<rparr>) (ki_storage_classes k) = ki_storage_classes k"
    by (rule list_all_fixed [where fits = "\<lambda>c. clean MaxKubeNameBytes (sc_name c)"])
      (use f in \<open>auto simp: kubernetes_fits_def\<close>)
  moreover have "\<not> list_ex (\<lambda>p. length (pd_containers p) > MaxPodContainers) (ki_pods k)"
    using f by (auto simp: kubernetes_fits_def list_ex_iff list_all_iff pod_fits_def)
  ultimately show ?thesis
    using f list_all_fixed [of node_fits "ki_nodes k" clamp_node]
      list_all_fixed [of workload_fits "ki_workloads k" clamp_workload]
      list_all_fixed [of pod_fits "ki_pods k" clamp_pod]
      list_all_fixed [of service_fits "ki_services k" clamp_service]
      list_all_fixed [of claim_fits "ki_claims k" clamp_claim]
    by (simp add: clampKubernetes_def kubernetes_fits_def cut_fixed leaf_fixed pod_fixed clean_list_def [of MaxNamespaces])
qed

lemma truncatable_ascii: "n \<in> set truncatable \<Longrightarrow> CleanText n 16 = n"
  by (rule CleanText_ascii) (auto simp: truncatable_def byte_def)

lemma Clamp_conforming: "conforming (Clamp s)"
proof -
  obtain containers t1 where 1: "cut MaxContainers ''containers'' (sn_containers s) (map (\<lambda>t. CleanText t 16) (sn_truncated s)) = (containers, t1)" by fastforce
  obtain images t2 where 2: "cut MaxImages ''images'' (sn_images s) t1 = (images, t2)" by fastforce
  obtain networks t3 where 3: "cut MaxNetworks ''networks'' (sn_networks s) t2 = (networks, t3)" by fastforce
  obtain volumes t4 where 4: "cut MaxVolumes ''volumes'' (sn_volumes s) t3 = (volumes, t4)" by fastforce
  have len: "length containers \<le> MaxContainers" "length images \<le> MaxImages" "length networks \<le> MaxNetworks"
    "length volumes \<le> MaxVolumes"
    using 1 2 3 4 by (auto simp: cut_def split: if_splits)
  show ?thesis
  proof (cases "sn_kubernetes s")
    case None
    then show ?thesis
      by (auto simp: conforming_def Clamp_def Let_def 1 2 3 4 len leaf_fits container_fits list_all_iff
          intro!: filter_cong)
  next
    case (Some k)
    obtain k' t where k: "clampKubernetes k t4 = (k', t)" by fastforce
    with kubernetes_fits [of k t4] have "kubernetes_fits k'" by simp
    with Some k show ?thesis
      by (auto simp: conforming_def Clamp_def Let_def 1 2 3 4 len leaf_fits container_fits list_all_iff
          intro!: filter_cong)
  qed
qed

lemma Clamp_fixed:
  assumes "conforming s"
  shows "Clamp s = s"
proof -
  have t: "map (\<lambda>t. CleanText t 16) (sn_truncated s) = sn_truncated s"
  proof (rule map_idI)
    fix n assume "n \<in> set (sn_truncated s)"
    with assms have "n \<in> set truncatable" unfolding conforming_def by (metis (no_types, lifting) filter_is_subset subsetD)
    then show "CleanText n 16 = n" by (rule truncatable_ascii)
  qed
  have "map clamp_container (sn_containers s) = sn_containers s" "map clamp_image (sn_images s) = sn_images s"
    "map clamp_network (sn_networks s) = sn_networks s" "map clamp_volume (sn_volumes s) = sn_volumes s"
    using assms list_all_fixed [of container_fits _ clamp_container] list_all_fixed [of image_fits _ clamp_image]
      list_all_fixed [of network_fits _ clamp_network] list_all_fixed [of volume_fits _ clamp_volume]
    by (simp_all add: conforming_def container_fixed leaf_fixed)
  with assms t show ?thesis
    by (cases "sn_kubernetes s")
      (simp_all add: conforming_def Clamp_def Let_def cut_fixed kubernetes_fixed leaf_fixed)
qed


subsection \<open>Shrink\<close>

definition clear_labels :: "Container \<Rightarrow> Container" where
  "clear_labels c = c\<lparr>co_labels := []\<rparr>"

definition clear_mounts :: "Container \<Rightarrow> Container" where
  "clear_mounts c = (case co_mounts c of
     Some (m # ms) \<Rightarrow> c\<lparr>co_mounts := Some [], co_mounts_truncated := True\<rparr> | _ \<Rightarrow> c)"

definition has_mounts :: "Container \<Rightarrow> bool" where
  "has_mounts c = (case co_mounts c of Some (m # ms) \<Rightarrow> True | _ \<Rightarrow> False)"

definition three_quarters :: "'a list \<Rightarrow> 'a list" where
  "three_quarters xs = take (length xs * 3 div 4) xs"

text \<open>The longest cluster list loses its tail; a tie goes to the first in this order.\<close>

definition cluster_lists :: "KubernetesInventory \<Rightarrow> (string \<times> nat) list" where
  "cluster_lists k = [(''pods'', length (ki_pods k)), (''workloads'', length (ki_workloads k)),
     (''services'', length (ki_services k)), (''claims'', length (ki_claims k)),
     (''storage_classes'', length (ki_storage_classes k)), (''namespaces'', length (ki_namespaces k)),
     (''nodes'', length (ki_nodes k))]"

fun longest :: "(string \<times> nat) option \<Rightarrow> (string \<times> nat) list \<Rightarrow> (string \<times> nat) option" where
  "longest best [] = best"
| "longest best ((name, n) # ls) =
    longest (if n > 0 \<and> (case best of None \<Rightarrow> True | Some (_, m) \<Rightarrow> n > m) then Some (name, n) else best) ls"

definition cut_cluster :: "string \<Rightarrow> KubernetesInventory \<Rightarrow> KubernetesInventory" where
  "cut_cluster name k =
    (if name = ''pods'' then k\<lparr>ki_pods := three_quarters (ki_pods k)\<rparr>
     else if name = ''workloads'' then k\<lparr>ki_workloads := three_quarters (ki_workloads k)\<rparr>
     else if name = ''services'' then k\<lparr>ki_services := three_quarters (ki_services k)\<rparr>
     else if name = ''claims'' then k\<lparr>ki_claims := three_quarters (ki_claims k)\<rparr>
     else if name = ''storage_classes'' then k\<lparr>ki_storage_classes := three_quarters (ki_storage_classes k)\<rparr>
     else if name = ''namespaces'' then k\<lparr>ki_namespaces := three_quarters (ki_namespaces k)\<rparr>
     else k\<lparr>ki_nodes := three_quarters (ki_nodes k)\<rparr>)"

definition shrinkKubernetes :: "KubernetesInventory \<Rightarrow> (KubernetesInventory \<times> string) option" where
  "shrinkKubernetes k = map_option (\<lambda>(name, _). (cut_cluster name k, name)) (longest None (cluster_lists k))"

text \<open>One round: what is dropped and its name; None when there is nothing left to drop.\<close>

definition shrink_step :: "Snapshot \<Rightarrow> (Snapshot \<times> string list) option" where
  "shrink_step s =
    (if list_ex (\<lambda>c. co_labels c \<noteq> []) (sn_containers s)
     then Some (s\<lparr>sn_containers := map clear_labels (sn_containers s)\<rparr>, [''labels''])
     else if list_ex has_mounts (sn_containers s)
     then Some (s\<lparr>sn_containers := map clear_mounts (sn_containers s)\<rparr>, [])
     else if length (sn_containers s) \<ge> length (sn_images s) \<and> length (sn_containers s) \<ge> length (sn_volumes s)
       \<and> length (sn_containers s) > 0
     then Some (s\<lparr>sn_containers := three_quarters (sn_containers s)\<rparr>, [''containers''])
     else if length (sn_images s) \<ge> length (sn_volumes s) \<and> length (sn_images s) > 0
     then Some (s\<lparr>sn_images := three_quarters (sn_images s)\<rparr>, [''images''])
     else if length (sn_volumes s) > 0
     then Some (s\<lparr>sn_volumes := three_quarters (sn_volumes s)\<rparr>, [''volumes''])
     else if length (sn_networks s) > 0
     then Some (s\<lparr>sn_networks := three_quarters (sn_networks s)\<rparr>, [''networks''])
     else case sn_kubernetes s of
       None \<Rightarrow> None
     | Some k \<Rightarrow> map_option (\<lambda>(k', name). (s\<lparr>sn_kubernetes := Some k'\<rparr>, [name])) (shrinkKubernetes k))"

definition rename_truncated :: "string list \<Rightarrow> Snapshot \<Rightarrow> Snapshot" where
  "rename_truncated names s = s\<lparr>sn_truncated := filter (\<lambda>n. n \<in> set (names @ sn_truncated s)) truncatable\<rparr>"

text \<open>What the loop consumes: entries of the lists, labels and mounts that are still there.\<close>

definition list_load :: "Snapshot \<Rightarrow> nat" where
  "list_load s = length (sn_containers s) + length (sn_images s) + length (sn_volumes s) + length (sn_networks s)
     + (case sn_kubernetes s of None \<Rightarrow> 0 | Some k \<Rightarrow> sum_list (map snd (cluster_lists k)))"

definition shrink_load :: "Snapshot \<Rightarrow> nat" where
  "shrink_load s = 3 * list_load s + (if list_ex (\<lambda>c. co_labels c \<noteq> []) (sn_containers s) then 1 else 0)
     + (if list_ex has_mounts (sn_containers s) then 1 else 0)"

lemma three_quarters_less: "xs \<noteq> [] \<Longrightarrow> length (three_quarters xs) < length xs"
  by (cases xs) (auto simp: three_quarters_def)

lemma three_quarters_pos: "0 < length xs \<Longrightarrow> length (three_quarters xs) < length xs"
  using three_quarters_less by auto

lemma longest_member:
  "longest best ls = Some (name, n) \<Longrightarrow> best = Some (name, n) \<or> ((name, n) \<in> set ls \<and> n > 0)"
  by (induction best ls rule: longest.induct) (auto split: if_splits)

lemma longest_None: "longest best ls = None \<longleftrightarrow> best = None \<and> (\<forall>l\<in>set ls. snd l = 0)"
  by (induction best ls rule: longest.induct) auto

lemma cut_cluster_load:
  "(name, n) \<in> set (cluster_lists k) \<Longrightarrow> n > 0 \<Longrightarrow>
   sum_list (map snd (cluster_lists (cut_cluster name k))) < sum_list (map snd (cluster_lists k))"
  unfolding cluster_lists_def cut_cluster_def
  by (simp only: list.set insert_iff empty_iff prod.inject) (elim disjE; clarsimp simp: three_quarters_pos)

lemma shrinkKubernetes_load:
  "shrinkKubernetes k = Some (k', name) \<Longrightarrow>
   sum_list (map snd (cluster_lists k')) < sum_list (map snd (cluster_lists k))"
  by (auto simp: shrinkKubernetes_def dest!: longest_member intro: cut_cluster_load)

lemma rename_truncated_load [simp]: "shrink_load (rename_truncated names s) = shrink_load s"
  by (simp add: rename_truncated_def shrink_load_def list_load_def)

lemma cleared [simp]:
  "co_labels (clear_labels c) = []" "has_mounts (clear_labels c) = has_mounts c"
  "co_labels (clear_mounts c) = co_labels c" "\<not> has_mounts (clear_mounts c)"
  by (auto simp: clear_labels_def clear_mounts_def has_mounts_def split: option.split list.split)

lemma list_ex_three_quarters: "list_ex P (three_quarters xs) \<Longrightarrow> list_ex P xs"
  by (auto simp: list_ex_iff three_quarters_def dest: in_set_takeD)

lemma shrink_step_load:
  assumes "shrink_step s = Some (s', names)"
  shows "shrink_load s' < shrink_load s"
proof -
  have "list_load s' < list_load s" if "\<not> list_ex (\<lambda>c. co_labels c \<noteq> []) (sn_containers s)"
    "\<not> list_ex has_mounts (sn_containers s)"
    using assms that unfolding shrink_step_def list_load_def
    by (auto split: if_splits option.splits dest!: shrinkKubernetes_load simp: three_quarters_pos)
  moreover have "sn_containers s' = sn_containers s \<or> sn_containers s' = three_quarters (sn_containers s)"
    if "\<not> list_ex (\<lambda>c. co_labels c \<noteq> []) (sn_containers s)" "\<not> list_ex has_mounts (sn_containers s)"
    using assms that unfolding shrink_step_def by (auto split: if_splits option.splits)
  moreover have "shrink_load s' < shrink_load s"
    if "list_ex (\<lambda>c. co_labels c \<noteq> []) (sn_containers s) \<or> list_ex has_mounts (sn_containers s)"
    using assms that unfolding shrink_step_def shrink_load_def list_load_def
    by (auto split: if_splits simp: list_ex_iff)
  ultimately show ?thesis
    by (auto simp: shrink_load_def dest: list_ex_three_quarters split: if_splits)
qed

function Shrink :: "(Snapshot \<Rightarrow> string) \<Rightarrow> Snapshot \<Rightarrow> Snapshot \<times> string" where
  "Shrink encode s =
    (if length (encode s) \<le> MaxSnapshotBytes then (s, encode s)
     else case shrink_step s of
       None \<Rightarrow> (s, encode s)
     | Some (s', names) \<Rightarrow> Shrink encode (rename_truncated names s'))"
  by pat_completeness auto

termination
  by (relation "measure (\<lambda>(_, s). shrink_load s)") (auto dest: shrink_step_load)

declare Shrink.simps [simp del]

text \<open>The lists of a snapshot under the names that mark them, with their lengths.\<close>

definition listing :: "Snapshot \<Rightarrow> (string \<times> nat) list" where
  "listing s = [(''containers'', length (sn_containers s)), (''images'', length (sn_images s)),
     (''networks'', length (sn_networks s)), (''volumes'', length (sn_volumes s))]
     @ (case sn_kubernetes s of None \<Rightarrow> [] | Some k \<Rightarrow> cluster_lists k)"

definition shorter :: "string list \<Rightarrow> string \<times> nat \<Rightarrow> string \<times> nat \<Rightarrow> bool" where
  "shorter names x y \<longleftrightarrow> fst x = fst y \<and> snd y \<le> snd x \<and> (snd y < snd x \<longrightarrow> fst x \<in> set names)"

definition dropped_named :: "Snapshot \<Rightarrow> Snapshot \<Rightarrow> bool" where
  "dropped_named s s' \<longleftrightarrow>
    list_all2 (shorter (sn_truncated s')) (listing s) (listing s')
    \<and> set (sn_truncated s) \<inter> set truncatable \<subseteq> set (sn_truncated s')"

lemma shorter_refl: "list_all2 (shorter names) ls ls"
  by (simp add: list_all2_same shorter_def)

lemma listing_names: "fst ` set (listing s) \<subseteq> set truncatable"
  by (auto simp: listing_def cluster_lists_def truncatable_def split: option.splits)

lemma length_three_quarters: "length (three_quarters xs) \<le> length xs"
  by (simp add: three_quarters_def)

lemma dropped_named_refl: "dropped_named s s"
  by (auto simp: dropped_named_def shorter_refl)

lemma dropped_named_trans:
  assumes "dropped_named s t" and "dropped_named t u"
  shows "dropped_named s u"
proof -
  have len: "length (listing s) = length (listing t)" "length (listing t) = length (listing u)"
    using assms by (auto simp: dropped_named_def dest: list_all2_lengthD)
  have "shorter (sn_truncated u) (listing s ! i) (listing u ! i)" if i: "i < length (listing s)" for i
  proof -
    have "fst (listing s ! i) \<in> set truncatable"
      using listing_names [of s] nth_mem [OF i] by blast
    moreover have "shorter (sn_truncated t) (listing s ! i) (listing t ! i)" "shorter (sn_truncated u) (listing t ! i) (listing u ! i)"
      using assms i len by (auto simp: dropped_named_def list_all2_conv_all_nth)
    moreover have "set (sn_truncated t) \<inter> set truncatable \<subseteq> set (sn_truncated u)"
      using assms(2) by (simp add: dropped_named_def)
    ultimately show ?thesis
      unfolding shorter_def by (cases "snd (listing t ! i) < snd (listing s ! i)") auto
  qed
  then show ?thesis
    using assms len unfolding dropped_named_def list_all2_conv_all_nth by auto
qed

lemma shrinkKubernetes_listing:
  assumes "shrinkKubernetes k = Some (k', name)"
  shows "list_all2 (shorter [name]) (cluster_lists k) (cluster_lists k')" and "name \<in> set truncatable"
proof -
  from assms obtain n where "(name, n) \<in> set (cluster_lists k)" and k': "k' = cut_cluster name k"
    by (auto simp: shrinkKubernetes_def dest!: longest_member)
  then have "name \<in> {''pods'', ''workloads'', ''services'', ''claims'', ''storage_classes'', ''namespaces'', ''nodes''}"
    by (auto simp: cluster_lists_def)
  then show "name \<in> set truncatable"
    and "list_all2 (shorter [name]) (cluster_lists k) (cluster_lists k')"
    unfolding k' cut_cluster_def cluster_lists_def
    by (elim insertE; simp add: length_three_quarters truncatable_def shorter_def)+
qed

lemma shrink_step_cases:
  assumes "shrink_step s = Some (s', names)"
  shows "list_all2 (shorter names) (listing s) (listing s') \<and> set names \<subseteq> set truncatable \<and> sn_truncated s' = sn_truncated s"
proof (cases "sn_kubernetes s' = sn_kubernetes s")
  case True
  have "list_all2 (shorter names) (case sn_kubernetes s of None \<Rightarrow> [] | Some k \<Rightarrow> cluster_lists k)
      (case sn_kubernetes s' of None \<Rightarrow> [] | Some k \<Rightarrow> cluster_lists k)"
    using True by (simp add: shorter_refl)
  moreover have "list_all2 (shorter names) (take 4 (listing s)) (take 4 (listing s'))
      \<and> set names \<subseteq> set truncatable \<and> sn_truncated s' = sn_truncated s"
    using assms True unfolding shrink_step_def
    by (auto simp: listing_def length_three_quarters truncatable_def shorter_def split: if_splits option.splits
        dest: shrinkKubernetes_load)
  ultimately show ?thesis by (simp add: listing_def)
next
  case False
  then obtain k k' name where "sn_kubernetes s = Some k" "shrinkKubernetes k = Some (k', name)"
    "s' = s\<lparr>sn_kubernetes := Some k'\<rparr>" "names = [name]"
    using assms unfolding shrink_step_def by (auto split: if_splits option.splits)
  with shrinkKubernetes_listing [of k k' name] show ?thesis by (simp add: listing_def shorter_def)
qed

lemma shrink_step_named:
  assumes "shrink_step s = Some (s', names)"
  shows "dropped_named s (rename_truncated names s')"
proof -
  note c = shrink_step_cases [OF assms]
  have "listing (rename_truncated names s') = listing s'"
    by (simp add: listing_def rename_truncated_def)
  moreover have "list_all2 (shorter (sn_truncated (rename_truncated names s'))) (listing s) (listing s')"
    by (rule list_all2_mono [OF conjunct1 [OF c]]) (use c in \<open>auto simp: shorter_def rename_truncated_def\<close>)
  ultimately show ?thesis using c by (auto simp: dropped_named_def rename_truncated_def)
qed

lemma shrink_step_None: "shrink_step s = None \<Longrightarrow> list_load s = 0"
  by (auto simp: shrink_step_def list_load_def shrinkKubernetes_def longest_None split: if_splits option.splits)


subsection \<open>ShrinkMetrics\<close>

abbreviation MaxSamples :: nat where "MaxSamples \<equiv> 1000"
abbreviation MaxMetricsBytes :: nat where "MaxMetricsBytes \<equiv> 65536"

text \<open>The binary search over prefix lengths; \<open>fits n\<close> says whether the first \<open>n\<close> samples encode small enough.\<close>

function prefix_search :: "(nat \<Rightarrow> bool) \<Rightarrow> int \<Rightarrow> int \<Rightarrow> int \<Rightarrow> int" where
  "prefix_search fits lo hi best =
    (if lo \<le> hi then
       let mid = lo + (hi - lo) div 2 in
       if fits (nat mid) then prefix_search fits (mid + 1) hi mid
       else prefix_search fits lo (mid - 1) best
     else best)"
  by pat_completeness auto

termination
  by (relation "measure (\<lambda>(_, lo, hi, _). nat (hi + 1 - lo))") auto

declare prefix_search.simps [simp del]

text \<open>\<open>encode\<close> is the JSON encoding of a metrics frame with these samples.\<close>

definition ShrinkMetrics :: "('s list \<Rightarrow> string) \<Rightarrow> 's list \<Rightarrow> 's list" where
  "ShrinkMetrics encode samples =
    (let xs = take MaxSamples samples in
     if length (encode xs) \<le> MaxMetricsBytes then xs
     else take (nat (prefix_search (\<lambda>n. length (encode (take n xs)) \<le> MaxMetricsBytes) 0 (int (length xs)) 0)) xs)"

lemma prefix_search_largest:
  assumes "\<forall>i j. i \<le> j \<longrightarrow> fits j \<longrightarrow> fits i" and "0 \<le> lo" and "lo \<le> hi + 1"
    and "best = (if lo = 0 then 0 else lo - 1)" and "fits (nat best)"
    and "\<forall>i. hi < int i \<longrightarrow> i \<le> N \<longrightarrow> \<not> fits i"
  shows "0 \<le> prefix_search fits lo hi best \<and> fits (nat (prefix_search fits lo hi best))
    \<and> (\<forall>i\<le>N. fits i \<longrightarrow> int i \<le> prefix_search fits lo hi best)"
  using assms
proof (induction fits lo hi best rule: prefix_search.induct)
  case (1 fits lo hi best)
  show ?case
  proof (cases "lo \<le> hi")
    case True
    define mid where "mid = lo + (hi - lo) div 2"
    have mid: "lo \<le> mid" "mid \<le> hi" using True by (auto simp: mid_def)
    show ?thesis
    proof (cases "fits (nat mid)")
      case fit: True
      have "prefix_search fits lo hi best = prefix_search fits (mid + 1) hi mid"
        using True fit by (subst prefix_search.simps) (simp add: mid_def Let_def)
      with "1.IH"(1) [OF True mid_def fit] "1.prems" mid fit show ?thesis by simp
    next
      case nofit: False
      have "prefix_search fits lo hi best = prefix_search fits lo (mid - 1) best"
        using True nofit by (subst prefix_search.simps) (simp add: mid_def Let_def)
      moreover have "\<forall>i. mid - 1 < int i \<longrightarrow> i \<le> N \<longrightarrow> \<not> fits i"
      proof (intro allI impI notI)
        fix i assume "mid - 1 < int i" "fits i"
        then have "nat mid \<le> i" by linarith
        with "1.prems"(1) \<open>fits i\<close> nofit show False by blast
      qed
      ultimately show ?thesis using "1.IH"(2) [OF True mid_def nofit] "1.prems" mid by simp
    qed
  next
    case False
    with "1.prems" have "prefix_search fits lo hi best = best" by (subst prefix_search.simps) simp
    moreover have "\<forall>i\<le>N. fits i \<longrightarrow> int i \<le> best"
    proof (intro allI impI)
      fix i assume "i \<le> N" "fits i"
      with "1.prems"(6) have "int i \<le> hi" by (meson not_le)
      with False "1.prems"(2-4) show "int i \<le> best" by auto
    qed
    ultimately show ?thesis using "1.prems" by auto
  qed
qed

text \<open>
  C24. ShrinkMetrics keeps the longest prefix that fits. When the encoding of a prefix never gets
  longer by dropping samples and the empty frame fits, the binary search ends with a prefix of
  the (at most 1000) samples that fits the wire limit, and no longer prefix does: it equals the
  search one sample at a time that it replaces.
\<close>

theorem ShrinkMetrics_longest_prefix:
  assumes "\<And>i j. i \<le> j \<Longrightarrow> length (encode (take i (take MaxSamples samples)))
      \<le> length (encode (take j (take MaxSamples samples)))"
    and "length (encode []) \<le> MaxMetricsBytes"
  shows "\<exists>n. ShrinkMetrics encode samples = take n (take MaxSamples samples)
    \<and> length (encode (take n (take MaxSamples samples))) \<le> MaxMetricsBytes
    \<and> (\<forall>i\<le>length (take MaxSamples samples).
        length (encode (take i (take MaxSamples samples))) \<le> MaxMetricsBytes \<longrightarrow> i \<le> n)"
proof -
  define xs where "xs = take MaxSamples samples"
  define fits where "fits = (\<lambda>n. length (encode (take n xs)) \<le> MaxMetricsBytes)"
  define n where "n = prefix_search fits 0 (int (length xs)) 0"
  have mono: "\<forall>i j. i \<le> j \<longrightarrow> fits j \<longrightarrow> fits i"
    using assms(1) order_trans unfolding fits_def xs_def by blast
  have "fits (nat 0)" using assms(2) by (simp add: fits_def)
  with prefix_search_largest [OF mono, of 0 "int (length xs)" 0 "length xs"]
  have n: "0 \<le> n \<and> fits (nat n) \<and> (\<forall>i\<le>length xs. fits i \<longrightarrow> int i \<le> n)"
    by (simp add: n_def)
  show ?thesis
  proof (cases "fits (length xs)")
    case True
    then have "ShrinkMetrics encode samples = take (length xs) xs"
      unfolding ShrinkMetrics_def xs_def [symmetric] Let_def fits_def by simp
    with True show ?thesis unfolding xs_def [symmetric] fits_def
      by (intro exI [where x = "length xs"]) simp
  next
    case False
    have "ShrinkMetrics encode samples = take (nat n) xs"
      using False unfolding ShrinkMetrics_def xs_def [symmetric] Let_def n_def fits_def by simp
    with n show ?thesis unfolding xs_def [symmetric] fits_def
      by (intro exI [where x = "nat n"]) (auto simp: le_nat_iff)
  qed
qed

theorem ShrinkMetrics_longest_prefix_witness:
  "\<exists>n. ShrinkMetrics (\<lambda>xs. ''[]'' @ concat xs) [''{}'', ''{}''] = take n (take MaxSamples [''{}'', ''{}''])
     \<and> length (''[]'' @ concat (take n (take MaxSamples [''{}'', ''{}'']))) \<le> MaxMetricsBytes"
proof -
  have "length (''[]'' @ concat (take i (xs :: string list))) \<le> length (''[]'' @ concat (take j xs))" if "i \<le> j" for i j xs
    using that by (induction xs arbitrary: i j) (auto simp: take_Cons' split: if_splits)
  from ShrinkMetrics_longest_prefix [of "\<lambda>xs. ''[]'' @ concat xs" "[''{}'', ''{}'']", OF this]
  show ?thesis by auto
qed

end
