(* ===== verification/Tokens.thy ===== *)
theory Tokens
  imports Members Signing Clock Inventory
begin

text \<open>
  Bearer credentials of an organization: kyPulse service tokens and the six-digit codes that pair
  one (\<^verbatim>\<open>internal/store/service_tokens.go\<close>), AI agent tokens with their idle limit
  (\<^verbatim>\<open>internal/store/agent_tokens.go\<close>), and the status feeds of what is down
  (\<^verbatim>\<open>internal/store/status_feeds.go\<close>). Only the SHA-256 of a secret is stored; \<open>sha\<close> is the digest
  function, random secrets, IDs and codes are arguments.
\<close>

subsection \<open>Secrets\<close>

definition SHA256Hex :: "(string \<Rightarrow> string) \<Rightarrow> string \<Rightarrow> string" where
  "SHA256Hex sha data = EncodeToString (sha data)"

text \<open>\<^verbatim>\<open>hex.DecodeString\<close>: either case, an even number of digits.\<close>

definition hex_value :: "char \<Rightarrow> nat option" where
  "hex_value c =
    (let b = byte c in
     if 48 \<le> b \<and> b \<le> 57 then Some (b - 48)
     else if 97 \<le> b \<and> b \<le> 102 then Some (b - 87)
     else if 65 \<le> b \<and> b \<le> 70 then Some (b - 55) else None)"

fun DecodeString :: "string \<Rightarrow> string option" where
  "DecodeString [] = Some []"
| "DecodeString [c] = None"
| "DecodeString (a # b # s) =
    (case (hex_value a, hex_value b, DecodeString s) of
       (Some x, Some y, Some r) \<Rightarrow> Some (char_of (16 * x + y) # r)
     | _ \<Rightarrow> None)"

text \<open>\<^verbatim>\<open>strings.CutPrefix\<close>.\<close>

definition CutPrefix :: "string \<Rightarrow> string \<Rightarrow> string option" where
  "CutPrefix s p = (if take (length p) s = p then Some (drop (length p) s) else None)"

definition serviceTokenBytes :: nat where "serviceTokenBytes = 32"
definition lastUsedEvery :: duration where "lastUsedEvery = minute"
definition pairingLife :: duration where "pairingLife = 15 * minute"

definition serviceNameRe :: rx where
  "serviceNameRe = Seq (Cls [lower_c]) (at_most 63 (Cls [lower_c, digit_c, chr_c CHR ''_'', chr_c CHR ''-'']))"

definition validServiceName :: "string \<Rightarrow> bool" where "validServiceName s = MatchString serviceNameRe s"

subsection \<open>Pairing codes\<close>

definition maxPairingCodeDraws :: nat where "maxPairingCodeDraws = 20"

text \<open>\<^verbatim>\<open>fmt.Sprintf("%06d", n)\<close>.\<close>

definition pairingCode :: "nat \<Rightarrow> string" where "pairingCode n = pad 6 (int n)"

definition live_code :: "time \<Rightarrow> string \<Rightarrow> ServicePairing \<Rightarrow> bool" where
  "live_code now hash p \<longleftrightarrow> sp_code_hash p = hash \<and> sp_consumed_at p = None \<and> sp_expires_at p > now"

text \<open>\<open>draw i\<close> is the number drawn in round \<open>i\<close>; the loop stops at the first code nobody holds live.\<close>

definition create_service_pairing ::
  "(string \<Rightarrow> string) \<Rightarrow> (nat \<Rightarrow> nat) \<Rightarrow> time \<Rightarrow> string \<Rightarrow> TenantAccess \<Rightarrow> db \<Rightarrow> (db \<times> string) res" where
  "create_service_pairing sha draw now uid a d =
    (let kept = delete_where (\<lambda>p. sp_expires_at p < now) (pairings d) in
     case List.find (\<lambda>i. \<not> (\<exists>p\<in>set kept. live_code now (SHA256Hex sha (pairingCode (draw i))) p)) [0..<maxPairingCodeDraws] of
       None \<Rightarrow> Inl ErrPairingCodesExhausted
     | Some i \<Rightarrow>
        let code = pairingCode (draw i);
            p = \<lparr>sp_id = uid, sp_organization_id = OrganizationID a, sp_code_hash = SHA256Hex sha code,
                 sp_created_by = ActorID a, sp_created_at = now, sp_expires_at = now + pairingLife,
                 sp_consumed_at = None\<rparr>
        in and_then (insert_row (\<lambda>r x. sp_id r = sp_id x) p kept) (\<lambda>t. Inr (d\<lparr>pairings := t\<rparr>, code)))"

definition CreateServicePairing ::
  "(string \<Rightarrow> string) \<Rightarrow> (nat \<Rightarrow> nat) \<Rightarrow> time \<Rightarrow> string \<Rightarrow> string \<Rightarrow> TenantAccess \<Rightarrow> db \<Rightarrow> db \<times> string res" where
  "CreateServicePairing sha draw now cid uid a =
    withTenantTarget now cid a ServiceTokensManage uid (create_service_pairing sha draw now uid a)"

record ServiceTokenIssue =
  ti_token :: string
  ti_organization_id :: string
  ti_organization_name :: string

definition token_clash :: "ServiceToken \<Rightarrow> ServiceToken \<Rightarrow> bool" where
  "token_clash r x \<longleftrightarrow> tk_id r = tk_id x \<or> tk_token_hash r = tk_token_hash x"

definition claimable :: "(string \<Rightarrow> string) \<Rightarrow> time \<Rightarrow> string \<Rightarrow> db \<Rightarrow> (ServicePairing \<times> Organization) list" where
  "claimable sha now code d =
    sort_key (\<lambda>(p, _). (sp_created_at p, sp_id p))
      (concat (map (\<lambda>p. map (\<lambda>o'. (p, o')) (filter (\<lambda>o'. o_id o' = sp_organization_id p) (organizations d)))
        (filter (live_code now (SHA256Hex sha code)) (pairings d))))"

definition ClaimServiceToken ::
  "(string \<Rightarrow> string) \<Rightarrow> time \<Rightarrow> string \<Rightarrow> string \<Rightarrow> string \<Rightarrow> string \<Rightarrow> string \<Rightarrow> string \<Rightarrow> db \<Rightarrow> (db \<times> ServiceTokenIssue) res" where
  "ClaimServiceToken sha now cid rid secret code serviceName ip d =
    (if length code \<noteq> 6 \<or> \<not> validServiceName serviceName then Inl ErrForbidden
     else case claimable sha now code d of
       [] \<Rightarrow> Inl ErrForbidden
     | (p, o') # _ \<Rightarrow>
        let mine = (\<lambda>x. sp_id x = sp_id p \<and> sp_consumed_at x = None) in
        if count_where mine (pairings d) \<noteq> 1 then Inl ErrForbidden
        else
         let i = ''svc_'' @ rid;
             t = \<lparr>tk_id = i, tk_organization_id = sp_organization_id p, tk_name = serviceName,
                  tk_token_hash = SHA256Hex sha secret, tk_created_by = ''pairing:'' @ sp_id p, tk_created_at = now,
                  tk_last_used_at = None, tk_last_ip = '''', tk_revoked_at = None, tk_revoked_by = '''', tk_scope = ScopePulse\<rparr>;
             row = \<lparr>au_id = 0, au_user_id = ''service:'' @ i, au_action = ''service_token.claim'', au_resource = i,
                    au_details = ''service='' @ serviceName, au_ip_address = ip, au_created_at = now,
                    au_scope = ''organization'', au_organization_id = sp_organization_id p, au_environment_id = '''',
                    au_correlation_id = cid, au_result = ''success''\<rparr>
         in and_then (insert_row token_clash t (service_tokens d)) (\<lambda>ts.
            Inr (insert_audit row (d\<lparr>pairings := update_where mine (\<lambda>x. x\<lparr>sp_consumed_at := Some now\<rparr>) (pairings d),
                   service_tokens := ts\<rparr>),
                 \<lparr>ti_token = EncodeToString secret, ti_organization_id = sp_organization_id p,
                  ti_organization_name = o_name o'\<rparr>)))"

subsection \<open>Service tokens\<close>

definition LookupServiceToken :: "(string \<Rightarrow> string) \<Rightarrow> string \<Rightarrow> db \<Rightarrow> ServiceToken res" where
  "LookupServiceToken sha token d =
    (case DecodeString (TrimSpace token) of
       None \<Rightarrow> Inl ErrForbidden
     | Some raw \<Rightarrow>
        if length raw \<noteq> serviceTokenBytes then Inl ErrForbidden
        else case List.find (\<lambda>t. tk_token_hash t = SHA256Hex sha raw \<and> tk_scope t = ScopePulse) (service_tokens d) of
          None \<Rightarrow> Inl ErrForbidden
        | Some t \<Rightarrow> if tk_revoked_at t \<noteq> None then Inl ErrForbidden else Inr t)"

text \<open>The stamp of a use, at most once a minute.\<close>

definition stamp_token :: "time \<Rightarrow> string \<Rightarrow> ServiceToken \<Rightarrow> db \<Rightarrow> db \<times> ServiceToken" where
  "stamp_token now ip t d =
    (if (case tk_last_used_at t of None \<Rightarrow> True | Some u \<Rightarrow> now - u > lastUsedEvery)
     then (d\<lparr>service_tokens := update_where (\<lambda>x. tk_id x = tk_id t \<and> tk_revoked_at x = None)
                (\<lambda>x. x\<lparr>tk_last_used_at := Some now, tk_last_ip := ip\<rparr>) (service_tokens d)\<rparr>,
           t\<lparr>tk_last_used_at := Some now, tk_last_ip := ip\<rparr>)
     else (d, t))"

definition AuthenticateServiceToken :: "(string \<Rightarrow> string) \<Rightarrow> time \<Rightarrow> string \<Rightarrow> string \<Rightarrow> db \<Rightarrow> db \<times> ServiceToken res" where
  "AuthenticateServiceToken sha now token ip d =
    (case LookupServiceToken sha token d of
       Inl e \<Rightarrow> (d, Inl e)
     | Inr t \<Rightarrow> (case stamp_token now ip t d of (d', t') \<Rightarrow> (d', Inr t')))"

definition ListServiceTokens :: "time \<Rightarrow> string \<Rightarrow> TenantAccess \<Rightarrow> db \<Rightarrow> db \<times> ServiceToken list res" where
  "ListServiceTokens now cid a =
    readTenant now cid a ServiceTokensManage (\<lambda>d.
      Inr (take 200 (rev (sort_key tk_created_at
        (rev (filter (\<lambda>t. tk_organization_id t = OrganizationID a \<and> tk_scope t = ScopePulse) (service_tokens d)))))))"

definition revoke_service_token :: "time \<Rightarrow> TenantAccess \<Rightarrow> string \<Rightarrow> db \<Rightarrow> (db \<times> unit) res" where
  "revoke_service_token now a i d =
    (let P = (\<lambda>t. tk_id t = i \<and> tk_organization_id t = OrganizationID a \<and> tk_scope t = ScopePulse \<and> tk_revoked_at t = None)
     in if count_where P (service_tokens d) \<noteq> 1 then Inl ErrNotFound
        else Inr (d\<lparr>service_tokens := update_where P
          (\<lambda>t. t\<lparr>tk_revoked_at := Some now, tk_revoked_by := ActorID a\<rparr>) (service_tokens d)\<rparr>, ()))"

definition RevokeServiceToken :: "time \<Rightarrow> string \<Rightarrow> TenantAccess \<Rightarrow> string \<Rightarrow> db \<Rightarrow> db \<times> unit res" where
  "RevokeServiceToken now cid a i = withTenantTarget now cid a ServiceTokensManage i (revoke_service_token now a i)"

definition tokenInOrganization :: "db \<Rightarrow> string \<Rightarrow> string \<Rightarrow> bool" where
  "tokenInOrganization d i org \<longleftrightarrow> (\<exists>t\<in>set (service_tokens d). tk_id t = i \<and> tk_organization_id t = org)"

definition DenyService :: "time \<Rightarrow> TenantAccess \<Rightarrow> Action \<Rightarrow> string \<Rightarrow> db \<Rightarrow> db res" where
  "DenyService now a action detail d =
    (if ServiceTokenID a = '''' \<or> \<not> tokenInOrganization d (ServiceTokenID a) (OrganizationID a) then Inl ErrForbidden
     else Inr (LogAudit now \<lparr>au_id = 0, au_user_id = Principal a, au_action = action_name action,
       au_resource = OrganizationID a, au_details = detail, au_ip_address = IPAddress a, au_created_at = now,
       au_scope = ''organization'', au_organization_id = OrganizationID a, au_environment_id = EnvironmentID a,
       au_correlation_id = CorrelationID a, au_result = ''denied''\<rparr> d))"

definition RecordServiceTokenReads :: "time \<Rightarrow> string \<Rightarrow> string \<Rightarrow> string \<Rightarrow> int \<Rightarrow> db \<Rightarrow> db" where
  "RecordServiceTokenReads now cid org tokenID reads d =
    (if tokenID = '''' \<or> \<not> tokenInOrganization d tokenID org then d
     else LogAudit now \<lparr>au_id = 0, au_user_id = ''service:'' @ tokenID, au_action = ''service_token.reads'',
       au_resource = tokenID, au_details = ''reads='' @ Itoa reads, au_ip_address = '''', au_created_at = now,
       au_scope = ''organization'', au_organization_id = org, au_environment_id = '''',
       au_correlation_id = cid, au_result = ''success''\<rparr> d)"

subsection \<open>AI agent tokens\<close>

definition IsAgentScope :: "string \<Rightarrow> bool" where
  "IsAgentScope scope \<longleftrightarrow> scope = ScopeMCPRead \<or> scope = ScopeMCPOperate"

definition AgentTokenPrefix :: string where "AgentTokenPrefix = ''kyy_mcp_''"
definition AgentIdleLimit :: duration where "AgentIdleLimit = 90 * 24 * hour"
definition maxAgentTokens :: nat where "maxAgentTokens = 20"

definition AgentLastActive :: "ServiceToken \<Rightarrow> time" where
  "AgentLastActive t = (case tk_last_used_at t of Some u \<Rightarrow> u | None \<Rightarrow> tk_created_at t)"

definition validAgentName :: "string \<Rightarrow> bool" where
  "validAgentName name \<longleftrightarrow> name \<noteq> '''' \<and> length (runes name) \<le> 64 \<and> TrimSpace name = name \<and> validTenantName name"

definition live_agent :: "string \<Rightarrow> ServiceToken \<Rightarrow> bool" where
  "live_agent org t \<longleftrightarrow> tk_organization_id t = org \<and> tk_scope t \<noteq> ScopePulse \<and> tk_revoked_at t = None"

definition create_agent_token :: "(string \<Rightarrow> string) \<Rightarrow> TenantAccess \<Rightarrow> ServiceToken \<Rightarrow> db \<Rightarrow> (db \<times> unit) res" where
  "create_agent_token sha a t d =
    (if count_where (live_agent (OrganizationID a)) (service_tokens d) \<ge> maxAgentTokens then Inl ErrAgentTokenLimit
     else and_then (insert_row token_clash t (service_tokens d)) (\<lambda>ts. Inr (d\<lparr>service_tokens := ts\<rparr>, ())))"

definition agent_token_row :: "(string \<Rightarrow> string) \<Rightarrow> time \<Rightarrow> string \<Rightarrow> string \<Rightarrow> TenantAccess \<Rightarrow> string \<Rightarrow> string \<Rightarrow> ServiceToken" where
  "agent_token_row sha now rid secret a name scope =
    \<lparr>tk_id = ''agt_'' @ rid, tk_organization_id = OrganizationID a, tk_name = name,
     tk_token_hash = SHA256Hex sha secret, tk_created_by = Principal a, tk_created_at = now,
     tk_last_used_at = None, tk_last_ip = '''', tk_revoked_at = None, tk_revoked_by = '''', tk_scope = scope\<rparr>"

definition CreateAgentToken ::
  "(string \<Rightarrow> string) \<Rightarrow> time \<Rightarrow> string \<Rightarrow> string \<Rightarrow> string \<Rightarrow> TenantAccess \<Rightarrow> string \<Rightarrow> string \<Rightarrow> db \<Rightarrow> db \<times> (ServiceToken \<times> string) res" where
  "CreateAgentToken sha now cid rid secret a name scope d =
    (if \<not> validAgentName name \<or> \<not> IsAgentScope scope then (d, Inl ErrInvalid)
     else
      let t = agent_token_row sha now rid secret a name scope in
      case withTenantTargetDetails now cid a AgentTokensManage (tk_id t)
             (keep (tk_id t) (''scope='' @ scope) (create_agent_token sha a t)) d of
        (d', Inl e) \<Rightarrow> (d', Inl e)
      | (d', Inr _) \<Rightarrow> (d', Inr (t, AgentTokenPrefix @ EncodeToString secret)))"

definition ListAgentTokens :: "time \<Rightarrow> string \<Rightarrow> TenantAccess \<Rightarrow> db \<Rightarrow> db \<times> (ServiceToken \<times> string) list res" where
  "ListAgentTokens now cid a =
    readTenant now cid a AgentTokensManage (\<lambda>d.
      Inr (take 200 (map (\<lambda>t. (t, case List.find (\<lambda>u. u_id u = tk_created_by t) (users d) of None \<Rightarrow> '''' | Some u \<Rightarrow> u_username u))
        (sort_key (\<lambda>t. (- tk_created_at t, tk_id t)) (filter (live_agent (OrganizationID a)) (service_tokens d))))))"

definition set_agent_token_scope :: "TenantAccess \<Rightarrow> string \<Rightarrow> string \<Rightarrow> unit op" where
  "set_agent_token_scope a i scope d =
    (case List.find (\<lambda>t. tk_id t = i \<and> live_agent (OrganizationID a) t) (service_tokens d) of
       None \<Rightarrow> ((i, ''scope='' @ scope), Inl ErrNotFound)
     | Some t \<Rightarrow> ((i, ''from='' @ tk_scope t @ '' to='' @ scope),
         Inr (d\<lparr>service_tokens := update_where (\<lambda>x. tk_id x = i \<and> tk_organization_id x = OrganizationID a \<and> tk_revoked_at x = None)
                (\<lambda>x. x\<lparr>tk_scope := scope\<rparr>) (service_tokens d)\<rparr>, ())))"

definition SetAgentTokenScope :: "time \<Rightarrow> string \<Rightarrow> TenantAccess \<Rightarrow> string \<Rightarrow> string \<Rightarrow> db \<Rightarrow> db \<times> unit res" where
  "SetAgentTokenScope now cid a i scope d =
    (if \<not> IsAgentScope scope then (d, Inl ErrInvalid)
     else withTenantTargetDetails now cid a AgentTokensManage i (set_agent_token_scope a i scope) d)"

definition revoke_agent_token :: "time \<Rightarrow> TenantAccess \<Rightarrow> string \<Rightarrow> db \<Rightarrow> (db \<times> unit) res" where
  "revoke_agent_token now a i d =
    (let P = (\<lambda>t. tk_id t = i \<and> live_agent (OrganizationID a) t)
     in if count_where P (service_tokens d) \<noteq> 1 then Inl ErrNotFound
        else Inr (d\<lparr>service_tokens := update_where P
          (\<lambda>t. t\<lparr>tk_revoked_at := Some now, tk_revoked_by := Principal a\<rparr>) (service_tokens d)\<rparr>, ()))"

definition RevokeAgentToken :: "time \<Rightarrow> string \<Rightarrow> TenantAccess \<Rightarrow> string \<Rightarrow> db \<Rightarrow> db \<times> unit res" where
  "RevokeAgentToken now cid a i = withTenantTarget now cid a AgentTokensManage i (revoke_agent_token now a i)"

text \<open>One token of the sweep: revoked and recorded, unless it no longer is live.\<close>

definition expire_one :: "time \<Rightarrow> (nat \<Rightarrow> string) \<Rightarrow> string \<times> string \<Rightarrow> db \<Rightarrow> db" where
  "expire_one now fresh = (\<lambda>(i, org) d.
    let P = (\<lambda>t. tk_id t = i \<and> tk_revoked_at t = None) in
    if count_where P (service_tokens d) \<noteq> 1 then d
    else insert_audit \<lparr>au_id = 0, au_user_id = ''service:'' @ i, au_action = ''agent_token.expired'', au_resource = i,
           au_details = ''unused for 90 days'', au_ip_address = '''', au_created_at = now, au_scope = ''organization'',
           au_organization_id = org, au_environment_id = '''', au_correlation_id = fresh (next_audit_id d), au_result = ''success''\<rparr>
         (d\<lparr>service_tokens := update_where P (\<lambda>t. t\<lparr>tk_revoked_at := Some now, tk_revoked_by := ''idle''\<rparr>) (service_tokens d)\<rparr>))"

definition ExpireIdleAgentTokens :: "time \<Rightarrow> (nat \<Rightarrow> string) \<Rightarrow> string \<Rightarrow> db \<Rightarrow> db \<times> (string \<times> string) list" where
  "ExpireIdleAgentTokens now fresh i d =
    (let gone = map (\<lambda>t. (tk_id t, tk_organization_id t)) (take 500 (filter (\<lambda>t. tk_scope t \<noteq> ScopePulse \<and> tk_revoked_at t = None
           \<and> AgentLastActive t < now - AgentIdleLimit \<and> (i = '''' \<or> tk_id t = i)) (service_tokens d)))
     in (fold (expire_one now fresh) gone d, gone))"

definition LookupAgentToken :: "(string \<Rightarrow> string) \<Rightarrow> time \<Rightarrow> (nat \<Rightarrow> string) \<Rightarrow> string \<Rightarrow> db \<Rightarrow> db \<times> ServiceToken res" where
  "LookupAgentToken sha now fresh token d =
    (case (case CutPrefix token AgentTokenPrefix of None \<Rightarrow> None | Some h \<Rightarrow> DecodeString h) of
       None \<Rightarrow> (d, Inl ErrForbidden)
     | Some raw \<Rightarrow>
        if length raw \<noteq> serviceTokenBytes then (d, Inl ErrForbidden)
        else case List.find (\<lambda>t. tk_token_hash t = SHA256Hex sha raw \<and> tk_scope t \<noteq> ScopePulse \<and> tk_revoked_at t = None) (service_tokens d) of
          None \<Rightarrow> (d, Inl ErrForbidden)
        | Some t \<Rightarrow>
           if now - AgentLastActive t > AgentIdleLimit
           then (fst (ExpireIdleAgentTokens now fresh (tk_id t) d), Inl ErrForbidden)
           else (d, Inr t))"

definition AuthenticateAgentToken :: "(string \<Rightarrow> string) \<Rightarrow> time \<Rightarrow> (nat \<Rightarrow> string) \<Rightarrow> string \<Rightarrow> string \<Rightarrow> db \<Rightarrow> db \<times> ServiceToken res" where
  "AuthenticateAgentToken sha now fresh token ip d =
    (case LookupAgentToken sha now fresh token d of
       (d1, Inl e) \<Rightarrow> (d1, Inl e)
     | (d1, Inr t) \<Rightarrow> (case stamp_token now ip t d1 of (d', t') \<Rightarrow> (d', Inr t')))"

definition RecordAgentAction :: "time \<Rightarrow> TenantAccess \<Rightarrow> string \<Rightarrow> string \<Rightarrow> string \<Rightarrow> db \<Rightarrow> db res" where
  "RecordAgentAction now a action resource details d =
    (if ServiceTokenID a = '''' \<or> \<not> tokenInOrganization d (ServiceTokenID a) (OrganizationID a) then Inl ErrForbidden
     else Inr (LogAudit now \<lparr>au_id = 0, au_user_id = Principal a, au_action = action, au_resource = resource,
       au_details = details, au_ip_address = IPAddress a, au_created_at = now, au_scope = ''organization'',
       au_organization_id = OrganizationID a, au_environment_id = EnvironmentID a,
       au_correlation_id = CorrelationID a, au_result = ''success''\<rparr> d))"

subsection \<open>Secrets come back from their text\<close>

lemma hex_value_hex_char: "n < 16 \<Longrightarrow> hex_value (hex_char n) = Some n"
proof -
  assume "n < 16"
  then have "n \<in> {0, 1, 2, 3, 4, 5, 6, 7, 8, 9, 10, 11, 12, 13, 14, 15}"
    by (simp only: insert_iff empty_iff) presburger
  then show ?thesis by (elim insertE) (simp_all add: hex_value_def hex_char_def byte_def)
qed

lemma DecodeString_EncodeToString: "DecodeString (EncodeToString s) = Some s"
proof (induction s)
  case (Cons c s)
  have "of_char c < (256 :: nat)" by simp
  then have "of_char c div 16 < (16 :: nat)" by linarith
  moreover have "16 * (of_char c div 16) + of_char c mod 16 = (of_char c :: nat)" by simp
  ultimately show ?case using Cons by (simp add: hex_value_hex_char)
qed simp

lemma CutPrefix_append [simp]: "CutPrefix (p @ s) p = Some s"
  by (simp add: CutPrefix_def)

text \<open>A text that opens with a letter past f is no hex, and trimming space does not take it off.\<close>

lemma TrimSpace_head:
  assumes "byte c < 128" and "\<not> is_space (byte c)"
  shows "\<exists>r. TrimSpace (c # s) = c # r"
proof -
  have "decode_rune (c # s) = (byte c, 1)" using assms(1) by (cases s) (simp_all add: decode_rune_def byte_def)
  then have ch: "chunks (c # s) = (byte c, [c]) # chunks s" by simp
  let ?P = "\<lambda>(r, _ :: string). is_space r"
  have "dropWhile ?P (chunks (c # s)) = (byte c, [c]) # chunks s"
    using assms(2) unfolding ch by simp
  moreover have "\<exists>xs. rev (dropWhile ?P (rev ((byte c, [c]) # chunks s))) = (byte c, [c]) # xs"
  proof -
    have "\<exists>ys. dropWhile ?P (rev (chunks s) @ [(byte c, [c])]) = ys @ [(byte c, [c])]"
      using assms(2) by (cases "\<forall>x\<in>set (rev (chunks s)). ?P x")
        (auto simp: dropWhile_append2 dropWhile_append1 dropWhile_append3)
    then obtain ys where "dropWhile ?P (rev (chunks s) @ [(byte c, [c])]) = ys @ [(byte c, [c])]" by blast
    then show ?thesis by (intro exI [of _ "rev ys"]) simp
  qed
  ultimately show ?thesis unfolding TrimSpace_def by auto
qed

lemma DecodeString_head: "DecodeString (c # s) \<noteq> None \<Longrightarrow> hex_value c \<noteq> None"
  by (cases s) (auto split: option.splits)

lemma not_hex_after_trim: "DecodeString (TrimSpace (CHR ''k'' # s)) = None"
proof -
  obtain r where "TrimSpace (CHR ''k'' # s) = CHR ''k'' # r"
    using TrimSpace_head [of "CHR ''k''" s] by (auto simp: byte_def is_space_def)
  moreover have "hex_value CHR ''k'' = None" by (simp add: hex_value_def byte_def)
  ultimately show ?thesis using DecodeString_head [of "CHR ''k''" r] by (metis option.exhaust)
qed

lemma CutPrefix_Some: "CutPrefix s p = Some h \<Longrightarrow> s = p @ h"
  by (metis CutPrefix_def append_take_drop_id option.distinct(1) option.inject)

lemma lookup_agent_prefix: "snd (LookupAgentToken sha now fresh token d) = Inr t \<Longrightarrow> \<exists>h. token = AgentTokenPrefix @ h"
  by (auto simp: LookupAgentToken_def split: option.splits if_splits dest: CutPrefix_Some)

lemma lookup_service_hex: "LookupServiceToken sha token d = Inr t \<Longrightarrow> DecodeString (TrimSpace token) \<noteq> None"
  by (auto simp: LookupServiceToken_def split: option.splits if_splits)

end
