(* ===== verification/Feeds.thy ===== *)
theory Feeds
  imports Tokens
begin

text \<open>
  Status feeds, \<^verbatim>\<open>internal/store/status_feeds.go\<close>: an organization's list of what is down, read with
  a token that opens nothing else.
\<close>

subsection \<open>Managing feeds\<close>

definition StatusFeedPrefix :: string where "StatusFeedPrefix = ''kyy_feed_''"
definition maxStatusFeeds :: nat where "maxStatusFeeds = 20"
definition maxFeedEndpoints :: nat where "maxFeedEndpoints = 200"
definition maxFeedItems :: nat where "maxFeedItems = 200"
definition AuditStatusFeedCreate :: string where "AuditStatusFeedCreate = ''status_feed.create''"

definition validFeedName :: "string \<Rightarrow> bool" where
  "validFeedName name \<longleftrightarrow> name \<noteq> '''' \<and> length (runes name) \<le> 64 \<and> TrimSpace name = name \<and> validTenantName name"

definition live_feed :: "string \<Rightarrow> StatusFeed \<Rightarrow> bool" where
  "live_feed org f \<longleftrightarrow> sf_organization_id f = org \<and> sf_revoked_at f = None"

definition feed_clash :: "StatusFeed \<Rightarrow> StatusFeed \<Rightarrow> bool" where
  "feed_clash r x \<longleftrightarrow> sf_id r = sf_id x \<or> sf_token_hash r = sf_token_hash x"

definition create_status_feed :: "TenantAccess \<Rightarrow> StatusFeed \<Rightarrow> db \<Rightarrow> (db \<times> unit) res" where
  "create_status_feed a f d =
    (if count_where (live_feed (OrganizationID a)) (status_feeds d) \<ge> maxStatusFeeds then Inl ErrStatusFeedLimit
     else and_then (insert_row feed_clash f (status_feeds d)) (\<lambda>fs. Inr (d\<lparr>status_feeds := fs\<rparr>, ())))"

definition CreateStatusFeed ::
  "(string \<Rightarrow> string) \<Rightarrow> time \<Rightarrow> string \<Rightarrow> string \<Rightarrow> string \<Rightarrow> TenantAccess \<Rightarrow> string \<Rightarrow> db \<Rightarrow> db \<times> (StatusFeed \<times> string) res" where
  "CreateStatusFeed sha now cid rid secret a name d =
    (if \<not> validFeedName name then (d, Inl ErrInvalid)
     else
      let f = \<lparr>sf_id = ''feed_'' @ rid, sf_organization_id = OrganizationID a, sf_name = name,
               sf_token_hash = SHA256Hex sha secret, sf_created_by = Principal a, sf_created_at = now,
               sf_last_used_at = None, sf_last_ip = '''', sf_revoked_at = None, sf_revoked_by = ''''\<rparr>
      in case runAs now cid a StatusFeedsManage AuditStatusFeedCreate (sf_id f) True
                (keep (sf_id f) '''' (create_status_feed a f)) d of
           (d', Inl e) \<Rightarrow> (d', Inl e)
         | (d', Inr _) \<Rightarrow> (d', Inr (f, StatusFeedPrefix @ EncodeToString secret)))"

definition ListStatusFeeds :: "time \<Rightarrow> string \<Rightarrow> TenantAccess \<Rightarrow> db \<Rightarrow> db \<times> (StatusFeed \<times> string) list res" where
  "ListStatusFeeds now cid a =
    readTenant now cid a StatusFeedsManage (\<lambda>d.
      Inr (take 200 (map (\<lambda>f. (f, case List.find (\<lambda>u. u_id u = sf_created_by f) (users d) of None \<Rightarrow> '''' | Some u \<Rightarrow> u_username u))
        (sort_key (\<lambda>f. (- sf_created_at f, sf_id f)) (filter (live_feed (OrganizationID a)) (status_feeds d))))))"

definition revoke_status_feed :: "time \<Rightarrow> TenantAccess \<Rightarrow> string \<Rightarrow> db \<Rightarrow> (db \<times> unit) res" where
  "revoke_status_feed now a i d =
    (let P = (\<lambda>f. sf_id f = i \<and> live_feed (OrganizationID a) f)
     in if count_where P (status_feeds d) \<noteq> 1 then Inl ErrNotFound
        else Inr (d\<lparr>status_feeds := update_where P
          (\<lambda>f. f\<lparr>sf_revoked_at := Some now, sf_revoked_by := Principal a\<rparr>) (status_feeds d)\<rparr>, ()))"

definition RevokeStatusFeed :: "time \<Rightarrow> string \<Rightarrow> TenantAccess \<Rightarrow> string \<Rightarrow> db \<Rightarrow> db \<times> unit res" where
  "RevokeStatusFeed now cid a i =
    runAs now cid a StatusFeedsManage AuditStatusFeedRevoke i True (keep i '''' (revoke_status_feed now a i))"

subsection \<open>What is down\<close>

definition DownEndpointOffline :: string where "DownEndpointOffline = ''endpoint_offline''"
definition DownContainer :: string where "DownContainer = ''container''"
definition DownNodeNotReady :: string where "DownNodeNotReady = ''node_not_ready''"
definition DownRuntimeUnreachable :: string where "DownRuntimeUnreachable = ''runtime_unreachable''"

record DownItem =
  dn_kind :: string
  dn_key :: string
  dn_environment :: string
  dn_endpoint :: string
  dn_endpoint_id :: string
  dn_subject :: string
  dn_condition :: string
  dn_at :: time

definition containerDown :: "Container \<Rightarrow> string" where
  "containerDown c =
    (if co_health c = ''unhealthy'' then ''unhealthy''
     else if co_state c = ''restarting'' \<or> co_state c = ''dead'' then co_state c
     else if co_state c = ''exited'' \<and> (co_restart_policy c = ''always'' \<or> co_restart_policy c = ''unless-stopped'') then ''exited''
     else '''')"

text \<open>\<^verbatim>\<open>strings.TrimPrefix\<close>.\<close>

definition TrimPrefix :: "string \<Rightarrow> string \<Rightarrow> string" where
  "TrimPrefix s p = (if take (length p) s = p then drop (length p) s else s)"

definition unreachable :: "Snapshot \<Rightarrow> bool" where
  "unreachable s \<longleftrightarrow> en_version (sn_engine s) = '''' \<and> sn_containers s = []
    \<and> (case sn_kubernetes s of None \<Rightarrow> True
       | Some k \<Rightarrow> length (ki_nodes k) + length (ki_workloads k) + length (ki_pods k) = 0)"

definition down_container :: "DownItem \<Rightarrow> time \<Rightarrow> Container \<Rightarrow> DownItem" where
  "down_container e observed c =
    e\<lparr>dn_kind := DownContainer, dn_condition := containerDown c, dn_at := observed,
      dn_subject := CleanText (TrimPrefix (co_name c) ''/'') 255,
      dn_key := DownContainer @ '':'' @ containerDown c @ '':'' @ dn_endpoint_id e @ '':'' @ CleanText (co_id c) 128
        @ '':'' @ RFC3339 (co_created_at c)\<rparr>"

definition down_node :: "DownItem \<Rightarrow> time \<Rightarrow> Node \<Rightarrow> DownItem" where
  "down_node e observed n =
    e\<lparr>dn_kind := DownNodeNotReady, dn_condition := ''not_ready'', dn_subject := CleanText (no_name n) 253,
      dn_at := observed,
      dn_key := DownNodeNotReady @ '':'' @ dn_endpoint_id e @ '':'' @ CleanText (no_name n) 253\<rparr>"

definition downInSnapshot :: "DownItem \<Rightarrow> string \<Rightarrow> time \<Rightarrow> Snapshot option \<Rightarrow> DownItem list" where
  "downInSnapshot e runtime observed snap =
    (case snap of
       None \<Rightarrow> []
     | Some s \<Rightarrow>
        if unreachable s
        then [e\<lparr>dn_kind := DownRuntimeUnreachable, dn_condition := ''runtime_unreachable'', dn_at := observed,
                dn_key := DownRuntimeUnreachable @ '':'' @ dn_endpoint_id e\<rparr>]
        else if runtime = RuntimeKubernetes then
          (case sn_kubernetes s of
             None \<Rightarrow> []
           | Some k \<Rightarrow>
              (if ki_nodes k = [] \<and> ''nodes'' \<in> set (sn_truncated s)
               then [e\<lparr>dn_kind := DownRuntimeUnreachable, dn_condition := ''nodes_unreadable'', dn_at := observed,
                       dn_key := DownRuntimeUnreachable @ '':nodes:'' @ dn_endpoint_id e\<rparr>]
               else [])
              @ map (down_node e observed) (filter (\<lambda>n. \<not> no_ready n) (ki_nodes k)))
        else map (down_container e observed) (filter (\<lambda>c. containerDown c \<noteq> '''') (sn_containers s)))"

text \<open>One endpoint's items: offline ones by themselves, live ones by their inventory.\<close>

definition endpoint_item :: "db \<Rightarrow> string \<Rightarrow> Endpoint \<Rightarrow> DownItem" where
  "endpoint_item d org e =
    \<lparr>dn_kind = '''', dn_key = '''',
     dn_environment = (case List.find (\<lambda>v. env_id v = ep_environment_id e \<and> env_organization_id v = org) (environments d) of
       None \<Rightarrow> '''' | Some v \<Rightarrow> env_name v),
     dn_endpoint = ep_name e, dn_endpoint_id = ep_id e, dn_subject = '''', dn_condition = '''', dn_at = zero_time\<rparr>"

definition endpoint_down :: "db \<Rightarrow> string \<Rightarrow> Endpoint \<Rightarrow> DownItem list" where
  "endpoint_down d org e =
    (if ep_state e = EpOffline
     then [(endpoint_item d org e)\<lparr>dn_kind := DownEndpointOffline, dn_condition := ''offline'',
            dn_at := (case ep_last_seen_at e of None \<Rightarrow> zero_time | Some t \<Rightarrow> t),
            dn_key := DownEndpointOffline @ '':'' @ ep_id e
              @ (case ep_last_seen_at e of None \<Rightarrow> '''' | Some t \<Rightarrow> '':'' @ RFC3339 t)\<rparr>]
     else case List.find (\<lambda>i. iv_endpoint_id i = ep_id e) (inventories d) of
       None \<Rightarrow> []
     | Some i \<Rightarrow> downInSnapshot (endpoint_item d org e) (ep_runtime e) (iv_observed_at i) (iv_snapshot i))"

definition monitored :: "db \<Rightarrow> string \<Rightarrow> Endpoint list" where
  "monitored d org =
    sort_key (\<lambda>e. (ep_name e, ep_id e))
      (filter (\<lambda>e. ep_organization_id e = org \<and> (ep_state e = EpActive \<or> ep_state e = EpOffline)) (endpoints d))"

record StatusReport =
  rp_organization_id :: string
  rp_organization :: string
  rp_items :: "DownItem list"
  rp_truncated :: bool

definition status_report :: "(string \<Rightarrow> string) \<Rightarrow> string \<Rightarrow> string \<Rightarrow> string \<Rightarrow> db \<Rightarrow> StatusReport" where
  "status_report sha feed org orgName d =
    (let es = monitored d org;
         items = concat (map (endpoint_down d org) (take maxFeedEndpoints es))
     in \<lparr>rp_organization_id = org, rp_organization = orgName,
         rp_items = map (\<lambda>i. i\<lparr>dn_key := SHA256Hex sha (feed @ [CHR 0x00] @ dn_key i)\<rparr>) (take maxFeedItems items),
         rp_truncated = (length es > maxFeedEndpoints \<or> length items > maxFeedItems)\<rparr>)"

definition feed_secret :: "string \<Rightarrow> string option" where
  "feed_secret token =
    (case CutPrefix token StatusFeedPrefix of
       None \<Rightarrow> None
     | Some h \<Rightarrow> (case DecodeString h of
         None \<Rightarrow> None
       | Some raw \<Rightarrow> if length raw \<noteq> serviceTokenBytes \<or> EncodeToString raw \<noteq> h then None else Some raw))"

definition ReadStatusFeed ::
  "(string \<Rightarrow> string) \<Rightarrow> (string \<Rightarrow> bool) \<Rightarrow> time \<Rightarrow> string \<Rightarrow> string \<Rightarrow> db \<Rightarrow> db \<times> StatusReport res" where
  "ReadStatusFeed sha allow now token ip d =
    (case feed_secret token of
       None \<Rightarrow> (d, Inl ErrForbidden)
     | Some raw \<Rightarrow>
       (case List.find (\<lambda>f. sf_token_hash f = SHA256Hex sha raw \<and> sf_revoked_at f = None
              \<and> (\<exists>o'\<in>set (organizations d). o_id o' = sf_organization_id f)) (status_feeds d) of
          None \<Rightarrow> (d, Inl ErrForbidden)
        | Some f \<Rightarrow>
           if \<not> allow (sf_id f) then (d, Inl ErrStatusFeedThrottled)
           else
            let stale = (case sf_last_used_at f of None \<Rightarrow> True | Some u \<Rightarrow> now - u > lastUsedEvery);
                d' = (if stale then d\<lparr>status_feeds := update_where (\<lambda>x. sf_id x = sf_id f \<and> sf_revoked_at x = None)
                       (\<lambda>x. x\<lparr>sf_last_used_at := Some now, sf_last_ip := ip\<rparr>) (status_feeds d)\<rparr> else d);
                orgName = (case List.find (\<lambda>o'. o_id o' = sf_organization_id f) (organizations d) of None \<Rightarrow> '''' | Some o' \<Rightarrow> o_name o')
            in (d', Inr (status_report sha (sf_id f) (sf_organization_id f) orgName d'))))"

subsection \<open>The report says what is down, and whose\<close>

lemma downInSnapshot_endpoint:
  "i \<in> set (downInSnapshot e runtime observed snap) \<Longrightarrow> dn_endpoint_id i = dn_endpoint_id e"
  by (auto simp: downInSnapshot_def down_node_def down_container_def split: option.splits if_splits)

lemma endpoint_down_endpoint: "i \<in> set (endpoint_down d org e) \<Longrightarrow> dn_endpoint_id i = ep_id e"
  by (auto simp: endpoint_down_def endpoint_item_def dest!: downInSnapshot_endpoint split: option.splits if_splits)

lemma monitored_in:
  "e \<in> set (monitored d org) \<longleftrightarrow>
   e \<in> set (endpoints d) \<and> ep_organization_id e = org \<and> (ep_state e = EpActive \<or> ep_state e = EpOffline)"
  by (auto simp: monitored_def)

lemma status_report_own:
  assumes "i \<in> set (rp_items (status_report sha feed org name d))"
  shows "\<exists>e\<in>set (endpoints d). ep_id e = dn_endpoint_id i \<and> ep_organization_id e = org \<and> ep_state e \<in> {EpActive, EpOffline}"
proof -
  from assms obtain j e where "dn_endpoint_id i = dn_endpoint_id j" "e \<in> set (monitored d org)" "j \<in> set (endpoint_down d org e)"
    by (auto simp: status_report_def Let_def dest!: in_set_takeD)
  with monitored_in endpoint_down_endpoint show ?thesis by force
qed

lemma status_report_all:
  assumes "\<not> rp_truncated (status_report sha feed org name d)" and "e \<in> set (monitored d org)" and "j \<in> set (endpoint_down d org e)"
  shows "\<exists>i\<in>set (rp_items (status_report sha feed org name d)). dn_endpoint_id i = ep_id e \<and> dn_kind i = dn_kind j
    \<and> dn_subject i = dn_subject j \<and> dn_condition i = dn_condition j"
proof -
  let ?items = "concat (map (endpoint_down d org) (take maxFeedEndpoints (monitored d org)))"
  from assms(1) have fit: "take maxFeedItems ?items = ?items" "take maxFeedEndpoints (monitored d org) = monitored d org"
    by (auto simp: status_report_def Let_def)
  from assms(2,3) have "j \<in> set (take maxFeedItems ?items)" unfolding fit(2) fit(1) [unfolded fit(2)] by auto
  then show ?thesis
    using endpoint_down_endpoint [OF assms(3)] by (force simp: status_report_def Let_def)
qed

text \<open>What is down is an item of its endpoint.\<close>

lemma down_reported:
  assumes "List.find (\<lambda>v. iv_endpoint_id v = ep_id e) (inventories d) = Some v" and "iv_snapshot v = Some s"
    and "\<not> unreachable s" and "ep_state e = EpActive"
  shows "ep_runtime e = RuntimeKubernetes \<Longrightarrow> sn_kubernetes s = Some k \<Longrightarrow> n \<in> set (ki_nodes k) \<Longrightarrow> \<not> no_ready n \<Longrightarrow>
      down_node (endpoint_item d org e) (iv_observed_at v) n \<in> set (endpoint_down d org e)"
    and "ep_runtime e \<noteq> RuntimeKubernetes \<Longrightarrow> c \<in> set (sn_containers s) \<Longrightarrow> containerDown c \<noteq> '''' \<Longrightarrow>
      down_container (endpoint_item d org e) (iv_observed_at v) c \<in> set (endpoint_down d org e)"
  using assms by (auto simp: endpoint_down_def downInSnapshot_def)

lemma offline_reported:
  "ep_state e = EpOffline \<Longrightarrow> \<exists>j\<in>set (endpoint_down d org e). dn_kind j = DownEndpointOffline"
  by (auto simp: endpoint_down_def)

lemma ReadStatusFeed_Inr:
  assumes "ReadStatusFeed sha allow now token ip d = (d', Inr rep)"
  obtains f raw where "f \<in> set (status_feeds d)" and "sf_revoked_at f = None" and "feed_secret token = Some raw"
    and "sf_token_hash f = SHA256Hex sha raw" and "allow (sf_id f)"
    and "rep = status_report sha (sf_id f) (sf_organization_id f) (rp_organization rep) d'"
    and "endpoints d' = endpoints d" and "inventories d' = inventories d"
  using assms
  by (auto simp: ReadStatusFeed_def Let_def status_report_def dest!: find_Some_in split: option.splits if_splits)


definition sample_endpoint :: "string \<Rightarrow> endpoint_state \<Rightarrow> Endpoint" where
  "sample_endpoint i state = \<lparr>ep_id = i, ep_organization_id = ''acme'', ep_environment_id = ''env'', ep_name = i, ep_runtime = RuntimeDocker,
     ep_state = state, ep_facts = [], ep_created_at = 0, ep_approved_at = None, ep_approved_by = '''', ep_revoked_at = None,
     ep_last_seen_at = None, ep_inventory_generation = 0, ep_deploy_namespaces = []\<rparr>"

definition sample_feed_db :: db where
  "sample_feed_db = sample_db\<lparr>endpoints := [sample_endpoint ''e1'' EpOffline, sample_endpoint ''e2'' EpActive],
     status_feeds := [\<lparr>sf_id = ''feed_1'', sf_organization_id = ''acme'', sf_name = ''pager'',
       sf_token_hash = SHA256Hex (\<lambda>s. s) (replicate 32 CHR ''s''), sf_created_by = ''alice'', sf_created_at = 0,
       sf_last_used_at = None, sf_last_ip = '''', sf_revoked_at = None, sf_revoked_by = ''''\<rparr>]\<rparr>"


end
