(* ===== verification/Credentials.thy ===== *)
theory Credentials
  imports Feeds
begin

text \<open>
  The bearer credentials of all organizations as one transition system: every operation that
  writes service tokens, pairing codes, agent tokens or status feeds is a step at an instant no
  earlier than the last one. The invariant of its reachable states, and what follows for a code,
  for the limits and for a presented bearer.
\<close>

subsection \<open>The invariant, table by table\<close>

definition tokens_ok :: "ServiceToken table \<Rightarrow> bool" where
  "tokens_ok ts \<longleftrightarrow> distinct (map tk_token_hash ts)
    \<and> (\<forall>org. count_where (live_agent org) ts \<le> maxAgentTokens)"

definition feeds_ok :: "StatusFeed table \<Rightarrow> bool" where
  "feeds_ok fs \<longleftrightarrow> distinct (map sf_token_hash fs) \<and> (\<forall>org. count_where (live_feed org) fs \<le> maxStatusFeeds)"

text \<open>Two unclaimed pairings with the same code: one had expired when the other was created.\<close>

definition codes_apart :: "ServicePairing table \<Rightarrow> bool" where
  "codes_apart ps \<longleftrightarrow> (\<forall>p\<in>set ps. \<forall>q\<in>set ps.
    p \<noteq> q \<longrightarrow> sp_consumed_at p = None \<longrightarrow> sp_consumed_at q = None \<longrightarrow> sp_code_hash p = sp_code_hash q \<longrightarrow>
    sp_expires_at p \<le> sp_created_at q \<or> sp_expires_at q \<le> sp_created_at p)"

definition pairings_ok :: "time \<Rightarrow> ServicePairing table \<Rightarrow> bool" where
  "pairings_ok now ps \<longleftrightarrow> codes_apart ps \<and> (\<forall>p\<in>set ps. sp_created_at p \<le> now)"

definition credentials_ok :: "time \<times> db \<Rightarrow> bool" where
  "credentials_ok = (\<lambda>(now, d).
    wf d \<and> tokens_ok (service_tokens d) \<and> feeds_ok (status_feeds d) \<and> pairings_ok now (pairings d))"

lemma tokens_ok_update:
  assumes "tokens_ok ts"
    and "\<And>r org. r \<in> set ts \<Longrightarrow> P r \<Longrightarrow> tk_token_hash (f r) = tk_token_hash r \<and> (live_agent org (f r) \<longrightarrow> live_agent org r)"
  shows "tokens_ok (update_where P f ts)"
proof -
  have "count_where (live_agent org) (update_where P f ts) \<le> maxAgentTokens" for org
    using count_update_where_le [of ts P "live_agent org" f] assms unfolding tokens_ok_def by (meson order_trans)
  with assms show ?thesis by (simp add: tokens_ok_def update_where_keys)
qed

lemma feeds_ok_update:
  assumes "feeds_ok fs"
    and "\<And>r org. r \<in> set fs \<Longrightarrow> P r \<Longrightarrow> sf_token_hash (f r) = sf_token_hash r \<and> (live_feed org (f r) \<longrightarrow> live_feed org r)"
  shows "feeds_ok (update_where P f fs)"
proof -
  have "count_where (live_feed org) (update_where P f fs) \<le> maxStatusFeeds" for org
    using count_update_where_le [of fs P "live_feed org" f] assms unfolding feeds_ok_def by (meson order_trans)
  with assms show ?thesis by (simp add: feeds_ok_def update_where_keys)
qed

lemma tokens_ok_insert:
  assumes "tokens_ok ts" and "\<forall>x\<in>set ts. tk_token_hash x \<noteq> tk_token_hash t"
    and "\<And>org. live_agent org t \<Longrightarrow> count_where (live_agent org) ts < maxAgentTokens"
  shows "tokens_ok (ts @ [t])"
  using assms by (fastforce simp: tokens_ok_def Suc_le_eq)

lemma feeds_ok_insert:
  assumes "feeds_ok ts" and "\<forall>x\<in>set ts. sf_token_hash x \<noteq> sf_token_hash t"
    and "\<And>org. live_feed org t \<Longrightarrow> count_where (live_feed org) ts < maxStatusFeeds"
  shows "feeds_ok (ts @ [t])"
  using assms by (fastforce simp: feeds_ok_def Suc_le_eq)

lemma pairings_ok_later: "pairings_ok t ps \<Longrightarrow> t \<le> now \<Longrightarrow> pairings_ok now ps"
  by (force simp: pairings_ok_def)

lemma pairings_ok_delete: "pairings_ok now ps \<Longrightarrow> pairings_ok now (delete_where P ps)"
  by (simp add: pairings_ok_def codes_apart_def)

lemma pairings_ok_consume:
  assumes "pairings_ok now ps"
  shows "pairings_ok now (update_where P (\<lambda>p. p\<lparr>sp_consumed_at := Some t\<rparr>) ps)"
proof -
  let ?ps = "update_where P (\<lambda>p. p\<lparr>sp_consumed_at := Some t\<rparr>) ps"
  have "p \<in> set ps" if "p \<in> set ?ps" "sp_consumed_at p = None" for p
    using that by (auto simp: in_update_where split: if_splits)
  then have "codes_apart ?ps" using assms unfolding pairings_ok_def codes_apart_def by blast
  moreover have "\<forall>p\<in>set ?ps. sp_created_at p \<le> now"
    using assms by (auto simp: pairings_ok_def in_update_where)
  ultimately show ?thesis by (simp add: pairings_ok_def)
qed

subsection \<open>Each write keeps it\<close>

lemma credentials_ok_audit [simp]: "credentials_ok (now, insert_audit r d) = credentials_ok (now, d)"
  by (simp add: credentials_ok_def) (simp add: insert_audit_def)

lemma credentials_ok_LogAudit [simp]: "credentials_ok (now, LogAudit t r d) = credentials_ok (now, d)"
  by (simp add: LogAudit_def)

lemma credentials_ok_later: "credentials_ok (t, d) \<Longrightarrow> t \<le> now \<Longrightarrow> credentials_ok (now, d)"
  by (auto simp: credentials_ok_def intro: pairings_ok_later)

lemma credentials_ok_tokens:
  assumes "credentials_ok (now, d)"
    and "\<And>r org. r \<in> set (service_tokens d) \<Longrightarrow> P r \<Longrightarrow> tk_id (f r) = tk_id r \<and> tk_token_hash (f r) = tk_token_hash r
      \<and> (live_agent org (f r) \<longrightarrow> live_agent org r)"
  shows "credentials_ok (now, d\<lparr>service_tokens := update_where P f (service_tokens d)\<rparr>)"
  using assms by (simp add: credentials_ok_def wf_tables wf_keys update_where_keys tokens_ok_update)

lemma credentials_ok_feeds:
  assumes "credentials_ok (now, d)"
    and "\<And>r org. r \<in> set (status_feeds d) \<Longrightarrow> P r \<Longrightarrow> sf_id (f r) = sf_id r \<and> sf_token_hash (f r) = sf_token_hash r
      \<and> (live_feed org (f r) \<longrightarrow> live_feed org r)"
  shows "credentials_ok (now, d\<lparr>status_feeds := update_where P f (status_feeds d)\<rparr>)"
  using assms by (simp add: credentials_ok_def wf_tables wf_keys update_where_keys feeds_ok_update)

lemma create_pairing_ok:
  assumes "create_service_pairing sha draw now uid a d = Inr (d', x)" and "credentials_ok (now, d)"
  shows "credentials_ok (now, d')"
proof -
  define kept where "kept = delete_where (\<lambda>p. sp_expires_at p < now) (pairings d)"
  define row where "row i = \<lparr>sp_id = uid, sp_organization_id = OrganizationID a, sp_code_hash = SHA256Hex sha (pairingCode (draw i)),
    sp_created_by = ActorID a, sp_created_at = now, sp_expires_at = now + pairingLife, sp_consumed_at = None\<rparr>" for i
  from assms(1) obtain i where "d' = d\<lparr>pairings := kept @ [row i]\<rparr>"
    and "\<forall>q\<in>set kept. uid \<noteq> sp_id q" "\<forall>q\<in>set kept. \<not> live_code now (SHA256Hex sha (pairingCode (draw i))) q"
    by (auto simp: create_service_pairing_def Let_def kept_def [symmetric] row_def dest!: find_Some_in split: option.splits)
  then obtain p where d': "d' = d\<lparr>pairings := kept @ [p]\<rparr>"
    and p: "sp_created_at p = now" "\<forall>q\<in>set kept. sp_id q \<noteq> sp_id p" "\<forall>q\<in>set kept. \<not> live_code now (sp_code_hash p) q"
    by (intro that [of "row i"]) (auto simp: row_def)
  from assms(2) have ok: "wf d" "pairings_ok now kept"
    by (simp_all add: credentials_ok_def kept_def pairings_ok_delete)
  have "pairings_ok now (kept @ [p])"
    using ok(2) p unfolding pairings_ok_def codes_apart_def live_code_def by (auto simp: not_less)
  moreover have "wf d'" using ok(1) p(2) unfolding d' kept_def
    by (intro wf_tables) (force simp: wf_keys delete_where_distinct)+
  ultimately show ?thesis using assms(2) by (simp add: credentials_ok_def d')
qed

lemma claim_ok:
  assumes "ClaimServiceToken sha now cid rid secret code name ip d = Inr (d', x)" and "credentials_ok (now, d)"
  shows "credentials_ok (now, d')"
proof -
  from assms(1) obtain P t r where d': "d' = insert_audit r (d\<lparr>pairings := update_where P (\<lambda>x. x\<lparr>sp_consumed_at := Some now\<rparr>) (pairings d),
        service_tokens := service_tokens d @ [t]\<rparr>)"
    and t: "\<forall>x\<in>set (service_tokens d). \<not> token_clash t x" "tk_scope t = ScopePulse"
    by (auto simp: ClaimServiceToken_def Let_def split: if_splits list.splits prod.splits)
  from assms(2) have ok: "wf d" "tokens_ok (service_tokens d)" "feeds_ok (status_feeds d)" "pairings_ok now (pairings d)"
    by (simp_all add: credentials_ok_def)
  have "tokens_ok (service_tokens d @ [t])"
    using ok(2) t by (intro tokens_ok_insert) (auto simp: token_clash_def live_agent_def)
  moreover have "wf (d\<lparr>pairings := update_where P (\<lambda>x. x\<lparr>sp_consumed_at := Some now\<rparr>) (pairings d),
        service_tokens := service_tokens d @ [t]\<rparr>)"
    using ok(1) t(1) by (intro wf_tables) (force simp: wf_keys update_where_keys token_clash_def)+
  ultimately show ?thesis using ok unfolding d' credentials_ok_audit by (simp add: credentials_ok_def pairings_ok_consume)
qed

lemma create_agent_ok:
  assumes "create_agent_token sha a t d = Inr (d', x)" and "credentials_ok (now, d)" and "tk_organization_id t = OrganizationID a"
  shows "credentials_ok (now, d')"
proof -
  from assms(1) have d': "d' = d\<lparr>service_tokens := service_tokens d @ [t]\<rparr>"
    and t: "\<forall>x\<in>set (service_tokens d). \<not> token_clash t x"
    and few: "count_where (live_agent (OrganizationID a)) (service_tokens d) < maxAgentTokens"
    by (auto simp: create_agent_token_def split: if_splits)
  have "tokens_ok (service_tokens d @ [t])"
    using assms(2,3) t few by (intro tokens_ok_insert) (auto simp: credentials_ok_def token_clash_def live_agent_def)
  moreover have "wf d'" using assms(2) t unfolding d'
    by (intro wf_tables) (force simp: credentials_ok_def wf_keys token_clash_def)+
  ultimately show ?thesis using assms(2) by (simp add: credentials_ok_def d')
qed

lemma create_feed_ok:
  assumes "create_status_feed a t d = Inr (d', x)" and "credentials_ok (now, d)" and "sf_organization_id t = OrganizationID a"
  shows "credentials_ok (now, d')"
proof -
  from assms(1) have d': "d' = d\<lparr>status_feeds := status_feeds d @ [t]\<rparr>"
    and t: "\<forall>x\<in>set (status_feeds d). \<not> feed_clash t x"
    and few: "count_where (live_feed (OrganizationID a)) (status_feeds d) < maxStatusFeeds"
    by (auto simp: create_status_feed_def split: if_splits)
  have "feeds_ok (status_feeds d @ [t])"
    using assms(2,3) t few by (intro feeds_ok_insert) (auto simp: credentials_ok_def feed_clash_def live_feed_def)
  moreover have "wf d'" using assms(2) t unfolding d'
    by (intro wf_tables) (force simp: credentials_ok_def wf_keys feed_clash_def)+
  ultimately show ?thesis using assms(2) by (simp add: credentials_ok_def d')
qed

lemma credentials_ok_revoke_one:
  assumes "credentials_ok (now, d)"
  shows "credentials_ok (now, revoke_one (revoke_token t actor) row i d)"
    and "credentials_ok (now, revoke_one (revoke_feed t actor) row i d)"
    and "credentials_ok (now, revoke_one delete_pairing row i d)"
proof -
  show "credentials_ok (now, revoke_one (revoke_token t actor) row i d)"
    using assms by (simp add: revoke_one_def Let_def revoke_token_def credentials_ok_tokens live_agent_def)
  show "credentials_ok (now, revoke_one (revoke_feed t actor) row i d)"
    using assms by (simp add: revoke_one_def Let_def revoke_feed_def credentials_ok_feeds live_feed_def)
  show "credentials_ok (now, revoke_one delete_pairing row i d)"
    using assms unfolding revoke_one_def Let_def credentials_ok_audit delete_pairing_def
    by (simp add: credentials_ok_def pairings_ok_delete wf_tables wf_keys delete_where_distinct)
qed

lemma revokeLostAdminCredentials_ok:
  "credentials_ok (now, d) \<Longrightarrow> credentials_ok (now, revokeLostAdminCredentials t fresh org user actor d)"
  by (rule revokeLostAdminCredentials_keeps [where P = "\<lambda>d. credentials_ok (now, d)" and ?d0.0 = d])
    (simp_all add: credentials_ok_revoke_one)

lemma credentials_ok_memberships:
  "credentials_ok (now, d) \<Longrightarrow> credentials_ok (now, d\<lparr>memberships := upsert_membership m (memberships d)\<rparr>)"
  "credentials_ok (now, d) \<Longrightarrow> credentials_ok (now, d\<lparr>memberships := delete_where P (memberships d)\<rparr>)"
  by (simp_all add: credentials_ok_def wf_tables wf_keys upsert_membership_keys delete_where_distinct)

lemma membership_ops_ok:
  "put_membership t fresh pg a user role status d = Inr (d', x) \<Longrightarrow> credentials_ok (now, d) \<Longrightarrow> credentials_ok (now, d')"
  "remove_membership t fresh pg a user d = Inr (d', x) \<Longrightarrow> credentials_ok (now, d) \<Longrightarrow> credentials_ok (now, d')"
  by (auto elim!: put_membership_Inr remove_membership_Inr intro!: revokeLostAdminCredentials_ok credentials_ok_memberships)

lemma expire_ok:
  "credentials_ok (now, d) \<Longrightarrow> credentials_ok (now, fst (ExpireIdleAgentTokens t fresh i d))"
  unfolding ExpireIdleAgentTokens_def Let_def fst_conv
  by (rule fold_keeps) (auto simp: expire_one_def Let_def live_agent_def intro!: credentials_ok_tokens)

lemma stamp_ok: "credentials_ok (now, d) \<Longrightarrow> credentials_ok (now, fst (stamp_token t ip tk d))"
  by (auto simp: stamp_token_def live_agent_def intro!: credentials_ok_tokens)

lemma set_scope_ok:
  assumes "snd (set_agent_token_scope a i scope d) = Inr (d', x)" and "credentials_ok (now, d)" and "IsAgentScope scope"
  shows "credentials_ok (now, d')"
proof -
  from assms(1) obtain t where t: "t \<in> set (service_tokens d)" "tk_id t = i" "live_agent (OrganizationID a) t"
    and d': "d' = d\<lparr>service_tokens := update_where (\<lambda>x. tk_id x = i \<and> tk_organization_id x = OrganizationID a \<and> tk_revoked_at x = None)
                (\<lambda>x. x\<lparr>tk_scope := scope\<rparr>) (service_tokens d)\<rparr>"
    by (auto simp: set_agent_token_scope_def dest!: find_Some_in split: option.splits)
  have "live_agent org r" if "r \<in> set (service_tokens d)" "tk_id r = i" "live_agent org (r\<lparr>tk_scope := scope\<rparr>)" for r org
  proof -
    from assms(2) have "distinct (map tk_id (service_tokens d))" by (simp add: credentials_ok_def wf_keys)
    from distinct_map_eq [OF this that(1) t(1)] that t show ?thesis by (simp add: live_agent_def)
  qed
  with assms(2) show ?thesis unfolding d' by (intro credentials_ok_tokens) auto
qed

subsection \<open>The transition system\<close>

inductive credential_step :: "(string \<Rightarrow> string) \<Rightarrow> time \<times> db \<Rightarrow> time \<times> db \<Rightarrow> bool" for sha where
  pairing: "t \<le> now \<Longrightarrow> credential_step sha (t, d) (now, fst (CreateServicePairing sha draw now cid uid a d))"
| claim: "t \<le> now \<Longrightarrow> ClaimServiceToken sha now cid rid secret code name ip d = Inr (d', x) \<Longrightarrow> credential_step sha (t, d) (now, d')"
| service: "t \<le> now \<Longrightarrow> credential_step sha (t, d) (now, fst (AuthenticateServiceToken sha now token ip d))"
| revoke_service: "t \<le> now \<Longrightarrow> credential_step sha (t, d) (now, fst (RevokeServiceToken now cid a i d))"
| create_agent: "t \<le> now \<Longrightarrow> credential_step sha (t, d) (now, fst (CreateAgentToken sha now cid rid secret a name scope d))"
| scope_agent: "t \<le> now \<Longrightarrow> credential_step sha (t, d) (now, fst (SetAgentTokenScope now cid a i scope d))"
| revoke_agent: "t \<le> now \<Longrightarrow> credential_step sha (t, d) (now, fst (RevokeAgentToken now cid a i d))"
| agent: "t \<le> now \<Longrightarrow> credential_step sha (t, d) (now, fst (AuthenticateAgentToken sha now fresh token ip d))"
| expire: "t \<le> now \<Longrightarrow> credential_step sha (t, d) (now, fst (ExpireIdleAgentTokens now fresh i d))"
| create_feed: "t \<le> now \<Longrightarrow> credential_step sha (t, d) (now, fst (CreateStatusFeed sha now cid rid secret a name d))"
| revoke_feed: "t \<le> now \<Longrightarrow> credential_step sha (t, d) (now, fst (RevokeStatusFeed now cid a i d))"
| read_feed: "t \<le> now \<Longrightarrow> credential_step sha (t, d) (now, fst (ReadStatusFeed sha allow now token ip d))"
| put_member: "t \<le> now \<Longrightarrow> credential_step sha (t, d) (now, fst (PutMembership now cid fresh pg a user role status d))"
| remove_member: "t \<le> now \<Longrightarrow> credential_step sha (t, d) (now, fst (RemoveMembership now cid fresh pg a user d))"

definition credential_init :: "time \<times> db \<Rightarrow> bool" where
  "credential_init = (\<lambda>(now, d). wf d \<and> service_tokens d = [] \<and> pairings d = [] \<and> status_feeds d = [])"

lemma runAs_ok:
  assumes "credentials_ok (now, d)" and "\<And>d' x. snd (op d) = Inr (d', x) \<Longrightarrow> credentials_ok (now, d')"
  shows "credentials_ok (now, fst (runAs t cid a action name target lock op d))"
  by (rule runAs_invariant [where P = "\<lambda>d. credentials_ok (now, d)"]) (use assms in auto)

lemma tenant_ops_ok:
  assumes "credentials_ok (now, d)"
  shows "credentials_ok (now, fst (CreateServicePairing sha draw now cid uid a d))"
    and "credentials_ok (now, fst (RevokeServiceToken now cid a i d))"
    and "credentials_ok (now, fst (RevokeAgentToken now cid a i d))"
    and "credentials_ok (now, fst (RevokeStatusFeed now cid a i d))"
    and "credentials_ok (now, fst (PutMembership now cid fresh pg a user role status d))"
    and "credentials_ok (now, fst (RemoveMembership now cid fresh pg a user d))"
  unfolding CreateServicePairing_def RevokeServiceToken_def RevokeAgentToken_def RevokeStatusFeed_def
    PutMembership_def RemoveMembership_def tenant_run_defs
proof (safe intro!: runAs_ok [OF assms], unfold snd_keep)
qed (auto simp: revoke_service_token_def revoke_agent_token_def revoke_status_feed_def Let_def live_agent_def live_feed_def
    split: if_splits intro: create_pairing_ok membership_ops_ok assms intro!: credentials_ok_tokens credentials_ok_feeds assms)

lemma create_tokens_ok:
  assumes "credentials_ok (now, d)"
  shows "credentials_ok (now, fst (CreateAgentToken sha t cid rid secret a name scope d))"
    and "credentials_ok (now, fst (SetAgentTokenScope t cid a i scope d))"
    and "credentials_ok (now, fst (CreateStatusFeed sha t cid rid secret a name d))"
proof -
  let ?t = "agent_token_row sha t rid secret a name scope"
  let ?run = "withTenantTargetDetails t cid a AgentTokensManage (tk_id ?t)
    (keep (tk_id ?t) (''scope='' @ scope) (create_agent_token sha a ?t)) d"
  have "credentials_ok (now, fst ?run)"
    unfolding tenant_run_defs
    by (rule runAs_ok [OF assms]) (auto intro: create_agent_ok assms simp: agent_token_row_def)
  then show "credentials_ok (now, fst (CreateAgentToken sha t cid rid secret a name scope d))"
    using assms by (auto simp: CreateAgentToken_def Let_def split: prod.splits sum.splits)
  show "credentials_ok (now, fst (SetAgentTokenScope t cid a i scope d))"
    using assms by (auto simp: SetAgentTokenScope_def tenant_run_defs intro: runAs_ok set_scope_ok)
  let ?f = "\<lparr>sf_id = ''feed_'' @ rid, sf_organization_id = OrganizationID a, sf_name = name,
    sf_token_hash = SHA256Hex sha secret, sf_created_by = Principal a, sf_created_at = t,
    sf_last_used_at = None, sf_last_ip = '''', sf_revoked_at = None, sf_revoked_by = ''''\<rparr>"
  have "credentials_ok (now, fst (runAs t cid a StatusFeedsManage AuditStatusFeedCreate (sf_id ?f) True
      (keep (sf_id ?f) '''' (create_status_feed a ?f)) d))"
    by (rule runAs_ok [OF assms]) (auto intro: create_feed_ok assms)
  then show "credentials_ok (now, fst (CreateStatusFeed sha t cid rid secret a name d))"
    using assms by (auto simp: CreateStatusFeed_def Let_def split: prod.splits sum.splits)
qed

lemma bearer_ops_ok:
  assumes "credentials_ok (now, d)"
  shows "credentials_ok (now, fst (AuthenticateServiceToken sha t token ip d))"
    and "credentials_ok (now, fst (AuthenticateAgentToken sha t fresh token ip d))"
    and "credentials_ok (now, fst (ReadStatusFeed sha allow t token ip d))"
proof -
  show "credentials_ok (now, fst (AuthenticateServiceToken sha t token ip d))"
    using assms stamp_ok [OF assms]
    by (auto simp: AuthenticateServiceToken_def split_beta split: sum.splits)
  have "credentials_ok (now, fst (LookupAgentToken sha t fresh token d))"
    using assms expire_ok [OF assms] by (auto simp: LookupAgentToken_def split: option.splits)
  then show "credentials_ok (now, fst (AuthenticateAgentToken sha t fresh token ip d))"
    using stamp_ok by (auto simp: AuthenticateAgentToken_def split_beta split: prod.splits sum.splits)
  show "credentials_ok (now, fst (ReadStatusFeed sha allow t token ip d))"
    using assms by (auto simp: ReadStatusFeed_def Let_def live_feed_def intro!: credentials_ok_feeds split: option.splits)
qed

lemma credential_step_ok:
  assumes "credential_step sha s s'" and "credentials_ok s"
  shows "credentials_ok s'"
  using assms
  by (induction rule: credential_step.induct)
    (auto intro: tenant_ops_ok create_tokens_ok bearer_ops_ok claim_ok expire_ok credentials_ok_later)

interpretation credentials: invariant_system credential_init "credential_step sha" credentials_ok for sha
proof unfold_locales
  show "credentials_ok s" if "credential_init s" for s
    using that by (auto simp: credential_init_def credentials_ok_def tokens_ok_def feeds_ok_def pairings_ok_def codes_apart_def)
qed (rule credential_step_ok)

inductive_cases credential_stepE: "credential_step sha s s'"

subsection \<open>Pairing codes\<close>

lemma live_code_unique:
  assumes "pairings_ok now ps" and "p \<in> set ps" "q \<in> set ps" and "live_code t h p" "live_code t h q" and "now \<le> t"
  shows "p = q"
  using assms unfolding pairings_ok_def codes_apart_def live_code_def by force

lemma claimable_in:
  "(p, o') \<in> set (claimable sha now code d) \<longleftrightarrow>
   p \<in> set (pairings d) \<and> live_code now (SHA256Hex sha code) p \<and> o' \<in> set (organizations d) \<and> o_id o' = sp_organization_id p"
  by (auto simp: claimable_def)

lemma ClaimServiceToken_Inr:
  assumes "ClaimServiceToken sha now cid rid secret code name ip d = Inr (d', x)"
  obtains p o' where "p \<in> set (pairings d)" and "live_code now (SHA256Hex sha code) p" and "ti_organization_id x = sp_organization_id p"
    and "pairings d' = update_where (\<lambda>x. sp_id x = sp_id p \<and> sp_consumed_at x = None) (\<lambda>x. x\<lparr>sp_consumed_at := Some now\<rparr>) (pairings d)"
proof -
  from assms obtain p o' rest where c: "claimable sha now code d = (p, o') # rest"
    and "ti_organization_id x = sp_organization_id p"
    and "pairings d' = update_where (\<lambda>x. sp_id x = sp_id p \<and> sp_consumed_at x = None) (\<lambda>x. x\<lparr>sp_consumed_at := Some now\<rparr>) (pairings d)"
    by (auto simp: ClaimServiceToken_def Let_def insert_audit_def split: if_splits list.splits prod.splits)
  moreover from c claimable_in [of p o' sha now code d] have "p \<in> set (pairings d)" "live_code now (SHA256Hex sha code) p" by auto
  ultimately show thesis using that by blast
qed

lemma ClaimServiceToken_none:
  "(\<And>p. p \<in> set (pairings d) \<Longrightarrow> \<not> live_code now (SHA256Hex sha code) p) \<Longrightarrow>
   ClaimServiceToken sha now cid rid secret code name ip d = Inl ErrForbidden"
proof -
  assume none: "\<And>p. p \<in> set (pairings d) \<Longrightarrow> \<not> live_code now (SHA256Hex sha code) p"
  have "(p, o') \<notin> set (claimable sha now code d)" for p o'
    unfolding claimable_in using none by blast
  then have "claimable sha now code d = []" by (metis list.set_intros(1) neq_Nil_conv surj_pair)
  then show ?thesis by (simp add: ClaimServiceToken_def)
qed

text \<open>
  C4. The limits and the uniqueness of bearer credentials hold in every reachable state: whatever
  sequence of creations, claims, scope changes, revocations, expiries, reads and membership changes
  ran, no organization holds more than 20 live agent tokens or more than 20 live status feeds, no
  two tokens and no two feeds share a secret, and the primary keys are unique.
\<close>

theorem credential_limits_kept:
  assumes "reach credential_init (credential_step sha) (now, d)"
  shows "count_where (live_agent org) (service_tokens d) \<le> 20 \<and> count_where (live_feed org) (status_feeds d) \<le> 20
    \<and> distinct (map tk_token_hash (service_tokens d)) \<and> distinct (map sf_token_hash (status_feeds d)) \<and> wf d"
  using credentials.reach_inv [OF assms]
  by (simp add: credentials_ok_def tokens_ok_def feeds_ok_def maxAgentTokens_def maxStatusFeeds_def)

lemma sample_init: "credential_init (0, sample_db)"
  by (simp add: credential_init_def wf_def sample_db_def empty_db_def sample_user_def)

theorem credential_limits_kept_witness:
  "count_where (live_agent ''acme'') (service_tokens (fst (CreateAgentToken (\<lambda>x. x) 5 ''c'' ''1'' ''s'' (sample_access ''acme'' ''alice'')
     ''bot'' ScopeMCPRead sample_db))) \<le> 20"
proof -
  have "reach credential_init (credential_step (\<lambda>x. x)) (0, sample_db)" by (rule reach_init, rule sample_init)
  from credential_limits_kept [OF reach_step [OF this create_agent [where now = 5]]] show ?thesis by simp
qed

lemma filter_self: "distinct t \<Longrightarrow> p \<in> set t \<Longrightarrow> filter (\<lambda>q. q = p) t = [p]"
  by (induction t) (auto simp: filter_empty_conv)


lemma sample_reach: "reach credential_init (credential_step sha) (0, sample_db)"
  by (rule reach_init, rule sample_init)


subsection \<open>What a presented bearer opens\<close>

lemma find_last: "(\<And>x. x \<in> set ts \<Longrightarrow> \<not> P x) \<Longrightarrow> P t \<Longrightarrow> List.find P (ts @ [t]) = Some t"
  by (induction ts) auto

lemma find_hd_filter: "List.find P t = (case filter P t of [] \<Rightarrow> None | x # _ \<Rightarrow> Some x)"
  by (induction t) auto

lemma CreateAgentToken_Inr:
  assumes "CreateAgentToken sha now cid rid secret a name scope d = (d', Inr (t, bearer))"
  shows "bearer = AgentTokenPrefix @ EncodeToString secret" and "t = agent_token_row sha now rid secret a name scope"
    and "IsAgentScope scope" and "\<forall>x\<in>set (service_tokens d). \<not> token_clash t x"
    and "service_tokens d' = service_tokens d @ [t]"
proof -
  define row where "row = agent_token_row sha now rid secret a name scope"
  from assms have "IsAgentScope scope" and res: "bearer = AgentTokenPrefix @ EncodeToString secret" "t = row"
    and run: "withTenantTargetDetails now cid a AgentTokensManage (tk_id row)
      (keep (tk_id row) (''scope='' @ scope) (create_agent_token sha a row)) d = (d', Inr ())"
    by (auto simp: CreateAgentToken_def Let_def row_def split: if_splits prod.splits sum.splits)
  from run have "\<exists>r d1. create_agent_token sha a row d = Inr (d1, ()) \<and> d' = insert_audit r d1"
    unfolding tenant_run_defs by (elim runAs_success) (auto simp: keep_def)
  then have "\<forall>x\<in>set (service_tokens d). \<not> token_clash row x" "service_tokens d' = service_tokens d @ [row]"
    by (auto simp: create_agent_token_def insert_audit_def split: if_splits)
  then show "bearer = AgentTokenPrefix @ EncodeToString secret" "t = agent_token_row sha now rid secret a name scope"
    "IsAgentScope scope" "\<forall>x\<in>set (service_tokens d). \<not> token_clash t x" "service_tokens d' = service_tokens d @ [t]"
    using res \<open>IsAgentScope scope\<close> by (simp_all add: row_def)
qed

lemma agent_scope_not_pulse: "IsAgentScope scope \<Longrightarrow> scope \<noteq> ScopePulse"
  by (auto simp: IsAgentScope_def ScopeMCPRead_def ScopeMCPOperate_def ScopePulse_def)

lemma LookupAgentToken_bearer:
  "length secret = 32 \<Longrightarrow>
   LookupAgentToken sha now fresh (AgentTokenPrefix @ EncodeToString secret) d =
    (case List.find (\<lambda>t. tk_token_hash t = SHA256Hex sha secret \<and> tk_scope t \<noteq> ScopePulse \<and> tk_revoked_at t = None) (service_tokens d) of
       None \<Rightarrow> (d, Inl ErrForbidden)
     | Some t \<Rightarrow> if now - AgentLastActive t > AgentIdleLimit then (fst (ExpireIdleAgentTokens now fresh (tk_id t) d), Inl ErrForbidden)
         else (d, Inr t))"
  by (simp add: LookupAgentToken_def DecodeString_EncodeToString serviceTokenBytes_def)

lemma prefixes_apart:
  "CutPrefix (AgentTokenPrefix @ s) StatusFeedPrefix = None" "CutPrefix (StatusFeedPrefix @ s) AgentTokenPrefix = None"
  by (simp_all add: CutPrefix_def AgentTokenPrefix_def StatusFeedPrefix_def)

lemma prefixed_not_service:
  "LookupServiceToken sha (AgentTokenPrefix @ s) d = Inl ErrForbidden"
  "LookupServiceToken sha (StatusFeedPrefix @ s) d = Inl ErrForbidden"
  by (simp_all add: LookupServiceToken_def AgentTokenPrefix_def StatusFeedPrefix_def not_hex_after_trim)

lemma ReadStatusFeed_prefix: "snd (ReadStatusFeed sha allow now token ip d) = Inr rep \<Longrightarrow> \<exists>h. token = StatusFeedPrefix @ h"
  by (auto simp: ReadStatusFeed_def feed_secret_def split: option.splits if_splits dest: CutPrefix_Some)

text \<open>
  C15. A bearer opens one kind of door. Whatever text is presented, at most one of the three
  authentications accepts it: as a service token, as an agent token, or as a status feed. So a
  status feed URL never reads an inventory and an agent token never answers for a service.
\<close>

theorem bearer_kinds_disjoint:
  "of_bool (\<not> isl (LookupServiceToken sha token d)) + of_bool (\<not> isl (snd (LookupAgentToken sha now fresh token d)))
    + of_bool (\<not> isl (snd (ReadStatusFeed sha allow now token ip d))) \<le> (1 :: nat)"
proof -
  have agent: "\<exists>h. token = AgentTokenPrefix @ h" if "\<not> isl (snd (LookupAgentToken sha now fresh token d))"
    using that lookup_agent_prefix by (metis isl_def sum.exhaust)
  have feed: "\<exists>h. token = StatusFeedPrefix @ h" if "\<not> isl (snd (ReadStatusFeed sha allow now token ip d))"
    using that ReadStatusFeed_prefix by (metis isl_def sum.exhaust)
  have "isl (LookupServiceToken sha token d)" if "token = AgentTokenPrefix @ h \<or> token = StatusFeedPrefix @ h" for h
    using that prefixed_not_service by auto
  moreover have "\<not> (token = AgentTokenPrefix @ h \<and> token = StatusFeedPrefix @ h')" for h h'
    by (auto simp: AgentTokenPrefix_def StatusFeedPrefix_def)
  ultimately show ?thesis using agent feed by (auto simp: of_bool_def)
qed

text \<open>
  C16. An agent token works from its creation to its revocation, and only as itself. The bearer
  that a creation answered authenticates, until the idle limit, to the very row it created, in the
  creator's organization and with the asked scope, marked used; it is no service token and no
  status feed. After a revocation of that row answers, the bearer is refused.
\<close>

theorem agent_token_round_trip:
  assumes "CreateAgentToken sha now cid rid secret a name scope d = (d', Inr (t, bearer))" and "length secret = 32"
    and "now' \<le> now + AgentIdleLimit"
  shows "snd (AuthenticateAgentToken sha now' fresh bearer ip d') = Inr (t\<lparr>tk_last_used_at := Some now', tk_last_ip := ip\<rparr>)
    \<and> tk_organization_id t = OrganizationID a \<and> tk_scope t = scope
    \<and> LookupServiceToken sha bearer d' = Inl ErrForbidden
    \<and> ReadStatusFeed sha allow now' bearer ip d' = (d', Inl ErrForbidden)
    \<and> (\<forall>b d''. RevokeAgentToken now' cid' b (tk_id t) d' = (d'', Inr ()) \<longrightarrow>
         AuthenticateAgentToken sha now'' fresh bearer ip d'' = (d'', Inl ErrForbidden))"
proof (intro conjI allI impI)
  note c = CreateAgentToken_Inr [OF assms(1)]
  have others: "tk_token_hash x \<noteq> SHA256Hex sha secret \<and> tk_id x \<noteq> tk_id t" if "x \<in> set (service_tokens d)" for x
    using c(4) that by (auto simp: token_clash_def c(2) agent_token_row_def)
  let ?P = "\<lambda>t. tk_token_hash t = SHA256Hex sha secret \<and> tk_scope t \<noteq> ScopePulse \<and> tk_revoked_at t = None"
  have "List.find ?P (service_tokens d') = Some t"
    unfolding c(5) by (rule find_last) (use others c(2) agent_scope_not_pulse [OF c(3)] in \<open>auto simp: agent_token_row_def\<close>)
  moreover have "AgentLastActive t = now" "tk_last_used_at t = None" by (simp_all add: c(2) agent_token_row_def AgentLastActive_def)
  ultimately show "snd (AuthenticateAgentToken sha now' fresh bearer ip d') = Inr (t\<lparr>tk_last_used_at := Some now', tk_last_ip := ip\<rparr>)"
    using assms(2,3) by (simp add: AuthenticateAgentToken_def c(1) LookupAgentToken_bearer stamp_token_def)
  show "tk_organization_id t = OrganizationID a" "tk_scope t = scope" by (simp_all add: c(2) agent_token_row_def)
  show "LookupServiceToken sha bearer d' = Inl ErrForbidden" by (simp add: c(1) prefixed_not_service)
  show "ReadStatusFeed sha allow now' bearer ip d' = (d', Inl ErrForbidden)"
    by (simp add: c(1) ReadStatusFeed_def feed_secret_def prefixes_apart)
  fix b d''
  assume "RevokeAgentToken now' cid' b (tk_id t) d' = (d'', Inr ())"
  then have "\<exists>r d1. revoke_agent_token now' b (tk_id t) d' = Inr (d1, ()) \<and> d'' = insert_audit r d1"
    unfolding RevokeAgentToken_def tenant_run_defs by (elim runAs_success) (auto simp: keep_def)
  then have d'': "service_tokens d'' = update_where (\<lambda>x. tk_id x = tk_id t \<and> live_agent (OrganizationID b) x)
      (\<lambda>x. x\<lparr>tk_revoked_at := Some now', tk_revoked_by := Principal b\<rparr>) (service_tokens d')"
    and one: "count_where (\<lambda>x. tk_id x = tk_id t \<and> live_agent (OrganizationID b) x) (service_tokens d') = 1"
    by (auto simp: revoke_agent_token_def Let_def insert_audit_def split: if_splits)
  have "count_where (\<lambda>x. tk_id x = tk_id t \<and> live_agent (OrganizationID b) x) (service_tokens d) = 0"
    unfolding count_where_0 using others by blast
  with one have "live_agent (OrganizationID b) t" by (auto simp: c(5) split: if_splits)
  then have "List.find ?P (service_tokens d'') = None"
    using others unfolding find_None_in d'' c(5) by (auto simp: in_update_where)
  then show "AuthenticateAgentToken sha now'' fresh bearer ip d'' = (d'', Inl ErrForbidden)"
    by (simp add: AuthenticateAgentToken_def c(1) LookupAgentToken_bearer assms(2))
qed

lemma chunks_ascii: "\<forall>c\<in>set s. byte c < 128 \<Longrightarrow> chunks s = map (\<lambda>c. (byte c, [c])) s"
proof (induction s)
  case (Cons c s)
  then have "decode_rune (c # s) = (byte c, 1)" by (cases s) (simp_all add: decode_rune_def byte_def)
  with Cons show ?case by simp
qed simp

lemma sample_name: "validAgentName ''bot'' \<and> IsAgentScope ScopeMCPRead"
proof -
  have "chunks ''bot'' = [(98, ''b''), (111, ''o''), (116, ''t'')]" by (subst chunks_ascii) (simp_all add: byte_def)
  then have "runes ''bot'' = [98, 111, 116]" "TrimSpace ''bot'' = ''bot''"
    unfolding runes_def TrimSpace_def by (simp_all add: is_space_def)
  then show ?thesis
    by (simp add: validAgentName_def validTenantName_def displaySafe_def unsafe_rune_def is_control_def IsAgentScope_def)
qed

theorem agent_token_round_trip_witness:
  "\<exists>d' t. CreateAgentToken (\<lambda>s. s) 5 ''c'' ''1'' (replicate 32 CHR ''s'') (sample_access ''acme'' ''alice'') ''bot'' ScopeMCPRead sample_db
       = (d', Inr (t, AgentTokenPrefix @ EncodeToString (replicate 32 CHR ''s'')))
     \<and> snd (AuthenticateAgentToken (\<lambda>s. s) 6 (\<lambda>_. ''u'') (AgentTokenPrefix @ EncodeToString (replicate 32 CHR ''s'')) ''ip'' d')
       = Inr (t\<lparr>tk_last_used_at := Some 6, tk_last_ip := ''ip''\<rparr>)"
proof -
  let ?a = "sample_access ''acme'' ''alice''" and ?s = "replicate 32 CHR ''s''"
  define t where "t = agent_token_row (\<lambda>s. s) 5 ''1'' ?s ?a ''bot'' ScopeMCPRead"
  define d1 where "d1 = fst (projr (create_agent_token (\<lambda>s. s) ?a t sample_db))"
  have op: "create_agent_token (\<lambda>s. s) ?a t sample_db = Inr (d1, ())" unfolding d1_def t_def by code_simp
  have auth: "authorize sample_db ?a AgentTokensManage = Inr ()" by code_simp
  have "\<exists>r. withTenantTargetDetails 5 ''c'' ?a AgentTokensManage (tk_id t)
      (keep (tk_id t) (''scope='' @ ScopeMCPRead) (create_agent_token (\<lambda>s. s) ?a t)) sample_db = (insert_audit r d1, Inr ())"
    unfolding tenant_run_defs
    by (rule runAs_answers) (use auth op in \<open>simp_all add: sample_access_def\<close>)
  then obtain r where "withTenantTargetDetails 5 ''c'' ?a AgentTokensManage (tk_id t)
      (keep (tk_id t) (''scope='' @ ScopeMCPRead) (create_agent_token (\<lambda>s. s) ?a t)) sample_db = (insert_audit r d1, Inr ())" ..
  with sample_name have run: "CreateAgentToken (\<lambda>s. s) 5 ''c'' ''1'' ?s ?a ''bot'' ScopeMCPRead sample_db
      = (insert_audit r d1, Inr (t, AgentTokenPrefix @ EncodeToString ?s))"
    by (simp add: CreateAgentToken_def t_def [symmetric] Let_def)
  have "length ?s = 32" "6 \<le> 5 + AgentIdleLimit" by (simp_all add: AgentIdleLimit_def)
  from agent_token_round_trip [OF run this] run show ?thesis by blast
qed

text \<open>
  C17. An idle agent token is dead. A bearer whose row was not used for more than 90 days is
  refused, and the refusal revokes the row and writes one \<^verbatim>\<open>agent_token.expired\<close> row into its
  organization's trail: no later request, however the clock moves, finds it live.
\<close>

theorem idle_agent_token_revoked:
  assumes "wf d" and "distinct (map tk_token_hash (service_tokens d))"
    and "t \<in> set (service_tokens d)" and "tk_id t \<noteq> ''''" and "live_agent org t" and "tk_token_hash t = SHA256Hex sha secret" and "length secret = 32"
    and "now - AgentLastActive t > AgentIdleLimit"
  shows "\<exists>d' r. AuthenticateAgentToken sha now fresh (AgentTokenPrefix @ EncodeToString secret) ip d = (d', Inl ErrForbidden)
    \<and> d' = insert_audit r (d\<lparr>service_tokens := service_tokens d'\<rparr>)
    \<and> au_action r = ''agent_token.expired'' \<and> au_resource r = tk_id t \<and> au_organization_id r = org
    \<and> (\<forall>now' ip'. AuthenticateAgentToken sha now' fresh (AgentTokenPrefix @ EncodeToString secret) ip' d' = (d', Inl ErrForbidden))"
proof -
  let ?P = "\<lambda>t. tk_token_hash t = SHA256Hex sha secret \<and> tk_scope t \<noteq> ScopePulse \<and> tk_revoked_at t = None"
  let ?L = "\<lambda>x. tk_id x = tk_id t \<and> tk_revoked_at x = None"
  define r where "r = \<lparr>au_id = 0, au_user_id = ''service:'' @ tk_id t, au_action = ''agent_token.expired'', au_resource = tk_id t,
    au_details = ''unused for 90 days'', au_ip_address = '''', au_created_at = now, au_scope = ''organization'',
    au_organization_id = tk_organization_id t, au_environment_id = '''', au_correlation_id = fresh (next_audit_id d), au_result = ''success''\<rparr>"
  define ts where "ts = update_where ?L (\<lambda>t. t\<lparr>tk_revoked_at := Some now, tk_revoked_by := ''idle''\<rparr>) (service_tokens d)"
  have hash: "x = t" if "x \<in> set (service_tokens d)" "tk_token_hash x = SHA256Hex sha secret" for x
    using distinct_map_eq [OF assms(2) that(1) assms(3)] that(2) assms(6) by simp
  have same: "x = t" if "x \<in> set (service_tokens d)" "tk_id x = tk_id t" for x
    using distinct_map_eq [OF wf_keys(5) [OF assms(1)] that(1) assms(3) that(2)] .
  have nodup: "distinct (service_tokens d)" using assms(2) distinct_map by blast
  have only: "filter Q (service_tokens d) = [t]" if "Q t" "\<And>x. x \<in> set (service_tokens d) \<Longrightarrow> Q x \<Longrightarrow> x = t" for Q
  proof -
    have "filter Q (service_tokens d) = filter (\<lambda>x. x = t) (service_tokens d)"
      using that by (intro filter_cong_in) auto
    with filter_self [OF nodup assms(3)] show ?thesis by simp
  qed
  have "List.find ?P (service_tokens d) = Some t"
    using only [of ?P] hash assms(5,6) unfolding find_hd_filter by (simp add: live_agent_def)
  moreover have "count_where ?L (service_tokens d) = 1"
    using only [of ?L] same assms(5) by (simp add: count_where_def live_agent_def)
  moreover have "filter (\<lambda>x. tk_scope x \<noteq> ScopePulse \<and> tk_revoked_at x = None \<and> AgentLastActive x < now - AgentIdleLimit
      \<and> (tk_id t = '''' \<or> tk_id x = tk_id t)) (service_tokens d) = [t]"
    using only [of "\<lambda>x. tk_scope x \<noteq> ScopePulse \<and> tk_revoked_at x = None \<and> AgentLastActive x < now - AgentIdleLimit
      \<and> (tk_id t = '''' \<or> tk_id x = tk_id t)"] same assms(4,5,8) by (simp add: live_agent_def)
  ultimately have "AuthenticateAgentToken sha now fresh (AgentTokenPrefix @ EncodeToString secret) ip d
      = (insert_audit r (d\<lparr>service_tokens := ts\<rparr>), Inl ErrForbidden)"
    using assms(7,8) by (simp add: AuthenticateAgentToken_def LookupAgentToken_bearer ExpireIdleAgentTokens_def expire_one_def Let_def r_def ts_def)
  moreover have "\<not> ?P x" if "x \<in> set ts" for x
  proof
    assume P: "?P x"
    have "x \<in> set (service_tokens d) \<and> \<not> ?L x"
      by (rule in_update_where_unset [where R = "\<lambda>q. tk_revoked_at q \<noteq> None", OF that [unfolded ts_def]]) (use P in auto)
    with hash [of x] P show False by auto
  qed
  then have "List.find ?P (service_tokens (insert_audit r (d\<lparr>service_tokens := ts\<rparr>))) = None"
    unfolding find_None_in by (simp add: insert_audit_def)
  then have "AuthenticateAgentToken sha now' fresh (AgentTokenPrefix @ EncodeToString secret) ip' (insert_audit r (d\<lparr>service_tokens := ts\<rparr>))
      = (insert_audit r (d\<lparr>service_tokens := ts\<rparr>), Inl ErrForbidden)" for now' ip'
    using assms(7) by (simp add: AuthenticateAgentToken_def LookupAgentToken_bearer)
  moreover have "au_action r = ''agent_token.expired'' \<and> au_resource r = tk_id t \<and> au_organization_id r = org"
    using assms(5) by (simp add: r_def live_agent_def)
  moreover have "service_tokens (insert_audit r (d\<lparr>service_tokens := ts\<rparr>)) = ts" by (simp add: insert_audit_def)
  ultimately show ?thesis by metis
qed

definition sample_idle :: db where
  "sample_idle = sample_db\<lparr>service_tokens :=
    [agent_token_row (\<lambda>s. s) 0 ''1'' (replicate 32 CHR ''s'') (sample_access ''acme'' ''alice'') ''bot'' ScopeMCPRead]\<rparr>"

theorem idle_agent_token_revoked_witness:
  "\<exists>d' r. AuthenticateAgentToken (\<lambda>s. s) (91 * 24 * hour) (\<lambda>_. ''u'') (AgentTokenPrefix @ EncodeToString (replicate 32 CHR ''s'')) '''' sample_idle
       = (d', Inl ErrForbidden)
     \<and> d' = insert_audit r (sample_idle\<lparr>service_tokens := service_tokens d'\<rparr>) \<and> au_action r = ''agent_token.expired''"
proof -
  let ?s = "replicate 32 CHR ''s''"
  let ?t = "agent_token_row (\<lambda>s. s) 0 ''1'' ?s (sample_access ''acme'' ''alice'') ''bot'' ScopeMCPRead"
  have "wf sample_idle" "distinct (map tk_token_hash (service_tokens sample_idle))" "?t \<in> set (service_tokens sample_idle)"
    by (simp_all add: sample_idle_def wf_def sample_db_def empty_db_def sample_user_def)
  moreover have "tk_id ?t \<noteq> ''''" "live_agent ''acme'' ?t" "tk_token_hash ?t = SHA256Hex (\<lambda>s. s) ?s"
    by (simp_all add: agent_token_row_def live_agent_def sample_access_def ScopeMCPRead_def ScopePulse_def)
  moreover have "length ?s = 32" "91 * 24 * hour - AgentLastActive ?t > AgentIdleLimit"
    by (simp_all add: AgentIdleLimit_def AgentLastActive_def agent_token_row_def)
  ultimately show ?thesis
    using idle_agent_token_revoked [of sample_idle ?t "''acme''" "\<lambda>s. s" ?s "91 * 24 * hour" "\<lambda>_. ''u''" "''''"] by blast
qed

end
