(* ===== verification/Endpoints.thy ===== *)
theory Endpoints
  imports Credentials
begin

text \<open>
  The life of an endpoint: enrollment tokens, enrollment and its review
  (\<^verbatim>\<open>internal/store/endpoints.go\<close>), the agent's key and its rotation
  (\<^verbatim>\<open>internal/store/agent_rotation.go\<close>), sessions, heartbeats and inventory reports
  (\<^verbatim>\<open>internal/store/agent_session.go\<close>), and the built-in local Docker endpoint
  (\<^verbatim>\<open>internal/store/local_docker.go\<close>). \<open>sha\<close> and \<open>verify\<close> are the digest and the Ed25519 check; random
  secrets and IDs are arguments.
\<close>

subsection \<open>Enrollment tokens\<close>

definition enrollmentTokenLife :: duration where "enrollmentTokenLife = 15 * minute"
definition pendingEndpointLife :: duration where "pendingEndpointLife = 24 * hour"
definition maxFactsBytes :: nat where "maxFactsBytes = 4096"

definition factKeys :: "string list" where
  "factKeys = [''hostname'', ''os'', ''runtime_version'', ''cpus'', ''memory_bytes'', ''runtime'', ''server_version'',
     ''node_count'', ''platform'']"

definition validRuntime :: "string \<Rightarrow> bool" where
  "validRuntime r \<longleftrightarrow> r = ''docker'' \<or> r = ''kubernetes''"

definition MaxDeployNamespaces :: nat where "MaxDeployNamespaces = 32"

definition namespace_allowed :: "string \<Rightarrow> bool" where
  "namespace_allowed ns \<longleftrightarrow> ValidDNSLabel ns \<and> ns \<noteq> ''kyyard-agent'' \<and> take 5 ns \<noteq> ''kube-''"

definition NormalizeNamespaces :: "string list \<Rightarrow> string list res" where
  "NormalizeNamespaces ins =
    (let out = sort ins in
     if length out > MaxDeployNamespaces then Inl ErrInvalid
     else if list_all (\<lambda>i. namespace_allowed (out ! i) \<and> \<not> (i > 0 \<and> out ! (i - 1) = out ! i)) [0..<length out]
     then Inr out else Inl ErrInvalid)"

definition ValidEndpointName :: "string \<Rightarrow> bool" where "ValidEndpointName name = validTenantName name"

definition CheckEnrollmentAccess :: "time \<Rightarrow> string \<Rightarrow> TenantAccess \<Rightarrow> db \<Rightarrow> db \<times> unit res" where
  "CheckEnrollmentAccess now cid a d =
    (if EnvironmentID a = '''' then (d, Inl ErrInvalid)
     else readTenant now cid a EndpointEnroll (\<lambda>_. Inr ()) d)"

definition enrollment_clash :: "EnrollmentToken \<Rightarrow> EnrollmentToken \<Rightarrow> bool" where
  "enrollment_clash r x \<longleftrightarrow> et_id r = et_id x \<or> et_token_hash r = et_token_hash x"

definition create_enrollment_token :: "EnrollmentToken \<Rightarrow> db \<Rightarrow> (db \<times> unit) res" where
  "create_enrollment_token t d =
    (if \<not> validRuntime (et_runtime t) then Inl ErrInvalid
     else and_then (insert_row enrollment_clash t (enrollment_tokens d)) (\<lambda>ts. Inr (d\<lparr>enrollment_tokens := ts\<rparr>, ())))"

definition enrollment_row ::
  "(string \<Rightarrow> string) \<Rightarrow> time \<Rightarrow> string \<Rightarrow> string \<Rightarrow> TenantAccess \<Rightarrow> string \<Rightarrow> string \<Rightarrow> string list \<Rightarrow> EnrollmentToken" where
  "enrollment_row sha now uid secret a runtime agentImage namespaces =
    \<lparr>et_id = uid, et_organization_id = OrganizationID a, et_environment_id = EnvironmentID a, et_runtime = runtime,
     et_token_hash = SHA256Hex sha secret, et_created_by = ActorID a, et_created_at = now,
     et_expires_at = now + enrollmentTokenLife, et_consumed_at = None, et_endpoint_id = '''',
     et_agent_image = agentImage, et_deploy_namespaces = namespaces\<rparr>"

definition CreateEnrollmentToken ::
  "(string \<Rightarrow> string) \<Rightarrow> time \<Rightarrow> string \<Rightarrow> string \<Rightarrow> string \<Rightarrow> TenantAccess \<Rightarrow> string \<Rightarrow> string \<Rightarrow> string list \<Rightarrow> db
    \<Rightarrow> db \<times> (EnrollmentToken \<times> string) res" where
  "CreateEnrollmentToken sha now cid uid secret a runtime agentImage namespaces d =
    (if EnvironmentID a = '''' \<or> (runtime \<noteq> RuntimeKubernetes \<and> namespaces \<noteq> []) then (d, Inl ErrInvalid)
     else case NormalizeNamespaces namespaces of
       Inl e \<Rightarrow> (d, Inl e)
     | Inr ns \<Rightarrow>
        let t = enrollment_row sha now uid secret a runtime agentImage ns in
        (case withTenantTarget now cid a EndpointEnroll uid (create_enrollment_token t) d of
           (d', Inl e) \<Rightarrow> (d', Inl e)
         | (d', Inr _) \<Rightarrow> (d', Inr (t, secret))))"

subsection \<open>Enrollment\<close>

record EnrollmentRequest =
  er_token :: string
  er_public_key :: string
  er_proof :: string
  er_name :: string
  er_facts :: "(string \<times> string) list"
  er_ip_address :: string

definition kept_facts :: "(string \<times> string) list \<Rightarrow> (string \<times> string) list" where
  "kept_facts facts = filter (\<lambda>(k, _). k \<in> set factKeys) facts"

text \<open>The unique keys of \<^verbatim>\<open>endpoints\<close>: its ID, and its name within its organization.\<close>

definition endpoint_clash :: "Endpoint \<Rightarrow> Endpoint \<Rightarrow> bool" where
  "endpoint_clash r x \<longleftrightarrow> ep_id r = ep_id x \<or> (ep_organization_id r = ep_organization_id x \<and> ep_name r = ep_name x)"

definition key_clash :: "endpoint_key \<Rightarrow> endpoint_key \<Rightarrow> bool" where
  "key_clash r x \<longleftrightarrow> ek_endpoint_id r = ek_endpoint_id x \<and> ek_fingerprint r = ek_fingerprint x"

definition new_key :: "(string \<Rightarrow> string) \<Rightarrow> time \<Rightarrow> string \<Rightarrow> string \<Rightarrow> endpoint_key" where
  "new_key sha now endpoint publicKey =
    \<lparr>ek_endpoint_id = endpoint, ek_fingerprint = Fingerprint sha publicKey, ek_public_key = EncodeToString publicKey,
     ek_state = KeyPendingReview, ek_created_at = now, ek_acknowledged_at = None, ek_retired_at = None\<rparr>"

definition enrolled_endpoint :: "time \<Rightarrow> string \<Rightarrow> EnrollmentRequest \<Rightarrow> EnrollmentToken \<Rightarrow> Endpoint" where
  "enrolled_endpoint now i req t =
    \<lparr>ep_id = i, ep_organization_id = et_organization_id t, ep_environment_id = et_environment_id t,
     ep_name = TrimSpace (er_name req), ep_runtime = et_runtime t, ep_state = EpPending,
     ep_facts = kept_facts (er_facts req), ep_created_at = now, ep_approved_at = None, ep_approved_by = '''',
     ep_revoked_at = None, ep_last_seen_at = None, ep_inventory_generation = 0,
     ep_deploy_namespaces = et_deploy_namespaces t\<rparr>"

definition Enroll ::
  "(string \<Rightarrow> string) \<Rightarrow> verifier \<Rightarrow> time \<Rightarrow> string \<Rightarrow> string \<Rightarrow> EnrollmentRequest \<Rightarrow> db \<Rightarrow> (db \<times> Endpoint) res" where
  "Enroll sha verify now cid rid req d =
    (if \<not> VerifyEnrollment verify (er_public_key req) (er_token req) (er_proof req) \<or> \<not> validTenantName (er_name req)
     then Inl ErrForbidden
     else if \<not> list_all (\<lambda>(_, v). displaySafe v) (kept_facts (er_facts req)) then Inl ErrForbidden
     else if length (Marshal (JMap (map (\<lambda>(k, v). (k, JStr v)) (kept_facts (er_facts req))))) > maxFactsBytes then Inl ErrForbidden
     else
      let hash = SHA256Hex sha (er_token req);
          live = (\<lambda>t. et_token_hash t = hash \<and> et_consumed_at t = None \<and> et_expires_at t > now);
          d1 = d\<lparr>enrollment_tokens := update_where live (\<lambda>t. t\<lparr>et_consumed_at := Some now\<rparr>) (enrollment_tokens d)\<rparr>
      in if count_where live (enrollment_tokens d) \<noteq> 1 then Inl ErrForbidden
         else
          and_then (row_or ErrNoRow (List.find (\<lambda>t. et_token_hash t = hash) (enrollment_tokens d1))) (\<lambda>t.
          let e = enrolled_endpoint now (''ep_'' @ rid) req t in
          if \<exists>x\<in>set (endpoints d1). endpoint_clash e x then Inl ErrAlreadyExists
          else
           and_then (insert_row key_clash (new_key sha now (ep_id e) (er_public_key req)) (endpoint_keys d1)) (\<lambda>ks.
           Inr (insert_audit \<lparr>au_id = 0, au_user_id = ''agent:'' @ ep_id e, au_action = ''agent.enroll'', au_resource = ep_id e,
                  au_details = '''', au_ip_address = er_ip_address req, au_created_at = now, au_scope = ''organization'',
                  au_organization_id = ep_organization_id e, au_environment_id = ep_environment_id e, au_correlation_id = cid,
                  au_result = ''success''\<rparr>
                (d1\<lparr>endpoints := endpoints d1 @ [e], endpoint_keys := ks,
                    enrollment_tokens := update_where (\<lambda>x. et_id x = et_id t) (\<lambda>x. x\<lparr>et_endpoint_id := ep_id e\<rparr>) (enrollment_tokens d1)\<rparr>),
                e))))"

subsection \<open>Reading endpoints\<close>

definition pendingKeyLife :: duration where "pendingKeyLife = 7 * 24 * hour"

definition pendingCutoff :: "time \<Rightarrow> time" where "pendingCutoff now = now - pendingKeyLife"

fun state_name :: "endpoint_state \<Rightarrow> string" where
  "state_name EpPending = ''pending''"
| "state_name EpApproved = ''approved''"
| "state_name EpActive = ''active''"
| "state_name EpOffline = ''offline''"
| "state_name EpRevoked = ''revoked''"

text \<open>An endpoint as it is read: its row, the state shown, and what belongs to it in other tables.\<close>

record EndpointView =
  vw_endpoint :: Endpoint
  vw_state :: string
  vw_fingerprint :: string
  vw_pending_fingerprint :: string
  vw_capabilities :: "string list"
  vw_alerts :: "EndpointEvent list"
  vw_cluster_health :: string

definition endpoint_fingerprint :: "db \<Rightarrow> Endpoint \<Rightarrow> string" where
  "endpoint_fingerprint d e =
    (case List.find (\<lambda>k. ek_endpoint_id k = ep_id e \<and> ek_state k = KeyApproved) (endpoint_keys d) of
       Some k \<Rightarrow> ek_fingerprint k
     | None \<Rightarrow>
       (case List.find (\<lambda>k. ek_endpoint_id k = ep_id e \<and> ek_state k = KeyPendingReview) (endpoint_keys d) of
          Some k \<Rightarrow> ek_fingerprint k | None \<Rightarrow> ''''))"

definition pending_fingerprint :: "time \<Rightarrow> db \<Rightarrow> Endpoint \<Rightarrow> string" where
  "pending_fingerprint now d e =
    (if ep_state e = EpPending then ''''
     else case sort_key (\<lambda>k. - ek_created_at k) (filter (\<lambda>k. ek_endpoint_id k = ep_id e \<and> ek_state k = KeyPendingReview
            \<and> ek_created_at k > pendingCutoff now) (endpoint_keys d)) of
       [] \<Rightarrow> '''' | k # _ \<Rightarrow> ek_fingerprint k)"

definition shown_state :: "time \<Rightarrow> Endpoint \<Rightarrow> string" where
  "shown_state now e =
    (if ep_state e = EpPending \<and> now - ep_created_at e > pendingEndpointLife then ''expired'' else state_name (ep_state e))"

definition scanEndpoint :: "time \<Rightarrow> db \<Rightarrow> Endpoint \<Rightarrow> EndpointView" where
  "scanEndpoint now d e =
    \<lparr>vw_endpoint = e, vw_state = shown_state now e, vw_fingerprint = endpoint_fingerprint d e,
     vw_pending_fingerprint = pending_fingerprint now d e, vw_capabilities = [], vw_alerts = [], vw_cluster_health = ''''\<rparr>"

definition clusterHealth :: "Snapshot option \<Rightarrow> string" where
  "clusterHealth snapshot =
    (case snapshot of
       None \<Rightarrow> ''''
     | Some s \<Rightarrow> (case sn_kubernetes s of None \<Rightarrow> '''' | Some _ \<Rightarrow> ClusterHealth True (Some s)))"

definition open_alerts :: "db \<Rightarrow> string \<Rightarrow> EndpointEvent list" where
  "open_alerts d i =
    take 10 (sort_key (\<lambda>e. - ev_created_at e)
      (filter (\<lambda>e. ev_endpoint_id e = i \<and> ev_severity e = ''high'' \<and> ev_acknowledged_at e = None) (endpoint_events d)))"

definition decorate :: "db \<Rightarrow> EndpointView \<Rightarrow> EndpointView" where
  "decorate d v =
    (let e = vw_endpoint v in
     v\<lparr>vw_capabilities := sort (map cap_capability (filter (\<lambda>c. cap_endpoint_id c = ep_id e) (capabilities d))),
       vw_alerts := open_alerts d (ep_id e),
       vw_cluster_health :=
         (if ep_runtime e \<noteq> RuntimeKubernetes then ''''
          else case List.find (\<lambda>i. iv_endpoint_id i = ep_id e) (inventories d) of
            None \<Rightarrow> ''unknown''
          | Some i \<Rightarrow> if ep_state e = EpActive \<and> iv_cluster_health i \<noteq> '''' then iv_cluster_health i else ''unknown'')\<rparr>)"

definition ListEndpoints :: "time \<Rightarrow> string \<Rightarrow> TenantAccess \<Rightarrow> int \<Rightarrow> int \<Rightarrow> db \<Rightarrow> db \<times> EndpointView list res" where
  "ListEndpoints now cid a offset limit =
    readTenant now cid a EndpointRead (\<lambda>d.
      if offset < 0 \<or> limit < 1 \<or> limit > 200 then Inl ErrInvalid
      else Inr (map (\<lambda>e. decorate d (scanEndpoint now d e)) (page offset limit (sort_key (\<lambda>e. (ep_name e, ep_id e))
        (filter (\<lambda>e. ep_organization_id e = OrganizationID a \<and> (EnvironmentID a = '''' \<or> ep_environment_id e = EnvironmentID a))
          (endpoints d))))))"

definition ReadEndpoint :: "time \<Rightarrow> string \<Rightarrow> TenantAccess \<Rightarrow> string \<Rightarrow> db \<Rightarrow> db \<times> EndpointView res" where
  "ReadEndpoint now cid a i =
    readTenant now cid a EndpointRead (\<lambda>d.
      and_then (row_or ErrNotFound (List.find (\<lambda>e. ep_organization_id e = OrganizationID a \<and> ep_id e = i) (endpoints d))) (\<lambda>e.
        Inr (decorate d (scanEndpoint now d e))))"

definition ReadEndpointRaw :: "time \<Rightarrow> string \<Rightarrow> db \<Rightarrow> EndpointView res" where
  "ReadEndpointRaw now i d =
    and_then (row_or ErrNotFound (List.find (\<lambda>e. ep_id e = i) (endpoints d))) (\<lambda>e. Inr (scanEndpoint now d e))"

definition EndpointState :: "string \<Rightarrow> db \<Rightarrow> string res" where
  "EndpointState i d =
    and_then (row_or ErrNotFound (List.find (\<lambda>e. ep_id e = i) (endpoints d))) (\<lambda>e. Inr (state_name (ep_state e)))"

subsection \<open>Review and termination\<close>

definition set_deploy_namespaces :: "TenantAccess \<Rightarrow> string \<Rightarrow> string list \<Rightarrow> db \<Rightarrow> (db \<times> Endpoint) res" where
  "set_deploy_namespaces a i namespaces d =
    and_then (row_or ErrNotFound (List.find (\<lambda>e. ep_organization_id e = OrganizationID a \<and> ep_id e = i) (endpoints d))) (\<lambda>e.
    and_then (require (EnvironmentID a = '''' \<or> ep_environment_id e = EnvironmentID a) ErrNotFound) (\<lambda>_.
    and_then (require (ep_runtime e = RuntimeKubernetes) ErrRuntimeUnsupported) (\<lambda>_.
    Inr (d\<lparr>endpoints := update_where (\<lambda>x. ep_id x = i) (\<lambda>x. x\<lparr>ep_deploy_namespaces := namespaces\<rparr>) (endpoints d)\<rparr>,
         e\<lparr>ep_deploy_namespaces := namespaces\<rparr>))))"

definition SetEndpointDeployNamespaces ::
  "time \<Rightarrow> string \<Rightarrow> TenantAccess \<Rightarrow> string \<Rightarrow> string list \<Rightarrow> db \<Rightarrow> db \<times> Endpoint res" where
  "SetEndpointDeployNamespaces now cid a i namespaces d =
    (case NormalizeNamespaces namespaces of
       Inl e \<Rightarrow> (d, Inl e)
     | Inr ns \<Rightarrow> withTenantTargetDetails now cid a EndpointEnroll (i @ ''/manifest'')
         (keep (i @ ''/manifest'') (''namespaces='' @ Join ns CHR '','') (set_deploy_namespaces a i ns)) d)"

definition approve_endpoint :: "time \<Rightarrow> TenantAccess \<Rightarrow> string \<Rightarrow> string \<Rightarrow> db \<Rightarrow> (db \<times> unit) res" where
  "approve_endpoint now a i fingerprint d =
    and_then (row_or ErrNotFound (List.find (\<lambda>e. ep_organization_id e = OrganizationID a \<and> ep_id e = i \<and> ep_state e = EpPending)
      (endpoints d))) (\<lambda>e.
    if now - ep_created_at e > pendingEndpointLife then Inl ErrInvalid
    else
     let K = (\<lambda>k. ek_endpoint_id k = i \<and> ek_fingerprint k = fingerprint \<and> ek_state k = KeyPendingReview)
     in if count_where K (endpoint_keys d) = 0 then Inl ErrInvalid
        else Inr (d\<lparr>endpoint_keys := update_where K (\<lambda>k. k\<lparr>ek_state := KeyApproved, ek_acknowledged_at := Some now\<rparr>) (endpoint_keys d),
               endpoints := update_where (\<lambda>x. ep_id x = i) (\<lambda>x. x\<lparr>ep_state := EpApproved, ep_approved_at := Some now,
                 ep_approved_by := ActorID a, ep_inventory_generation := 0\<rparr>) (endpoints d),
               inventories := delete_where (\<lambda>v. iv_endpoint_id v = i) (inventories d)\<rparr>, ()))"

definition ApproveEndpoint :: "time \<Rightarrow> string \<Rightarrow> TenantAccess \<Rightarrow> string \<Rightarrow> string \<Rightarrow> db \<Rightarrow> db \<times> unit res" where
  "ApproveEndpoint now cid a i fingerprint = withTenantTarget now cid a EndpointEnroll i (approve_endpoint now a i fingerprint)"

definition terminate :: "time \<Rightarrow> string \<Rightarrow> string \<Rightarrow> (Endpoint \<Rightarrow> bool) \<Rightarrow> db \<Rightarrow> (db \<times> unit) res" where
  "terminate now org i condition d =
    (let P = (\<lambda>e. ep_organization_id e = org \<and> ep_id e = i \<and> condition e) in
     and_then (tenantChangeResult (count_where P (endpoints d))) (\<lambda>_.
       Inr (d\<lparr>endpoints := update_where P (\<lambda>e. e\<lparr>ep_state := EpRevoked, ep_revoked_at := Some now, ep_inventory_generation := 0\<rparr>) (endpoints d),
              inventories := delete_where (\<lambda>v. iv_endpoint_id v = i) (inventories d),
              endpoint_keys := update_where (\<lambda>k. ek_endpoint_id k = i \<and> ek_state k \<noteq> KeyRetired)
                (\<lambda>k. k\<lparr>ek_state := KeyRetired, ek_retired_at := Some now\<rparr>) (endpoint_keys d)\<rparr>, ())))"

definition RejectEndpoint :: "time \<Rightarrow> string \<Rightarrow> TenantAccess \<Rightarrow> string \<Rightarrow> db \<Rightarrow> db \<times> unit res" where
  "RejectEndpoint now cid a i =
    withTenantTarget now cid a EndpointEnroll i (terminate now (OrganizationID a) i (\<lambda>e. ep_state e = EpPending))"

definition RevokeEndpoint :: "time \<Rightarrow> string \<Rightarrow> TenantAccess \<Rightarrow> string \<Rightarrow> db \<Rightarrow> db \<times> unit res" where
  "RevokeEndpoint now cid a i =
    withTenantTarget now cid a EndpointRevoke i (terminate now (OrganizationID a) i (\<lambda>e. ep_state e \<noteq> EpRevoked))"

definition rename_endpoint :: "TenantAccess \<Rightarrow> string \<Rightarrow> string \<Rightarrow> db \<Rightarrow> (db \<times> unit) res" where
  "rename_endpoint a i name d =
    (if \<not> validTenantName name then Inl ErrInvalid
     else
      let P = (\<lambda>e. ep_organization_id e = OrganizationID a \<and> ep_id e = i);
          taken = (\<exists>e\<in>set (endpoints d). P e)
            \<and> (\<exists>e\<in>set (endpoints d). \<not> P e \<and> ep_organization_id e = OrganizationID a \<and> ep_name e = TrimSpace name)
      in if taken then Inl ErrConflict
         else and_then (tenantChangeResult (count_where P (endpoints d))) (\<lambda>_.
           Inr (d\<lparr>endpoints := update_where P (\<lambda>e. e\<lparr>ep_name := TrimSpace name\<rparr>) (endpoints d)\<rparr>, ())))"

definition RenameEndpoint :: "time \<Rightarrow> string \<Rightarrow> TenantAccess \<Rightarrow> string \<Rightarrow> string \<Rightarrow> db \<Rightarrow> db \<times> unit res" where
  "RenameEndpoint now cid a i name = withTenantTarget now cid a EndpointUpdate i (rename_endpoint a i name)"

subsection \<open>Keys\<close>

text \<open>\<^verbatim>\<open>hex.DecodeString\<close> with its error ignored: the bytes before the first malformed pair.\<close>

fun decoded_prefix :: "string \<Rightarrow> string" where
  "decoded_prefix (a # b # s) =
    (case (hex_value a, hex_value b) of (Some x, Some y) \<Rightarrow> char_of (16 * x + y) # decoded_prefix s | _ \<Rightarrow> [])"
| "decoded_prefix _ = []"

text \<open>An event is dropped while one of its kind stands unacknowledged: the partial unique index.\<close>

definition insert_event :: "EndpointEvent \<Rightarrow> db \<Rightarrow> db" where
  "insert_event v d =
    (if \<exists>x\<in>set (endpoint_events d). ev_endpoint_id x = ev_endpoint_id v \<and> ev_kind x = ev_kind v \<and> ev_acknowledged_at x = None
     then d
     else d\<lparr>endpoint_events := endpoint_events d @ [v\<lparr>ev_id := next_event_id d\<rparr>], next_event_id := next_event_id d + 1\<rparr>)"

definition endpoint_event :: "time \<Rightarrow> Endpoint \<Rightarrow> string \<Rightarrow> string \<Rightarrow> string \<Rightarrow> EndpointEvent" where
  "endpoint_event now e severity kind details =
    \<lparr>ev_id = 0, ev_endpoint_id = ep_id e, ev_organization_id = ep_organization_id e, ev_environment_id = ep_environment_id e,
     ev_severity = severity, ev_kind = kind, ev_details = details, ev_created_at = now, ev_acknowledged_at = None\<rparr>"

definition RotateEndpointKey ::
  "(string \<Rightarrow> string) \<Rightarrow> verifier \<Rightarrow> time \<Rightarrow> string \<Rightarrow> string \<Rightarrow> string \<Rightarrow> string \<Rightarrow> string \<Rightarrow> db \<Rightarrow> (db \<times> string) res" where
  "RotateEndpointKey sha verify now cid endpointID newPublicKey signature ip d =
    (if length newPublicKey \<noteq> 32 then Inl ErrInvalid
     else
      and_then (row_or ErrForbidden (List.find (\<lambda>e. ep_id e = endpointID) (endpoints d))) (\<lambda>e.
      if shown_state now e \<in> {''pending'', ''revoked'', ''expired''} then Inl ErrForbidden
      else
      and_then (row_or ErrForbidden (List.find (\<lambda>k. ek_endpoint_id k = endpointID \<and> ek_state k = KeyApproved) (endpoint_keys d))) (\<lambda>k.
      let current = decoded_prefix (ek_public_key k);
          oldFP = sha current;
          newFP = Fingerprint sha newPublicKey;
          details = ''approved='' @ EncodeToString oldFP @ '' pending='' @ newFP
      in if \<not> VerifyRotation verify current oldFP newPublicKey signature then Inl ErrForbidden
         else if count_where (\<lambda>v. ev_endpoint_id v = endpointID \<and> ev_kind v = ''duplicate_connection'' \<and> ev_acknowledged_at v = None)
                (endpoint_events d) > 0 then Inl ErrRotationBlocked
         else if count_where (\<lambda>x. ek_endpoint_id x = endpointID \<and> ek_state x = KeyPendingReview
                \<and> ek_created_at x > now - pendingKeyLife) (endpoint_keys d) > 0 then Inl ErrRotationPending
         else
          let ks = update_where (\<lambda>x. ek_endpoint_id x = endpointID \<and> ek_state x = KeyPendingReview)
                     (\<lambda>x. x\<lparr>ek_state := KeyRetired, ek_retired_at := Some now\<rparr>) (endpoint_keys d);
              new = new_key sha now endpointID newPublicKey
          in if \<exists>x\<in>set ks. key_clash new x then Inl ErrAlreadyExists
             else Inr (insert_audit \<lparr>au_id = 0, au_user_id = ''agent:'' @ endpointID, au_action = ''endpoint.rotate'',
                    au_resource = endpointID, au_details = details, au_ip_address = ip, au_created_at = now,
                    au_scope = ''organization'', au_organization_id = ep_organization_id e, au_environment_id = ep_environment_id e,
                    au_correlation_id = cid, au_result = ''success''\<rparr>
                  (insert_event (endpoint_event now e ''high'' ''rotation_pending'' details) (d\<lparr>endpoint_keys := ks @ [new]\<rparr>)),
                  newFP))))"

definition acknowledge_key :: "time \<Rightarrow> TenantAccess \<Rightarrow> string \<Rightarrow> string \<Rightarrow> db \<Rightarrow> (db \<times> unit) res" where
  "acknowledge_key now a endpointID fingerprint d =
    (let K = (\<lambda>k. ek_endpoint_id k = endpointID \<and> ek_fingerprint k = fingerprint \<and> ek_state k = KeyPendingReview
           \<and> ek_created_at k > now - pendingKeyLife
           \<and> (\<exists>e\<in>set (endpoints d). ep_id e = endpointID \<and> ep_organization_id e = OrganizationID a
                \<and> ep_state e \<in> {EpApproved, EpActive, EpOffline}));
         ks = update_where K (\<lambda>k. k\<lparr>ek_state := KeyApproved, ek_acknowledged_at := Some now\<rparr>) (endpoint_keys d)
     in if count_where K (endpoint_keys d) = 0 then Inl ErrInvalid
        else Inr (d\<lparr>endpoint_keys := update_where (\<lambda>k. ek_endpoint_id k = endpointID \<and> ek_fingerprint k \<noteq> fingerprint \<and> ek_state k \<noteq> KeyRetired)
                 (\<lambda>k. k\<lparr>ek_state := KeyRetired, ek_retired_at := Some now\<rparr>) ks,
               endpoint_events := update_where (\<lambda>v. ev_endpoint_id v = endpointID \<and> ev_kind v = ''rotation_pending'' \<and> ev_acknowledged_at v = None)
                 (\<lambda>v. v\<lparr>ev_acknowledged_at := Some now\<rparr>) (endpoint_events d)\<rparr>, ()))"

definition AcknowledgeEndpointKey :: "time \<Rightarrow> string \<Rightarrow> TenantAccess \<Rightarrow> string \<Rightarrow> string \<Rightarrow> db \<Rightarrow> db \<times> unit res" where
  "AcknowledgeEndpointKey now cid a endpointID fingerprint =
    withTenantTarget now cid a EndpointEnroll endpointID (acknowledge_key now a endpointID fingerprint)"

definition RecordEndpointEvent :: "time \<Rightarrow> Endpoint \<Rightarrow> string \<Rightarrow> string \<Rightarrow> string \<Rightarrow> db \<Rightarrow> db res" where
  "RecordEndpointEvent now e severity kind details d =
    (if \<not> displaySafe kind \<or> \<not> displaySafe details \<or> (severity \<noteq> ''info'' \<and> severity \<noteq> ''high'') then Inl ErrInvalid
     else if \<not> (\<exists>x\<in>set (endpoints d). ep_id x = ep_id e) then Inl ErrDriver
     else Inr (insert_event (endpoint_event now e severity kind details) d))"

definition acknowledge_event :: "time \<Rightarrow> TenantAccess \<Rightarrow> string \<Rightarrow> nat \<Rightarrow> db \<Rightarrow> (db \<times> unit) res" where
  "acknowledge_event now a endpointID eventID d =
    (let P = (\<lambda>v. ev_id v = eventID \<and> ev_endpoint_id v = endpointID \<and> ev_organization_id v = OrganizationID a \<and> ev_acknowledged_at v = None)
     in and_then (tenantChangeResult (count_where P (endpoint_events d))) (\<lambda>_.
          Inr (d\<lparr>endpoint_events := update_where P (\<lambda>v. v\<lparr>ev_acknowledged_at := Some now\<rparr>) (endpoint_events d)\<rparr>, ())))"

definition AcknowledgeEndpointEvent :: "time \<Rightarrow> string \<Rightarrow> TenantAccess \<Rightarrow> string \<Rightarrow> nat \<Rightarrow> db \<Rightarrow> db \<times> unit res" where
  "AcknowledgeEndpointEvent now cid a endpointID eventID =
    withTenantTarget now cid a EndpointEnroll endpointID (acknowledge_event now a endpointID eventID)"

subsection \<open>Sessions and reports\<close>

definition MaxCapabilities :: nat where "MaxCapabilities = 64"
definition MaxCapabilityBytes :: nat where "MaxCapabilityBytes = 4096"

text \<open>The insert loop of one capability: an unsafe or empty one, a repeat, or an unknown endpoint ends it.\<close>

definition insert_capability :: "string \<Rightarrow> string \<Rightarrow> db \<Rightarrow> db res" where
  "insert_capability endpointID c d =
    (if \<not> displaySafe c \<or> c = '''' then Inl ErrInvalid
     else if \<not> (\<exists>e\<in>set (endpoints d). ep_id e = endpointID) then Inl ErrDriver
     else and_then (insert_row (=) \<lparr>cap_endpoint_id = endpointID, cap_capability = c\<rparr> (capabilities d)) (\<lambda>cs.
       Inr (d\<lparr>capabilities := cs\<rparr>)))"

definition SetEndpointCapabilities :: "string \<Rightarrow> string list \<Rightarrow> db \<Rightarrow> db res" where
  "SetEndpointCapabilities endpointID cs d =
    (if length cs > MaxCapabilities then Inl ErrInvalid
     else if sum_list (map length cs) > MaxCapabilityBytes then Inl ErrInvalid
     else each (insert_capability endpointID) cs
       (d\<lparr>capabilities := delete_where (\<lambda>c. cap_endpoint_id c = endpointID) (capabilities d)\<rparr>))"

record agent_identity =
  ai_endpoint :: Endpoint
  ai_public_key :: string
  ai_fingerprint :: string

definition AgentIdentity :: "time \<Rightarrow> string \<Rightarrow> string \<Rightarrow> db \<Rightarrow> agent_identity res" where
  "AgentIdentity now endpointID fingerprint d =
    and_then (row_or ErrNotFound (List.find (\<lambda>e. ep_id e = endpointID) (endpoints d))) (\<lambda>e.
    if shown_state now e \<in> {''revoked'', ''expired''} then Inl ErrForbidden
    else
    and_then (row_or ErrForbidden (List.find (\<lambda>k. ek_endpoint_id k = endpointID \<and> ek_fingerprint k = fingerprint) (endpoint_keys d))) (\<lambda>k.
    and_then
      (if ep_state e = EpPending \<and> ek_state k = KeyPendingReview then Inr ()
       else if ek_state k = KeyApproved then Inr ()
       else if ek_state k = KeyPendingReview \<and> now - ek_created_at k \<le> pendingKeyLife then Inl ErrKeyPendingReview
       else Inl ErrKeyRetired) (\<lambda>_.
    and_then (row_or ErrDriver (DecodeString (ek_public_key k))) (\<lambda>key.
    Inr \<lparr>ai_endpoint = e, ai_public_key = key, ai_fingerprint = fingerprint\<rparr>))))"

definition RecordAgentConnect :: "time \<Rightarrow> string \<Rightarrow> Endpoint \<Rightarrow> string \<Rightarrow> string \<Rightarrow> string \<Rightarrow> db \<Rightarrow> db" where
  "RecordAgentConnect now cid e ip result details =
    LogAudit now \<lparr>au_id = 0, au_user_id = ''agent:'' @ ep_id e, au_action = ''agent.connect'', au_resource = ep_id e,
      au_details = (if displaySafe details then details else ''''), au_ip_address = ip, au_created_at = now,
      au_scope = ''organization'', au_organization_id = ep_organization_id e, au_environment_id = ep_environment_id e,
      au_correlation_id = cid, au_result = result\<rparr>"

definition TouchEndpoint :: "time \<Rightarrow> string \<Rightarrow> db \<Rightarrow> db" where
  "TouchEndpoint now endpointID d =
    d\<lparr>endpoints := update_where (\<lambda>e. ep_id e = endpointID) (\<lambda>e. e\<lparr>ep_last_seen_at := Some now\<rparr>) (endpoints d)\<rparr>"

definition GenerationSkew :: duration where "GenerationSkew = hour"

text \<open>A report: its generation, when it was observed, and the snapshot by its bytes' length and what they decode to.\<close>

record report =
  rep_generation :: nat
  rep_observed_at :: time
  rep_bytes :: nat
  rep_snapshot :: "Snapshot option"

definition upsert_inventory :: "endpoint_inventory \<Rightarrow> endpoint_inventory table \<Rightarrow> endpoint_inventory table" where
  "upsert_inventory v t =
    (if \<exists>x\<in>set t. iv_endpoint_id x = iv_endpoint_id v then update_where (\<lambda>x. iv_endpoint_id x = iv_endpoint_id v) (\<lambda>_. v) t
     else t @ [v])"

definition AcceptInventory :: "time \<Rightarrow> string \<Rightarrow> report \<Rightarrow> db \<Rightarrow> db \<times> bool res" where
  "AcceptInventory now endpointID r d =
    (if rep_bytes r > MaxSnapshotBytes then (d, Inl ErrInvalid)
     else if int (rep_generation r) > (now + GenerationSkew) div second then (d, Inr False)
     else
      let P = (\<lambda>e. ep_id e = endpointID \<and> ep_state e \<in> {EpApproved, EpActive, EpOffline} \<and> ep_inventory_generation e < rep_generation r);
          d1 = d\<lparr>endpoints := update_where P (\<lambda>e. e\<lparr>ep_inventory_generation := rep_generation r, ep_last_seen_at := Some now,
                 ep_state := (if ep_state e \<in> {EpApproved, EpOffline} then EpActive else ep_state e)\<rparr>) (endpoints d)\<rparr>
      in if count_where P (endpoints d) \<noteq> 1 then (d, Inr False)
         else if rep_bytes r = 0 then (d1, Inr True)
         else (d1\<lparr>inventories := upsert_inventory \<lparr>iv_endpoint_id = endpointID, iv_generation = rep_generation r,
                 iv_observed_at = rep_observed_at r, iv_received_at = now, iv_snapshot = rep_snapshot r,
                 iv_cluster_health = clusterHealth (rep_snapshot r)\<rparr> (inventories d1)\<rparr>, Inr True))"

record InventoryView =
  ivw_endpoint_id :: string
  ivw_state :: string
  ivw_generation :: nat
  ivw_observed_at :: time
  ivw_received_at :: time
  ivw_snapshot :: "Snapshot option"

definition ReadInventory :: "time \<Rightarrow> string \<Rightarrow> TenantAccess \<Rightarrow> string \<Rightarrow> db \<Rightarrow> db \<times> InventoryView res" where
  "ReadInventory now cid a endpointID =
    readTenant now cid a EndpointRead (\<lambda>d.
      and_then (row_or ErrNotFound (List.find (\<lambda>e. ep_organization_id e = OrganizationID a \<and> ep_id e = endpointID
        \<and> (EnvironmentID a = '''' \<or> ep_environment_id e = EnvironmentID a)) (endpoints d))) (\<lambda>e.
      and_then (row_or ErrNotFound (List.find (\<lambda>v. iv_endpoint_id v = ep_id e) (inventories d))) (\<lambda>v.
      Inr \<lparr>ivw_endpoint_id = ep_id e,
           ivw_state = (if ep_state e = EpPending \<and> now - iv_received_at v > pendingEndpointLife then ''expired'' else state_name (ep_state e)),
           ivw_generation = iv_generation v, ivw_observed_at = iv_observed_at v, ivw_received_at = iv_received_at v,
           ivw_snapshot = iv_snapshot v\<rparr>)))"

definition MarkEndpointOffline :: "string \<Rightarrow> db \<Rightarrow> db" where
  "MarkEndpointOffline endpointID d =
    d\<lparr>endpoints := update_where (\<lambda>e. ep_id e = endpointID \<and> ep_state e = EpActive) (\<lambda>e. e\<lparr>ep_state := EpOffline\<rparr>) (endpoints d)\<rparr>"

subsection \<open>The built-in local endpoint\<close>

definition LocalDockerEndpointID :: string where "LocalDockerEndpointID = ''ep_local_docker''"

definition local_environment :: "string \<Rightarrow> db \<Rightarrow> db res" where
  "local_environment uid d =
    (if \<exists>e\<in>set (environments d). env_organization_id e = InitialOrganizationID \<and> env_name e = ''Local'' then Inr d
     else if \<not> (\<exists>o'\<in>set (organizations d). o_id o' = InitialOrganizationID) then Inl ErrDriver
     else and_then (insert_row environment_clash \<lparr>env_id = uid, env_organization_id = InitialOrganizationID, env_name = ''Local''\<rparr>
       (environments d)) (\<lambda>t. Inr (d\<lparr>environments := t\<rparr>)))"

definition local_endpoint :: "time \<Rightarrow> string \<Rightarrow> string \<Rightarrow> Endpoint" where
  "local_endpoint now env name =
    \<lparr>ep_id = LocalDockerEndpointID, ep_organization_id = InitialOrganizationID, ep_environment_id = env, ep_name = name,
     ep_runtime = RuntimeDocker, ep_state = EpApproved, ep_facts = [(''connection'', ''local'')], ep_created_at = now,
     ep_approved_at = Some now, ep_approved_by = ''system:local-docker'', ep_revoked_at = None, ep_last_seen_at = None,
     ep_inventory_generation = 0, ep_deploy_namespaces = []\<rparr>"

definition local_name :: "string \<Rightarrow> db \<Rightarrow> string" where
  "local_name suffix d =
    (if count_where (\<lambda>e. ep_organization_id e = InitialOrganizationID \<and> ep_name e = ''Local Docker'') (endpoints d) > 0
     then ''Local Docker ('' @ take 8 suffix @ '')'' else ''Local Docker'')"

definition create_local_endpoint ::
  "(string \<Rightarrow> string) \<Rightarrow> time \<Rightarrow> string \<Rightarrow> string \<Rightarrow> string \<Rightarrow> string \<Rightarrow> db \<Rightarrow> db res" where
  "create_local_endpoint sha now cid uid suffix publicKey d =
    and_then (local_environment uid d) (\<lambda>d1.
    and_then (row_or ErrNoRow (List.find (\<lambda>e. env_organization_id e = InitialOrganizationID \<and> env_name e = ''Local'') (environments d1))) (\<lambda>v.
    let e = local_endpoint now (env_id v) (local_name suffix d1);
        key = (new_key sha now LocalDockerEndpointID publicKey)\<lparr>ek_state := KeyApproved, ek_acknowledged_at := Some now\<rparr>
    in
    and_then (insert_row endpoint_clash e (endpoints d1)) (\<lambda>es.
    and_then (insert_row key_clash key (endpoint_keys d1)) (\<lambda>ks.
    Inr (insert_audit \<lparr>au_id = 0, au_user_id = ''system:local-docker'', au_action = ''endpoint.local_connected'',
           au_resource = LocalDockerEndpointID, au_details = ''Built-in local Docker connection initialized'', au_ip_address = '''',
           au_created_at = now, au_scope = ''organization'', au_organization_id = InitialOrganizationID,
           au_environment_id = env_id v, au_correlation_id = cid, au_result = ''success''\<rparr>
         (d1\<lparr>endpoints := es, endpoint_keys := ks\<rparr>))))))"

definition InitializeLocalDocker ::
  "(string \<Rightarrow> string) \<Rightarrow> time \<Rightarrow> string \<Rightarrow> string \<Rightarrow> string \<Rightarrow> string \<Rightarrow> db \<Rightarrow> (db \<times> nat) res" where
  "InitializeLocalDocker sha now cid uid suffix publicKey d =
    (if length publicKey \<noteq> PublicKeySize then Inl ErrInvalid
     else
      and_then
        (if \<exists>kv\<in>set (server_settings d). fst kv = ''local_docker_initialized'' then Inr d
         else create_local_endpoint sha now cid uid suffix publicKey
           (d\<lparr>server_settings := server_settings d @ [(''local_docker_initialized'', ''1'')]\<rparr>)) (\<lambda>d1.
      and_then (row_or ErrForbidden (List.find (\<lambda>e. ep_id e = LocalDockerEndpointID \<and> ep_organization_id e = InitialOrganizationID
          \<and> ep_state e \<in> {EpApproved, EpActive, EpOffline}
          \<and> (\<exists>k\<in>set (endpoint_keys d1). ek_endpoint_id k = ep_id e \<and> ek_state k = KeyApproved
               \<and> ek_fingerprint k = Fingerprint sha publicKey \<and> ek_public_key k = EncodeToString publicKey)) (endpoints d1))) (\<lambda>e.
      Inr (d1, ep_inventory_generation e))))"

end
