(* ===== verification/EndpointKeys.thy ===== *)
theory EndpointKeys
  imports Endpoints
begin

text \<open>
  Which keys an endpoint has in which state and what the rows of the endpoint tables hold, and that
  every operation on endpoints keeps both.
\<close>

subsection \<open>Which keys an endpoint has in which state\<close>

definition approved_keys :: "endpoint_key table \<Rightarrow> string \<Rightarrow> nat" where
  "approved_keys ks i = count_where (\<lambda>k. ek_endpoint_id k = i \<and> ek_state k = KeyApproved) ks"

definition pending_keys :: "endpoint_key table \<Rightarrow> string \<Rightarrow> nat" where
  "pending_keys ks i = count_where (\<lambda>k. ek_endpoint_id k = i \<and> ek_state k = KeyPendingReview) ks"

fun key_rule :: "endpoint_state \<Rightarrow> nat \<Rightarrow> nat \<Rightarrow> bool" where
  "key_rule EpPending approved pending \<longleftrightarrow> approved = 0 \<and> pending \<le> 1"
| "key_rule EpRevoked approved pending \<longleftrightarrow> approved = 0 \<and> pending = 0"
| "key_rule _ approved pending \<longleftrightarrow> approved = 1 \<and> pending \<le> 1"

definition keys_ok :: "db \<Rightarrow> bool" where
  "keys_ok d \<longleftrightarrow> wf d
    \<and> set (map ek_endpoint_id (endpoint_keys d)) \<subseteq> set (map ep_id (endpoints d))
    \<and> (\<forall>e\<in>set (endpoints d). key_rule (ep_state e) (approved_keys (endpoint_keys d) (ep_id e)) (pending_keys (endpoint_keys d) (ep_id e)))"

lemma in_update_where_hit:
  "q \<in> set (update_where P f t) \<Longrightarrow> (\<And>x. \<not> P x \<Longrightarrow> \<not> Q x) \<Longrightarrow> Q q \<Longrightarrow> \<exists>x\<in>set t. P x \<and> q = f x"
  by (metis in_update_where)

lemma count_update_where:
  "count_where Q (update_where P f t) = count_where (\<lambda>r. Q (if P r then f r else r)) t"
  by (induction t) auto

lemma count_where_split: "count_where P t = count_where (\<lambda>r. P r \<and> Q r) t + count_where (\<lambda>r. P r \<and> \<not> Q r) t"
  by (induction t) auto

lemma count_where_mono: "(\<And>r. r \<in> set t \<Longrightarrow> P r \<Longrightarrow> Q r) \<Longrightarrow> count_where P t \<le> count_where Q t"
  by (induction t) auto

lemma keys_snoc [simp]:
  "approved_keys (ks @ [k]) i = approved_keys ks i + (if ek_endpoint_id k = i \<and> ek_state k = KeyApproved then 1 else 0)"
  "pending_keys (ks @ [k]) i = pending_keys ks i + (if ek_endpoint_id k = i \<and> ek_state k = KeyPendingReview then 1 else 0)"
  by (simp_all add: approved_keys_def pending_keys_def)

text \<open>An operation on one endpoint: the others keep their state and their keys.\<close>

lemma keys_ok_one:
  assumes "keys_ok d" and "wf d'"
    and "set (map ek_endpoint_id (endpoint_keys d')) \<subseteq> set (map ep_id (endpoints d'))"
    and "\<And>e'. e' \<in> set (endpoints d') \<Longrightarrow> ep_id e' \<noteq> i \<Longrightarrow> \<exists>e\<in>set (endpoints d). ep_id e = ep_id e' \<and> ep_state e = ep_state e'"
    and "\<And>j. j \<noteq> i \<Longrightarrow> approved_keys (endpoint_keys d') j = approved_keys (endpoint_keys d) j
      \<and> pending_keys (endpoint_keys d') j = pending_keys (endpoint_keys d) j"
    and "\<And>e'. e' \<in> set (endpoints d') \<Longrightarrow> ep_id e' = i \<Longrightarrow>
      key_rule (ep_state e') (approved_keys (endpoint_keys d') i) (pending_keys (endpoint_keys d') i)"
  shows "keys_ok d'"
  unfolding keys_ok_def
proof (intro conjI ballI)
  fix e'
  assume e': "e' \<in> set (endpoints d')"
  show "key_rule (ep_state e') (approved_keys (endpoint_keys d') (ep_id e')) (pending_keys (endpoint_keys d') (ep_id e'))"
  proof (cases "ep_id e' = i")
    case True
    with assms(6) [OF e'] show ?thesis by simp
  next
    case False
    from assms(4) [OF e' False] obtain e where e: "e \<in> set (endpoints d)" "ep_id e = ep_id e'" "ep_state e = ep_state e'" by blast
    from assms(1) e(1) have "key_rule (ep_state e) (approved_keys (endpoint_keys d) (ep_id e)) (pending_keys (endpoint_keys d) (ep_id e))"
      by (simp add: keys_ok_def)
    with e assms(5) [OF False] show ?thesis by simp
  qed
qed (rule assms(2), rule assms(3))

text \<open>Changing the rows of some endpoints, their IDs and what their state asks of the keys apart.\<close>

lemma keys_ok_endpoints:
  assumes "keys_ok d"
    and "\<And>e. e \<in> set (endpoints d) \<Longrightarrow> P e \<Longrightarrow> ep_id (f e) = ep_id e \<and> key_rule (ep_state (f e)) = key_rule (ep_state e)"
  shows "keys_ok (d\<lparr>endpoints := update_where P f (endpoints d)\<rparr>)"
proof -
  have "wf (d\<lparr>endpoints := update_where P f (endpoints d)\<rparr>)"
    using assms by (intro wf_tables) (simp_all add: keys_ok_def wf_keys update_where_keys)
  moreover have "map ep_id (update_where P f (endpoints d)) = map ep_id (endpoints d)"
    using assms(2) by (intro update_where_keys) simp
  moreover have "key_rule (ep_state e) (approved_keys (endpoint_keys d) (ep_id e)) (pending_keys (endpoint_keys d) (ep_id e))"
    if "e \<in> set (update_where P f (endpoints d))" for e
    using that assms unfolding keys_ok_def in_update_where by (metis (full_types))
  ultimately show ?thesis using assms(1) by (simp add: keys_ok_def del: set_map)
qed

lemma keys_ok_other_tables [simp]:
  "keys_ok (d\<lparr>endpoint_events := s1\<rparr>) = keys_ok d"
  "keys_ok (d\<lparr>inventories := s2\<rparr>) = keys_ok d"
  "keys_ok (d\<lparr>capabilities := s3\<rparr>) = keys_ok d"
  "keys_ok (d\<lparr>next_event_id := s4\<rparr>) = keys_ok d"
  "keys_ok (insert_audit r d) = keys_ok d"
  "keys_ok (insert_event v d) = keys_ok d"
  "keys_ok (LogAudit now r d) = keys_ok d"
  by (simp_all add: keys_ok_def insert_event_def LogAudit_def) (simp_all add: insert_audit_def)

lemma keys_ok_tokens: "keys_ok d \<Longrightarrow> distinct (map et_id ts) \<Longrightarrow> keys_ok (d\<lparr>enrollment_tokens := ts\<rparr>)"
  by (simp add: keys_ok_def wf_tables)

lemma keys_ok_rule:
  "keys_ok d \<Longrightarrow> e \<in> set (endpoints d) \<Longrightarrow>
   key_rule (ep_state e) (approved_keys (endpoint_keys d) (ep_id e)) (pending_keys (endpoint_keys d) (ep_id e))"
  by (simp add: keys_ok_def)

lemma keys_ok_none: "keys_ok d \<Longrightarrow> \<forall>e\<in>set (endpoints d). ep_id e \<noteq> i \<Longrightarrow> k \<in> set (endpoint_keys d) \<Longrightarrow> ek_endpoint_id k \<noteq> i"
  by (fastforce simp: keys_ok_def)

text \<open>A write to one endpoint's row and to its keys.\<close>

lemma keys_ok_write:
  assumes ok: "keys_ok d" and wf: "wf d'"
    and es: "endpoints d' = update_where P g (endpoints d)" and P: "\<And>x. P x \<Longrightarrow> ep_id x = i \<and> ep_id (g x) = i"
    and fk: "set (map ek_endpoint_id (endpoint_keys d')) \<subseteq> set (map ep_id (endpoints d))"
    and other: "\<And>j. j \<noteq> i \<Longrightarrow> approved_keys (endpoint_keys d') j = approved_keys (endpoint_keys d) j
      \<and> pending_keys (endpoint_keys d') j = pending_keys (endpoint_keys d) j"
    and own: "\<And>e. e \<in> set (endpoints d) \<Longrightarrow> ep_id e = i \<Longrightarrow>
      key_rule (ep_state (if P e then g e else e)) (approved_keys (endpoint_keys d') i) (pending_keys (endpoint_keys d') i)"
  shows "keys_ok d'"
proof (rule keys_ok_one [OF ok wf, where i = i])
  have "map ep_id (endpoints d') = map ep_id (endpoints d)" unfolding es using P by (intro update_where_keys) simp
  with fk show "set (map ek_endpoint_id (endpoint_keys d')) \<subseteq> set (map ep_id (endpoints d'))" by simp
  fix e'
  assume e': "e' \<in> set (endpoints d')"
  then obtain e where e: "e \<in> set (endpoints d)" "e' = (if P e then g e else e)" by (auto simp: es in_update_where)
  show "\<exists>e\<in>set (endpoints d). ep_id e = ep_id e' \<and> ep_state e = ep_state e'" if "ep_id e' \<noteq> i"
    using e P [of e] that by (cases "P e") auto
  show "key_rule (ep_state e') (approved_keys (endpoint_keys d') i) (pending_keys (endpoint_keys d') i)" if "ep_id e' = i"
    using own [OF e(1)] e(2) P [of e] that by (cases "P e") simp_all
qed (rule other)

lemma other_counts:
  assumes "\<And>k. P k \<Longrightarrow> ek_endpoint_id k = i \<and> ek_endpoint_id (f k) = i" and "j \<noteq> i"
  shows "approved_keys (update_where P f ks) j = approved_keys ks j \<and> pending_keys (update_where P f ks) j = pending_keys ks j"
  unfolding approved_keys_def pending_keys_def count_update_where
  using assms by (intro conjI count_where_cong) auto

lemma keys_ok_fk: "keys_ok d \<Longrightarrow> set (map ek_endpoint_id (endpoint_keys d)) \<subseteq> set (map ep_id (endpoints d))"
  by (simp add: keys_ok_def)

subsection \<open>Each operation keeps the rule\<close>

lemma approve_ok:
  assumes "approve_endpoint now a i fp d = Inr (d', x)" and ok: "keys_ok d"
  shows "keys_ok d'"
proof -
  let ?K = "\<lambda>k. ek_endpoint_id k = i \<and> ek_fingerprint k = fp \<and> ek_state k = KeyPendingReview"
  let ?f = "\<lambda>k. k\<lparr>ek_state := KeyApproved, ek_acknowledged_at := Some now\<rparr>"
  let ?g = "\<lambda>x. x\<lparr>ep_state := EpApproved, ep_approved_at := Some now, ep_approved_by := ActorID a, ep_inventory_generation := 0\<rparr>"
  from assms(1) obtain e where e: "e \<in> set (endpoints d)" "ep_id e = i" "ep_state e = EpPending"
    and K: "0 < count_where ?K (endpoint_keys d)"
    and d': "d' = d\<lparr>endpoint_keys := update_where ?K ?f (endpoint_keys d), endpoints := update_where (\<lambda>x. ep_id x = i) ?g (endpoints d),
      inventories := delete_where (\<lambda>v. iv_endpoint_id v = i) (inventories d)\<rparr>"
    by (auto simp: approve_endpoint_def Let_def simp del: count_where_0 count_where_pos dest!: find_Some_in split: if_splits)
  from keys_ok_rule [OF ok e(1)] e have none: "approved_keys (endpoint_keys d) i = 0" and le: "pending_keys (endpoint_keys d) i \<le> 1" by auto
  have "count_where ?K (endpoint_keys d) \<le> pending_keys (endpoint_keys d) i"
    unfolding pending_keys_def by (rule count_where_mono) simp
  with K le have one: "count_where ?K (endpoint_keys d) = 1" by linarith
  have "approved_keys (update_where ?K ?f (endpoint_keys d)) i = count_where ?K (endpoint_keys d)"
    unfolding approved_keys_def count_update_where
    by (rule count_where_cong) (use none in \<open>auto simp: approved_keys_def\<close>)
  moreover have "pending_keys (update_where ?K ?f (endpoint_keys d)) i \<le> pending_keys (endpoint_keys d) i"
    unfolding pending_keys_def by (rule count_update_where_le) simp
  ultimately have rule: "key_rule EpApproved (approved_keys (update_where ?K ?f (endpoint_keys d)) i)
      (pending_keys (update_where ?K ?f (endpoint_keys d)) i)" using one le by simp
  have "wf d'" using ok unfolding d' wf_other_tables
    by (intro wf_tables) (simp_all add: keys_ok_def wf_keys update_where_keys)
  show ?thesis
    by (rule keys_ok_write [OF ok \<open>wf d'\<close>, of "\<lambda>x. ep_id x = i" ?g i])
      (use rule other_counts [of ?K i ?f] keys_ok_fk [OF ok] in \<open>simp_all add: d' update_where_keys del: set_map\<close>)
qed

lemma terminate_ok:
  assumes "terminate now org i c d = Inr (d', x)" and ok: "keys_ok d"
  shows "keys_ok d'"
proof -
  let ?P = "\<lambda>e. ep_organization_id e = org \<and> ep_id e = i \<and> c e"
  let ?g = "\<lambda>e. e\<lparr>ep_state := EpRevoked, ep_revoked_at := Some now, ep_inventory_generation := 0\<rparr>"
  let ?K = "\<lambda>k. ek_endpoint_id k = i \<and> ek_state k \<noteq> KeyRetired"
  let ?f = "\<lambda>k. k\<lparr>ek_state := KeyRetired, ek_retired_at := Some now\<rparr>"
  from assms(1) have d': "d' = d\<lparr>endpoints := update_where ?P ?g (endpoints d), inventories := delete_where (\<lambda>v. iv_endpoint_id v = i) (inventories d),
      endpoint_keys := update_where ?K ?f (endpoint_keys d)\<rparr>"
    and hit: "\<exists>e\<in>set (endpoints d). ?P e"
    by (auto simp: terminate_def Let_def tenantChangeResult_def)
  have gone: "approved_keys (update_where ?K ?f (endpoint_keys d)) i = 0" "pending_keys (update_where ?K ?f (endpoint_keys d)) i = 0"
    unfolding approved_keys_def pending_keys_def count_update_where count_where_0 by auto
  from ok have "wf d" by (simp add: keys_ok_def)
  then have "wf d'" by (simp add: d' wf_def update_where_keys)
  have only: "?P e" if "e \<in> set (endpoints d)" "ep_id e = i" for e
    using hit wf_endpoint_eq [OF \<open>wf d\<close> that(1)] that(2) by blast
  show ?thesis
    by (rule keys_ok_write [OF ok \<open>wf d'\<close>, of ?P ?g i])
      (use gone only other_counts [of ?K i ?f] keys_ok_fk [OF ok] in \<open>simp_all add: d' update_where_keys del: set_map\<close>)
qed

lemma acknowledge_ok:
  assumes "acknowledge_key now a i fp d = Inr (d', x)" and ok: "keys_ok d"
  shows "keys_ok d'"
proof -
  define live where "live \<longleftrightarrow> (\<exists>e\<in>set (endpoints d). ep_id e = i \<and> ep_organization_id e = OrganizationID a \<and> ep_state e \<in> {EpApproved, EpActive, EpOffline})"
  let ?K = "\<lambda>k. ek_endpoint_id k = i \<and> ek_fingerprint k = fp \<and> ek_state k = KeyPendingReview \<and> ek_created_at k > now - pendingKeyLife \<and> live"
  let ?f = "\<lambda>k. k\<lparr>ek_state := KeyApproved, ek_acknowledged_at := Some now\<rparr>"
  let ?R = "\<lambda>k. ek_endpoint_id k = i \<and> ek_fingerprint k \<noteq> fp \<and> ek_state k \<noteq> KeyRetired"
  let ?h = "\<lambda>k. k\<lparr>ek_state := KeyRetired, ek_retired_at := Some now\<rparr>"
  define ks where "ks = update_where ?R ?h (update_where ?K ?f (endpoint_keys d))"
  from assms(1) have hit: "count_where ?K (endpoint_keys d) \<noteq> 0"
    and d': "d' = d\<lparr>endpoint_keys := ks, endpoint_events := update_where (\<lambda>v. ev_endpoint_id v = i \<and> ev_kind v = ''rotation_pending'' \<and> ev_acknowledged_at v = None)
       (\<lambda>v. v\<lparr>ev_acknowledged_at := Some now\<rparr>) (endpoint_events d)\<rparr>"
    unfolding acknowledge_key_def live_def [symmetric] Let_def ks_def by (auto simp del: count_where_0 split: if_splits)
  then obtain k where k: "k \<in> set (endpoint_keys d)" "?K k" by auto
  have "wf d" using ok by (simp add: keys_ok_def)
  have same: "r = k" if "r \<in> set (endpoint_keys d)" "ek_endpoint_id r = i" "ek_fingerprint r = fp" for r
    using distinct_map_eq [OF wf_keys(10) [OF \<open>wf d\<close>] that(1) k(1)] that k(2) by simp
  have "count_where ?K (endpoint_keys d) \<le> 1"
    by (rule count_where_unique [OF wf_keys(10) [OF \<open>wf d\<close>]]) simp
  with hit have one: "count_where ?K (endpoint_keys d) = 1" by linarith
  have "approved_keys ks i = count_where ?K (endpoint_keys d)"
    unfolding approved_keys_def ks_def count_update_where
    by (rule count_where_cong) (use same k in auto)
  moreover have "pending_keys ks i = 0"
    unfolding pending_keys_def ks_def count_update_where count_where_0 using same k by auto
  ultimately have counts: "approved_keys ks i = 1" "pending_keys ks i = 0" using one by simp_all
  have "wf d'" using \<open>wf d\<close> unfolding d' wf_other_tables
    by (intro wf_tables) (simp_all add: wf_keys update_where_keys ks_def)
  have rule: "key_rule (ep_state e) 1 0" if "e \<in> set (endpoints d)" "ep_id e = i" for e
    using k(2) wf_endpoint_eq [OF \<open>wf d\<close> that(1)] that(2) unfolding live_def by fastforce
  show ?thesis
    by (rule keys_ok_write [OF ok \<open>wf d'\<close>, of "\<lambda>_. False" id i])
      (use counts rule other_counts [of ?K i ?f] other_counts [of ?R i ?h] keys_ok_fk [OF ok]
        in \<open>simp_all add: d' update_where_keys update_where_none ks_def del: set_map\<close>)
qed

lemma new_key_counts:
  "ek_state (new_key sha now i pk) = KeyPendingReview" "ek_endpoint_id (new_key sha now i pk) = i"
  "ek_fingerprint (new_key sha now i pk) = Fingerprint sha pk"
  by (simp_all add: new_key_def)

lemma rotate_ok:
  assumes "RotateEndpointKey sha verify now cid i pk sig ip d = Inr (d', fp)" and ok: "keys_ok d"
  shows "keys_ok d'"
proof -
  let ?K = "\<lambda>k. ek_endpoint_id k = i \<and> ek_state k = KeyPendingReview"
  let ?f = "\<lambda>k. k\<lparr>ek_state := KeyRetired, ek_retired_at := Some now\<rparr>"
  define ks where "ks = update_where ?K ?f (endpoint_keys d)"
  define new where "new = new_key sha now i pk"
  from assms(1) obtain e r v where e: "e \<in> set (endpoints d)" "ep_id e = i" "shown_state now e \<notin> {''pending'', ''revoked'', ''expired''}"
    and fresh: "\<forall>x\<in>set ks. \<not> key_clash new x"
    and d': "d' = insert_audit r (insert_event v (d\<lparr>endpoint_keys := ks @ [new]\<rparr>))"
    unfolding ks_def new_def RotateEndpointKey_def Let_def
    by (auto simp del: count_where_pos dest!: find_Some_in split: if_splits)
  have "wf d" using ok by (simp add: keys_ok_def)
  have "approved_keys ks i = approved_keys (endpoint_keys d) i"
    unfolding approved_keys_def ks_def count_update_where by (rule count_where_cong) auto
  moreover have "pending_keys ks i = 0"
    unfolding pending_keys_def ks_def count_update_where count_where_0 by simp
  moreover have "key_rule (ep_state e) (approved_keys (endpoint_keys d) i) (pending_keys (endpoint_keys d) i)"
    using keys_ok_rule [OF ok e(1)] e(2) by simp
  moreover have "ep_state e \<noteq> EpPending" "ep_state e \<noteq> EpRevoked"
    using e(3) by (auto simp: shown_state_def split: if_splits)
  ultimately have rule: "key_rule (ep_state e) (approved_keys (ks @ [new]) i) (pending_keys (ks @ [new]) i)"
    by (cases "ep_state e") (auto simp: new_def new_key_counts)
  have only: "x = e" if "x \<in> set (endpoints d)" "ep_id x = i" for x using wf_endpoint_eq [OF \<open>wf d\<close> that(1) e(1)] that(2) e(2) by simp
  have "wf (d\<lparr>endpoint_keys := ks @ [new]\<rparr>)"
  proof (intro wf_tables \<open>wf d\<close>)
    have "distinct (map (\<lambda>k. (ek_endpoint_id k, ek_fingerprint k)) ks)"
      unfolding ks_def using wf_keys(10) [OF \<open>wf d\<close>] by (simp add: update_where_keys)
    with fresh show "distinct (map (\<lambda>k. (ek_endpoint_id k, ek_fingerprint k)) (ks @ [new]))"
      by (auto simp: key_clash_def)
  qed
  have "keys_ok (d\<lparr>endpoint_keys := ks @ [new]\<rparr>)"
  proof (rule keys_ok_write [OF ok \<open>wf (d\<lparr>endpoint_keys := ks @ [new]\<rparr>)\<close>, of "\<lambda>_. False" id i])
    show "set (map ek_endpoint_id (endpoint_keys (d\<lparr>endpoint_keys := ks @ [new]\<rparr>))) \<subseteq> set (map ep_id (endpoints d))"
    proof -
      have "map ek_endpoint_id ks = map ek_endpoint_id (endpoint_keys d)" by (simp add: ks_def update_where_keys)
      moreover have "i \<in> set (map ep_id (endpoints d))" using e by auto
      ultimately show ?thesis using keys_ok_fk [OF ok] by (simp add: new_def new_key_counts del: set_map)
    qed
    show "approved_keys (endpoint_keys (d\<lparr>endpoint_keys := ks @ [new]\<rparr>)) j = approved_keys (endpoint_keys d) j
        \<and> pending_keys (endpoint_keys (d\<lparr>endpoint_keys := ks @ [new]\<rparr>)) j = pending_keys (endpoint_keys d) j" if "j \<noteq> i" for j
      using other_counts [of ?K i ?f j "endpoint_keys d"] that
      by (simp add: ks_def new_def new_key_counts)
  qed (use rule only in \<open>auto simp: update_where_none\<close>)
  then show ?thesis by (simp add: d')
qed

lemma insert_endpoint_ok:
  assumes ok: "keys_ok d" and wf: "wf (d\<lparr>endpoints := endpoints d @ [e], endpoint_keys := endpoint_keys d @ [k]\<rparr>)"
    and k: "ek_endpoint_id k = ep_id e" and new: "\<forall>x\<in>set (endpoints d). ep_id x \<noteq> ep_id e"
    and st: "ep_state e = EpPending \<and> ek_state k = KeyPendingReview \<or> ep_state e = EpApproved \<and> ek_state k = KeyApproved"
  shows "keys_ok (d\<lparr>endpoints := endpoints d @ [e], endpoint_keys := endpoint_keys d @ [k]\<rparr>)"
proof (rule keys_ok_one [OF ok wf, where i = "ep_id e"])
  have none: "ek_endpoint_id x \<noteq> ep_id e" if "x \<in> set (endpoint_keys d)" for x
    using keys_ok_none [OF ok new that] .
  then have zero: "approved_keys (endpoint_keys d) (ep_id e) = 0" "pending_keys (endpoint_keys d) (ep_id e) = 0"
    unfolding approved_keys_def pending_keys_def count_where_0 by auto
  fix e'
  assume "e' \<in> set (endpoints (d\<lparr>endpoints := endpoints d @ [e], endpoint_keys := endpoint_keys d @ [k]\<rparr>))" "ep_id e' = ep_id e"
  with new have "e' = e" by auto
  with zero st k show "key_rule (ep_state e') (approved_keys (endpoint_keys (d\<lparr>endpoints := endpoints d @ [e], endpoint_keys := endpoint_keys d @ [k]\<rparr>)) (ep_id e))
      (pending_keys (endpoint_keys (d\<lparr>endpoints := endpoints d @ [e], endpoint_keys := endpoint_keys d @ [k]\<rparr>)) (ep_id e))"
    by auto
next
  show "set (map ek_endpoint_id (endpoint_keys (d\<lparr>endpoints := endpoints d @ [e], endpoint_keys := endpoint_keys d @ [k]\<rparr>)))
      \<subseteq> set (map ep_id (endpoints (d\<lparr>endpoints := endpoints d @ [e], endpoint_keys := endpoint_keys d @ [k]\<rparr>)))"
    using keys_ok_fk [OF ok] k by auto
qed (use k in auto)

lemma local_environment_ok:
  "local_environment uid d = Inr d1 \<Longrightarrow> keys_ok d \<Longrightarrow>
   keys_ok d1 \<and> endpoints d1 = endpoints d \<and> endpoint_keys d1 = endpoint_keys d"
proof -
  assume "local_environment uid d = Inr d1" and ok: "keys_ok d"
  then consider "d1 = d" | r where "d1 = d\<lparr>environments := environments d @ [r]\<rparr>" "\<forall>x\<in>set (environments d). env_id r \<noteq> env_id x"
    by (fastforce simp: local_environment_def environment_clash_def split: if_splits)
  then show ?thesis
  proof cases
    case (2 r)
    from ok have "wf d" by (simp add: keys_ok_def)
    with 2 have "wf d1" using wf_keys(4) [OF \<open>wf d\<close>] by (auto intro!: wf_tables)
    with ok show ?thesis by (simp add: 2 keys_ok_def)
  qed (use ok in simp)
qed

lemma wf_insert_endpoint:
  assumes "wf d" and "\<forall>x\<in>set (endpoints d). \<not> endpoint_clash e x" and "\<forall>x\<in>set (endpoint_keys d). \<not> key_clash k x"
  shows "wf (d\<lparr>endpoints := endpoints d @ [e], endpoint_keys := endpoint_keys d @ [k]\<rparr>)"
proof (intro wf_tables assms(1))
  show "distinct (map ep_id (endpoints d @ [e]))"
    using wf_keys(8) [OF assms(1)] assms(2) by (auto simp: endpoint_clash_def)
  show "distinct (map (\<lambda>k. (ek_endpoint_id k, ek_fingerprint k)) (endpoint_keys d @ [k]))"
    using wf_keys(10) [OF assms(1)] assms(3) by (auto simp: key_clash_def)
qed

lemma create_local_Inr:
  assumes "create_local_endpoint sha now cid uid suffix pk d = Inr d'"
  obtains d1 e k r where "local_environment uid d = Inr d1"
    and "ep_id e = LocalDockerEndpointID" and "ep_state e = EpApproved" and "ep_runtime e = RuntimeDocker" and "ep_deploy_namespaces e = []"
    and "ek_endpoint_id k = LocalDockerEndpointID" and "ek_state k = KeyApproved"
    and "ek_public_key k = EncodeToString pk" and "ek_fingerprint k = Fingerprint sha pk"
    and "\<forall>x\<in>set (endpoints d1). \<not> endpoint_clash e x" and "\<forall>x\<in>set (endpoint_keys d1). \<not> key_clash k x"
    and "d' = insert_audit r (d1\<lparr>endpoints := endpoints d1 @ [e], endpoint_keys := endpoint_keys d1 @ [k]\<rparr>)"
proof -
  define k where "k = (new_key sha now LocalDockerEndpointID pk)\<lparr>ek_state := KeyApproved, ek_acknowledged_at := Some now\<rparr>"
  from assms obtain d1 where d1: "local_environment uid d = Inr d1" unfolding create_local_endpoint_def by auto
  with assms obtain v where v: "List.find (\<lambda>e. env_organization_id e = InitialOrganizationID \<and> env_name e = ''Local'') (environments d1) = Some v"
    unfolding create_local_endpoint_def by auto
  define e where "e = local_endpoint now (env_id v) (local_name suffix d1)"
  have "\<exists>r. (\<forall>x\<in>set (endpoints d1). \<not> endpoint_clash e x) \<and> (\<forall>x\<in>set (endpoint_keys d1). \<not> key_clash k x)
      \<and> d' = insert_audit r (d1\<lparr>endpoints := endpoints d1 @ [e], endpoint_keys := endpoint_keys d1 @ [k]\<rparr>)"
    using assms unfolding create_local_endpoint_def d1 v Let_def e_def [symmetric] k_def [symmetric] and_then_simps row_or_simps by auto
  then show thesis
    by (elim exE conjE, intro that [OF d1, of e k]) (simp_all add: e_def k_def local_endpoint_def new_key_def)
qed

lemma create_local_ok:
  assumes "create_local_endpoint sha now cid uid suffix pk d = Inr d'" and ok: "keys_ok d"
  shows "keys_ok d'"
  using assms(1)
proof (rule create_local_Inr)
  fix d1 e k r
  assume d1: "local_environment uid d = Inr d1" and st: "ep_id e = LocalDockerEndpointID" "ep_state e = EpApproved"
    "ek_endpoint_id k = LocalDockerEndpointID" "ek_state k = KeyApproved"
    and new: "\<forall>x\<in>set (endpoints d1). \<not> endpoint_clash e x" and key: "\<forall>x\<in>set (endpoint_keys d1). \<not> key_clash k x"
    and d': "d' = insert_audit r (d1\<lparr>endpoints := endpoints d1 @ [e], endpoint_keys := endpoint_keys d1 @ [k]\<rparr>)"
  from local_environment_ok [OF d1 ok] have ok1: "keys_ok d1" by blast
  then have "wf d1" by (simp add: keys_ok_def)
  have "keys_ok (d1\<lparr>endpoints := endpoints d1 @ [e], endpoint_keys := endpoint_keys d1 @ [k]\<rparr>)"
    by (rule insert_endpoint_ok [OF ok1 wf_insert_endpoint [OF \<open>wf d1\<close> new key]])
      (use new st in \<open>auto simp: endpoint_clash_def\<close>)
  then show ?thesis by (simp add: d')
qed

lemma keys_ok_settings [simp]: "keys_ok (d\<lparr>server_settings := s\<rparr>) = keys_ok d"
  by (simp add: keys_ok_def wf_def)

lemma local_ok:
  "InitializeLocalDocker sha now cid uid suffix pk d = Inr (d', g) \<Longrightarrow> keys_ok d \<Longrightarrow> keys_ok d'"
  by (auto simp: InitializeLocalDocker_def intro: create_local_ok split: if_splits)

lemma Enroll_Inr:
  assumes "Enroll sha verify now cid rid req d = Inr (d', e)"
  obtains t r h d1 d2 where "h = SHA256Hex sha (er_token req)"
    and "List.find (\<lambda>t. et_token_hash t = h) (enrollment_tokens d) = Some t"
    and "count_where (\<lambda>t. et_token_hash t = h \<and> et_consumed_at t = None \<and> et_expires_at t > now) (enrollment_tokens d) = 1"
    and "VerifyEnrollment verify (er_public_key req) (er_token req) (er_proof req)"
    and "e = enrolled_endpoint now (''ep_'' @ rid) req t"
    and "\<forall>x\<in>set (endpoints d). \<not> endpoint_clash e x"
    and "\<forall>x\<in>set (endpoint_keys d). \<not> key_clash (new_key sha now (ep_id e) (er_public_key req)) x"
    and "d1 = d\<lparr>endpoints := endpoints d @ [e], endpoint_keys := endpoint_keys d @ [new_key sha now (ep_id e) (er_public_key req)]\<rparr>"
    and "d2 = d1\<lparr>enrollment_tokens := update_where (\<lambda>x. et_id x = et_id t) (\<lambda>x. x\<lparr>et_endpoint_id := ep_id e\<rparr>)
      (update_where (\<lambda>t. et_token_hash t = h \<and> et_consumed_at t = None \<and> et_expires_at t > now) (\<lambda>t. t\<lparr>et_consumed_at := Some now\<rparr>)
        (enrollment_tokens d))\<rparr>"
    and "d' = insert_audit r d2"
proof -
  define h where "h = SHA256Hex sha (er_token req)"
  let ?L = "\<lambda>t. et_token_hash t = h \<and> et_consumed_at t = None \<and> et_expires_at t > now"
  let ?c = "\<lambda>t. t\<lparr>et_consumed_at := Some now\<rparr>"
  define ts where "ts = update_where ?L ?c (enrollment_tokens d)"
  from assms obtain t' r where f: "List.find (\<lambda>t. et_token_hash t = h) ts = Some t'"
    and n: "count_where ?L (enrollment_tokens d) = 1"
    and v: "VerifyEnrollment verify (er_public_key req) (er_token req) (er_proof req)"
    and e: "e = enrolled_endpoint now (''ep_'' @ rid) req t'"
    and c: "\<forall>x\<in>set (endpoints d). \<not> endpoint_clash e x"
    and k: "\<forall>x\<in>set (endpoint_keys d). \<not> key_clash (new_key sha now (ep_id e) (er_public_key req)) x"
    and d': "d' = insert_audit r (d\<lparr>endpoints := endpoints d @ [e], endpoint_keys := endpoint_keys d @ [new_key sha now (ep_id e) (er_public_key req)],
      enrollment_tokens := update_where (\<lambda>x. et_id x = et_id t') (\<lambda>x. x\<lparr>et_endpoint_id := ep_id e\<rparr>) ts\<rparr>)"
    unfolding h_def ts_def Enroll_def Let_def by (auto simp del: One_nat_def split: if_splits)
  from f obtain t where t: "List.find (\<lambda>t. et_token_hash t = h) (enrollment_tokens d) = Some t" "t' = (if ?L t then ?c t else t)"
    unfolding ts_def by (subst (asm) find_update_where) auto
  from t(2) have "enrolled_endpoint now (''ep_'' @ rid) req t' = enrolled_endpoint now (''ep_'' @ rid) req t" "et_id t' = et_id t"
    by (auto simp: enrolled_endpoint_def)
  with e d' show thesis
    by (intro that [OF h_def t(1) n v _ c k refl refl, of r]) (simp_all add: ts_def)
qed

lemma enroll_ok:
  assumes "Enroll sha verify now cid rid req d = Inr (d', e)" and ok: "keys_ok d"
  shows "keys_ok d'"
  using assms(1)
proof (rule Enroll_Inr)
  fix t r h d1 d2
  assume e: "e = enrolled_endpoint now (''ep_'' @ rid) req t" and new: "\<forall>x\<in>set (endpoints d). \<not> endpoint_clash e x"
    and key: "\<forall>x\<in>set (endpoint_keys d). \<not> key_clash (new_key sha now (ep_id e) (er_public_key req)) x"
    and d1: "d1 = d\<lparr>endpoints := endpoints d @ [e], endpoint_keys := endpoint_keys d @ [new_key sha now (ep_id e) (er_public_key req)]\<rparr>"
    and d2: "d2 = d1\<lparr>enrollment_tokens := update_where (\<lambda>x. et_id x = et_id t) (\<lambda>x. x\<lparr>et_endpoint_id := ep_id e\<rparr>)
      (update_where (\<lambda>t. et_token_hash t = h \<and> et_consumed_at t = None \<and> et_expires_at t > now) (\<lambda>t. t\<lparr>et_consumed_at := Some now\<rparr>)
        (enrollment_tokens d))\<rparr>" and d': "d' = insert_audit r d2"
  from ok have "wf d" by (simp add: keys_ok_def)
  have "keys_ok d1" unfolding d1
    by (rule insert_endpoint_ok [OF ok wf_insert_endpoint [OF \<open>wf d\<close> new key]])
      (use new in \<open>auto simp: e enrolled_endpoint_def new_key_def endpoint_clash_def\<close>)
  then have "keys_ok d2" unfolding d2 by (rule keys_ok_tokens) (simp add: update_where_keys wf_keys \<open>wf d\<close>)
  then show ?thesis by (simp add: d')
qed

lemma delete_endpoints_ok:
  assumes "keys_ok d"
  shows "keys_ok (delete_endpoints P d)"
  unfolding keys_ok_def
proof (intro conjI ballI)
  let ?d = "delete_endpoints P d"
  from assms have "wf d" by (simp add: keys_ok_def)
  show "wf ?d" by (rule delete_endpoints_wf [OF \<open>wf d\<close>])
  show "set (map ek_endpoint_id (endpoint_keys ?d)) \<subseteq> set (map ep_id (endpoints ?d))"
  proof
    fix i
    assume "i \<in> set (map ek_endpoint_id (endpoint_keys ?d))"
    then obtain k where "k \<in> set (endpoint_keys d)" "ek_endpoint_id k = i" and gone: "\<not> (\<exists>e\<in>set (endpoints d). P e \<and> ep_id e = i)"
      by (auto simp: delete_endpoints_def Let_def)
    with keys_ok_fk [OF assms] obtain e where "e \<in> set (endpoints d)" "ep_id e = i" by auto
    with gone show "i \<in> set (map ep_id (endpoints ?d))" by (auto simp: delete_endpoints_def Let_def)
  qed
  fix e
  assume "e \<in> set (endpoints ?d)"
  then have e: "e \<in> set (endpoints d)" "\<not> P e" by (auto simp: delete_endpoints_def Let_def)
  have "\<not> (\<exists>x\<in>set (endpoints d). P x \<and> ep_id x = ep_id e)" using wf_endpoint_eq [OF \<open>wf d\<close> _ e(1)] e(2) by blast
  then have "approved_keys (endpoint_keys ?d) (ep_id e) = approved_keys (endpoint_keys d) (ep_id e)"
    "pending_keys (endpoint_keys ?d) (ep_id e) = pending_keys (endpoint_keys d) (ep_id e)"
    unfolding approved_keys_def pending_keys_def delete_endpoints_def Let_def delete_where_def count_where_def
    by (auto intro!: arg_cong [where f = length] filter_cong)
  with keys_ok_rule [OF assms e(1)] show "key_rule (ep_state e) (approved_keys (endpoint_keys ?d) (ep_id e)) (pending_keys (endpoint_keys ?d) (ep_id e))"
    by simp
qed

subsection \<open>What the rows hold\<close>

text \<open>
  A key's fingerprint is the digest of the public key stored beside it; a runtime is one of the two;
  the namespaces are in normal form and only a cluster has any; a token's hash is its own.
\<close>

definition key_genuine :: "(string \<Rightarrow> string) \<Rightarrow> endpoint_key \<Rightarrow> bool" where
  "key_genuine sha k \<longleftrightarrow> map_option (Fingerprint sha) (DecodeString (ek_public_key k)) = Some (ek_fingerprint k)"

definition target_typed :: "string \<Rightarrow> string list \<Rightarrow> bool" where
  "target_typed runtime ns \<longleftrightarrow> validRuntime runtime \<and> NormalizeNamespaces ns = Inr ns \<and> (runtime \<noteq> RuntimeKubernetes \<longrightarrow> ns = [])"

definition records_ok :: "(string \<Rightarrow> string) \<Rightarrow> db \<Rightarrow> bool" where
  "records_ok sha d \<longleftrightarrow> list_all (key_genuine sha) (endpoint_keys d)
    \<and> list_all (\<lambda>e. target_typed (ep_runtime e) (ep_deploy_namespaces e)) (endpoints d)
    \<and> list_all (\<lambda>t. target_typed (et_runtime t) (et_deploy_namespaces t)) (enrollment_tokens d)
    \<and> distinct (map et_token_hash (enrollment_tokens d))"

lemma list_all_update_where:
  "list_all Q t \<Longrightarrow> (\<And>x. x \<in> set t \<Longrightarrow> P x \<Longrightarrow> Q x \<Longrightarrow> Q (f x)) \<Longrightarrow> list_all Q (update_where P f t)"
  by (induction t) auto

lemma list_all_delete_where: "list_all Q t \<Longrightarrow> list_all Q (delete_where P t)"
  by (induction t) auto

lemma records_ok_other [simp]:
  "records_ok sha (d\<lparr>endpoint_events := s1\<rparr>) = records_ok sha d"
  "records_ok sha (d\<lparr>inventories := s2\<rparr>) = records_ok sha d"
  "records_ok sha (d\<lparr>capabilities := s3\<rparr>) = records_ok sha d"
  "records_ok sha (d\<lparr>next_event_id := s4\<rparr>) = records_ok sha d"
  "records_ok sha (d\<lparr>server_settings := s5\<rparr>) = records_ok sha d"
  "records_ok sha (d\<lparr>environments := s6\<rparr>) = records_ok sha d"
  "records_ok sha (insert_audit r d) = records_ok sha d"
  "records_ok sha (insert_event v d) = records_ok sha d"
  "records_ok sha (LogAudit now r d) = records_ok sha d"
  by (simp_all add: records_ok_def insert_event_def LogAudit_def) (simp_all add: insert_audit_def)

lemma records_ok_tables:
  "records_ok sha d \<Longrightarrow> list_all (key_genuine sha) ks \<Longrightarrow> records_ok sha (d\<lparr>endpoint_keys := ks\<rparr>)"
  "records_ok sha d \<Longrightarrow> list_all (\<lambda>e. target_typed (ep_runtime e) (ep_deploy_namespaces e)) es \<Longrightarrow> records_ok sha (d\<lparr>endpoints := es\<rparr>)"
  "records_ok sha d \<Longrightarrow> list_all (\<lambda>t. target_typed (et_runtime t) (et_deploy_namespaces t)) ts \<Longrightarrow>
    distinct (map et_token_hash ts) \<Longrightarrow> records_ok sha (d\<lparr>enrollment_tokens := ts\<rparr>)"
  by (simp_all add: records_ok_def)

lemma records_ok_parts:
  assumes "records_ok sha d"
  shows "list_all (key_genuine sha) (endpoint_keys d)"
    and "list_all (\<lambda>e. target_typed (ep_runtime e) (ep_deploy_namespaces e)) (endpoints d)"
    and "list_all (\<lambda>t. target_typed (et_runtime t) (et_deploy_namespaces t)) (enrollment_tokens d)"
    and "distinct (map et_token_hash (enrollment_tokens d))"
  using assms by (simp_all add: records_ok_def)

lemmas records_intros = records_ok_tables list_all_update_where list_all_delete_where delete_where_distinct

lemma new_key_genuine [simp]: "key_genuine sha (new_key sha now i pk)"
  by (simp add: key_genuine_def new_key_def DecodeString_EncodeToString)

lemma key_genuine_state [simp]:
  "key_genuine sha (k\<lparr>ek_state := s, ek_acknowledged_at := a\<rparr>) = key_genuine sha k"
  "key_genuine sha (k\<lparr>ek_state := s, ek_retired_at := a\<rparr>) = key_genuine sha k"
  by (simp_all add: key_genuine_def)

lemma sorted_normalized:
  "NormalizeNamespaces ins = Inr out \<Longrightarrow> out = sort ins \<and> NormalizeNamespaces out = Inr out"
  by (auto simp: NormalizeNamespaces_def Let_def sorted_sort_id split: if_splits)

lemma review_records:
  assumes "records_ok sha d"
  shows "approve_endpoint now a i fp d = Inr (d', x) \<Longrightarrow> records_ok sha d'"
    and "terminate now org i c d = Inr (d', x) \<Longrightarrow> records_ok sha d'"
    and "rename_endpoint a i name d = Inr (d', x) \<Longrightarrow> records_ok sha d'"
    and "acknowledge_key now a i fp d = Inr (d', x) \<Longrightarrow> records_ok sha d'"
    and "acknowledge_event now a i v d = Inr (d', x) \<Longrightarrow> records_ok sha d'"
  by (auto simp: approve_endpoint_def terminate_def rename_endpoint_def acknowledge_key_def acknowledge_event_def Let_def
      intro!: records_intros assms records_ok_parts [OF assms] split: if_splits)

lemma namespaces_records:
  assumes "records_ok sha d" and "wf d" and "NormalizeNamespaces ns = Inr ns" and "set_deploy_namespaces a i ns d = Inr (d', x)"
  shows "records_ok sha d'"
proof -
  from assms(4) obtain e where e: "e \<in> set (endpoints d)" "ep_id e = i" "ep_runtime e = RuntimeKubernetes"
    and d': "d' = d\<lparr>endpoints := update_where (\<lambda>x. ep_id x = i) (\<lambda>x. x\<lparr>ep_deploy_namespaces := ns\<rparr>) (endpoints d)\<rparr>"
    by (auto simp: set_deploy_namespaces_def dest!: find_Some_in)
  show ?thesis unfolding d'
  proof (rule records_ok_tables(2) [OF assms(1)], rule list_all_update_where [OF records_ok_parts(2) [OF assms(1)]])
    fix x
    assume "x \<in> set (endpoints d)" "ep_id x = i"
    with e wf_endpoint_eq [OF assms(2)] have "x = e" by simp
    with e assms(3) show "target_typed (ep_runtime (x\<lparr>ep_deploy_namespaces := ns\<rparr>)) (ep_deploy_namespaces (x\<lparr>ep_deploy_namespaces := ns\<rparr>))"
      by (simp add: target_typed_def validRuntime_def RuntimeKubernetes_def)
  qed
qed

lemma token_records:
  assumes "records_ok sha d" and "create_enrollment_token t d = Inr (d', x)"
    and "validRuntime (et_runtime t) \<Longrightarrow> target_typed (et_runtime t) (et_deploy_namespaces t)"
  shows "records_ok sha d'"
  using assms(2,3)
  by (auto simp: create_enrollment_token_def enrollment_clash_def
    intro!: records_ok_tables(3) [OF assms(1)] records_ok_parts [OF assms(1)] split: if_splits)

lemma agent_records:
  assumes "records_ok sha d"
  shows "RotateEndpointKey sha verify now cid i pk sig ip d = Inr (d', x) \<Longrightarrow> records_ok sha d'"
    and "records_ok sha (TouchEndpoint now i d)" and "records_ok sha (MarkEndpointOffline i d)"
    and "records_ok sha (fst (AcceptInventory now i r d))"
    and "RecordEndpointEvent now e sev kind det d = Inr d' \<Longrightarrow> records_ok sha d'"
    and "SetEndpointCapabilities i cs d = Inr d' \<Longrightarrow> records_ok sha d'"
    and "records_ok sha (RecordAgentConnect now cid e ip result det d)"
proof -
  show "records_ok sha d'" if "SetEndpointCapabilities i cs d = Inr d'"
    using that assms unfolding SetEndpointCapabilities_def
    by (auto elim!: each_invariant simp: insert_capability_def split: if_splits)
qed (use assms in \<open>auto simp: RotateEndpointKey_def TouchEndpoint_def MarkEndpointOffline_def AcceptInventory_def RecordEndpointEvent_def
      RecordAgentConnect_def Let_def intro!: records_intros records_ok_parts split: if_splits\<close>)

lemma enroll_records:
  assumes "Enroll sha verify now cid rid req d = Inr (d', e)" and ok: "records_ok sha d"
  shows "records_ok sha d'"
  using assms(1)
proof (rule Enroll_Inr)
  fix t r h d1 d2
  assume t: "List.find (\<lambda>t. et_token_hash t = h) (enrollment_tokens d) = Some t"
    and e: "e = enrolled_endpoint now (''ep_'' @ rid) req t"
    and d1: "d1 = d\<lparr>endpoints := endpoints d @ [e], endpoint_keys := endpoint_keys d @ [new_key sha now (ep_id e) (er_public_key req)]\<rparr>"
    and d2: "d2 = d1\<lparr>enrollment_tokens := update_where (\<lambda>x. et_id x = et_id t) (\<lambda>x. x\<lparr>et_endpoint_id := ep_id e\<rparr>)
      (update_where (\<lambda>t. et_token_hash t = h \<and> et_consumed_at t = None \<and> et_expires_at t > now) (\<lambda>t. t\<lparr>et_consumed_at := Some now\<rparr>)
        (enrollment_tokens d))\<rparr>" and d': "d' = insert_audit r d2"
  from find_Some_in [OF t] records_ok_parts(3) [OF ok] have "target_typed (et_runtime t) (et_deploy_namespaces t)"
    by (simp add: list_all_iff)
  then have "records_ok sha d1" unfolding d1
    by (intro records_ok_tables ok) (simp_all add: records_ok_parts [OF ok] e enrolled_endpoint_def)
  then have "records_ok sha d2" unfolding d2
    by (intro records_ok_tables list_all_update_where) (simp_all add: records_ok_parts [OF ok] update_where_keys)
  then show ?thesis by (simp add: d')
qed

lemma local_records:
  assumes "InitializeLocalDocker sha now cid uid suffix pk d = Inr (d', g)" and ok: "records_ok sha d"
  shows "records_ok sha d'"
proof -
  have "records_ok sha d2" if "create_local_endpoint sha now cid uid suffix pk d0 = Inr d2" and "records_ok sha d0" for d0 d2
    using that(1)
  proof (rule create_local_Inr)
    fix d1 e k r
    assume d1: "local_environment uid d0 = Inr d1"
      and e: "ep_runtime e = RuntimeDocker" "ep_deploy_namespaces e = []"
      and k: "ek_public_key k = EncodeToString pk" "ek_fingerprint k = Fingerprint sha pk"
      and d2: "d2 = insert_audit r (d1\<lparr>endpoints := endpoints d1 @ [e], endpoint_keys := endpoint_keys d1 @ [k]\<rparr>)"
    have docker: "target_typed RuntimeDocker []"
      by (simp add: target_typed_def validRuntime_def RuntimeDocker_def NormalizeNamespaces_def)
    from d1 that(2) have ok1: "records_ok sha d1" by (auto simp: local_environment_def split: if_splits)
    have "records_ok sha (d1\<lparr>endpoints := endpoints d1 @ [e], endpoint_keys := endpoint_keys d1 @ [k]\<rparr>)"
      by (intro records_ok_tables ok1)
        (simp_all add: records_ok_parts [OF ok1] e k docker key_genuine_def DecodeString_EncodeToString)
    then show "records_ok sha d2" by (simp add: d2)
  qed
  with assms show ?thesis by (auto simp: InitializeLocalDocker_def split: if_splits)
qed

lemma delete_endpoints_tables [simp]:
  "environments (delete_endpoints E d) = environments d" "enrollment_tokens (delete_endpoints E d) = enrollment_tokens d"
  "server_settings (delete_endpoints E d) = server_settings d"
  by (simp_all add: delete_endpoints_def Let_def)

lemma remove_environment_Inr:
  assumes "remove_environment a d = Inr (d', x)"
  obtains E V T where "d' = (delete_endpoints E d)\<lparr>environments := delete_where V (environments d), enrollment_tokens := delete_where T (enrollment_tokens d)\<rparr>"
    and "\<And>e. e \<in> set (endpoints d) \<Longrightarrow> E e \<Longrightarrow> ep_state e = EpRevoked"
  using assms by (auto simp: remove_environment_def Let_def split: if_splits)

lemma remove_ok:
  assumes "remove_environment a d = Inr (d', x)"
  shows "keys_ok d \<Longrightarrow> keys_ok d'" and "records_ok sha d \<Longrightarrow> records_ok sha d'"
proof -
  from assms obtain E V T where d': "d' = (delete_endpoints E d)\<lparr>environments := delete_where V (environments d), enrollment_tokens := delete_where T (enrollment_tokens d)\<rparr>"
    by (rule remove_environment_Inr)
  show "keys_ok d'" if "keys_ok d"
  proof -
    from that have "wf d" by (simp add: keys_ok_def)
    have "keys_ok ((delete_endpoints E d)\<lparr>environments := delete_where V (environments d)\<rparr>)"
      using delete_endpoints_ok [OF that, of E] by (simp add: keys_ok_def wf_tables(4) delete_where_distinct wf_keys \<open>wf d\<close>)
    then show ?thesis unfolding d' by (rule keys_ok_tokens) (simp add: delete_where_distinct wf_keys \<open>wf d\<close>)
  qed
  show "records_ok sha d'" if "records_ok sha d"
    using that by (simp add: d' records_ok_def delete_endpoints_def Let_def list_all_delete_where delete_where_distinct)
qed

end
