(* ===== verification/EndpointLife.thy ===== *)
theory EndpointLife
  imports EndpointKeys
begin

text \<open>
  The endpoints as one transition system: the invariant of its reachable states, the abstract
  life of one endpoint that every step follows, and what both say of who may speak as an endpoint
  and of what revocation means.
\<close>

subsection \<open>The transition system\<close>

inductive endpoint_step :: "(string \<Rightarrow> string) \<Rightarrow> verifier \<Rightarrow> db \<Rightarrow> db \<Rightarrow> bool" for sha verify where
  token: "endpoint_step sha verify d (fst (CreateEnrollmentToken sha now cid uid secret a runtime img ns d))"
| enroll: "list_all is_hex rid \<Longrightarrow> Enroll sha verify now cid rid req d = Inr (d', e) \<Longrightarrow> endpoint_step sha verify d d'"
| approve: "endpoint_step sha verify d (fst (ApproveEndpoint now cid a i fp d))"
| reject: "endpoint_step sha verify d (fst (RejectEndpoint now cid a i d))"
| revoke: "endpoint_step sha verify d (fst (RevokeEndpoint now cid a i d))"
| rename: "endpoint_step sha verify d (fst (RenameEndpoint now cid a i name d))"
| namespaces: "endpoint_step sha verify d (fst (SetEndpointDeployNamespaces now cid a i ns d))"
| rotate: "RotateEndpointKey sha verify now cid i pk sig ip d = Inr (d', fp) \<Longrightarrow> endpoint_step sha verify d d'"
| acknowledge: "endpoint_step sha verify d (fst (AcknowledgeEndpointKey now cid a i fp d))"
| event: "RecordEndpointEvent now e severity kind details d = Inr d' \<Longrightarrow> endpoint_step sha verify d d'"
| acknowledge_event: "endpoint_step sha verify d (fst (AcknowledgeEndpointEvent now cid a i v d))"
| capabilities: "SetEndpointCapabilities i cs d = Inr d' \<Longrightarrow> endpoint_step sha verify d d'"
| connect: "endpoint_step sha verify d (RecordAgentConnect now cid e ip result details d)"
| touch: "endpoint_step sha verify d (TouchEndpoint now i d)"
| inventory: "endpoint_step sha verify d (fst (AcceptInventory now i r d))"
| offline: "endpoint_step sha verify d (MarkEndpointOffline i d)"
| local: "InitializeLocalDocker sha now cid uid suffix pk d = Inr (d', g) \<Longrightarrow> endpoint_step sha verify d d'"
| add_environment: "endpoint_step sha verify d (fst (AddEnvironment now cid uid a name d))"
| update_environment: "endpoint_step sha verify d (fst (UpdateEnvironment now cid a name d))"
| remove_environment: "endpoint_step sha verify d (fst (RemoveEnvironment now cid a d))"

inductive_cases endpoint_stepE: "endpoint_step sha verify d d'"

definition endpoint_init :: "db \<Rightarrow> bool" where
  "endpoint_init d \<longleftrightarrow> wf d \<and> endpoints d = [] \<and> endpoint_keys d = [] \<and> enrollment_tokens d = []"

definition endpoints_ok :: "(string \<Rightarrow> string) \<Rightarrow> db \<Rightarrow> bool" where
  "endpoints_ok sha d \<longleftrightarrow> keys_ok d \<and> records_ok sha d"


lemma endpoints_ok_audit: "endpoints_ok sha d \<Longrightarrow> endpoints_ok sha (insert_audit r d)"
  by (simp add: endpoints_ok_def)

lemma endpoints_runAs:
  assumes "endpoints_ok sha d" and "\<And>d' x. snd (op d) = Inr (d', x) \<Longrightarrow> endpoints_ok sha d'"
  shows "endpoints_ok sha (fst (runAs now cid a action name target lock op d))"
  by (rule runAs_invariant [where P = "endpoints_ok sha"]) (use assms endpoints_ok_audit in auto)

lemma keys_ok_environments: "keys_ok d \<Longrightarrow> distinct (map env_id t) \<Longrightarrow> keys_ok (d\<lparr>environments := t\<rparr>)"
  by (simp add: keys_ok_def wf_tables)

lemma simple_ops_keys:
  assumes "keys_ok d"
  shows "acknowledge_event now a i v d = Inr (d', x) \<Longrightarrow> keys_ok d'"
    and "rename_endpoint a i name d = Inr (d', x) \<Longrightarrow> keys_ok d'"
    and "set_deploy_namespaces a i ns d = Inr (d', y) \<Longrightarrow> keys_ok d'"
    and "create_enrollment_token t d = Inr (d', x) \<Longrightarrow> keys_ok d'"
    and "add_environment a name d = Inr (d', z) \<Longrightarrow> keys_ok d'"
    and "update_environment a name d = Inr (d', x) \<Longrightarrow> keys_ok d'"
proof -
  from assms have "wf d" by (simp add: keys_ok_def)
  note keys = wf_keys(4) [OF this] wf_keys(9) [OF this]
  show "keys_ok d'" if "create_enrollment_token t d = Inr (d', x)"
    using that keys(2) by (auto simp: create_enrollment_token_def enrollment_clash_def intro!: keys_ok_tokens assms split: if_splits)
  show "keys_ok d'" if "add_environment a name d = Inr (d', z)"
    using that keys(1) by (auto simp: add_environment_def Let_def environment_clash_def intro!: keys_ok_environments assms split: if_splits)
  show "keys_ok d'" if "update_environment a name d = Inr (d', x)"
    using update_environment_Inr [OF that] keys(1) by (simp add: keys_ok_environments assms update_where_keys)
qed (use assms in \<open>auto simp: acknowledge_event_def rename_endpoint_def set_deploy_namespaces_def Let_def intro!: keys_ok_endpoints split: if_splits\<close>)

lemma environment_ops_ok:
  assumes ok: "endpoints_ok sha d"
  shows "endpoints_ok sha (fst (AddEnvironment now cid uid a name d))"
    and "endpoints_ok sha (fst (UpdateEnvironment now cid a name d))"
    and "endpoints_ok sha (fst (RemoveEnvironment now cid a d))"
  unfolding AddEnvironment_def UpdateEnvironment_def RemoveEnvironment_def tenant_run_defs Let_def
proof (safe intro!: endpoints_runAs [OF ok], unfold snd_keep)
  fix d' x
  assume "add_environment (a\<lparr>EnvironmentID := uid\<rparr>) name d = Inr (d', x)"
  moreover from this have "records_ok sha d'"
    using ok by (auto simp: endpoints_ok_def add_environment_def Let_def split: if_splits)
  ultimately show "endpoints_ok sha d'" using ok simple_ops_keys(5) unfolding endpoints_ok_def by blast
next
  fix d' x
  assume "update_environment a name d = Inr (d', x)"
  from simple_ops_keys(6) [OF _ this] update_environment_Inr [OF this] ok show "endpoints_ok sha d'"
    by (simp add: endpoints_ok_def)
qed (use ok in \<open>auto simp: endpoints_ok_def intro: remove_ok\<close>)

lemma review_ops_ok:
  assumes ok: "endpoints_ok sha d"
  shows "endpoints_ok sha (fst (ApproveEndpoint now cid a i fp d))"
    and "endpoints_ok sha (fst (RejectEndpoint now cid a i d))"
    and "endpoints_ok sha (fst (RevokeEndpoint now cid a i d))"
    and "endpoints_ok sha (fst (RenameEndpoint now cid a i name d))"
    and "endpoints_ok sha (fst (AcknowledgeEndpointKey now cid a i fp d))"
    and "endpoints_ok sha (fst (AcknowledgeEndpointEvent now cid a i v d))"
  unfolding ApproveEndpoint_def RejectEndpoint_def RevokeEndpoint_def RenameEndpoint_def AcknowledgeEndpointKey_def
    AcknowledgeEndpointEvent_def tenant_run_defs
proof (safe intro!: endpoints_runAs [OF ok], unfold snd_keep)
qed (use ok in \<open>auto simp: endpoints_ok_def intro: approve_ok terminate_ok acknowledge_ok simple_ops_keys review_records\<close>)

lemma target_ops_ok:
  assumes ok: "endpoints_ok sha d"
  shows "endpoints_ok sha (fst (SetEndpointDeployNamespaces now cid a i ns d))"
    and "endpoints_ok sha (fst (CreateEnrollmentToken sha now cid uid secret a runtime img ns d))"
proof -
  from ok have k: "keys_ok d" and r: "records_ok sha d" and "wf d" by (simp_all add: endpoints_ok_def keys_ok_def)
  show "endpoints_ok sha (fst (SetEndpointDeployNamespaces now cid a i ns d))"
  proof (cases "NormalizeNamespaces ns")
    case (Inr out)
    show ?thesis unfolding SetEndpointDeployNamespaces_def Inr sum.case tenant_run_defs
      by (rule endpoints_runAs [OF ok], unfold snd_keep)
        (use namespaces_records [OF r \<open>wf d\<close>] sorted_normalized [OF Inr] simple_ops_keys(3) [OF k] in \<open>auto simp: endpoints_ok_def\<close>)
  qed (use ok in \<open>simp add: SetEndpointDeployNamespaces_def\<close>)
  show "endpoints_ok sha (fst (CreateEnrollmentToken sha now cid uid secret a runtime img ns d))"
  proof (cases "EnvironmentID a = '''' \<or> (runtime \<noteq> RuntimeKubernetes \<and> ns \<noteq> [])")
    case False
    show ?thesis
    proof (cases "NormalizeNamespaces ns")
      case (Inr out)
      let ?t = "enrollment_row sha now uid secret a runtime img out"
      have "target_typed (et_runtime ?t) (et_deploy_namespaces ?t)" if "validRuntime (et_runtime ?t)"
        using that False sorted_normalized [OF Inr] by (auto simp: target_typed_def enrollment_row_def)
      then have "endpoints_ok sha (fst (withTenantTarget now cid a EndpointEnroll uid (create_enrollment_token ?t) d))"
        unfolding tenant_run_defs
        by (intro endpoints_runAs [OF ok], unfold snd_keep)
          (use token_records [OF r] simple_ops_keys(4) [OF k] in \<open>auto simp: endpoints_ok_def\<close>)
      with False Inr show ?thesis by (auto simp: CreateEnrollmentToken_def Let_def split: prod.splits sum.splits)
    qed (use ok in \<open>simp add: CreateEnrollmentToken_def\<close>)
  qed (use ok in \<open>simp add: CreateEnrollmentToken_def\<close>)
qed

lemma key_rule_live [simp]: "key_rule EpApproved = key_rule EpActive" "key_rule EpOffline = key_rule EpActive"
  by (intro ext, simp)+

lemma session_ops_keys:
  assumes "keys_ok d"
  shows "keys_ok (TouchEndpoint now i d)" and "keys_ok (MarkEndpointOffline i d)" and "keys_ok (fst (AcceptInventory now i r d))"
    and "RecordEndpointEvent now e sev kind det d = Inr d' \<Longrightarrow> keys_ok d'"
    and "SetEndpointCapabilities i cs d = Inr d' \<Longrightarrow> keys_ok d'"
    and "keys_ok (RecordAgentConnect now cid e ip result det d)"
proof -
  show "keys_ok d'" if "SetEndpointCapabilities i cs d = Inr d'"
    using that assms unfolding SetEndpointCapabilities_def
    by (auto elim!: each_invariant simp: insert_capability_def split: if_splits)
qed (use assms in \<open>auto simp: TouchEndpoint_def MarkEndpointOffline_def AcceptInventory_def RecordEndpointEvent_def
      RecordAgentConnect_def Let_def intro!: keys_ok_endpoints split: if_splits\<close>)

lemma endpoint_step_ok:
  assumes "endpoint_step sha verify d d'" and "endpoints_ok sha d"
  shows "endpoints_ok sha d'"
proof -
  note ok = assms(2)
  then have k: "keys_ok d" and r: "records_ok sha d" by (simp_all add: endpoints_ok_def)
  note writes = enroll_ok [OF _ k] enroll_records [OF _ r] rotate_ok [OF _ k] local_ok [OF _ k] local_records [OF _ r]
    session_ops_keys [OF k] agent_records [OF r]
  show ?thesis
    using assms(1)
  proof cases
  qed (simp_all only: review_ops_ok [OF ok] target_ops_ok [OF ok] environment_ops_ok [OF ok], simp_all add: endpoints_ok_def writes)
qed

interpretation endpoints: invariant_system endpoint_init "endpoint_step sha verify" "endpoints_ok sha" for sha verify
proof unfold_locales
  show "endpoints_ok sha d" if "endpoint_init d" for d
    using that by (simp add: endpoint_init_def endpoints_ok_def keys_ok_def records_ok_def)
qed (rule endpoint_step_ok)

subsection \<open>The life of one endpoint\<close>

text \<open>
  What an endpoint is to its agent: its state and the fingerprints of its approved and of its
  offered keys. An endpoint that is not there has no life. The steps are those an administrator
  or the agent may take.
\<close>

type_synonym life = "(endpoint_state \<times> string list \<times> string list) option"

definition held :: "key_state \<Rightarrow> endpoint_key table \<Rightarrow> string \<Rightarrow> string list" where
  "held s ks i = map ek_fingerprint (filter (\<lambda>k. ek_endpoint_id k = i \<and> ek_state k = s) ks)"

definition life :: "db \<Rightarrow> string \<Rightarrow> life" where
  "life d i = map_option (\<lambda>e. (ep_state e, held KeyApproved (endpoint_keys d) i, held KeyPendingReview (endpoint_keys d) i))
    (List.find (\<lambda>e. ep_id e = i) (endpoints d))"

inductive life_step :: "life \<Rightarrow> life \<Rightarrow> bool" where
  enrolled: "life_step None (Some (EpPending, [], [f]))"
| connected: "life_step None (Some (EpApproved, [f], []))"
| approved: "life_step (Some (EpPending, [], [f])) (Some (EpApproved, [f], []))"
| terminated: "s \<noteq> EpRevoked \<Longrightarrow> life_step (Some (s, fs, gs)) (Some (EpRevoked, [], []))"
| offered: "s \<in> {EpApproved, EpActive, EpOffline} \<Longrightarrow> g \<noteq> f \<Longrightarrow> life_step (Some (s, [f], gs)) (Some (s, [f], [g]))"
| switched: "s \<in> {EpApproved, EpActive, EpOffline} \<Longrightarrow> g \<noteq> f \<Longrightarrow> life_step (Some (s, [f], [g])) (Some (s, [g], []))"
| reported: "s \<in> {EpApproved, EpOffline} \<Longrightarrow> life_step (Some (s, fs, gs)) (Some (EpActive, fs, gs))"
| silent: "life_step (Some (EpActive, fs, gs)) (Some (EpOffline, fs, gs))"
| removed: "life_step (Some (EpRevoked, [], [])) None"

inductive_simps life_step_revoked: "life_step (Some (EpRevoked, fs, gs)) l"

lemma held_simps [simp]:
  "held s [] i = []"
  "held s (k # ks) i = (if ek_endpoint_id k = i \<and> ek_state k = s then ek_fingerprint k # held s ks i else held s ks i)"
  "held s (ks @ ls) i = held s ks i @ held s ls i"
  by (simp_all add: held_def)

lemma held_length: "length (held KeyApproved ks i) = approved_keys ks i" "length (held KeyPendingReview ks i) = pending_keys ks i"
  by (simp_all add: held_def approved_keys_def pending_keys_def count_where_def)

lemma held_other:
  "(\<And>k. P k \<Longrightarrow> ek_endpoint_id k = i \<and> ek_endpoint_id (f k) = i) \<Longrightarrow> j \<noteq> i \<Longrightarrow> held s (update_where P f ks) j = held s ks j"
  by (induction ks) auto

lemma held_none: "(\<And>k. k \<in> set ks \<Longrightarrow> ek_endpoint_id k = i \<Longrightarrow> ek_state k \<noteq> s) \<Longrightarrow> held s ks i = []"
  by (induction ks) auto

lemma in_held: "f \<in> set (held s ks i) \<longleftrightarrow> (\<exists>k\<in>set ks. ek_endpoint_id k = i \<and> ek_state k = s \<and> ek_fingerprint k = f)"
  by (auto simp: held_def)

lemma held_update:
  "(\<And>k. k \<in> set ks \<Longrightarrow> (let k' = (if P k then f k else k) in ek_endpoint_id k' = i \<and> ek_state k' = s) = (ek_endpoint_id k = i \<and> ek_state k = s')) \<Longrightarrow>
   (\<And>k. k \<in> set ks \<Longrightarrow> ek_fingerprint (f k) = ek_fingerprint k) \<Longrightarrow> held s (update_where P f ks) i = held s' ks i"
  by (induction ks) (auto simp: Let_def)

text \<open>The lives of the others go on as they were when a write is to one endpoint and its keys.\<close>

lemma life_here: "wf d \<Longrightarrow> e \<in> set (endpoints d) \<Longrightarrow> ep_id e = i \<Longrightarrow>
  life d i = Some (ep_state e, held KeyApproved (endpoint_keys d) i, held KeyPendingReview (endpoint_keys d) i)"
  using find_by_key [OF wf_keys(8)] by (auto simp: life_def)

lemma life_none: "life d i = None \<longleftrightarrow> (\<forall>e\<in>set (endpoints d). ep_id e \<noteq> i)"
  by (auto simp: life_def find_None_in)

lemma life_write:
  assumes "endpoints d' = update_where P g (endpoints d)" and "\<And>x. P x \<Longrightarrow> ep_id x = i \<and> ep_id (g x) = i"
    and "\<And>s. held s (endpoint_keys d') j = held s (endpoint_keys d) j" and "j \<noteq> i"
  shows "life d' j = life d j"
proof -
  have "List.find (\<lambda>e. ep_id e = j) (endpoints d') = map_option (\<lambda>r. if P r then g r else r) (List.find (\<lambda>e. ep_id e = j) (endpoints d))"
    unfolding assms(1) by (rule find_update_where) (use assms(2) in auto)
  also have "\<dots> = List.find (\<lambda>e. ep_id e = j) (endpoints d)"
    by (cases "List.find (\<lambda>e. ep_id e = j) (endpoints d)") (use assms(2,4) in \<open>auto dest: find_Some_in\<close>)
  finally show ?thesis by (simp add: life_def assms(3))
qed

lemma life_tables [simp]:
  "life (d\<lparr>endpoint_events := s1\<rparr>) = life d" "life (d\<lparr>inventories := s2\<rparr>) = life d"
  "life (d\<lparr>capabilities := s3\<rparr>) = life d" "life (d\<lparr>next_event_id := s4\<rparr>) = life d"
  "life (d\<lparr>server_settings := s5\<rparr>) = life d" "life (d\<lparr>environments := s6\<rparr>) = life d"
  "life (d\<lparr>enrollment_tokens := s7\<rparr>) = life d" "life (insert_audit r d) = life d"
  "life (insert_event v d) = life d" "life (LogAudit now r d) = life d"
  by (intro ext, simp add: life_def insert_event_def LogAudit_def insert_audit_def)+

text \<open>A change of the rows of endpoints that keeps their IDs and states changes no life.\<close>

lemma life_same_state:
  assumes "\<And>x. x \<in> set (endpoints d) \<Longrightarrow> P x \<Longrightarrow> ep_id (g x) = ep_id x \<and> ep_state (g x) = ep_state x"
  shows "life (d\<lparr>endpoints := update_where P g (endpoints d)\<rparr>) = life d"
proof
  fix i
  have "List.find (\<lambda>e. ep_id e = i) (update_where P g (endpoints d)) = map_option (\<lambda>r. if P r then g r else r) (List.find (\<lambda>e. ep_id e = i) (endpoints d))"
    by (rule find_update_where) (use assms in auto)
  then show "life (d\<lparr>endpoints := update_where P g (endpoints d)\<rparr>) i = life d i"
    by (cases "List.find (\<lambda>e. ep_id e = i) (endpoints d)") (use assms in \<open>auto simp: life_def dest: find_Some_in\<close>)
qed

lemma held_gone:
  "(\<And>k. k \<in> set ks \<Longrightarrow> ek_endpoint_id k = i \<Longrightarrow> ek_state k = s \<Longrightarrow> P k) \<Longrightarrow> (\<And>k. P k \<Longrightarrow> ek_state (f k) \<noteq> s) \<Longrightarrow>
   held s (update_where P f ks) i = []"
  by (induction ks) auto

lemma update_where_hit: "x \<in> set t \<Longrightarrow> P x \<Longrightarrow> f x \<in> set (update_where P f t)"
  by (auto simp: update_where_def)

lemma life_write_keys:
  assumes "endpoints d' = update_where P g (endpoints d)" and "endpoint_keys d' = update_where K f (endpoint_keys d)"
    and "\<And>x. P x \<Longrightarrow> ep_id x = i \<and> ep_id (g x) = i" and "\<And>k. K k \<Longrightarrow> ek_endpoint_id k = i \<and> ek_endpoint_id (f k) = i" and "j \<noteq> i"
  shows "life d' j = life d j"
  by (rule life_write [OF assms(1,3) _ assms(5)]) (simp_all only: assms(2) held_other [OF assms(4,5)])

lemma update_where_twice:
  "(\<And>k. K k \<Longrightarrow> \<not> R (f k)) \<Longrightarrow> update_where R h (update_where K f t) = update_where (\<lambda>k. K k \<or> R k) (\<lambda>k. if K k then f k else h k) t"
  by (induction t) auto

lemma approve_life:
  assumes "approve_endpoint now a i fp d = Inr (d', x)" and ok: "keys_ok d"
  shows "life_step\<^sup>=\<^sup>= (life d j) (life d' j)"
proof -
  let ?K = "\<lambda>k. ek_endpoint_id k = i \<and> ek_fingerprint k = fp \<and> ek_state k = KeyPendingReview"
  let ?f = "\<lambda>k. k\<lparr>ek_state := KeyApproved, ek_acknowledged_at := Some now\<rparr>"
  let ?g = "\<lambda>x. x\<lparr>ep_state := EpApproved, ep_approved_at := Some now, ep_approved_by := ActorID a, ep_inventory_generation := 0\<rparr>"
  let ?ks = "update_where ?K ?f (endpoint_keys d)"
  from assms(1) obtain e where e: "e \<in> set (endpoints d)" "ep_id e = i" "ep_state e = EpPending"
    and K: "0 < count_where ?K (endpoint_keys d)"
    and d': "d' = d\<lparr>endpoint_keys := ?ks, endpoints := update_where (\<lambda>x. ep_id x = i) ?g (endpoints d),
      inventories := delete_where (\<lambda>v. iv_endpoint_id v = i) (inventories d)\<rparr>"
    by (auto simp: approve_endpoint_def Let_def simp del: count_where_0 count_where_pos dest!: find_Some_in split: if_splits)
  from ok have "wf d" by (simp add: keys_ok_def)
  have "wf d'" using approve_ok [OF assms(1) ok] by (simp add: keys_ok_def)
  show ?thesis
  proof (cases "j = i")
    case True
    from keys_ok_rule [OF ok e(1)] e have none: "held KeyApproved (endpoint_keys d) i = []"
      and le: "length (held KeyPendingReview (endpoint_keys d) i) \<le> 1" by (simp_all add: held_length flip: length_0_conv)
    from K have "fp \<in> set (held KeyPendingReview (endpoint_keys d) i)" by (auto simp: in_held)
    with le have one: "held KeyPendingReview (endpoint_keys d) i = [fp]" by (cases "held KeyPendingReview (endpoint_keys d) i") auto
    have K': "?K k \<longleftrightarrow> ek_endpoint_id k = i \<and> ek_state k = KeyPendingReview" if "k \<in> set (endpoint_keys d)" for k
      using one in_held [of "ek_fingerprint k" KeyPendingReview "endpoint_keys d" i] that by auto
    have no: "ek_state k \<noteq> KeyApproved" if "k \<in> set (endpoint_keys d)" "ek_endpoint_id k = i" for k
      using none in_held [of "ek_fingerprint k" KeyApproved "endpoint_keys d" i] that by auto
    have "held KeyApproved ?ks i = held KeyPendingReview (endpoint_keys d) i"
      by (rule held_update) (use K' no in \<open>auto simp: Let_def\<close>)
    moreover have "held KeyPendingReview ?ks i = []"
      by (rule held_gone) (use K' in auto)
    moreover have "?g e \<in> set (endpoints d')" using update_where_hit [OF e(1), of "\<lambda>x. ep_id x = i" ?g] e(2) by (simp add: d')
    ultimately have "life d' i = Some (EpApproved, [fp], [])"
      using life_here [OF \<open>wf d'\<close> \<open>?g e \<in> set (endpoints d')\<close>] e one by (simp add: d')
    with life_here [OF \<open>wf d\<close> e(1,2)] e none one True show ?thesis by (simp add: life_step.approved)
  next
    case False
    have "life d' j = life d j"
      by (rule life_write_keys [where i = i and K = ?K and f = ?f and P = "\<lambda>x. ep_id x = i" and g = ?g]) (simp_all add: d' False)
    then show ?thesis by simp
  qed
qed

lemma terminate_life:
  assumes "terminate now org i c d = Inr (d', x)" and ok: "keys_ok d" and "\<And>e. c e \<Longrightarrow> ep_state e \<noteq> EpRevoked"
  shows "life_step\<^sup>=\<^sup>= (life d j) (life d' j)"
proof -
  let ?P = "\<lambda>e. ep_organization_id e = org \<and> ep_id e = i \<and> c e"
  let ?g = "\<lambda>e. e\<lparr>ep_state := EpRevoked, ep_revoked_at := Some now, ep_inventory_generation := 0\<rparr>"
  let ?K = "\<lambda>k. ek_endpoint_id k = i \<and> ek_state k \<noteq> KeyRetired"
  let ?f = "\<lambda>k. k\<lparr>ek_state := KeyRetired, ek_retired_at := Some now\<rparr>"
  from assms(1) have d': "d' = d\<lparr>endpoints := update_where ?P ?g (endpoints d), inventories := delete_where (\<lambda>v. iv_endpoint_id v = i) (inventories d),
      endpoint_keys := update_where ?K ?f (endpoint_keys d)\<rparr>"
    and hit: "\<exists>e\<in>set (endpoints d). ?P e"
    by (auto simp: terminate_def Let_def tenantChangeResult_def)
  then obtain e where e: "e \<in> set (endpoints d)" "ep_id e = i" "?P e" by blast
  from ok have "wf d" by (simp add: keys_ok_def)
  have "wf d'" using terminate_ok [OF assms(1) ok] by (simp add: keys_ok_def)
  show ?thesis
  proof (cases "j = i")
    case True
    have gone: "held s (update_where ?K ?f (endpoint_keys d)) i = []" if "s \<noteq> KeyRetired" for s
      by (rule held_gone) (use that in auto)
    have "?g e \<in> set (endpoints d')" using update_where_hit [OF e(1), of ?P ?g] e by (simp add: d')
    from life_here [OF \<open>wf d'\<close> this] e gone have "life d' i = Some (EpRevoked, [], [])" by (simp add: d')
    with life_here [OF \<open>wf d\<close> e(1,2)] assms(3) [of e] e(3) True show ?thesis by (simp add: life_step.terminated)
  next
    case False
    have "life d' j = life d j"
      by (rule life_write_keys [where i = i and K = ?K and f = ?f and P = ?P and g = ?g]) (simp_all add: d' False)
    then show ?thesis by simp
  qed
qed

lemma acknowledge_switch:
  assumes "acknowledge_key now a i fp d = Inr (d', x)" and ok: "keys_ok d"
  obtains s f where "s \<in> {EpApproved, EpActive, EpOffline}" and "f \<noteq> fp"
    and "life d i = Some (s, [f], [fp])" and "life d' i = Some (s, [fp], [])" and "\<And>j. j \<noteq> i \<Longrightarrow> life d' j = life d j"
    and "map ek_fingerprint (endpoint_keys d') = map ek_fingerprint (endpoint_keys d)"
    and "map ek_endpoint_id (endpoint_keys d') = map ek_endpoint_id (endpoint_keys d)"
proof -
  define live where "live \<longleftrightarrow> (\<exists>e\<in>set (endpoints d). ep_id e = i \<and> ep_organization_id e = OrganizationID a \<and> ep_state e \<in> {EpApproved, EpActive, EpOffline})"
  let ?K = "\<lambda>k. ek_endpoint_id k = i \<and> ek_fingerprint k = fp \<and> ek_state k = KeyPendingReview \<and> ek_created_at k > now - pendingKeyLife \<and> live"
  let ?f = "\<lambda>k. k\<lparr>ek_state := KeyApproved, ek_acknowledged_at := Some now\<rparr>"
  let ?R = "\<lambda>k. ek_endpoint_id k = i \<and> ek_fingerprint k \<noteq> fp \<and> ek_state k \<noteq> KeyRetired"
  let ?h = "\<lambda>k. k\<lparr>ek_state := KeyRetired, ek_retired_at := Some now\<rparr>"
  let ?ks = "update_where ?K ?f (endpoint_keys d)"
  from assms(1) have hit: "count_where ?K (endpoint_keys d) \<noteq> 0"
    and d': "d' = d\<lparr>endpoint_keys := update_where ?R ?h ?ks, endpoint_events := update_where (\<lambda>v. ev_endpoint_id v = i \<and> ev_kind v = ''rotation_pending'' \<and> ev_acknowledged_at v = None)
       (\<lambda>v. v\<lparr>ev_acknowledged_at := Some now\<rparr>) (endpoint_events d)\<rparr>"
    unfolding acknowledge_key_def live_def [symmetric] Let_def by (auto simp del: count_where_0 split: if_splits)
  then obtain k where k: "k \<in> set (endpoint_keys d)" "?K k" by auto
  then obtain e where e: "e \<in> set (endpoints d)" "ep_id e = i" "ep_state e \<in> {EpApproved, EpActive, EpOffline}" unfolding live_def by blast
  have "wf d" using ok by (simp add: keys_ok_def)
  have both: "update_where ?R ?h ?ks = update_where (\<lambda>k. ?K k \<or> ?R k) (\<lambda>k. if ?K k then ?f k else ?h k) (endpoint_keys d)"
    by (rule update_where_twice) simp
  have same: "r = k" if "r \<in> set (endpoint_keys d)" "ek_endpoint_id r = i" "ek_fingerprint r = fp" for r
    using distinct_map_eq [OF wf_keys(10) [OF \<open>wf d\<close>] that(1) k(1)] that k(2) by simp
  from keys_ok_rule [OF ok e(1)] e have "length (held KeyApproved (endpoint_keys d) i) = 1"
    and le: "length (held KeyPendingReview (endpoint_keys d) i) \<le> 1" by (auto simp: held_length)
  then obtain f where f: "held KeyApproved (endpoint_keys d) i = [f]" by (auto simp: length_Suc_conv)
  from k have "fp \<in> set (held KeyPendingReview (endpoint_keys d) i)" by (auto simp: in_held)
  with le have one: "held KeyPendingReview (endpoint_keys d) i = [fp]" by (cases "held KeyPendingReview (endpoint_keys d) i") auto
  have "f \<noteq> fp"
  proof
    assume "f = fp"
    with f in_held [of f KeyApproved "endpoint_keys d" i] obtain r
      where "r \<in> set (endpoint_keys d)" "ek_endpoint_id r = i" "ek_state r = KeyApproved" "ek_fingerprint r = fp" by auto
    with same k(2) show False by force
  qed
  have pend: "r = k" if "r \<in> set (endpoint_keys d)" "ek_endpoint_id r = i" "ek_state r = KeyPendingReview" for r
    using one in_held [of "ek_fingerprint r" KeyPendingReview "endpoint_keys d" i] same that by auto
  have Kk: "?K r" if "r \<in> set (endpoint_keys d)" "ek_endpoint_id r = i" "ek_state r = KeyPendingReview" for r
    using pend [OF that] k(2) by simp
  have nA: "ek_fingerprint r \<noteq> fp" if "r \<in> set (endpoint_keys d)" "ek_endpoint_id r = i" "ek_state r = KeyApproved" for r
    using same [OF that(1,2)] k(2) that(3) by auto
  have "held KeyApproved (update_where ?R ?h ?ks) i = held KeyPendingReview (endpoint_keys d) i"
    unfolding both by (rule held_update) (use Kk nA in \<open>auto simp: Let_def\<close>)
  moreover have "held KeyPendingReview (update_where ?R ?h ?ks) i = []"
    unfolding both by (rule held_gone) (use Kk in auto)
  ultimately have "life d' i = Some (ep_state e, [fp], [])"
    using life_here [of d' e i] acknowledge_ok [OF assms(1) ok] e one by (simp add: d' keys_ok_def)
  moreover have "life d i = Some (ep_state e, [f], [fp])" using life_here [OF \<open>wf d\<close> e(1,2)] f one by simp
  moreover have "life d' j = life d j" if "j \<noteq> i" for j
    by (rule life_write_keys [where i = i and P = "\<lambda>_. False" and g = id and K = "\<lambda>k. ?K k \<or> ?R k" and f = "\<lambda>k. if ?K k then ?f k else ?h k"])
      (auto simp: d' both that update_where_none)
  moreover have "map ek_fingerprint (endpoint_keys d') = map ek_fingerprint (endpoint_keys d)"
    "map ek_endpoint_id (endpoint_keys d') = map ek_endpoint_id (endpoint_keys d)"
    by (simp_all add: d' update_where_keys)
  ultimately show thesis using that e(3) \<open>f \<noteq> fp\<close> by blast
qed

lemma acknowledge_life:
  assumes "acknowledge_key now a i fp d = Inr (d', x)" and ok: "keys_ok d"
  shows "life_step\<^sup>=\<^sup>= (life d j) (life d' j)"
  using assms
proof (rule acknowledge_switch)
  fix s f
  assume "s \<in> {EpApproved, EpActive, EpOffline}" "f \<noteq> fp" "life d i = Some (s, [f], [fp])" "life d' i = Some (s, [fp], [])"
    "\<And>j. j \<noteq> i \<Longrightarrow> life d' j = life d j"
  then show ?thesis by (cases "j = i") (simp_all add: life_step.switched)
qed

lemma rotate_life:
  assumes "RotateEndpointKey sha verify now cid i pk sig ip d = Inr (d', fp)" and ok: "keys_ok d"
  shows "life_step\<^sup>=\<^sup>= (life d j) (life d' j)"
proof -
  let ?K = "\<lambda>k. ek_endpoint_id k = i \<and> ek_state k = KeyPendingReview"
  let ?f = "\<lambda>k. k\<lparr>ek_state := KeyRetired, ek_retired_at := Some now\<rparr>"
  define ks where "ks = update_where ?K ?f (endpoint_keys d)"
  define new where "new = new_key sha now i pk"
  from assms(1) obtain e r v where e: "e \<in> set (endpoints d)" "ep_id e = i" "shown_state now e \<notin> {''pending'', ''revoked'', ''expired''}"
    and fresh: "\<forall>x\<in>set ks. \<not> key_clash new x"
    and d': "d' = insert_audit r (insert_event v (d\<lparr>endpoint_keys := ks @ [new]\<rparr>))"
    unfolding ks_def new_def RotateEndpointKey_def Let_def
    by (auto simp del: count_where_pos dest!: find_Some_in split: if_splits)
  from ok have "wf d" by (simp add: keys_ok_def)
  have st: "ep_state e \<in> {EpApproved, EpActive, EpOffline}"
    using e(3) by (cases "ep_state e") (auto simp: shown_state_def split: if_splits)
  show ?thesis
  proof (cases "j = i")
    case True
    from keys_ok_rule [OF ok e(1)] e st have "length (held KeyApproved (endpoint_keys d) i) = 1" by (auto simp: held_length)
    then obtain f where f: "held KeyApproved (endpoint_keys d) i = [f]" by (auto simp: length_Suc_conv)
    have same: "held KeyApproved ks i = held KeyApproved (endpoint_keys d) i"
      unfolding ks_def by (rule held_update) (auto simp: Let_def)
    have none: "held KeyPendingReview ks i = []" unfolding ks_def by (rule held_gone) auto
    have "f \<noteq> ek_fingerprint new"
      using fresh f in_held [of f KeyApproved ks i] unfolding same key_clash_def new_def by (auto simp: new_key_counts)
    moreover have "life (d\<lparr>endpoint_keys := ks @ [new]\<rparr>) i = Some (ep_state e, [f], [ek_fingerprint new])"
      using find_by_key [OF wf_keys(8) [OF \<open>wf d\<close>] e(1)] e(2) same none f by (simp add: life_def new_def new_key_counts)
    ultimately show ?thesis
      using life_here [OF \<open>wf d\<close> e(1,2)] f st by (auto simp: d' True intro: life_step.offered)
  next
    case False
    have "held s (ks @ [new]) j = held s (endpoint_keys d) j" for s
      unfolding ks_def using held_other [of ?K i ?f j s "endpoint_keys d"] False by (simp add: new_def new_key_counts)
    then show ?thesis by (simp add: d' life_def)
  qed
qed

lemma find_appended: "List.find P (t @ u) = (case List.find P t of None \<Rightarrow> List.find P u | Some x \<Rightarrow> Some x)"
  by (induction t) auto

lemma find_delete_where: "(\<And>x. x \<in> set t \<Longrightarrow> P x \<Longrightarrow> \<not> Q x) \<Longrightarrow> List.find Q (delete_where P t) = List.find Q t"
  by (induction t) auto

lemma insert_life:
  assumes "keys_ok d" and "\<forall>x\<in>set (endpoints d). ep_id x \<noteq> ep_id e" and "ek_endpoint_id k = ep_id e"
    and "ep_state e = EpPending \<and> ek_state k = KeyPendingReview \<or> ep_state e = EpApproved \<and> ek_state k = KeyApproved"
  shows "life_step\<^sup>=\<^sup>= (life d j) (life (d\<lparr>endpoints := endpoints d @ [e], endpoint_keys := endpoint_keys d @ [k]\<rparr>) j)"
proof (cases "j = ep_id e")
  case True
  have no: "held s (endpoint_keys d) j = []" for s
    by (rule held_none) (use keys_ok_none [OF assms(1,2)] True in auto)
  have "List.find (\<lambda>x. ep_id x = j) (endpoints d) = None" using assms(2) True by (auto simp: find_None_in)
  then have "List.find (\<lambda>x. ep_id x = j) (endpoints d @ [e]) = Some e" "life d j = None"
    using True by (simp_all add: find_appended life_def)
  moreover from this(1) have "life (d\<lparr>endpoints := endpoints d @ [e], endpoint_keys := endpoint_keys d @ [k]\<rparr>) j
      = Some (ep_state e, held KeyApproved [k] j, held KeyPendingReview [k] j)"
    by (simp add: life_def no)
  ultimately show ?thesis using assms(3,4) True by (auto intro: life_step.intros)
next
  case False
  then have "List.find (\<lambda>x. ep_id x = j) (endpoints d @ [e]) = List.find (\<lambda>x. ep_id x = j) (endpoints d)"
    by (simp add: find_appended split: option.splits)
  then show ?thesis using False assms(3) by (simp add: life_def)
qed

lemma enroll_life:
  assumes "Enroll sha verify now cid rid req d = Inr (d', e)" and ok: "keys_ok d"
  shows "life_step\<^sup>=\<^sup>= (life d j) (life d' j)"
  using assms(1)
proof (rule Enroll_Inr)
  fix t r h d1 d2
  assume e: "e = enrolled_endpoint now (''ep_'' @ rid) req t" and new: "\<forall>x\<in>set (endpoints d). \<not> endpoint_clash e x"
    and d1: "d1 = d\<lparr>endpoints := endpoints d @ [e], endpoint_keys := endpoint_keys d @ [new_key sha now (ep_id e) (er_public_key req)]\<rparr>"
    and d2: "d2 = d1\<lparr>enrollment_tokens := update_where (\<lambda>x. et_id x = et_id t) (\<lambda>x. x\<lparr>et_endpoint_id := ep_id e\<rparr>)
      (update_where (\<lambda>t. et_token_hash t = h \<and> et_consumed_at t = None \<and> et_expires_at t > now) (\<lambda>t. t\<lparr>et_consumed_at := Some now\<rparr>)
        (enrollment_tokens d))\<rparr>" and d': "d' = insert_audit r d2"
  have "life_step\<^sup>=\<^sup>= (life d j) (life d1 j)" unfolding d1
    by (rule insert_life [OF ok]) (use new in \<open>auto simp: e enrolled_endpoint_def new_key_def endpoint_clash_def\<close>)
  then show ?thesis by (simp only: d' d2 life_tables)
qed

lemma local_life:
  assumes "InitializeLocalDocker sha now cid uid suffix pk d = Inr (d', g)" and ok: "keys_ok d"
  shows "life_step\<^sup>=\<^sup>= (life d j) (life d' j)"
proof -
  have "life_step\<^sup>=\<^sup>= (life d0 j) (life d2 j)" if "create_local_endpoint sha now cid uid suffix pk d0 = Inr d2" and ok0: "keys_ok d0" for d0 d2
    using that(1)
  proof (rule create_local_Inr)
    fix d1 e k r
    assume d1: "local_environment uid d0 = Inr d1" and st: "ep_id e = LocalDockerEndpointID" "ep_state e = EpApproved"
      "ek_endpoint_id k = LocalDockerEndpointID" "ek_state k = KeyApproved" and new: "\<forall>x\<in>set (endpoints d1). \<not> endpoint_clash e x"
      and d2: "d2 = insert_audit r (d1\<lparr>endpoints := endpoints d1 @ [e], endpoint_keys := endpoint_keys d1 @ [k]\<rparr>)"
    from d1 have "life d1 = life d0" by (auto simp: local_environment_def split: if_splits)
    moreover have "life_step\<^sup>=\<^sup>= (life d1 j) (life (d1\<lparr>endpoints := endpoints d1 @ [e], endpoint_keys := endpoint_keys d1 @ [k]\<rparr>) j)"
      by (rule insert_life) (use local_environment_ok [OF d1 ok0] new st in \<open>auto simp: endpoint_clash_def\<close>)
    ultimately show "life_step\<^sup>=\<^sup>= (life d0 j) (life d2 j)" by (simp only: d2 life_tables)
  qed
  note create = this [of "d\<lparr>server_settings := server_settings d @ [(''local_docker_initialized'', ''1'')]\<rparr>", unfolded life_tables keys_ok_settings]
  from assms(1) show ?thesis
    unfolding InitializeLocalDocker_def using create [OF _ ok] by (auto split: if_splits)
qed

lemma remove_life:
  assumes "remove_environment a d = Inr (d', x)" and ok: "keys_ok d"
  shows "life_step\<^sup>=\<^sup>= (life d j) (life d' j)"
  using assms(1)
proof (rule remove_environment_Inr)
  fix E V T
  assume d': "d' = (delete_endpoints E d)\<lparr>environments := delete_where V (environments d), enrollment_tokens := delete_where T (enrollment_tokens d)\<rparr>"
    and E: "\<And>e. e \<in> set (endpoints d) \<Longrightarrow> E e \<Longrightarrow> ep_state e = EpRevoked"
  from ok have "wf d" by (simp add: keys_ok_def)
  have d'_life: "life d' j = life (delete_endpoints E d) j" by (simp only: d' life_tables)
  show "life_step\<^sup>=\<^sup>= (life d j) (life d' j)"
  proof (cases "\<exists>e\<in>set (endpoints d). ep_id e = j")
    case False
    then have "life d j = None" "life (delete_endpoints E d) j = None" by (auto simp: life_none delete_endpoints_def Let_def)
    with d'_life show ?thesis by simp
  next
    case True
    then obtain e where e: "e \<in> set (endpoints d)" "ep_id e = j" by blast
    then have only: "x = e" if "x \<in> set (endpoints d)" "ep_id x = j" for x using wf_endpoint_eq [OF \<open>wf d\<close> that(1) e(1)] that(2) by simp
    show ?thesis
    proof (cases "E e")
      case True
      with E e keys_ok_rule [OF ok e(1)] have "life d j = Some (EpRevoked, [], [])"
        using life_here [OF \<open>wf d\<close> e] by (simp add: held_length flip: length_0_conv)
      moreover have "life (delete_endpoints E d) j = None" using True only by (auto simp: life_none delete_endpoints_def Let_def)
      ultimately show ?thesis using d'_life by (simp add: life_step.removed)
    next
      case False
      have keep: "\<not> (\<exists>x\<in>set (endpoints d). E x \<and> ep_id x = j)" using only False by blast
      have "List.find (\<lambda>x. ep_id x = j) (delete_where E (endpoints d)) = List.find (\<lambda>x. ep_id x = j) (endpoints d)"
        using keep by (intro find_delete_where) blast
      moreover have "held s (delete_where (\<lambda>k. \<exists>x\<in>set (endpoints d). E x \<and> ep_id x = ek_endpoint_id k) (endpoint_keys d)) j = held s (endpoint_keys d) j" for s
        unfolding held_def delete_where_def filter_filter using keep by (intro arg_cong [where f = "map ek_fingerprint"] filter_cong) auto
      ultimately have "life (delete_endpoints E d) j = life d j" by (simp add: life_def delete_endpoints_def Let_def)
      with d'_life show ?thesis by simp
    qed
  qed
qed

lemma quiet_life:
  shows "acknowledge_event now a i v d = Inr (d', x) \<Longrightarrow> life d' = life d"
    and "rename_endpoint a i name d = Inr (d', x) \<Longrightarrow> life d' = life d"
    and "set_deploy_namespaces a i ns d = Inr (d', y) \<Longrightarrow> life d' = life d"
    and "create_enrollment_token t d = Inr (d', x) \<Longrightarrow> life d' = life d"
    and "add_environment a name d = Inr (d', z) \<Longrightarrow> life d' = life d"
    and "update_environment a name d = Inr (d', x) \<Longrightarrow> life d' = life d"
    and "RecordEndpointEvent now e sev kind det d = Inr d' \<Longrightarrow> life d' = life d"
    and "SetEndpointCapabilities i cs d = Inr d' \<Longrightarrow> life d' = life d"
    and "life (TouchEndpoint now i d) = life d"
    and "life (RecordAgentConnect now cid e ip result det d) = life d"
proof -
  show "life d' = life d" if "SetEndpointCapabilities i cs d = Inr d'"
    using that unfolding SetEndpointCapabilities_def
    by (auto elim!: each_invariant [where P = "\<lambda>s. life s = life d"] simp: insert_capability_def split: if_splits)
qed (auto simp: acknowledge_event_def rename_endpoint_def set_deploy_namespaces_def create_enrollment_token_def
    add_environment_def update_environment_def RecordEndpointEvent_def TouchEndpoint_def RecordAgentConnect_def Let_def
    intro!: life_same_state split: if_splits)

lemma report_life:
  assumes "wf d"
  shows "life_step\<^sup>=\<^sup>= (life d j) (life (fst (AcceptInventory now i r d)) j)"
    and "life_step\<^sup>=\<^sup>= (life d j) (life (MarkEndpointOffline i d) j)"
proof -
  have one: "life_step\<^sup>=\<^sup>= (life d j) (life (d\<lparr>endpoints := update_where P g (endpoints d)\<rparr>) j)"
    if id: "\<And>e. P e \<Longrightarrow> ep_id (g e) = ep_id e"
      and st: "\<And>e fs gs. P e \<Longrightarrow> life_step\<^sup>=\<^sup>= (Some (ep_state e, fs, gs)) (Some (ep_state (g e), fs, gs))" for P g
  proof -
    have "List.find (\<lambda>e. ep_id e = j) (update_where P g (endpoints d)) = map_option (\<lambda>r. if P r then g r else r) (List.find (\<lambda>e. ep_id e = j) (endpoints d))"
      by (rule find_update_where) (use id in auto)
    then show ?thesis using st by (cases "List.find (\<lambda>e. ep_id e = j) (endpoints d)") (auto simp: life_def)
  qed
  let ?P = "\<lambda>e. ep_id e = i \<and> ep_state e \<in> {EpApproved, EpActive, EpOffline} \<and> ep_inventory_generation e < rep_generation r"
  let ?g = "\<lambda>e. e\<lparr>ep_inventory_generation := rep_generation r, ep_last_seen_at := Some now,
    ep_state := (if ep_state e \<in> {EpApproved, EpOffline} then EpActive else ep_state e)\<rparr>"
  have "life_step\<^sup>=\<^sup>= (life d j) (life (d\<lparr>endpoints := update_where ?P ?g (endpoints d)\<rparr>) j)"
    by (rule one) (auto intro: life_step.reported)
  then show "life_step\<^sup>=\<^sup>= (life d j) (life (fst (AcceptInventory now i r d)) j)"
    by (simp add: AcceptInventory_def Let_def)
  show "life_step\<^sup>=\<^sup>= (life d j) (life (MarkEndpointOffline i d) j)"
    unfolding MarkEndpointOffline_def by (rule one) (auto intro: life_step.silent)
qed

lemma runAs_life:
  assumes "\<And>d' x. snd (op d) = Inr (d', x) \<Longrightarrow> life_step\<^sup>=\<^sup>= (life d j) (life d' j)"
  shows "life_step\<^sup>=\<^sup>= (life d j) (life (fst (runAs now cid a action name target lock op d)) j)"
  by (rule runAs_invariant [where P = "\<lambda>d'. life_step\<^sup>=\<^sup>= (life d j) (life d' j)"]) (use assms in auto)

lemma runAs_quiet:
  assumes "\<And>d' x. snd (op d) = Inr (d', x) \<Longrightarrow> life d' = life d"
  shows "life (fst (runAs now cid a action name target lock op d)) = life d"
  by (rule runAs_invariant [where P = "\<lambda>d'. life d' = life d"]) (use assms in auto)

lemma tenant_life:
  assumes ok: "keys_ok d"
  shows "life_step\<^sup>=\<^sup>= (life d j) (life (fst (ApproveEndpoint now cid a i fp d)) j)"
    and "life_step\<^sup>=\<^sup>= (life d j) (life (fst (RejectEndpoint now cid a i d)) j)"
    and "life_step\<^sup>=\<^sup>= (life d j) (life (fst (RevokeEndpoint now cid a i d)) j)"
    and "life_step\<^sup>=\<^sup>= (life d j) (life (fst (AcknowledgeEndpointKey now cid a i fp d)) j)"
    and "life_step\<^sup>=\<^sup>= (life d j) (life (fst (RemoveEnvironment now cid a d)) j)"
  unfolding ApproveEndpoint_def RejectEndpoint_def RevokeEndpoint_def AcknowledgeEndpointKey_def RemoveEnvironment_def tenant_run_defs
  by (rule runAs_life, unfold snd_keep, erule approve_life [OF _ ok] terminate_life [OF _ ok] acknowledge_life [OF _ ok] remove_life [OF _ ok]; simp)+

lemma tenant_quiet:
  shows "life (fst (RenameEndpoint now cid a i name d)) = life d"
    and "life (fst (SetEndpointDeployNamespaces now cid a i ns d)) = life d"
    and "life (fst (CreateEnrollmentToken sha now cid uid secret a runtime img ns d)) = life d"
    and "life (fst (AcknowledgeEndpointEvent now cid a i v d)) = life d"
    and "life (fst (AddEnvironment now cid uid a name d)) = life d"
    and "life (fst (UpdateEnvironment now cid a name d)) = life d"
proof -
  have "life (fst (withTenantTarget now cid a EndpointEnroll uid (create_enrollment_token t) d)) = life d" for t
    unfolding tenant_run_defs by (rule runAs_quiet) (auto dest: quiet_life(1-6))
  then show "life (fst (CreateEnrollmentToken sha now cid uid secret a runtime img ns d)) = life d"
    unfolding CreateEnrollmentToken_def Let_def by (auto split: sum.splits prod.splits) (metis fst_conv)+
  show "life (fst (SetEndpointDeployNamespaces now cid a i ns d)) = life d"
    unfolding SetEndpointDeployNamespaces_def tenant_run_defs by (auto split: sum.splits intro!: runAs_quiet dest: quiet_life(1-6))
qed (unfold RenameEndpoint_def AcknowledgeEndpointEvent_def AddEnvironment_def UpdateEnvironment_def tenant_run_defs Let_def,
    (rule runAs_quiet, auto dest: quiet_life(1-6))+)

lemma life_refl: "life_step\<^sup>=\<^sup>= l l"
  by simp

lemma endpoint_step_life:
  assumes "endpoint_step sha verify d d'" and ok: "keys_ok d"
  shows "life_step\<^sup>=\<^sup>= (life d j) (life d' j)"
proof -
  from ok have "wf d" by (simp add: keys_ok_def)
  from assms(1) show ?thesis
  proof cases
  qed (simp_all only: tenant_life [OF ok] tenant_quiet quiet_life(9,10) report_life [OF \<open>wf d\<close>] life_refl,
      (rule enroll_life [OF _ ok] rotate_life [OF _ ok] local_life [OF _ ok], assumption | simp add: quiet_life(7,8))+)
qed

lemmas endpoints_reach = endpoints.reach_inv [unfolded endpoints_ok_def]

end
