(* ===== verification/EndpointTrust.thy ===== *)
theory EndpointTrust
  imports EndpointLife
begin

text \<open>
  What the transition system of the endpoints promises: the refinement of the abstract life, who may
  speak as an endpoint, what a rotation and a revocation change, and how rows are typed.
\<close>

subsection \<open>A sample yard\<close>

text \<open>The initial organization with an administrator, its local endpoint, and a rotated key on offer.\<close>

definition sample_yard :: db where
  "sample_yard = empty_db\<lparr>users := [sample_user ''alice''],
     organizations := [\<lparr>o_id = InitialOrganizationID, o_name = ''Home'', o_created_at = 0\<rparr>],
     memberships := [\<lparr>m_organization_id = InitialOrganizationID, m_user_id = ''alice'', m_role = RoleOrganizationAdmin, m_status = ''active''\<rparr>]\<rparr>"

definition yard_key :: string where "yard_key = replicate 32 CHR ''k''"
definition yard_next :: string where "yard_next = replicate 32 CHR ''n''"
definition yard_signature :: string where "yard_signature = replicate 64 CHR ''s''"

definition local_yard :: db where
  "local_yard = fst (projr (InitializeLocalDocker (\<lambda>s. s) 0 ''c'' ''env'' ''x'' yard_key sample_yard))"

definition offered_yard :: db where
  "offered_yard = fst (projr (RotateEndpointKey (\<lambda>s. s) (\<lambda>_ _ _. True) 5 ''c'' LocalDockerEndpointID yard_next yard_signature '''' local_yard))"

abbreviation yard_access :: TenantAccess where "yard_access \<equiv> sample_access InitialOrganizationID ''alice''"

lemma yard_lengths: "length yard_key = PublicKeySize" "length yard_next = PublicKeySize" "length yard_signature = SignatureSize"
  "yard_next \<noteq> yard_key" "PublicKeySize = 32"
  by (simp_all add: yard_key_def yard_next_def yard_signature_def PublicKeySize_def SignatureSize_def)

lemmas yard_simps = InitializeLocalDocker_def create_local_endpoint_def local_environment_def sample_yard_def empty_db_def
  local_name_def local_endpoint_def new_key_def Let_def insert_row_def insert_audit_def yard_lengths RuntimeDocker_def

lemma decoded_prefix_DecodeString: "DecodeString s = Some t \<Longrightarrow> decoded_prefix s = t"
  by (induction s arbitrary: t rule: DecodeString.induct) (auto split: option.splits)

lemma EncodeToString_inject [simp]: "EncodeToString s = EncodeToString t \<longleftrightarrow> s = t"
  using DecodeString_EncodeToString by (metis option.inject)

lemma decoded_prefix_EncodeToString [simp]: "decoded_prefix (EncodeToString s) = s"
  by (rule decoded_prefix_DecodeString, rule DecodeString_EncodeToString)

lemma local_yard_run: "InitializeLocalDocker (\<lambda>s. s) 0 ''c'' ''env'' ''x'' yard_key sample_yard = Inr (local_yard, 0)"
  unfolding local_yard_def by (simp add: yard_simps)

lemma offered_yard_run:
  "RotateEndpointKey (\<lambda>s. s) (\<lambda>_ _ _. True) 5 ''c'' LocalDockerEndpointID yard_next yard_signature '''' local_yard
     = Inr (offered_yard, Fingerprint (\<lambda>s. s) yard_next)"
  unfolding offered_yard_def local_yard_def
  by (simp add: yard_simps RotateEndpointKey_def shown_state_def key_clash_def VerifyRotation_def Fingerprint_def)

lemma local_yard_reach: "reach endpoint_init (endpoint_step (\<lambda>s. s) (\<lambda>_ _ _. True)) local_yard"
proof (rule reach_step [OF reach_init])
  show "endpoint_init sample_yard" by (simp add: endpoint_init_def sample_yard_def wf_def empty_db_def)
qed (rule endpoint_step.local [OF local_yard_run])

lemma offered_yard_step: "endpoint_step (\<lambda>s. s) (\<lambda>_ _ _. True) local_yard offered_yard"
  by (rule endpoint_step.rotate, rule offered_yard_run)

lemma offered_yard_reach: "reach endpoint_init (endpoint_step (\<lambda>s. s) (\<lambda>_ _ _. True)) offered_yard"
  by (rule reach_step [OF local_yard_reach offered_yard_step])

lemma yard_lives:
  "life local_yard LocalDockerEndpointID = Some (EpApproved, [Fingerprint (\<lambda>s. s) yard_key], [])"
  "life offered_yard LocalDockerEndpointID = Some (EpApproved, [Fingerprint (\<lambda>s. s) yard_key], [Fingerprint (\<lambda>s. s) yard_next])"
  unfolding offered_yard_def local_yard_def
  by (simp_all add: yard_simps RotateEndpointKey_def shown_state_def key_clash_def VerifyRotation_def Fingerprint_def
    life_def insert_event_def)

subsection \<open>The abstract life\<close>

text \<open>
  C5. Every step of the store on endpoints is a step of the abstract life of each endpoint, or leaves
  that endpoint alone. Whatever administrators, agents and start-up helpers do in a reachable state,
  an endpoint is enrolled with one offered key, approved by promoting exactly that key, trusted
  through exactly one approved key while it lives, re-keyed only by acknowledging the one key on
  offer, and left with no usable key when it is rejected or revoked, after which it can only be removed.
\<close>

theorem endpoint_life_refined:
  assumes "reach endpoint_init (endpoint_step sha verify) d" and "endpoint_step sha verify d d'"
  shows "life_step\<^sup>=\<^sup>= (life d i) (life d' i)"
  using endpoint_step_life [OF assms(2)] endpoints_reach [OF assms(1)] by blast

theorem endpoint_life_refined_witness:
  "reach endpoint_init (endpoint_step (\<lambda>s. s) (\<lambda>_ _ _. True)) local_yard
   \<and> endpoint_step (\<lambda>s. s) (\<lambda>_ _ _. True) local_yard offered_yard
   \<and> life_step\<^sup>=\<^sup>= (life local_yard LocalDockerEndpointID) (life offered_yard LocalDockerEndpointID)
   \<and> life offered_yard LocalDockerEndpointID
     = Some (EpApproved, [Fingerprint (\<lambda>s. s) yard_key], [Fingerprint (\<lambda>s. s) yard_next])"
  using endpoint_life_refined [OF local_yard_reach offered_yard_step] local_yard_reach offered_yard_step yard_lives by blast

subsection \<open>Who speaks as an endpoint\<close>

lemma held_find:
  assumes "wf d" and "k \<in> set (endpoint_keys d)" and "ek_endpoint_id k = i"
  shows "List.find (\<lambda>x. ek_endpoint_id x = i \<and> ek_fingerprint x = ek_fingerprint k) (endpoint_keys d) = Some k"
  using find_by_key [OF wf_keys(10) [OF assms(1)] assms(2)] assms(3) by simp

lemma AgentIdentity_Inr:
  assumes "AgentIdentity now i fp d = Inr x"
  obtains k where "ai_endpoint x \<in> set (endpoints d)" and "ep_id (ai_endpoint x) = i" and "ep_state (ai_endpoint x) \<noteq> EpRevoked"
    and "ep_state (ai_endpoint x) = EpPending \<longrightarrow> now - ep_created_at (ai_endpoint x) \<le> pendingEndpointLife"
    and "k \<in> set (endpoint_keys d)" and "ek_endpoint_id k = i" and "ek_fingerprint k = fp"
    and "ek_state k = KeyApproved \<or> ep_state (ai_endpoint x) = EpPending \<and> ek_state k = KeyPendingReview"
    and "DecodeString (ek_public_key k) = Some (ai_public_key x)" and "ai_fingerprint x = fp"
proof -
  from assms obtain e k where e: "List.find (\<lambda>e. ep_id e = i) (endpoints d) = Some e" "shown_state now e \<notin> {''revoked'', ''expired''}"
    and k: "List.find (\<lambda>k. ek_endpoint_id k = i \<and> ek_fingerprint k = fp) (endpoint_keys d) = Some k"
    and st: "ek_state k = KeyApproved \<or> ep_state e = EpPending \<and> ek_state k = KeyPendingReview"
    and dec: "DecodeString (ek_public_key k) = Some (ai_public_key x)" and x: "ai_endpoint x = e" "ai_fingerprint x = fp"
    unfolding AgentIdentity_def by (auto split: if_splits)
  show thesis
    by (rule that [of k]) (use find_Some_in [OF e(1)] find_Some_in [OF k] e(2) st dec x in \<open>auto simp: shown_state_def split: if_splits\<close>)
qed

text \<open>
  C6. Only one key speaks as an endpoint. In every reachable state, when an agent is identified by a
  fingerprint, the endpoint exists, is not revoked and not an expired enrollment; the fingerprint is that
  of its one approved key, or while the enrollment is under review of the one key it enrolled with; and the
  public key handed to the handshake is the one whose digest that fingerprint is. A stored key always decodes.
\<close>

theorem agent_identity_sound:
  assumes "reach endpoint_init (endpoint_step sha verify) d"
  shows "case AgentIdentity now i fp d of
      Inr x \<Rightarrow> \<exists>s as ps. life d i = Some (s, as, ps) \<and> s \<noteq> EpRevoked
        \<and> (if s = EpPending then as = [] \<and> ps = [fp] \<and> now - ep_created_at (ai_endpoint x) \<le> pendingEndpointLife else as = [fp])
        \<and> Fingerprint sha (ai_public_key x) = fp
    | Inl e \<Rightarrow> e \<in> {ErrNotFound, ErrForbidden, ErrKeyPendingReview, ErrKeyRetired}"
proof -
  from endpoints_reach [OF assms] have ok: "keys_ok d" and rec: "records_ok sha d" by blast+
  then have "wf d" by (simp add: keys_ok_def)
  have genuine: "key_genuine sha k" if "k \<in> set (endpoint_keys d)" for k
    using records_ok_parts(1) [OF rec] that by (simp add: list_all_iff)
  show ?thesis
  proof (cases "AgentIdentity now i fp d")
    case (Inl e)
    have "DecodeString (ek_public_key k) \<noteq> None" if "k \<in> set (endpoint_keys d)" for k
      using genuine [OF that] by (auto simp: key_genuine_def)
    with Inl show ?thesis unfolding AgentIdentity_def
      by (auto simp: and_then_def row_or_def dest!: find_Some_in split: if_splits option.splits) force+
  next
    case (Inr x)
    then obtain k where e: "ai_endpoint x \<in> set (endpoints d)" "ep_id (ai_endpoint x) = i" "ep_state (ai_endpoint x) \<noteq> EpRevoked"
      "ep_state (ai_endpoint x) = EpPending \<longrightarrow> now - ep_created_at (ai_endpoint x) \<le> pendingEndpointLife"
      and k: "k \<in> set (endpoint_keys d)" "ek_endpoint_id k = i" "ek_fingerprint k = fp"
      and st: "ek_state k = KeyApproved \<or> ep_state (ai_endpoint x) = EpPending \<and> ek_state k = KeyPendingReview"
      and pk: "DecodeString (ek_public_key k) = Some (ai_public_key x)" by (rule AgentIdentity_Inr)
    let ?A = "held KeyApproved (endpoint_keys d) i" and ?P = "held KeyPendingReview (endpoint_keys d) i"
    from keys_ok_rule [OF ok e(1)] e(2) have rule: "key_rule (ep_state (ai_endpoint x)) (length ?A) (length ?P)" by (simp add: held_length)
    from k st have "fp \<in> set ?A \<or> ep_state (ai_endpoint x) = EpPending \<and> fp \<in> set ?P" by (auto simp: in_held)
    with rule e(3) have "if ep_state (ai_endpoint x) = EpPending then ?A = [] \<and> ?P = [fp] else ?A = [fp]"
      by (cases "ep_state (ai_endpoint x)") (auto simp: length_Suc_conv le_Suc_eq)
    moreover have "Fingerprint sha (ai_public_key x) = fp" using genuine [OF k(1)] pk k(3) by (simp add: key_genuine_def)
    ultimately show ?thesis using life_here [OF \<open>wf d\<close> e(1,2)] e(3,4) Inr by auto
  qed
qed

theorem agent_identity_sound_witness:
  "reach endpoint_init (endpoint_step (\<lambda>s. s) (\<lambda>_ _ _. True)) local_yard
   \<and> (\<exists>x. AgentIdentity 7 LocalDockerEndpointID (Fingerprint (\<lambda>s. s) yard_key) local_yard = Inr x
        \<and> Fingerprint (\<lambda>s. s) (ai_public_key x) = Fingerprint (\<lambda>s. s) yard_key)"
proof -
  have "\<not> isl (AgentIdentity 7 LocalDockerEndpointID (Fingerprint (\<lambda>s. s) yard_key) local_yard)"
    unfolding local_yard_def by (simp add: yard_simps AgentIdentity_def shown_state_def DecodeString_EncodeToString)
  then obtain x where x: "AgentIdentity 7 LocalDockerEndpointID (Fingerprint (\<lambda>s. s) yard_key) local_yard = Inr x"
    by (cases "AgentIdentity 7 LocalDockerEndpointID (Fingerprint (\<lambda>s. s) yard_key) local_yard") auto
  with agent_identity_sound [OF local_yard_reach, where now = 7 and i = LocalDockerEndpointID and fp = "Fingerprint (\<lambda>s. s) yard_key"]
    local_yard_reach
  show ?thesis by auto
qed

subsection \<open>Rotation\<close>

lemma life_Some:
  assumes "wf d" and "life d i = Some (s, as, ps)"
  obtains e where "e \<in> set (endpoints d)" and "ep_id e = i" and "ep_state e = s" and "List.find (\<lambda>e. ep_id e = i) (endpoints d) = Some e"
    and "as = held KeyApproved (endpoint_keys d) i" and "ps = held KeyPendingReview (endpoint_keys d) i"
  using assms(2) by (auto simp: life_def dest: find_Some_in)

lemma identity_cases:
  assumes ok: "endpoints_ok sha d" and life: "life d i = Some (s, as, ps)" and live: "s \<in> {EpApproved, EpActive, EpOffline}"
    and k: "k \<in> set (endpoint_keys d)" "ek_endpoint_id k = i"
  shows "ek_fingerprint k \<in> set as \<Longrightarrow> \<exists>x. AgentIdentity t i (ek_fingerprint k) d = Inr x \<and> Fingerprint sha (ai_public_key x) = ek_fingerprint k"
    and "ek_fingerprint k \<notin> set as \<Longrightarrow> AgentIdentity t i (ek_fingerprint k) d \<in> {Inl ErrKeyPendingReview, Inl ErrKeyRetired}"
    and "ek_fingerprint k \<notin> set as \<union> set ps \<Longrightarrow> AgentIdentity t i (ek_fingerprint k) d = Inl ErrKeyRetired"
proof -
  from ok have "wf d" and rec: "records_ok sha d" by (simp_all add: endpoints_ok_def keys_ok_def)
  obtain e where e: "ep_state e = s" "List.find (\<lambda>e. ep_id e = i) (endpoints d) = Some e"
    and as: "as = held KeyApproved (endpoint_keys d) i" and ps: "ps = held KeyPendingReview (endpoint_keys d) i"
    using life_Some [OF \<open>wf d\<close> life] by blast
  have "key_genuine sha k" using records_ok_parts(1) [OF rec] k(1) by (simp add: list_all_iff)
  then obtain pk where pk: "DecodeString (ek_public_key k) = Some pk" "Fingerprint sha pk = ek_fingerprint k" by (auto simp: key_genuine_def)
  note find = held_find [OF \<open>wf d\<close> k]
  have open_state: "shown_state t e \<notin> {''revoked'', ''expired''}" "ep_state e \<noteq> EpPending" using live e(1) by (auto simp: shown_state_def)
  have app: "ek_state k = KeyApproved" if "ek_fingerprint k \<in> set as"
  proof -
    from that obtain r where "r \<in> set (endpoint_keys d)" "ek_endpoint_id r = i" "ek_state r = KeyApproved" "ek_fingerprint r = ek_fingerprint k"
      by (auto simp: as in_held)
    with distinct_map_eq [OF wf_keys(10) [OF \<open>wf d\<close>] _ k(1)] k(2) show ?thesis by auto
  qed
  show "\<exists>x. AgentIdentity t i (ek_fingerprint k) d = Inr x \<and> Fingerprint sha (ai_public_key x) = ek_fingerprint k" if "ek_fingerprint k \<in> set as"
    using app [OF that] open_state by (simp add: AgentIdentity_def e(2) find pk)
  have na: "ek_state k \<noteq> KeyApproved" if "ek_fingerprint k \<notin> set as" using that k by (auto simp: as in_held)
  show "AgentIdentity t i (ek_fingerprint k) d \<in> {Inl ErrKeyPendingReview, Inl ErrKeyRetired}" if "ek_fingerprint k \<notin> set as"
    using na [OF that] open_state by (simp add: AgentIdentity_def e(2) find)
  show "AgentIdentity t i (ek_fingerprint k) d = Inl ErrKeyRetired" if "ek_fingerprint k \<notin> set as \<union> set ps"
  proof -
    have "ek_state k \<noteq> KeyPendingReview" using that k by (auto simp: ps in_held)
    with na that open_state show ?thesis by (simp add: AgentIdentity_def e(2) find)
  qed
qed

lemma tenant_write:
  assumes "withTenantTarget now cid a action target f d = (d', Inr x)"
  obtains d1 r where "f d = Inr (d1, x)" and "d' = insert_audit r d1"
  using assms unfolding withTenantTarget_def run_def by (elim runAs_success) (auto simp: keep_def)

text \<open>
  C7. Acknowledging a rotation hands the endpoint from one key to the other at once. In a reachable
  state, when an administrator acknowledges a fingerprint the endpoint had exactly one other approved
  key; until then the new key was refused as not yet reviewed or retired, and from then on, at every
  instant, the old key is refused as retired while the new one identifies the endpoint with the public
  key it is the digest of.
\<close>

theorem rotation_switches_keys:
  assumes "reach endpoint_init (endpoint_step sha verify) d"
    and "AcknowledgeEndpointKey now cid a i fp d = (d', Inr ())"
  shows "\<exists>s old. life d i = Some (s, [old], [fp]) \<and> life d' i = Some (s, [fp], []) \<and> old \<noteq> fp
    \<and> (\<forall>t. AgentIdentity t i fp d \<in> {Inl ErrKeyPendingReview, Inl ErrKeyRetired})
    \<and> (\<forall>t. AgentIdentity t i old d' = Inl ErrKeyRetired)
    \<and> (\<forall>t. \<exists>x. AgentIdentity t i fp d' = Inr x \<and> Fingerprint sha (ai_public_key x) = fp)"
proof -
  from endpoints_reach [OF assms(1)] have ok: "endpoints_ok sha d" and keys: "keys_ok d" by (auto simp: endpoints_ok_def)
  from assms(2) have "d' = fst (AcknowledgeEndpointKey now cid a i fp d)" by simp
  then have ok': "endpoints_ok sha d'" using review_ops_ok(5) [OF ok] by simp
  obtain d1 r where d1: "acknowledge_key now a i fp d = Inr (d1, ())" and d': "d' = insert_audit r d1"
    using assms(2) unfolding AcknowledgeEndpointKey_def by (rule tenant_write)
  obtain s old where s: "s \<in> {EpApproved, EpActive, EpOffline}" "old \<noteq> fp" "life d i = Some (s, [old], [fp])" "life d1 i = Some (s, [fp], [])"
    and ks: "map ek_fingerprint (endpoint_keys d1) = map ek_fingerprint (endpoint_keys d)"
      "map ek_endpoint_id (endpoint_keys d1) = map ek_endpoint_id (endpoint_keys d)"
    using acknowledge_switch [OF d1 keys] by metis
  have life': "life d' i = Some (s, [fp], [])" by (simp add: d' s)
  have split: "map (\<lambda>k. (ek_endpoint_id k, ek_fingerprint k)) t = zip (map ek_endpoint_id t) (map ek_fingerprint t)" for t
    by (induction t) auto
  have "endpoint_keys d' = endpoint_keys d1" by (simp add: d' insert_audit_def)
  then have pair: "map (\<lambda>k. (ek_endpoint_id k, ek_fingerprint k)) (endpoint_keys d') = map (\<lambda>k. (ek_endpoint_id k, ek_fingerprint k)) (endpoint_keys d)"
    unfolding split ks [symmetric] by simp
  have key: "\<exists>k\<in>set (endpoint_keys x). ek_endpoint_id k = i \<and> ek_fingerprint k = f"
    if "f \<in> {old, fp}" "x \<in> {d, d'}" for f x
  proof -
    from keys have "wf d" by (simp add: keys_ok_def)
    from life_Some [OF this s(3)] have "[old] = held KeyApproved (endpoint_keys d) i" "[fp] = held KeyPendingReview (endpoint_keys d) i" by metis+
    then have "f \<in> set (held KeyApproved (endpoint_keys d) i) \<or> f \<in> set (held KeyPendingReview (endpoint_keys d) i)"
      using that(1) by (metis insertE list.set_intros(1) singletonD)
    then have "(i, f) \<in> set (map (\<lambda>k. (ek_endpoint_id k, ek_fingerprint k)) (endpoint_keys d))"
      unfolding in_held by auto
    moreover have "map (\<lambda>k. (ek_endpoint_id k, ek_fingerprint k)) (endpoint_keys x) = map (\<lambda>k. (ek_endpoint_id k, ek_fingerprint k)) (endpoint_keys d)"
      using pair that(2) by blast
    ultimately have "(i, f) \<in> set (map (\<lambda>k. (ek_endpoint_id k, ek_fingerprint k)) (endpoint_keys x))" by simp
    then show ?thesis by auto
  qed
  have "AgentIdentity t i fp d \<in> {Inl ErrKeyPendingReview, Inl ErrKeyRetired}" for t
    using key [of fp d] identity_cases(2) [OF ok s(3,1)] s(2) by force
  moreover have "AgentIdentity t i old d' = Inl ErrKeyRetired" for t
    using key [of old d'] identity_cases(3) [OF ok' life' s(1)] s(2) by force
  moreover have "\<exists>x. AgentIdentity t i fp d' = Inr x \<and> Fingerprint sha (ai_public_key x) = fp" for t
    using key [of fp d'] identity_cases(1) [OF ok' life' s(1)] by force
  ultimately show ?thesis using s life' by blast
qed

lemma yard_authorized:
  "authorize d yard_access EndpointEnroll = Inr ()" "authorize d yard_access EndpointRevoke = Inr ()"
  if "users d = users sample_yard" "memberships d = memberships sample_yard" "organizations d = organizations sample_yard" for d
  using that by (simp_all add: authorize_def principalRole_def sample_access_def sample_yard_def sample_user_def empty_db_def Allows_def
    RoleOrganizationAdmin_def organization_admin_actions_def)

lemmas offered_simps = yard_simps RotateEndpointKey_def shown_state_def key_clash_def VerifyRotation_def Fingerprint_def insert_event_def endpoint_event_def

lemma yard_tables [simp]:
  "users local_yard = users sample_yard" "memberships local_yard = memberships sample_yard" "organizations local_yard = organizations sample_yard"
  "users offered_yard = users sample_yard" "memberships offered_yard = memberships sample_yard" "organizations offered_yard = organizations sample_yard"
  unfolding offered_yard_def local_yard_def by (simp_all add: offered_simps)

lemma yard_access_simps [simp]: "OrganizationID yard_access = InitialOrganizationID" "ActorID yard_access = ''alice''"
  by (simp_all add: sample_access_def)

lemma yard_org: "InitialOrganizationID \<noteq> []"
  by (simp add: InitialOrganizationID_def)

lemma yard_acknowledge:
  "\<exists>d'. AcknowledgeEndpointKey 6 ''c'' yard_access LocalDockerEndpointID (Fingerprint (\<lambda>s. s) yard_next) offered_yard = (d', Inr ())"
proof -
  let ?f = "acknowledge_key 6 yard_access LocalDockerEndpointID (Fingerprint (\<lambda>s. s) yard_next)"
  have "\<not> isl (?f offered_yard)"
    unfolding offered_yard_def local_yard_def by (simp add: offered_simps acknowledge_key_def pendingKeyLife_def)
  then obtain d1 where "?f offered_yard = Inr (d1, ())" by (cases "?f offered_yard") auto
  then have "\<exists>r. withTenantTarget 6 ''c'' yard_access EndpointEnroll LocalDockerEndpointID ?f offered_yard = (insert_audit r d1, Inr ())"
    by (intro withTenant_answers(2)) (simp_all add: yard_authorized yard_org)
  then show ?thesis unfolding AcknowledgeEndpointKey_def by blast
qed

theorem rotation_switches_keys_witness:
  "\<exists>d'. reach endpoint_init (endpoint_step (\<lambda>s. s) (\<lambda>_ _ _. True)) offered_yard
   \<and> AcknowledgeEndpointKey 6 ''c'' yard_access LocalDockerEndpointID (Fingerprint (\<lambda>s. s) yard_next) offered_yard = (d', Inr ())
   \<and> AgentIdentity 9 LocalDockerEndpointID (Fingerprint (\<lambda>s. s) yard_key) d' = Inl ErrKeyRetired"
proof -
  obtain d' where d': "AcknowledgeEndpointKey 6 ''c'' yard_access LocalDockerEndpointID (Fingerprint (\<lambda>s. s) yard_next) offered_yard = (d', Inr ())"
    using yard_acknowledge by blast
  from rotation_switches_keys [OF offered_yard_reach d'] yard_lives(2)
  have "AgentIdentity 9 LocalDockerEndpointID (Fingerprint (\<lambda>s. s) yard_key) d' = Inl ErrKeyRetired" by auto
  with offered_yard_reach d' show ?thesis by blast
qed

subsection \<open>Revocation\<close>

lemma not_live_refused:
  assumes "wf d" and "life d i \<in> {None, Some (EpRevoked, [], [])}"
  shows "AgentIdentity t i fp d = Inl (if life d i = None then ErrNotFound else ErrForbidden)"
    and "length pk = 32 \<Longrightarrow> RotateEndpointKey sha verify t cid i pk sig ip d = Inl ErrForbidden"
    and "fst (AcceptInventory t i r d) = d \<and> snd (AcceptInventory t i r d) \<in> {Inl ErrInvalid, Inr False}"
proof -
  have e: "case List.find (\<lambda>e. ep_id e = i) (endpoints d) of None \<Rightarrow> life d i = None | Some e \<Rightarrow> life d i \<noteq> None \<and> ep_state e = EpRevoked"
    using assms(2) by (auto simp: life_def split: option.splits)
  then show "AgentIdentity t i fp d = Inl (if life d i = None then ErrNotFound else ErrForbidden)"
    by (auto simp: AgentIdentity_def shown_state_def split: option.splits)
  show "RotateEndpointKey sha verify t cid i pk sig ip d = Inl ErrForbidden" if "length pk = 32"
    using e that by (auto simp: RotateEndpointKey_def shown_state_def split: option.splits)
  have "ep_state e = EpRevoked" if "e \<in> set (endpoints d)" "ep_id e = i" for e
    using life_here [OF assms(1) that] assms(2) by auto
  then have "count_where (\<lambda>e. ep_id e = i \<and> ep_state e \<in> {EpApproved, EpActive, EpOffline} \<and> ep_inventory_generation e < rep_generation r) (endpoints d) = 0"
    by auto
  then show "fst (AcceptInventory t i r d) = d \<and> snd (AcceptInventory t i r d) \<in> {Inl ErrInvalid, Inr False}"
    unfolding AcceptInventory_def Let_def by (simp del: count_where_0)
qed

lemma dead_life:
  assumes "keys_ok d" and "life d i = Some (EpRevoked, as, ps)"
  shows "life d i = Some (EpRevoked, [], [])"
proof -
  from assms(1) have "wf d" by (simp add: keys_ok_def)
  from life_Some [OF this assms(2)] obtain e where e: "e \<in> set (endpoints d)" "ep_id e = i" "ep_state e = EpRevoked"
    "as = held KeyApproved (endpoint_keys d) i" "ps = held KeyPendingReview (endpoint_keys d) i" by metis
  with keys_ok_rule [OF assms(1) e(1)] assms(2) show ?thesis by (simp add: held_length flip: length_0_conv)
qed

lemma dead_stays_dead:
  assumes "(\<lambda>x y. endpoint_step sha verify x y \<and> (life x i = None \<longrightarrow> life y i = None))\<^sup>*\<^sup>* d d'"
    and "endpoints_ok sha d" and "life d i \<in> {None, Some (EpRevoked, [], [])}"
  shows "endpoints_ok sha d' \<and> life d' i \<in> {None, Some (EpRevoked, [], [])}"
  using assms
proof (induction rule: rtranclp_induct)
  case (step y z)
  then have ok: "endpoints_ok sha y" and life: "life y i \<in> {None, Some (EpRevoked, [], [])}"
    and st: "endpoint_step sha verify y z" "life y i = None \<longrightarrow> life z i = None" by blast+
  from endpoint_step_life [OF st(1), of i] ok have "life_step\<^sup>=\<^sup>= (life y i) (life z i)" by (simp add: endpoints_ok_def)
  with life st(2) have "life z i \<in> {None, Some (EpRevoked, [], [])}" by (auto simp: life_step_revoked)
  with endpoint_step_ok [OF st(1) ok] show ?case by blast
qed simp

text \<open>
  C8. Revocation is final. From a reachable state in which an endpoint is revoked, after any further
  operations on endpoints that do not enroll a new endpoint under the same identifier, no fingerprint
  identifies it, no key can be rotated in for it and no inventory report of it changes the database.
\<close>

theorem revocation_is_final:
  assumes "reach endpoint_init (endpoint_step sha verify) d" and "life d i = Some (EpRevoked, as, ps)"
    and "(\<lambda>x y. endpoint_step sha verify x y \<and> (life x i = None \<longrightarrow> life y i = None))\<^sup>*\<^sup>* d d'"
  shows "AgentIdentity t i fp d' \<in> {Inl ErrForbidden, Inl ErrNotFound}
    \<and> (length pk = 32 \<longrightarrow> RotateEndpointKey sha verify t cid i pk sig ip d' = Inl ErrForbidden)
    \<and> fst (AcceptInventory t i r d') = d'"
proof -
  from endpoints_reach [OF assms(1)] have ok: "endpoints_ok sha d" and keys: "keys_ok d" by (auto simp: endpoints_ok_def)
  with dead_stays_dead [OF assms(3) ok] dead_life [OF keys assms(2)] have ok': "endpoints_ok sha d'" and life: "life d' i \<in> {None, Some (EpRevoked, [], [])}" by auto
  from ok' have "wf d'" by (simp add: endpoints_ok_def keys_ok_def)
  from not_live_refused [OF this life] show ?thesis by (simp add: conjunct1)
qed

lemma yard_revoke: "\<exists>r d1. RevokeEndpoint 6 ''c'' yard_access LocalDockerEndpointID local_yard = (insert_audit r d1, Inr ())
    \<and> terminate 6 InitialOrganizationID LocalDockerEndpointID (\<lambda>e. ep_state e \<noteq> EpRevoked) local_yard = Inr (d1, ())
    \<and> life d1 LocalDockerEndpointID = Some (EpRevoked, [], [])"
proof -
  let ?f = "terminate 6 InitialOrganizationID LocalDockerEndpointID (\<lambda>e. ep_state e \<noteq> EpRevoked)"
  have "\<not> isl (?f local_yard) \<and> life (fst (projr (?f local_yard))) LocalDockerEndpointID = Some (EpRevoked, [], [])"
    unfolding local_yard_def by (simp add: yard_simps terminate_def tenantChangeResult_def life_def)
  then obtain d1 where d1: "?f local_yard = Inr (d1, ())" "life d1 LocalDockerEndpointID = Some (EpRevoked, [], [])" by (cases "?f local_yard") auto
  then have "\<exists>r. withTenantTarget 6 ''c'' yard_access EndpointRevoke LocalDockerEndpointID ?f local_yard = (insert_audit r d1, Inr ())"
    by (intro withTenant_answers(2)) (simp_all add: yard_authorized yard_org)
  with d1 show ?thesis unfolding RevokeEndpoint_def yard_access_simps by blast
qed

lemma revoked_yard:
  obtains d where "reach endpoint_init (endpoint_step (\<lambda>s. s) (\<lambda>_ _ _. True)) d"
    and "life d LocalDockerEndpointID = Some (EpRevoked, [], [])" and "server_settings d = server_settings local_yard"
proof -
  obtain r d1 where run: "RevokeEndpoint 6 ''c'' yard_access LocalDockerEndpointID local_yard = (insert_audit r d1, Inr ())"
    and d1: "terminate 6 InitialOrganizationID LocalDockerEndpointID (\<lambda>e. ep_state e \<noteq> EpRevoked) local_yard = Inr (d1, ())"
      "life d1 LocalDockerEndpointID = Some (EpRevoked, [], [])" using yard_revoke by blast
  have "endpoint_step (\<lambda>s. s) (\<lambda>_ _ _. True) local_yard (fst (RevokeEndpoint 6 ''c'' yard_access LocalDockerEndpointID local_yard))"
    by (rule endpoint_step.revoke)
  then have "endpoint_step (\<lambda>s. s) (\<lambda>_ _ _. True) local_yard (insert_audit r d1)" by (simp only: run fst_conv)
  moreover have "server_settings (insert_audit r d1) = server_settings local_yard"
    using d1(1) by (auto simp: terminate_def insert_audit_def Let_def)
  ultimately show thesis using reach_step [OF local_yard_reach] d1(2) by (intro that [of "insert_audit r d1"]) simp_all
qed

theorem revocation_is_final_witness:
  "\<exists>d. reach endpoint_init (endpoint_step (\<lambda>s. s) (\<lambda>_ _ _. True)) d \<and> life d LocalDockerEndpointID = Some (EpRevoked, [], [])
   \<and> AgentIdentity 9 LocalDockerEndpointID (Fingerprint (\<lambda>s. s) yard_key) d \<in> {Inl ErrForbidden, Inl ErrNotFound}"
proof -
  obtain d where d: "reach endpoint_init (endpoint_step (\<lambda>s. s) (\<lambda>_ _ _. True)) d"
    "life d LocalDockerEndpointID = Some (EpRevoked, [], [])" by (rule revoked_yard)
  from revocation_is_final [OF d rtranclp.rtrancl_refl] d show ?thesis by blast
qed

subsection \<open>The local endpoint\<close>

definition local_marked :: "db \<Rightarrow> bool" where
  "local_marked d \<longleftrightarrow> (\<exists>kv\<in>set (server_settings d). fst kv = ''local_docker_initialized'')"

text \<open>The operations that bring no new endpoint and leave the settings alone.\<close>

definition no_newcomer :: "db \<Rightarrow> db \<Rightarrow> bool" where
  "no_newcomer d d' \<longleftrightarrow> set (map ep_id (endpoints d')) \<subseteq> set (map ep_id (endpoints d)) \<and> server_settings d' = server_settings d"

lemma no_newcomer_audit [simp]:
  "no_newcomer d (insert_audit r d') = no_newcomer d d'" "no_newcomer d (insert_event v d') = no_newcomer d d'"
  "no_newcomer d (LogAudit now r d') = no_newcomer d d'" "no_newcomer d d" "no_newcomer d (d'\<lparr>capabilities := c\<rparr>) = no_newcomer d d'"
  by (simp_all add: no_newcomer_def insert_event_def LogAudit_def) (simp_all add: insert_audit_def)

lemma newcomer_free_ops:
  shows "approve_endpoint now a i fp d = Inr (d', x) \<Longrightarrow> no_newcomer d d'"
    and "terminate now org i c d = Inr (d', x) \<Longrightarrow> no_newcomer d d'"
    and "rename_endpoint a i name d = Inr (d', x) \<Longrightarrow> no_newcomer d d'"
    and "set_deploy_namespaces a i ns d = Inr (d', y) \<Longrightarrow> no_newcomer d d'"
    and "acknowledge_key now a i fp d = Inr (d', x) \<Longrightarrow> no_newcomer d d'"
    and "acknowledge_event now a i v d = Inr (d', x) \<Longrightarrow> no_newcomer d d'"
    and "create_enrollment_token t d = Inr (d', x) \<Longrightarrow> no_newcomer d d'"
    and "add_environment a name d = Inr (d', z) \<Longrightarrow> no_newcomer d d'"
    and "update_environment a name d = Inr (d', x) \<Longrightarrow> no_newcomer d d'"
    and "remove_environment a d = Inr (d', x) \<Longrightarrow> no_newcomer d d'"
proof -
  show "no_newcomer d d'" if "remove_environment a d = Inr (d', x)"
    using that by (rule remove_environment_Inr) (auto simp: no_newcomer_def delete_endpoints_def Let_def)
qed (auto simp: approve_endpoint_def terminate_def rename_endpoint_def set_deploy_namespaces_def acknowledge_key_def acknowledge_event_def
      create_enrollment_token_def add_environment_def update_environment_def Let_def
      no_newcomer_def update_where_keys simp del: set_map split: if_splits)

lemma runAs_newcomer_free:
  assumes "\<And>d' x. snd (op d) = Inr (d', x) \<Longrightarrow> no_newcomer d d'"
  shows "no_newcomer d (fst (runAs now cid a action name target lock op d))"
  by (rule runAs_invariant [where P = "no_newcomer d"]) (use assms in auto)

lemma session_newcomer_free:
  shows "RotateEndpointKey sha verify now cid i pk sig ip d = Inr (d', fp) \<Longrightarrow> no_newcomer d d'"
    and "RecordEndpointEvent now e sev kind det d = Inr d' \<Longrightarrow> no_newcomer d d'"
    and "no_newcomer d (RecordAgentConnect now cid e ip result det d)" and "no_newcomer d (TouchEndpoint now i d)"
    and "no_newcomer d (fst (AcceptInventory now i r d))" and "no_newcomer d (MarkEndpointOffline i d)"
  by (auto simp: RotateEndpointKey_def RecordEndpointEvent_def RecordAgentConnect_def TouchEndpoint_def AcceptInventory_def
      MarkEndpointOffline_def Let_def split: if_splits) (auto simp: no_newcomer_def update_where_keys simp del: set_map)

lemma endpoint_step_newcomer:
  assumes "endpoint_step sha verify d d'"
  shows "no_newcomer d d' \<or> (\<exists>rid now cid req e. list_all is_hex rid \<and> Enroll sha verify now cid rid req d = Inr (d', e))
    \<or> (\<exists>now cid uid suffix pk g. InitializeLocalDocker sha now cid uid suffix pk d = Inr (d', g))"
  using assms
proof cases
  case (token now cid uid secret a runtime img ns)
  have "no_newcomer d (fst (withTenantTarget now cid a EndpointEnroll uid (create_enrollment_token t) d))" for t
    unfolding tenant_run_defs by (rule runAs_newcomer_free) (auto dest: newcomer_free_ops)
  then have "no_newcomer d (fst (CreateEnrollmentToken sha now cid uid secret a runtime img ns d))"
    unfolding CreateEnrollmentToken_def Let_def by (auto split: sum.splits prod.splits) (metis fst_conv)+
  with token show ?thesis by simp
next
  case (namespaces now cid a i ns)
  have "no_newcomer d (fst (SetEndpointDeployNamespaces now cid a i ns d))"
    unfolding SetEndpointDeployNamespaces_def tenant_run_defs
    by (auto split: sum.splits intro!: runAs_newcomer_free dest: newcomer_free_ops)
  with namespaces show ?thesis by simp
next
  case (capabilities i cs)
  then have "no_newcomer d d'" unfolding SetEndpointCapabilities_def
    by (auto elim!: each_invariant [where P = "no_newcomer d"] simp: insert_capability_def split: if_splits)
  then show ?thesis by simp
qed (unfold ApproveEndpoint_def RejectEndpoint_def RevokeEndpoint_def RenameEndpoint_def AcknowledgeEndpointKey_def
    AcknowledgeEndpointEvent_def AddEnvironment_def UpdateEnvironment_def RemoveEnvironment_def tenant_run_defs Let_def,
    auto intro!: runAs_newcomer_free session_newcomer_free(3-) dest: newcomer_free_ops session_newcomer_free(1,2))

lemma local_id_not_enrolled: "list_all is_hex rid \<Longrightarrow> ''ep_'' @ rid \<noteq> LocalDockerEndpointID"
  by (auto simp: LocalDockerEndpointID_def is_hex_def is_digit_def byte_def)

lemma local_stays_away:
  assumes "endpoint_step sha verify d d'" and "local_marked d" and "keys_ok d"
  shows "local_marked d' \<and> (life d LocalDockerEndpointID = None \<longrightarrow> life d' LocalDockerEndpointID = None)"
  using endpoint_step_newcomer [OF assms(1)]
proof (elim disjE exE conjE)
  assume "no_newcomer d d'"
  then have "set (map ep_id (endpoints d')) \<subseteq> set (map ep_id (endpoints d))" "local_marked d' = local_marked d"
    by (simp_all add: no_newcomer_def local_marked_def)
  with assms(2) show ?thesis unfolding life_none by auto
next
  fix rid now cid req e
  assume hex: "list_all is_hex rid" and "Enroll sha verify now cid rid req d = Inr (d', e)"
  from this(2) show ?thesis
  proof (rule Enroll_Inr)
    fix t r h d1 d2
    assume "e = enrolled_endpoint now (''ep_'' @ rid) req t"
      and "d1 = d\<lparr>endpoints := endpoints d @ [e], endpoint_keys := endpoint_keys d @ [new_key sha now (ep_id e) (er_public_key req)]\<rparr>"
      and "d2 = d1\<lparr>enrollment_tokens := update_where (\<lambda>x. et_id x = et_id t) (\<lambda>x. x\<lparr>et_endpoint_id := ep_id e\<rparr>)
        (update_where (\<lambda>t. et_token_hash t = h \<and> et_consumed_at t = None \<and> et_expires_at t > now) (\<lambda>t. t\<lparr>et_consumed_at := Some now\<rparr>)
          (enrollment_tokens d))\<rparr>" and "d' = insert_audit r d2"
    then show ?thesis using assms(2) local_id_not_enrolled [OF hex]
      by (auto simp: local_marked_def life_none insert_audit_def enrolled_endpoint_def)
  qed
next
  fix now cid uid suffix pk g
  assume "InitializeLocalDocker sha now cid uid suffix pk d = Inr (d', g)"
  with assms(2) have "d' = d" by (auto simp: InitializeLocalDocker_def local_marked_def split: if_splits)
  with assms(2) show ?thesis by simp
qed

lemma local_dead:
  assumes "(endpoint_step sha verify)\<^sup>*\<^sup>* d d'" and "endpoints_ok sha d" and "local_marked d"
    and "life d LocalDockerEndpointID \<in> {None, Some (EpRevoked, [], [])}"
  shows "endpoints_ok sha d' \<and> local_marked d' \<and> life d' LocalDockerEndpointID \<in> {None, Some (EpRevoked, [], [])}"
  using assms
proof (induction rule: rtranclp_induct)
  case (step y z)
  then have ok: "endpoints_ok sha y" and m: "local_marked y" and life: "life y LocalDockerEndpointID \<in> {None, Some (EpRevoked, [], [])}" by blast+
  from ok have keys: "keys_ok y" by (simp add: endpoints_ok_def)
  note stay = local_stays_away [OF step(2) m keys]
  have "(\<lambda>x y. endpoint_step sha verify x y \<and> (life x LocalDockerEndpointID = None \<longrightarrow> life y LocalDockerEndpointID = None))\<^sup>*\<^sup>* y z"
    by (rule r_into_rtranclp) (use stay step(2) in blast)
  from dead_stays_dead [OF this ok life] stay show ?case by blast
qed simp

text \<open>
  C9. An administrator's removal of the built-in local endpoint survives restarts. Once the server has
  initialized local Docker management and the local endpoint was revoked, every later start-up call, with
  the same key or another and whatever happened in between, even after its environment was deleted, is
  refused, and creates nothing.
\<close>

theorem local_docker_not_restored:
  assumes "reach endpoint_init (endpoint_step sha verify) d"
    and "\<exists>kv\<in>set (server_settings d). fst kv = ''local_docker_initialized''"
    and "life d LocalDockerEndpointID = Some (EpRevoked, as, ps)"
    and "(endpoint_step sha verify)\<^sup>*\<^sup>* d d'" and "length pk = PublicKeySize"
  shows "InitializeLocalDocker sha now cid uid suffix pk d' = Inl ErrForbidden"
proof -
  from endpoints_reach [OF assms(1)] have ok: "endpoints_ok sha d" and keys: "keys_ok d" by (auto simp: endpoints_ok_def)
  from keys have "wf d" by (simp add: keys_ok_def)
  have "life d LocalDockerEndpointID \<in> {None, Some (EpRevoked, [], [])}"
    using dead_life [OF keys assms(3)] by simp
  from local_dead [OF assms(4) ok _ this] assms(2) have ok': "endpoints_ok sha d'" and m: "local_marked d'"
    and life: "life d' LocalDockerEndpointID \<in> {None, Some (EpRevoked, [], [])}" by (auto simp: local_marked_def)
  from ok' have "wf d'" by (simp add: endpoints_ok_def keys_ok_def)
  have "ep_state e = EpRevoked" if "e \<in> set (endpoints d')" "ep_id e = LocalDockerEndpointID" for e
    using life_here [OF \<open>wf d'\<close> that] life by auto
  then have "List.find (\<lambda>e. ep_id e = LocalDockerEndpointID \<and> ep_organization_id e = InitialOrganizationID
      \<and> ep_state e \<in> {EpApproved, EpActive, EpOffline}
      \<and> (\<exists>k\<in>set (endpoint_keys d'). ek_endpoint_id k = ep_id e \<and> ek_state k = KeyApproved
           \<and> ek_fingerprint k = Fingerprint sha pk \<and> ek_public_key k = EncodeToString pk)) (endpoints d') = None"
    unfolding find_None_in by fastforce
  with m assms(5) show ?thesis by (simp add: InitializeLocalDocker_def local_marked_def)
qed

theorem local_docker_not_restored_witness:
  "\<exists>d. reach endpoint_init (endpoint_step (\<lambda>s. s) (\<lambda>_ _ _. True)) d \<and> life d LocalDockerEndpointID = Some (EpRevoked, [], [])
   \<and> InitializeLocalDocker (\<lambda>s. s) 9 ''c'' ''env2'' ''y'' yard_key d = Inl ErrForbidden"
proof -
  obtain d where d: "reach endpoint_init (endpoint_step (\<lambda>s. s) (\<lambda>_ _ _. True)) d"
    "life d LocalDockerEndpointID = Some (EpRevoked, [], [])" "server_settings d = server_settings local_yard" by (rule revoked_yard)
  have "server_settings local_yard = [(''local_docker_initialized'', ''1'')]"
    unfolding local_yard_def by (simp add: yard_simps)
  with d(3) have "\<exists>kv\<in>set (server_settings d). fst kv = ''local_docker_initialized''" by simp
  from local_docker_not_restored [OF d(1) this d(2) rtranclp.rtrancl_refl yard_lengths(1)] d show ?thesis by blast
qed

subsection \<open>How the rows are typed\<close>

lemma sorted_distinct_nth:
  "sorted xs \<Longrightarrow> list_all (\<lambda>i. \<not> (i > 0 \<and> xs ! (i - 1) = xs ! i)) [0..<length xs] \<longleftrightarrow> distinct (xs :: 'a :: linorder list)"
proof (induction xs)
  case (Cons x xs)
  have "list_all (\<lambda>i. \<not> (i > 0 \<and> (x # xs) ! (i - 1) = (x # xs) ! i)) [0..<length (x # xs)] \<longleftrightarrow>
      (xs \<noteq> [] \<longrightarrow> x \<noteq> hd xs) \<and> list_all (\<lambda>i. \<not> (i > 0 \<and> xs ! (i - 1) = xs ! i)) [0..<length xs]"
  proof -
    have "list_all (\<lambda>i. \<not> (i > 0 \<and> (x # xs) ! (i - 1) = (x # xs) ! i)) [0..<length (x # xs)] \<longleftrightarrow> (\<forall>i<length xs. (x # xs) ! i \<noteq> xs ! i)"
    proof -
      have upto: "list_all P [0..<Suc n] \<longleftrightarrow> P 0 \<and> (\<forall>i<n. P (Suc i))" for P n
        using All_less_Suc2 [of n P] by (auto simp: list_all_iff simp del: upt_Suc)
      show ?thesis unfolding length_Cons upto by simp
    qed
    also have "\<dots> \<longleftrightarrow> (xs \<noteq> [] \<longrightarrow> x \<noteq> hd xs) \<and> (\<forall>i<length xs. i > 0 \<longrightarrow> xs ! (i - 1) \<noteq> xs ! i)"
      by (cases xs) (auto simp: nth_Cons' All_less_Suc2)
    also have "(\<forall>i<length xs. i > 0 \<longrightarrow> xs ! (i - 1) \<noteq> xs ! i) \<longleftrightarrow> list_all (\<lambda>i. \<not> (i > 0 \<and> xs ! (i - 1) = xs ! i)) [0..<length xs]"
      unfolding list_all_iff set_upt atLeast0LessThan lessThan_iff Ball_def by blast
    finally show ?thesis .
  qed
  also have "\<dots> \<longleftrightarrow> distinct (x # xs)"
    using Cons by (cases xs) auto
  finally show ?case .
qed simp

lemma NormalizeNamespaces_iff:
  "NormalizeNamespaces ins = Inr out \<longleftrightarrow>
   out = sort ins \<and> distinct ins \<and> list_all namespace_allowed ins \<and> length ins \<le> MaxDeployNamespaces"
proof -
  have "list_all (\<lambda>i. namespace_allowed (xs ! i) \<and> \<not> (i > 0 \<and> xs ! (i - 1) = xs ! i)) [0..<length xs]
      \<longleftrightarrow> list_all namespace_allowed xs \<and> list_all (\<lambda>i. \<not> (i > 0 \<and> xs ! (i - 1) = xs ! i)) [0..<length xs]" for xs :: "string list"
    by (auto simp: list_all_iff all_set_conv_all_nth)
  note split = this [of "sort ins"] and unique = sorted_distinct_nth [OF sorted_sort, of ins]
  show ?thesis
    unfolding NormalizeNamespaces_def Let_def split unique by (auto simp: list_all_iff not_less)
qed

text \<open>
  C12. The endpoint rows are well typed in every reachable state: an endpoint's runtime is one of the two,
  its deploy namespaces are at most 32 distinct, sorted, valid DNS labels, never the agent's own namespace
  or a system one, and a Docker endpoint has none; every stored fingerprint is the digest of the public
  key beside it, every key belongs to an endpoint, and no two enrollment tokens share a hash.
\<close>

theorem endpoint_rows_typed:
  assumes "reach endpoint_init (endpoint_step sha verify) d"
  shows "(\<forall>e\<in>set (endpoints d). ep_runtime e \<in> {''docker'', ''kubernetes''}
      \<and> sorted (ep_deploy_namespaces e) \<and> distinct (ep_deploy_namespaces e) \<and> length (ep_deploy_namespaces e) \<le> 32
      \<and> (\<forall>ns\<in>set (ep_deploy_namespaces e). ValidDNSLabel ns \<and> ns \<noteq> ''kyyard-agent'' \<and> take 5 ns \<noteq> ''kube-'')
      \<and> (ep_runtime e = ''docker'' \<longrightarrow> ep_deploy_namespaces e = []))
    \<and> (\<forall>k\<in>set (endpoint_keys d). (\<exists>e\<in>set (endpoints d). ep_id e = ek_endpoint_id k)
      \<and> map_option (Fingerprint sha) (DecodeString (ek_public_key k)) = Some (ek_fingerprint k))
    \<and> distinct (map et_token_hash (enrollment_tokens d))"
proof (intro conjI ballI)
  from endpoints_reach [OF assms] have ok: "keys_ok d" and rec: "records_ok sha d" by blast+
  show "distinct (map et_token_hash (enrollment_tokens d))" by (rule records_ok_parts [OF rec])
  fix e
  assume "e \<in> set (endpoints d)"
  with records_ok_parts(2) [OF rec] have t: "target_typed (ep_runtime e) (ep_deploy_namespaces e)" by (simp add: list_all_iff)
  then show "ep_runtime e \<in> {''docker'', ''kubernetes''}" by (auto simp: target_typed_def validRuntime_def)
  from t have n: "ep_deploy_namespaces e = sort (ep_deploy_namespaces e)" "distinct (ep_deploy_namespaces e)"
    "list_all namespace_allowed (ep_deploy_namespaces e)" "length (ep_deploy_namespaces e) \<le> MaxDeployNamespaces"
    by (simp_all add: target_typed_def NormalizeNamespaces_iff)
  then show "distinct (ep_deploy_namespaces e)" "length (ep_deploy_namespaces e) \<le> 32" by (simp_all add: MaxDeployNamespaces_def)
  show "sorted (ep_deploy_namespaces e)" by (subst n(1)) (rule sorted_sort)
  show "ep_runtime e = ''docker'' \<longrightarrow> ep_deploy_namespaces e = []" using t by (auto simp: target_typed_def RuntimeKubernetes_def)
  fix ns
  assume "ns \<in> set (ep_deploy_namespaces e)"
  with n(3) show "ValidDNSLabel ns" "ns \<noteq> ''kyyard-agent''" "take 5 ns \<noteq> ''kube-''" by (simp_all add: list_all_iff namespace_allowed_def)
next
  from endpoints_reach [OF assms] have ok: "keys_ok d" and rec: "records_ok sha d" by blast+
  fix k
  assume k: "k \<in> set (endpoint_keys d)"
  then show "map_option (Fingerprint sha) (DecodeString (ek_public_key k)) = Some (ek_fingerprint k)"
    using records_ok_parts(1) [OF rec] by (simp add: list_all_iff key_genuine_def)
  show "\<exists>e\<in>set (endpoints d). ep_id e = ek_endpoint_id k" using keys_ok_none [OF ok _ k] by blast
qed

theorem endpoint_rows_typed_witness:
  "reach endpoint_init (endpoint_step (\<lambda>s. s) (\<lambda>_ _ _. True)) local_yard
   \<and> (\<exists>e\<in>set (endpoints local_yard). ep_runtime e \<in> {''docker'', ''kubernetes''} \<and> ep_deploy_namespaces e = [])"
proof -
  from endpoint_rows_typed [OF local_yard_reach]
  have all: "\<forall>e\<in>set (endpoints local_yard). ep_runtime e \<in> {''docker'', ''kubernetes''}" by blast
  obtain e where "e \<in> set (endpoints local_yard)" "ep_deploy_namespaces e = []"
    unfolding local_yard_def by (simp add: yard_simps)
  with all local_yard_reach show ?thesis by blast
qed

end
