(* ===== verification/EndpointReports.thy ===== *)
theory EndpointReports
  imports EndpointTrust
begin

text \<open>
  The order of inventory reports and the single use of enrollment tokens: what a sequence of reports
  leaves, in whatever order, how often and how far ahead of the clock they arrive, and what one
  enrollment takes from its token and leaves of it.
\<close>

subsection \<open>Inventory reports\<close>

definition admissible :: "time \<Rightarrow> report \<Rightarrow> bool" where
  "admissible now r \<longleftrightarrow> rep_bytes r \<le> MaxSnapshotBytes \<and> int (rep_generation r) \<le> (now + GenerationSkew) div second"

fun accept_all :: "string \<Rightarrow> (time \<times> report) list \<Rightarrow> db \<Rightarrow> db" where
  "accept_all i [] d = d"
| "accept_all i ((now, r) # rs) d = accept_all i rs (fst (AcceptInventory now i r d))"

definition inventory_row :: "time \<Rightarrow> string \<Rightarrow> report \<Rightarrow> endpoint_inventory" where
  "inventory_row now i r = \<lparr>iv_endpoint_id = i, iv_generation = rep_generation r, iv_observed_at = rep_observed_at r,
     iv_received_at = now, iv_snapshot = rep_snapshot r, iv_cluster_health = clusterHealth (rep_snapshot r)\<rparr>"

definition generation :: "db \<Rightarrow> string \<Rightarrow> nat option" where
  "generation d i = map_option ep_inventory_generation (List.find (\<lambda>e. ep_id e = i) (endpoints d))"

definition live_endpoint :: "db \<Rightarrow> string \<Rightarrow> bool" where
  "live_endpoint d i \<longleftrightarrow> (\<exists>e\<in>set (endpoints d). ep_id e = i \<and> ep_state e \<in> {EpApproved, EpActive, EpOffline})"

lemma find_upsert_inventory:
  "List.find (\<lambda>v. iv_endpoint_id v = iv_endpoint_id n) (upsert_inventory n t) = Some n"
proof (cases "\<exists>x\<in>set t. iv_endpoint_id x = iv_endpoint_id n")
  case True
  then have "List.find (\<lambda>v. iv_endpoint_id v = iv_endpoint_id n) t \<noteq> None" by (auto simp: find_None_in)
  then obtain x where x: "List.find (\<lambda>v. iv_endpoint_id v = iv_endpoint_id n) t = Some x" by auto
  have "List.find (\<lambda>v. iv_endpoint_id v = iv_endpoint_id n) (update_where (\<lambda>x. iv_endpoint_id x = iv_endpoint_id n) (\<lambda>_. n) t)
      = map_option (\<lambda>r. if iv_endpoint_id r = iv_endpoint_id n then n else r) (List.find (\<lambda>v. iv_endpoint_id v = iv_endpoint_id n) t)"
    by (rule find_update_where) simp
  with True x find_Some_in [OF x] show ?thesis by (simp add: upsert_inventory_def)
next
  case False
  then have "List.find (\<lambda>v. iv_endpoint_id v = iv_endpoint_id n) t = None" by (auto simp: find_None_in)
  with False show ?thesis by (simp add: upsert_inventory_def find_appended)
qed

lemma accept_one:
  assumes "wf d" and "live_endpoint d i" and "generation d i = Some g" and "d' = fst (AcceptInventory now i r d)"
  shows "wf d' \<and> live_endpoint d' i
    \<and> (if admissible now r \<and> g < rep_generation r
       then snd (AcceptInventory now i r d) = Inr True \<and> generation d' i = Some (rep_generation r)
         \<and> (rep_bytes r \<noteq> 0 \<longrightarrow> List.find (\<lambda>v. iv_endpoint_id v = i) (inventories d') = Some (inventory_row now i r))
       else snd (AcceptInventory now i r d) \<noteq> Inr True \<and> d' = d)"
proof -
  from assms(2) obtain e where e: "e \<in> set (endpoints d)" "ep_id e = i" "ep_state e \<in> {EpApproved, EpActive, EpOffline}"
    unfolding live_endpoint_def by blast
  have find: "List.find (\<lambda>e. ep_id e = i) (endpoints d) = Some e" using find_by_key [OF wf_keys(8) [OF assms(1)] e(1)] e(2) by simp
  with assms(3) have g: "ep_inventory_generation e = g" by (simp add: generation_def)
  let ?P = "\<lambda>e. ep_id e = i \<and> ep_state e \<in> {EpApproved, EpActive, EpOffline} \<and> ep_inventory_generation e < rep_generation r"
  let ?f = "\<lambda>e. e\<lparr>ep_inventory_generation := rep_generation r, ep_last_seen_at := Some now,
    ep_state := (if ep_state e \<in> {EpApproved, EpOffline} then EpActive else ep_state e)\<rparr>"
  let ?d1 = "d\<lparr>endpoints := update_where ?P ?f (endpoints d)\<rparr>"
  let ?d2 = "?d1\<lparr>inventories := upsert_inventory (inventory_row now i r) (inventories d)\<rparr>"
  have only: "x = e" if "x \<in> set (endpoints d)" "ep_id x = i" for x using wf_endpoint_eq [OF assms(1) that(1) e(1)] that(2) e(2) by simp
  show ?thesis
  proof (cases "admissible now r \<and> g < rep_generation r")
    case True
    have "count_where ?P (endpoints d) \<le> 1" by (rule count_where_unique [OF wf_keys(8) [OF assms(1)]]) simp
    moreover have "count_where ?P (endpoints d) \<noteq> 0" using e g True by auto
    ultimately have one: "count_where ?P (endpoints d) = 1" by linarith
    have d': "d' = (if rep_bytes r = 0 then ?d1 else ?d2)" "snd (AcceptInventory now i r d) = Inr True"
      using True one unfolding assms(4) AcceptInventory_def Let_def admissible_def inventory_row_def by auto
    have "wf d'" using assms(1) unfolding d' by (auto intro!: wf_tables simp: wf_keys update_where_keys)
    moreover have new: "?f e \<in> set (endpoints d')" using update_where_hit [OF e(1), of ?P ?f] e g True by (auto simp: d')
    then have "live_endpoint d' i" unfolding live_endpoint_def using e by (intro bexI [of _ "?f e"]) auto
    moreover have "generation d' i = Some (rep_generation r)"
      using find_by_key [OF wf_keys(8) [OF \<open>wf d'\<close>] new] e(2) by (simp add: generation_def)
    moreover have "rep_bytes r \<noteq> 0 \<longrightarrow> List.find (\<lambda>v. iv_endpoint_id v = i) (inventories d') = Some (inventory_row now i r)"
      using find_upsert_inventory [of "inventory_row now i r" "inventories d"] by (simp add: d' inventory_row_def)
    ultimately show ?thesis using True d'(2) by simp
  next
    case False
    then have no: "\<not> admissible now r \<or> count_where ?P (endpoints d) = 0" using only g by (auto simp del: count_where_pos)
    have "d' = d \<and> snd (AcceptInventory now i r d) \<noteq> Inr True"
      using no unfolding assms(4) AcceptInventory_def Let_def admissible_def by (auto simp del: count_where_0 simp: not_less)
    with False assms(1,2) show ?thesis by auto
  qed
qed

text \<open>What a sequence of reports is to leave of a database at generation \<open>g\<close>.\<close>

definition fresh_reports :: "nat \<Rightarrow> (time \<times> report) list \<Rightarrow> (time \<times> report) list" where
  "fresh_reports g = filter (\<lambda>(now, r). admissible now r \<and> g < rep_generation r)"

definition carries :: "string \<Rightarrow> db \<Rightarrow> time \<Rightarrow> report \<Rightarrow> bool" where
  "carries i d now r \<longleftrightarrow> generation d i = Some (rep_generation r) \<and> live_endpoint d i
    \<and> (rep_bytes r \<noteq> 0 \<longrightarrow> List.find (\<lambda>v. iv_endpoint_id v = i) (inventories d) = Some (inventory_row now i r))"

lemma fresh_reports_Cons:
  "fresh_reports g ((now, r) # rs) = (if admissible now r \<and> g < rep_generation r then (now, r) # fresh_reports g rs else fresh_reports g rs)"
  by (simp add: fresh_reports_def)

lemma in_fresh_reports: "(t, q) \<in> set (fresh_reports g rs) \<longleftrightarrow> (t, q) \<in> set rs \<and> admissible t q \<and> g < rep_generation q"
  by (auto simp: fresh_reports_def)

lemma accept_all_newest:
  assumes "wf d" and "live_endpoint d i" and "generation d i = Some g"
  shows "if fresh_reports g rs = [] then accept_all i rs d = d
    else \<exists>now r. (now, r) \<in> set (fresh_reports g rs) \<and> (\<forall>(t, q)\<in>set (fresh_reports g rs). rep_generation q \<le> rep_generation r)
      \<and> carries i (accept_all i rs d) now r"
  using assms
proof (induction rs arbitrary: d g)
  case (Cons p rs)
  obtain now r where p: "p = (now, r)" by fastforce
  define d1 where "d1 = fst (AcceptInventory now i r d)"
  note one = accept_one [OF Cons.prems d1_def]
  have all: "accept_all i (p # rs) d = accept_all i rs d1" by (simp add: p d1_def)
  show ?case
  proof (cases "admissible now r \<and> g < rep_generation r")
    case True
    with one have d1: "wf d1" "live_endpoint d1 i" "generation d1 i = Some (rep_generation r)" and here: "carries i d1 now r"
      by (simp_all add: carries_def)
    have fresh: "fresh_reports g (p # rs) = (now, r) # fresh_reports g rs" using True by (simp add: p fresh_reports_Cons)
    have "\<exists>now' r'. (now', r') \<in> set ((now, r) # fresh_reports g rs) \<and> (\<forall>(t, q)\<in>set ((now, r) # fresh_reports g rs). rep_generation q \<le> rep_generation r')
        \<and> carries i (accept_all i rs d1) now' r'"
    proof (cases "fresh_reports (rep_generation r) rs = []")
      case none: True
      have "rep_generation q \<le> rep_generation r" if "(t, q) \<in> set (fresh_reports g rs)" for t q
        using in_fresh_reports [of t q "rep_generation r" rs] none that by (auto simp: in_fresh_reports)
      with Cons.IH [OF d1] none here show ?thesis by (intro exI [of _ now] exI [of _ r]) auto
    next
      case some: False
      with Cons.IH [OF d1] obtain now' r' where new: "(now', r') \<in> set (fresh_reports (rep_generation r) rs)"
        "\<forall>(t, q)\<in>set (fresh_reports (rep_generation r) rs). rep_generation q \<le> rep_generation r'" "carries i (accept_all i rs d1) now' r'" by auto
      from new(1) True have "(now', r') \<in> set (fresh_reports g rs)" and gt: "rep_generation r < rep_generation r'" by (auto simp: in_fresh_reports)
      moreover have "rep_generation q \<le> rep_generation r'" if "(t, q) \<in> set (fresh_reports g rs)" for t q
        using new(2) that gt by (cases "rep_generation r < rep_generation q") (auto simp: in_fresh_reports)
      ultimately show ?thesis using new(3) gt by (intro exI [of _ now'] exI [of _ r']) auto
    qed
    then show ?thesis unfolding all fresh by simp
  next
    case False
    with one have "d1 = d" by auto
    moreover have "fresh_reports g (p # rs) = fresh_reports g rs" using False by (auto simp: p fresh_reports_Cons)
    ultimately show ?thesis using Cons.IH [OF Cons.prems] by (simp add: all)
  qed
qed (simp add: fresh_reports_def)


definition sample_report :: "nat \<Rightarrow> report" where
  "sample_report g = \<lparr>rep_generation = g, rep_observed_at = 1, rep_bytes = 2, rep_snapshot = None\<rparr>"


subsection \<open>Enrollment tokens\<close>

definition spent :: "string \<Rightarrow> db \<Rightarrow> bool" where
  "spent h d \<longleftrightarrow> list_all (\<lambda>t. et_token_hash t = h \<longrightarrow> et_consumed_at t \<noteq> None) (enrollment_tokens d)"

definition issued :: "string \<Rightarrow> db \<Rightarrow> bool" where
  "issued h d \<longleftrightarrow> h \<in> set (map et_token_hash (enrollment_tokens d))"

lemma spent_tables [simp]:
  "spent h (insert_audit r d) = spent h d" "spent h (insert_event v d) = spent h d" "spent h (LogAudit now r d) = spent h d"
  "spent h (d\<lparr>endpoints := s1\<rparr>) = spent h d" "spent h (d\<lparr>endpoint_keys := s2\<rparr>) = spent h d"
  "spent h (d\<lparr>environments := s3\<rparr>) = spent h d" "spent h (d\<lparr>capabilities := s4\<rparr>) = spent h d"
  "spent h (d\<lparr>inventories := s5\<rparr>) = spent h d" "spent h (d\<lparr>endpoint_events := s6\<rparr>) = spent h d"
  "spent h (d\<lparr>server_settings := s7\<rparr>) = spent h d"
  by (simp_all add: spent_def insert_event_def LogAudit_def) (simp_all add: insert_audit_def)

lemma spent_runAs:
  assumes "spent h d" and "\<And>d' x. snd (op d) = Inr (d', x) \<Longrightarrow> spent h d'"
  shows "spent h (fst (runAs now cid a action name target lock op d))"
  by (rule runAs_invariant [where P = "spent h"]) (use assms in auto)

lemma spent_ops:
  assumes "spent h d"
  shows "approve_endpoint now a i fp d = Inr (d', x) \<Longrightarrow> spent h d'"
    and "terminate now org i c d = Inr (d', x) \<Longrightarrow> spent h d'"
    and "rename_endpoint a i name d = Inr (d', x) \<Longrightarrow> spent h d'"
    and "set_deploy_namespaces a i ns d = Inr (d', y) \<Longrightarrow> spent h d'"
    and "acknowledge_key now a i fp d = Inr (d', x) \<Longrightarrow> spent h d'"
    and "acknowledge_event now a i v d = Inr (d', x) \<Longrightarrow> spent h d'"
    and "add_environment a name d = Inr (d', z) \<Longrightarrow> spent h d'"
    and "update_environment a name d = Inr (d', x) \<Longrightarrow> spent h d'"
    and "remove_environment a d = Inr (d', x) \<Longrightarrow> spent h d'"
    and "RotateEndpointKey sha verify now cid i pk sig ip d = Inr (d', f) \<Longrightarrow> spent h d'"
    and "RecordEndpointEvent now e sev kind det d = Inr d' \<Longrightarrow> spent h d'"
    and "SetEndpointCapabilities i cs d = Inr d' \<Longrightarrow> spent h d'"
    and "InitializeLocalDocker sha now cid uid suffix pk d = Inr (d', g) \<Longrightarrow> spent h d'"
proof -
  show "spent h d'" if "remove_environment a d = Inr (d', x)"
    using that by (rule remove_environment_Inr) (use assms in \<open>simp add: spent_def list_all_delete_where\<close>)
  show "spent h d'" if "SetEndpointCapabilities i cs d = Inr d'"
    using that assms unfolding SetEndpointCapabilities_def
    by (auto elim!: each_invariant [where P = "spent h"] simp: insert_capability_def split: if_splits)
  have "spent h d2" if "create_local_endpoint sha now cid uid suffix pk d0 = Inr d2" "spent h d0" for d0 d2
    using that by (auto elim!: create_local_Inr simp: local_environment_def split: if_splits)
  then show "spent h d'" if "InitializeLocalDocker sha now cid uid suffix pk d = Inr (d', g)"
    using that assms by (auto simp: InitializeLocalDocker_def split: if_splits)
qed (use assms in \<open>auto simp: approve_endpoint_def terminate_def rename_endpoint_def set_deploy_namespaces_def acknowledge_key_def
      acknowledge_event_def add_environment_def update_environment_def RotateEndpointKey_def RecordEndpointEvent_def Let_def split: if_splits\<close>)

lemma Enroll_tokens:
  assumes "Enroll sha verify now cid rid req d = Inr (d', e)"
  obtains t where "List.find (\<lambda>t. et_token_hash t = SHA256Hex sha (er_token req)) (enrollment_tokens d) = Some t"
    and "e = enrolled_endpoint now (''ep_'' @ rid) req t"
    and "count_where (\<lambda>t. et_token_hash t = SHA256Hex sha (er_token req) \<and> et_consumed_at t = None \<and> et_expires_at t > now) (enrollment_tokens d) = 1"
    and "enrollment_tokens d' = update_where (\<lambda>x. et_id x = et_id t) (\<lambda>x. x\<lparr>et_endpoint_id := ep_id e\<rparr>)
      (update_where (\<lambda>t. et_token_hash t = SHA256Hex sha (er_token req) \<and> et_consumed_at t = None \<and> et_expires_at t > now)
        (\<lambda>t. t\<lparr>et_consumed_at := Some now\<rparr>) (enrollment_tokens d))"
  using assms
proof (rule Enroll_Inr)
  fix t r h d1 d2
  assume "h = SHA256Hex sha (er_token req)" "List.find (\<lambda>t. et_token_hash t = h) (enrollment_tokens d) = Some t"
    "count_where (\<lambda>t. et_token_hash t = h \<and> et_consumed_at t = None \<and> et_expires_at t > now) (enrollment_tokens d) = 1"
    "e = enrolled_endpoint now (''ep_'' @ rid) req t" "d' = insert_audit r d2"
    "d2 = d1\<lparr>enrollment_tokens := update_where (\<lambda>x. et_id x = et_id t) (\<lambda>x. x\<lparr>et_endpoint_id := ep_id e\<rparr>)
      (update_where (\<lambda>t. et_token_hash t = h \<and> et_consumed_at t = None \<and> et_expires_at t > now) (\<lambda>t. t\<lparr>et_consumed_at := Some now\<rparr>)
        (enrollment_tokens d))\<rparr>"
  then show thesis by (intro that [of t]) (simp_all add: insert_audit_def)
qed

lemma enroll_spends:
  assumes "Enroll sha verify now cid rid req d = Inr (d', e)"
  shows "spent h d \<Longrightarrow> spent h d'" and "records_ok sha d \<Longrightarrow> spent (SHA256Hex sha (er_token req)) d'"
proof -
  let ?h = "SHA256Hex sha (er_token req)"
  let ?L = "\<lambda>t. et_token_hash t = ?h \<and> et_consumed_at t = None \<and> et_expires_at t > now"
  obtain t where "List.find (\<lambda>t. et_token_hash t = ?h) (enrollment_tokens d) = Some t" "e = enrolled_endpoint now (''ep_'' @ rid) req t"
    and n: "count_where ?L (enrollment_tokens d) = 1"
    and d': "enrollment_tokens d' = update_where (\<lambda>x. et_id x = et_id t) (\<lambda>x. x\<lparr>et_endpoint_id := ep_id e\<rparr>)
      (update_where ?L (\<lambda>t. t\<lparr>et_consumed_at := Some now\<rparr>) (enrollment_tokens d))"
    using assms by (rule Enroll_tokens)
  show "spent h d'" if "spent h d"
    using that by (auto simp: d' spent_def intro!: list_all_update_where)
  show "spent ?h d'" if "records_ok sha d"
  proof -
    from n have "\<exists>x\<in>set (enrollment_tokens d). ?L x" using count_where_pos [of ?L "enrollment_tokens d"] by simp
    then obtain x where x: "x \<in> set (enrollment_tokens d)" "?L x" by blast
    have "?L y" if "y \<in> set (enrollment_tokens d)" "et_token_hash y = ?h" for y
      using distinct_map_eq [OF records_ok_parts(4) [OF \<open>records_ok sha d\<close>] that(1) x(1)] x(2) that(2) by simp
    then have "list_all (\<lambda>t. et_token_hash t = ?h \<longrightarrow> et_consumed_at t \<noteq> None)
        (update_where ?L (\<lambda>t. t\<lparr>et_consumed_at := Some now\<rparr>) (enrollment_tokens d))"
      unfolding list_all_iff by (auto simp: in_update_where)
    then show ?thesis by (simp add: d' spent_def list_all_update_where)
  qed
qed

lemma endpoint_step_spent:
  assumes "endpoint_step sha verify d d'" and sp: "spent h d" and new: "\<not> issued h d \<longrightarrow> \<not> issued h d'"
  shows "spent h d'"
  using assms(1)
proof cases
  case (token now cid uid secret a runtime img ns)
  show ?thesis
  proof (cases "issued h d")
    case False
    with new have "\<not> issued h d'" by blast
    then show ?thesis by (auto simp: issued_def spent_def list_all_iff)
  next
    case True
    have "spent h d1" if "create_enrollment_token t d = Inr (d1, x)" for t d1 x
      using that sp True by (auto simp: create_enrollment_token_def enrollment_clash_def spent_def issued_def split: if_splits)
    then have "spent h (fst (withTenantTarget now cid a EndpointEnroll uid (create_enrollment_token t) d))" for t
      unfolding tenant_run_defs by (intro spent_runAs [OF sp]) auto
    then have "spent h (fst (CreateEnrollmentToken sha now cid uid secret a runtime img ns d))"
      unfolding CreateEnrollmentToken_def Let_def using sp by (auto split: sum.splits prod.splits) (metis fst_conv)+
    with token show ?thesis by simp
  qed
next
  case (namespaces now cid a i ns)
  have "spent h (fst (SetEndpointDeployNamespaces now cid a i ns d))"
    unfolding SetEndpointDeployNamespaces_def tenant_run_defs using sp
    by (auto split: sum.splits intro!: spent_runAs dest: spent_ops [OF sp])
  with namespaces show ?thesis by simp
qed (unfold ApproveEndpoint_def RejectEndpoint_def RevokeEndpoint_def RenameEndpoint_def AcknowledgeEndpointKey_def
    AcknowledgeEndpointEvent_def AddEnvironment_def UpdateEnvironment_def RemoveEnvironment_def tenant_run_defs Let_def,
    auto intro!: spent_runAs sp intro: enroll_spends(1) dest: spent_ops [OF sp]
      simp: RecordAgentConnect_def TouchEndpoint_def AcceptInventory_def MarkEndpointOffline_def Let_def sp)

lemma spent_forever:
  assumes "(\<lambda>x y. endpoint_step sha verify x y \<and> (\<not> issued h x \<longrightarrow> \<not> issued h y))\<^sup>*\<^sup>* d d'" and "spent h d"
  shows "spent h d'"
  using assms by (induction rule: rtranclp_induct) (auto intro: endpoint_step_spent)

lemma spent_refuses: "spent (SHA256Hex sha (er_token req)) d \<Longrightarrow> Enroll sha verify now cid rid req d = Inl ErrForbidden"
proof -
  let ?L = "\<lambda>t. et_token_hash t = SHA256Hex sha (er_token req) \<and> et_consumed_at t = None \<and> et_expires_at t > now"
  assume "spent (SHA256Hex sha (er_token req)) d"
  then have "count_where ?L (enrollment_tokens d) = 0" by (auto simp: spent_def list_all_iff)
  then show ?thesis unfolding Enroll_def Let_def by (simp del: count_where_0)
qed

lemma distinct_singleton_set: "distinct xs \<Longrightarrow> set xs = {t} \<Longrightarrow> xs = [t]"
  by (cases xs; cases "tl xs") auto

text \<open>
  C10. An enrollment token enrolls one endpoint, where and as its issuer said. In a reachable state a successful
  enrollment found exactly one live token with the presented secret's hash; the endpoint starts pending in that
  token's organization and environment with its runtime and namespaces, whatever the agent claims. From then on,
  after any operations that do not issue the same secret anew, presenting the token again is refused.
\<close>

theorem enrollment_token_single_use:
  assumes "reach endpoint_init (endpoint_step sha verify) d" and "Enroll sha verify now cid rid req d = Inr (d', e)"
    and "(\<lambda>x y. endpoint_step sha verify x y \<and> (\<not> issued (SHA256Hex sha (er_token req)) x \<longrightarrow> \<not> issued (SHA256Hex sha (er_token req)) y))\<^sup>*\<^sup>* d' d2"
    and "er_token again = er_token req"
  shows "(\<exists>t. filter (\<lambda>t. et_token_hash t = SHA256Hex sha (er_token req)) (enrollment_tokens d) = [t]
      \<and> et_consumed_at t = None \<and> now < et_expires_at t
      \<and> ep_organization_id e = et_organization_id t \<and> ep_environment_id e = et_environment_id t
      \<and> ep_runtime e = et_runtime t \<and> ep_deploy_namespaces e = et_deploy_namespaces t \<and> ep_state e = EpPending)
    \<and> Enroll sha verify later cid2 rid2 again d2 = Inl ErrForbidden"
proof (rule conjI)
  from endpoints_reach [OF assms(1)] have rec: "records_ok sha d" by blast
  from spent_refuses [of sha again d2] spent_forever [OF assms(3) enroll_spends(2) [OF assms(2) rec]] assms(4)
  show "Enroll sha verify later cid2 rid2 again d2 = Inl ErrForbidden" by simp
  let ?h = "SHA256Hex sha (er_token req)"
  obtain t where t: "List.find (\<lambda>t. et_token_hash t = ?h) (enrollment_tokens d) = Some t" and e: "e = enrolled_endpoint now (''ep_'' @ rid) req t"
    and n: "count_where (\<lambda>t. et_token_hash t = ?h \<and> et_consumed_at t = None \<and> et_expires_at t > now) (enrollment_tokens d) = 1"
    and "enrollment_tokens d' = update_where (\<lambda>x. et_id x = et_id t) (\<lambda>x. x\<lparr>et_endpoint_id := ep_id e\<rparr>)
      (update_where (\<lambda>t. et_token_hash t = ?h \<and> et_consumed_at t = None \<and> et_expires_at t > now)
        (\<lambda>t. t\<lparr>et_consumed_at := Some now\<rparr>) (enrollment_tokens d))"
    using assms(2) by (rule Enroll_tokens)
  from find_Some_in [OF t] have in_t: "t \<in> set (enrollment_tokens d)" "et_token_hash t = ?h" by simp_all
  have same: "y = t" if "y \<in> set (enrollment_tokens d)" "et_token_hash y = ?h" for y
    using distinct_map_eq [OF records_ok_parts(4) [OF rec] that(1) in_t(1)] in_t(2) that(2) by simp
  from n have "\<exists>x\<in>set (enrollment_tokens d). et_token_hash x = ?h \<and> et_consumed_at x = None \<and> et_expires_at x > now"
    using count_where_pos [of "\<lambda>t. et_token_hash t = ?h \<and> et_consumed_at t = None \<and> et_expires_at t > now" "enrollment_tokens d"] by simp
  with same have live: "et_consumed_at t = None" "now < et_expires_at t" by blast+
  have "distinct (enrollment_tokens d)" using records_ok_parts(4) [OF rec] by (simp add: distinct_map)
  then have "distinct (filter (\<lambda>t. et_token_hash t = ?h) (enrollment_tokens d))" by simp
  moreover have "set (filter (\<lambda>t. et_token_hash t = ?h) (enrollment_tokens d)) = {t}" unfolding set_filter using same in_t by blast
  ultimately have "filter (\<lambda>t. et_token_hash t = ?h) (enrollment_tokens d) = [t]"
    by (rule distinct_singleton_set)
  with live show "\<exists>t. filter (\<lambda>t. et_token_hash t = ?h) (enrollment_tokens d) = [t] \<and> et_consumed_at t = None \<and> now < et_expires_at t
      \<and> ep_organization_id e = et_organization_id t \<and> ep_environment_id e = et_environment_id t
      \<and> ep_runtime e = et_runtime t \<and> ep_deploy_namespaces e = et_deploy_namespaces t \<and> ep_state e = EpPending"
    by (simp add: e enrolled_endpoint_def)
qed

definition yard_token :: "EnrollmentToken" where
  "yard_token = enrollment_row (\<lambda>s. s) 1 ''t'' yard_key (yard_access\<lparr>EnvironmentID := ''env''\<rparr>) RuntimeDocker '''' []"

definition yard_request :: EnrollmentRequest where
  "yard_request = \<lparr>er_token = yard_key, er_public_key = yard_next, er_proof = yard_signature, er_name = ''bot'', er_facts = [], er_ip_address = ''''\<rparr>"

lemma token_yard:
  obtains r where "reach endpoint_init (endpoint_step (\<lambda>s. s) (\<lambda>_ _ _. True)) (insert_audit r (local_yard\<lparr>enrollment_tokens := [yard_token]\<rparr>))"
proof -
  let ?a = "yard_access\<lparr>EnvironmentID := ''env''\<rparr>"
  let ?d = "local_yard\<lparr>enrollment_tokens := [yard_token]\<rparr>"
  have none: "NormalizeNamespaces [] = Inr []" by (simp add: NormalizeNamespaces_def)
  have tokens: "enrollment_tokens local_yard = []" "environments local_yard = [\<lparr>env_id = ''env'', env_organization_id = InitialOrganizationID, env_name = ''Local''\<rparr>]"
    unfolding local_yard_def by (simp_all add: yard_simps)
  have "create_enrollment_token yard_token local_yard = Inr (?d, ())"
    by (simp add: create_enrollment_token_def tokens yard_token_def enrollment_row_def validRuntime_def RuntimeDocker_def insert_row_def)
  moreover have "authorize local_yard ?a EndpointEnroll = Inr ()"
    by (simp add: authorize_def principalRole_def sample_access_def sample_yard_def sample_user_def empty_db_def Allows_def
        RoleOrganizationAdmin_def organization_admin_actions_def tokens)
  ultimately have "\<exists>r. withTenantTarget 1 ''c'' ?a EndpointEnroll ''t'' (create_enrollment_token yard_token) local_yard = (insert_audit r ?d, Inr ())"
    by (intro withTenant_answers(2)) (simp_all add: yard_org)
  then obtain r where run: "withTenantTarget 1 ''c'' ?a EndpointEnroll ''t'' (create_enrollment_token yard_token) local_yard = (insert_audit r ?d, Inr ())" ..
  have "CreateEnrollmentToken (\<lambda>s. s) 1 ''c'' ''t'' yard_key ?a RuntimeDocker '''' [] local_yard = (insert_audit r ?d, Inr (yard_token, yard_key))"
    using run none by (simp add: CreateEnrollmentToken_def yard_token_def [symmetric])
  moreover have "endpoint_step (\<lambda>s. s) (\<lambda>_ _ _. True) local_yard (fst (CreateEnrollmentToken (\<lambda>s. s) 1 ''c'' ''t'' yard_key ?a RuntimeDocker '''' [] local_yard))"
    by (rule endpoint_step.token)
  ultimately have "endpoint_step (\<lambda>s. s) (\<lambda>_ _ _. True) local_yard (insert_audit r ?d)" by simp
  from reach_step [OF local_yard_reach this] show thesis by (rule that)
qed

lemma yard_enrolls:
  "\<exists>d' e. Enroll (\<lambda>s. s) (\<lambda>_ _ _. True) 2 ''c'' ''ab'' yard_request (insert_audit r (local_yard\<lparr>enrollment_tokens := [yard_token]\<rparr>)) = Inr (d', e)"
proof -
  have name: "validTenantName ''bot''" "TrimSpace ''bot'' = ''bot''" using sample_name by (simp_all add: validAgentName_def)
  have rows: "\<forall>x\<in>set (endpoints local_yard). ep_id x = ''ep_local_docker'' \<and> ep_name x = ''Local Docker''"
    "\<forall>x\<in>set (endpoint_keys local_yard). ek_endpoint_id x = ''ep_local_docker''"
    unfolding local_yard_def by (simp_all add: yard_simps LocalDockerEndpointID_def)
  have small: "length (Marshal (JMap [])) \<le> maxFactsBytes" unfolding maxFactsBytes_def by code_simp
  let ?e = "enrolled_endpoint 2 ''ep_ab'' yard_request (yard_token\<lparr>et_consumed_at := Some 2\<rparr>)"
  have "\<not> (\<exists>x\<in>set (endpoints local_yard). endpoint_clash ?e x)"
    using rows name by (auto simp: endpoint_clash_def enrolled_endpoint_def yard_request_def)
  moreover have "\<not> (\<exists>x\<in>set (endpoint_keys local_yard). key_clash (new_key (\<lambda>s. s) 2 (ep_id ?e) yard_next) x)"
    using rows by (auto simp: key_clash_def new_key_def enrolled_endpoint_def)
  ultimately have "\<not> isl (Enroll (\<lambda>s. s) (\<lambda>_ _ _. True) 2 ''c'' ''ab'' yard_request (insert_audit r (local_yard\<lparr>enrollment_tokens := [yard_token]\<rparr>)))"
    using name small
    by (simp add: Enroll_def yard_request_def VerifyEnrollment_def yard_lengths TokenSize_def kept_facts_def Let_def yard_token_def enrollment_row_def
        SHA256Hex_def insert_audit_def insert_row_def enrollmentTokenLife_def)
  then show ?thesis by (metis isl_def surj_pair sum.exhaust)
qed

theorem enrollment_token_single_use_witness:
  "\<exists>d d' e. reach endpoint_init (endpoint_step (\<lambda>s. s) (\<lambda>_ _ _. True)) d
   \<and> Enroll (\<lambda>s. s) (\<lambda>_ _ _. True) 2 ''c'' ''ab'' yard_request d = Inr (d', e) \<and> ep_state e = EpPending
   \<and> Enroll (\<lambda>s. s) (\<lambda>_ _ _. True) 3 ''c'' ''cd'' yard_request d' = Inl ErrForbidden"
proof -
  obtain r where reach: "reach endpoint_init (endpoint_step (\<lambda>s. s) (\<lambda>_ _ _. True)) (insert_audit r (local_yard\<lparr>enrollment_tokens := [yard_token]\<rparr>))"
    by (rule token_yard)
  from yard_enrolls obtain d' e where run: "Enroll (\<lambda>s. s) (\<lambda>_ _ _. True) 2 ''c'' ''ab'' yard_request
      (insert_audit r (local_yard\<lparr>enrollment_tokens := [yard_token]\<rparr>)) = Inr (d', e)" by blast
  from enrollment_token_single_use [OF reach run rtranclp.rtrancl_refl refl] reach run show ?thesis by blast
qed

end
