(* ===== verification/Windows.thy ===== *)
theory Windows
  imports Schema Clock
begin

text \<open>
  The weekly window of an update policy as calendar arithmetic, \<^verbatim>\<open>internal/store/policy_schedule.go\<close>:
  the occurrence of a calendar day in the policy's zone, whether one is open, the last one that
  ended and the next one to come.

  Zones are those of \<^verbatim>\<open>package time\<close>. A location is its first offset from UTC, in seconds, and its
  transitions in order, each an instant in seconds with the offset from then on (the rule for the
  years past the table written out as transitions). The zone database is an argument, \<open>zones\<close>:
  what \<^verbatim>\<open>time.LoadLocation\<close> gives for a name, None for its error.
\<close>

subsection \<open>Wall clocks\<close>

record location =
  lo_first :: int
  lo_tx :: "(int \<times> int) list"

type_synonym zone_database = "string \<Rightarrow> location option"

text \<open>The offset in force at an instant, and the interval around it in which it is.\<close>

fun zone_from :: "int \<Rightarrow> int option \<Rightarrow> (int \<times> int) list \<Rightarrow> int \<Rightarrow> int \<times> int option \<times> int option" where
  "zone_from offset start [] sec = (offset, start, None)"
| "zone_from offset start ((w, o') # tx) sec =
    (if sec < w then (offset, start, Some w) else zone_from o' (Some w) tx sec)"

definition zone_lookup :: "location \<Rightarrow> int \<Rightarrow> int \<times> int option \<times> int option" where
  "zone_lookup loc sec = zone_from (lo_first loc) None (lo_tx loc) sec"

definition offset_at :: "location \<Rightarrow> int \<Rightarrow> int" where
  "offset_at loc sec = fst (zone_lookup loc sec)"

text \<open>The wall clock of an instant, as the seconds UTC would need to show the same.\<close>

definition wall_clock :: "location \<Rightarrow> time \<Rightarrow> int" where
  "wall_clock loc t = t div second + offset_at loc (t div second)"

definition wall_day :: "location \<Rightarrow> time \<Rightarrow> int" where
  "wall_day loc t = wall_clock loc t div 86400"

definition wall_minute :: "location \<Rightarrow> time \<Rightarrow> int" where
  "wall_minute loc t = wall_clock loc t mod 86400 div 60"

text \<open>
  \<^verbatim>\<open>time.Date\<close> of a wall clock: the offset at the same reading of UTC is tried first, and when it is
  not the one in force at the instant it gives, the one in force there is used.
\<close>

definition zone_offset :: "location \<Rightarrow> int \<Rightarrow> int" where
  "zone_offset loc wall =
    (case zone_lookup loc wall of (offset, start, stop) \<Rightarrow>
       if offset = 0 then 0
       else
        let utc = wall - offset in
        if (case start of None \<Rightarrow> False | Some s \<Rightarrow> utc < s) \<or> (case stop of None \<Rightarrow> False | Some e \<Rightarrow> e \<le> utc)
        then offset_at loc utc else offset)"

definition Date :: "location \<Rightarrow> int \<Rightarrow> time" where
  "Date loc wall = (wall - zone_offset loc wall) * second"

subsection \<open>Occurrences\<close>

text \<open>A policy as it is read: its row, its weekdays decoded, and its next occurrence.\<close>

record PolicyView =
  pv_row :: UpdatePolicy
  pv_weekdays :: "int list"
  pv_next :: "time option"

text \<open>A calendar day is its number since 1 January 1970: \<^verbatim>\<open>time.Date\<close> normalises a day past its month.\<close>

definition occurrenceOn :: "PolicyView \<Rightarrow> location \<Rightarrow> int \<Rightarrow> (time \<times> time) option" where
  "occurrenceOn p loc d =
    (let start = Date loc (86400 * d + 60 * p_start_minute (pv_row p)) in
     if wall_minute loc start \<noteq> p_start_minute (pv_row p)
       \<or> int (weekday_of (wall_day loc start)) \<notin> set (pv_weekdays p) then None
     else Some (start, Date loc (86400 * d + 60 * p_end_minute (pv_row p))))"

definition policyOccurrence :: "zone_database \<Rightarrow> PolicyView \<Rightarrow> time \<Rightarrow> (time \<times> time \<times> bool) option" where
  "policyOccurrence zones p now =
    (case zones (p_timezone (pv_row p)) of
       None \<Rightarrow> None
     | Some loc \<Rightarrow>
       (case occurrenceOn p loc (wall_day loc now) of
          None \<Rightarrow> None
        | Some (start, stop) \<Rightarrow> Some (start, stop, start \<le> now \<and> now < stop)))"

definition policyHorizon :: nat where "policyHorizon = 14"

text \<open>The loop over the days of the horizon: the first that answers.\<close>

fun first_some :: "('a \<Rightarrow> 'b option) \<Rightarrow> 'a list \<Rightarrow> 'b option" where
  "first_some f [] = None"
| "first_some f (x # xs) = (case f x of None \<Rightarrow> first_some f xs | Some y \<Rightarrow> Some y)"

definition previousOccurrence :: "zone_database \<Rightarrow> PolicyView \<Rightarrow> time \<Rightarrow> (time \<times> time) option" where
  "previousOccurrence zones p now =
    (case zones (p_timezone (pv_row p)) of
       None \<Rightarrow> None
     | Some loc \<Rightarrow>
        first_some (\<lambda>i. case occurrenceOn p loc (wall_day loc now - int i) of
            None \<Rightarrow> None
          | Some (s, e) \<Rightarrow> if e \<le> now then Some (s, e) else None) [0..<policyHorizon + 1])"

definition nextOccurrence :: "zone_database \<Rightarrow> PolicyView \<Rightarrow> time \<Rightarrow> time option" where
  "nextOccurrence zones p now =
    (case zones (p_timezone (pv_row p)) of
       None \<Rightarrow> None
     | Some loc \<Rightarrow>
        first_some (\<lambda>i. case occurrenceOn p loc (wall_day loc now + int i) of
            None \<Rightarrow> None
          | Some (s, _) \<Rightarrow> if now < s then Some s else None) [0..<policyHorizon + 1])"

definition nextOccurrenceOf :: "zone_database \<Rightarrow> PolicyView \<Rightarrow> time \<Rightarrow> time option" where
  "nextOccurrenceOf zones p now =
    (if p_status (pv_row p) \<noteq> PolicyActive then None else nextOccurrence zones p now)"

subsection \<open>Where an offset is in force\<close>

definition ordered :: "location \<Rightarrow> bool" where
  "ordered loc \<longleftrightarrow> sorted_wrt (\<lambda>x y. fst x < fst y) (lo_tx loc)"

definition zone_offsets :: "location \<Rightarrow> int set" where
  "zone_offsets loc = insert (lo_first loc) (snd ` set (lo_tx loc))"

text \<open>No transition after \<open>a\<close> and up to \<open>b\<close>.\<close>

definition calm :: "location \<Rightarrow> int \<Rightarrow> int \<Rightarrow> bool" where
  "calm loc a b \<longleftrightarrow> (\<forall>x\<in>set (lo_tx loc). \<not> (a < fst x \<and> fst x \<le> b))"

lemma calm_mono: "calm loc a b \<Longrightarrow> a \<le> a' \<Longrightarrow> b' \<le> b \<Longrightarrow> calm loc a' b'"
  unfolding calm_def by fastforce

lemma zone_from_calm:
  assumes "sorted_wrt (\<lambda>x y. fst x < fst y) tx" and "s \<le> t"
    and "\<forall>x\<in>set tx. \<not> (s < fst x \<and> fst x \<le> t)"
  shows "zone_from o' st tx s = zone_from o' st tx t"
  using assms by (induction tx arbitrary: o' st) (auto split: if_splits)

lemma zone_from_interval:
  assumes "zone_from o' st tx s = (off, start, stop)"
    and "case st of None \<Rightarrow> True | Some x \<Rightarrow> x \<le> s"
  shows "(case start of None \<Rightarrow> True | Some x \<Rightarrow> x \<le> s) \<and> (case stop of None \<Rightarrow> True | Some x \<Rightarrow> s < x)"
    and "start = st \<or> (\<exists>x\<in>set tx. start = Some (fst x))"
    and "stop = None \<or> (\<exists>x\<in>set tx. stop = Some (fst x))"
    and "off \<in> insert o' (snd ` set tx)"
  using assms by (induction tx arbitrary: o' st) (fastforce split: if_splits option.splits)+

lemma zone_lookup_calm:
  "ordered loc \<Longrightarrow> s \<le> t \<Longrightarrow> calm loc s t \<Longrightarrow> zone_lookup loc s = zone_lookup loc t"
  unfolding zone_lookup_def ordered_def calm_def by (rule zone_from_calm)

lemma offset_at_calm: "ordered loc \<Longrightarrow> s \<le> t \<Longrightarrow> calm loc s t \<Longrightarrow> offset_at loc s = offset_at loc t"
  by (simp add: offset_at_def zone_lookup_calm)

lemma offset_at_between:
  assumes "ordered loc" and "calm loc a b" and "a \<le> s" and "s \<le> b" and "a \<le> t" and "t \<le> b"
  shows "offset_at loc s = offset_at loc t"
  using offset_at_calm [OF assms(1) _ calm_mono [OF assms(2)], of s t]
    offset_at_calm [OF assms(1) _ calm_mono [OF assms(2)], of t s] assms(3-6)
  by (metis linear)

lemma offset_at_in: "offset_at loc s \<in> zone_offsets loc"
  using zone_from_interval(4) [of "lo_first loc" None "lo_tx loc" s]
  unfolding offset_at_def zone_lookup_def zone_offsets_def
  by (cases "zone_from (lo_first loc) None (lo_tx loc) s") auto

lemma zone_offset_in: "zone_offset loc w \<in> zone_offsets loc"
  using offset_at_in [of loc w] offset_at_in [of loc "w - offset_at loc w"]
  by (auto simp: zone_offset_def offset_at_def Let_def split: prod.splits)

text \<open>Away from transitions a wall clock names one instant, and \<^const>\<open>Date\<close> gives it.\<close>

lemma zone_offset_calm:
  assumes "ordered loc" and "\<bar>offset_at loc w\<bar> \<le> b" and "calm loc (w - b) (w + b)"
  shows "zone_offset loc w = offset_at loc w" and "offset_at loc (w - offset_at loc w) = offset_at loc w"
proof -
  obtain off start stop where l: "zone_lookup loc w = (off, start, stop)" by (metis prod_cases3)
  then have off: "off = offset_at loc w" by (simp add: offset_at_def)
  have "w - b \<le> w - off" "w - off \<le> w + b" "0 \<le> b" using assms(2) unfolding off by linarith+
  then have "zone_lookup loc (w - off) = zone_lookup loc w"
    using zone_lookup_calm [OF assms(1), of "w - off" w] zone_lookup_calm [OF assms(1), of w "w - off"]
      calm_mono [OF assms(3), of "w - off" w] calm_mono [OF assms(3), of w "w - off"]
    by (cases "w - off \<le> w") force+
  then show at: "offset_at loc (w - offset_at loc w) = offset_at loc w" by (simp add: offset_at_def off)
  then show "zone_offset loc w = offset_at loc w"
    unfolding zone_offset_def l by (auto simp: off Let_def)
qed

lemma wall_clock_Date:
  assumes "ordered loc" and "\<bar>offset_at loc w\<bar> \<le> b" and "calm loc (w - b) (w + b)"
  shows "wall_clock loc (Date loc w) = w"
  using zone_offset_calm [OF assms] by (simp add: wall_clock_def Date_def)

lemma Date_less:
  assumes "zone_offset loc v - zone_offset loc w < v - w"
  shows "Date loc w < Date loc v"
  using assms unfolding Date_def by (intro mult_strict_right_mono) simp_all

subsection \<open>The days of a policy\<close>

text \<open>What \<open>scanPolicy\<close> and the saved input give every policy: weekdays of the week, a window within a day.\<close>

definition window_ok :: "PolicyView \<Rightarrow> bool" where
  "window_ok p \<longleftrightarrow> pv_weekdays p \<noteq> [] \<and> set (pv_weekdays p) \<subseteq> {0..6}
    \<and> 0 \<le> p_start_minute (pv_row p) \<and> p_start_minute (pv_row p) + 15 \<le> p_end_minute (pv_row p)
    \<and> p_end_minute (pv_row p) \<le> 1440"

lemma window_ok_bounds:
  assumes "window_ok p"
  shows "0 \<le> p_start_minute (pv_row p)" and "p_start_minute (pv_row p) < 1440"
    and "p_start_minute (pv_row p) + 15 \<le> p_end_minute (pv_row p)" and "p_end_minute (pv_row p) \<le> 1440"
  using assms by (auto simp: window_ok_def)

lemma day_split:
  assumes "0 \<le> (m::int)" and "m < 1440"
  shows "(86400 * d + 60 * m) div 86400 = d" and "(86400 * d + 60 * m) mod 86400 div 60 = m"
  using assms by (auto simp: div_add1_eq mod_add_eq [symmetric] div_pos_pos_trivial mod_pos_pos_trivial)

lemma occurrenceOn_exact:
  assumes "window_ok p" and "wall_clock loc (Date loc (86400 * d + 60 * p_start_minute (pv_row p)))
      = 86400 * d + 60 * p_start_minute (pv_row p)"
  shows "occurrenceOn p loc d =
    (if int (weekday_of d) \<in> set (pv_weekdays p)
     then Some (Date loc (86400 * d + 60 * p_start_minute (pv_row p)), Date loc (86400 * d + 60 * p_end_minute (pv_row p)))
     else None)"
  using window_ok_bounds(1,2) [OF assms(1)] assms(2)
  by (simp add: occurrenceOn_def Let_def wall_minute_def wall_day_def day_split)

lemma occurrenceOn_calm:
  assumes "window_ok p" and "ordered loc" and "\<forall>x\<in>zone_offsets loc. \<bar>x\<bar> \<le> b"
    and "calm loc (86400 * d + 60 * p_start_minute (pv_row p) - b) (86400 * d + 60 * p_start_minute (pv_row p) + b)"
  shows "occurrenceOn p loc d =
    (if int (weekday_of d) \<in> set (pv_weekdays p)
     then Some (Date loc (86400 * d + 60 * p_start_minute (pv_row p)), Date loc (86400 * d + 60 * p_end_minute (pv_row p)))
     else None)"
  by (rule occurrenceOn_exact [OF assms(1) wall_clock_Date [OF assms(2) _ assms(4)]])
    (use assms(3) offset_at_in in blast)

lemma occurrenceOn_SomeD:
  "occurrenceOn p loc d = Some (s, e) \<Longrightarrow>
   s = Date loc (86400 * d + 60 * p_start_minute (pv_row p)) \<and> e = Date loc (86400 * d + 60 * p_end_minute (pv_row p))"
  by (auto simp: occurrenceOn_def Let_def split: if_splits)

lemma weekday_of_shift: "weekday_of (d + 7) = weekday_of d"
proof -
  have "(d + 7 + 4) mod 7 = ((d + 4) + 7) mod 7" by (rule arg_cong [where f = "\<lambda>x. x mod 7"]) simp
  also have "\<dots> = (d + 4) mod 7" by (rule mod_add_self2)
  finally show ?thesis by (simp only: weekday_of_def)
qed

lemma next_weekday:
  assumes "w \<in> {0..6}"
  obtains d where "today < d" and "d \<le> today + 7" and "int (weekday_of d) = w"
proof -
  let ?k = "(w - (today + 1) - 4) mod 7"
  have "int (weekday_of (today + 1 + ?k)) = (today + 1 + ?k + 4) mod 7" by (simp add: weekday_of_def)
  also have "\<dots> = (today + 5 + (w - (today + 5))) mod 7"
    using mod_add_right_eq [of "today + 5" "w - (today + 5)" 7] by (simp add: algebra_simps)
  also have "\<dots> = w" using assms by simp
  finally have "int (weekday_of (today + 1 + ?k)) = w" .
  moreover have "0 \<le> ?k" "?k < 7" by simp_all
  ultimately show ?thesis using that [of "today + 1 + ?k"] by linarith
qed

lemma first_some_None: "first_some f xs = None \<longleftrightarrow> (\<forall>x\<in>set xs. f x = None)"
  by (induction xs) (auto split: option.splits)

lemma first_some_Some:
  "first_some f [0..<n] = Some y \<Longrightarrow> \<exists>i<n. f i = Some y \<and> (\<forall>j<i. f j = None)"
proof (induction n)
  case (Suc n)
  have app: "first_some f (xs @ [x]) = (case first_some f xs of None \<Rightarrow> f x | Some y \<Rightarrow> Some y)" for xs x
    by (induction xs) (auto split: option.splits)
  show ?case
  proof (cases "first_some f [0..<n]")
    case None
    with Suc.prems have "f n = Some y" by (simp add: app)
    moreover have "\<forall>j<n. f j = None" using None by (simp add: first_some_None)
    ultimately show ?thesis by blast
  next
    case (Some z)
    with Suc.prems have "z = y" by (simp add: app)
    with Some Suc.IH show ?thesis by (metis less_SucI)
  qed
qed simp

subsection \<open>Which window the scheduler sees\<close>

lemma zone_offset_near:
  assumes "ordered loc" and "\<forall>x\<in>zone_offsets loc. \<bar>x\<bar> \<le> 86400"
    and "calm loc (n - 4 * 86400) (n + 4 * 86400)" and "\<bar>w - n\<bar> \<le> 3 * 86400"
  shows "zone_offset loc w = offset_at loc n" and "wall_clock loc (Date loc w) = w"
proof -
  have "offset_at loc w = offset_at loc n"
    by (rule offset_at_between [OF assms(1,3)]) (use assms(4) in linarith)+
  moreover have b: "\<bar>offset_at loc w\<bar> \<le> 86400" using assms(2) offset_at_in by blast
  moreover have c: "calm loc (w - 86400) (w + 86400)" by (rule calm_mono [OF assms(3)]) (use assms(4) in linarith)+
  ultimately show "zone_offset loc w = offset_at loc n" "wall_clock loc (Date loc w) = w"
    using zone_offset_calm(1) [OF assms(1) b c] wall_clock_Date [OF assms(1) b c] by simp_all
qed

lemma wall_day_bounds:
  "wall_day loc now * 86400 \<le> now div second + offset_at loc (now div second)"
  "now div second + offset_at loc (now div second) < wall_day loc now * 86400 + 86400"
  using div_mult_mod_eq [of "wall_clock loc now" 86400] pos_mod_bound [of 86400 "wall_clock loc now"]
    pos_mod_sign [of 86400 "wall_clock loc now"]
  unfolding wall_day_def wall_clock_def by linarith+

lemma seconds_le: "x * second \<le> t \<longleftrightarrow> x \<le> t div second"
  using pos_mod_bound [of second t] pos_mod_sign [of second t] div_mult_mod_eq [of t second] by linarith

lemma minutes_in_day:
  assumes "d = (x::int) div 86400"
  shows "86400 * d + 60 * m \<le> x \<longleftrightarrow> m \<le> x mod 86400 div 60"
  using assms div_mult_mod_eq [of x 86400] div_mult_mod_eq [of "x mod 86400" 60] pos_mod_bound [of 60 "x mod 86400"]
    pos_mod_sign [of 60 "x mod 86400"]
  by linarith

text \<open>
  New York in the spring of 2026 (its clocks go from 02:00 to 03:00 on 8 March) and Berlin in the
  autumn (from 03:00 back to 02:00 on 25 October); days 20520 and 20751.
\<close>

definition new_york :: location where
  "new_york = \<lparr>lo_first = - 18000, lo_tx = [(1772953200, - 14400)]\<rparr>"

definition berlin :: location where
  "berlin = \<lparr>lo_first = 7200, lo_tx = [(1792890000, 3600)]\<rparr>"

definition sample_zones :: zone_database where
  "sample_zones name = (if name = ''America/New_York'' then Some new_york
    else if name = ''Europe/Berlin'' then Some berlin else None)"

definition sample_policy :: "string \<Rightarrow> int \<Rightarrow> int \<Rightarrow> PolicyView" where
  "sample_policy zone start stop =
    \<lparr>pv_row = \<lparr>p_id = ''p1'', p_organization_id = ''o1'', p_environment_id = ''e1'', p_application_id = ''a1'',
       p_created_by = ''u1'', p_mode = ''apply'', p_timezone = zone, p_weekdays = ''0'', p_start_minute = start,
       p_end_minute = stop, p_status = PolicyActive, p_paused_reason = '''', p_consecutive_failures = 0,
       p_created_at = 0, p_updated_at = 0\<rparr>,
     pv_weekdays = [0], pv_next = None\<rparr>"

lemmas sample_window_defs = sample_zones_def sample_policy_def new_york_def berlin_def window_ok_def ordered_def
  zone_offsets_def calm_def

text \<open>
  C0. Away from a change of the zone's offset (four days on either side of now), the window of a
  well-formed policy is open exactly when the zone's wall clock shows one of its weekdays and a
  time from its start minute up to, not including, its end minute; and an open window has the
  length that was saved.
\<close>

theorem window_open_by_wall_clock:
  assumes "zones (p_timezone (pv_row p)) = Some loc" and "window_ok p" and "ordered loc"
    and "\<forall>x\<in>zone_offsets loc. \<bar>x\<bar> \<le> 86400"
    and "calm loc (now div second - 4 * 86400) (now div second + 4 * 86400)"
  shows "(\<exists>s e. policyOccurrence zones p now = Some (s, e, True)
      \<and> e - s = (p_end_minute (pv_row p) - p_start_minute (pv_row p)) * minute)
    \<longleftrightarrow> int (weekday_of (wall_day loc now)) \<in> set (pv_weekdays p)
      \<and> p_start_minute (pv_row p) \<le> wall_minute loc now \<and> wall_minute loc now < p_end_minute (pv_row p)"
proof -
  let ?n = "now div second"
  define off where "off = offset_at loc ?n"
  define L where "L m = 86400 * wall_day loc now + 60 * m" for m
  define at where "at m = (L m - off) * second" for m
  have wall: "wall_clock loc now = ?n + off" by (simp add: wall_clock_def off_def)
  have "\<bar>off\<bar> \<le> 86400" using assms(4) offset_at_in unfolding off_def by blast
  moreover note wall_day_bounds [where loc = loc and now = now, folded off_def]
  ultimately have near: "\<bar>L m - ?n\<bar> \<le> 3 * 86400" if "0 \<le> m" "m \<le> 1440" for m
    using that unfolding L_def by linarith
  have date: "Date loc (L m) = at m" "wall_clock loc (Date loc (L m)) = L m"
    if "0 \<le> m" "m \<le> 1440" for m
    using zone_offset_near [OF assms(3-5) near [OF that]] by (simp_all add: Date_def off_def at_def)
  note b = window_ok_bounds [OF assms(2)]
  have occ: "occurrenceOn p loc (wall_day loc now) = (if int (weekday_of (wall_day loc now)) \<in> set (pv_weekdays p)
      then Some (at (p_start_minute (pv_row p)), at (p_end_minute (pv_row p))) else None)"
    using occurrenceOn_exact [OF assms(2), of loc "wall_day loc now"] date b unfolding L_def by simp
  have reads: "at m \<le> now \<longleftrightarrow> m \<le> wall_minute loc now" for m
    using minutes_in_day [of "wall_day loc now" "?n + off" m]
    unfolding at_def seconds_le L_def wall_minute_def wall by (auto simp: wall_day_def wall)
  then have before: "now < at m \<longleftrightarrow> wall_minute loc now < m" for m
    by (simp only: not_le [symmetric])
  have "at v - at u = (v - u) * minute" for u v
    unfolding at_def L_def by (simp add: algebra_simps)
  then show ?thesis by (simp add: policyOccurrence_def assms(1) occ reads before)
qed

theorem window_open_by_wall_clock_witness:
  "(\<exists>s e. policyOccurrence sample_zones (sample_policy ''America/New_York'' 90 150) (1774159200 * second) = Some (s, e, True)
      \<and> e - s = 60 * minute)"
proof -
  let ?p = "sample_policy ''America/New_York'' 90 150" and ?now = "1774159200 * second"
  have n: "?now div second = 1774159200" by simp
  have "int (weekday_of (wall_day new_york ?now)) \<in> set (pv_weekdays ?p)
      \<and> p_start_minute (pv_row ?p) \<le> wall_minute new_york ?now \<and> wall_minute new_york ?now < p_end_minute (pv_row ?p)"
    by code_simp
  moreover have "sample_zones (p_timezone (pv_row ?p)) = Some new_york" "window_ok ?p" "ordered new_york"
    "\<forall>x\<in>zone_offsets new_york. \<bar>x\<bar> \<le> 86400" "calm new_york (?now div second - 4 * 86400) (?now div second + 4 * 86400)"
    unfolding n by (simp_all add: sample_window_defs)
  ultimately have "\<exists>s e. policyOccurrence sample_zones ?p ?now = Some (s, e, True)
      \<and> e - s = (p_end_minute (pv_row ?p) - p_start_minute (pv_row ?p)) * minute"
    using window_open_by_wall_clock [of sample_zones ?p new_york ?now] by blast
  then show ?thesis by (simp add: sample_policy_def)
qed

definition steady :: "location \<Rightarrow> bool" where
  "steady loc \<longleftrightarrow> (\<forall>x\<in>zone_offsets loc. \<forall>y\<in>zone_offsets loc. x - y < 86400)"

lemma Date_days:
  assumes "steady loc" and "d < d'"
  shows "Date loc (86400 * d + 60 * m) < Date loc (86400 * d' + 60 * m)"
proof (rule Date_less)
  have "zone_offset loc (86400 * d' + 60 * m) - zone_offset loc (86400 * d + 60 * m) < 86400"
    using assms(1) zone_offset_in unfolding steady_def by blast
  then show "zone_offset loc (86400 * d' + 60 * m) - zone_offset loc (86400 * d + 60 * m)
      < 86400 * d' + 60 * m - (86400 * d + 60 * m)" using assms(2) by linarith
qed

lemma Date_days_mono:
  "steady loc \<Longrightarrow> d \<le> d' \<Longrightarrow> Date loc (86400 * d + 60 * m) \<le> Date loc (86400 * d' + 60 * m)"
  using Date_days [of loc d d' m] by (cases "d = d'") auto

lemma next_earliest:
  assumes "steady loc" and "first_some (\<lambda>i. case occurrenceOn p loc (t + int i) of
      None \<Rightarrow> None | Some (s, _) \<Rightarrow> if now < s then Some s else None) [0..<h + 1] = Some s"
  shows "now < s \<and> (\<exists>i\<le>h. \<exists>e. occurrenceOn p loc (t + int i) = Some (s, e))
    \<and> (\<forall>d\<ge>t. \<forall>s' e'. occurrenceOn p loc d = Some (s', e') \<and> now < s' \<longrightarrow> s \<le> s')"
proof -
  from first_some_Some [OF assms(2)] obtain i where i: "i < h + 1"
    and hit: "(case occurrenceOn p loc (t + int i) of
      None \<Rightarrow> None | Some (s, _) \<Rightarrow> if now < s then Some s else None) = Some s"
    and none: "\<forall>j<i. (case occurrenceOn p loc (t + int j) of
      None \<Rightarrow> None | Some (s, _) \<Rightarrow> if now < s then Some s else None) = None" by blast
  from hit obtain e where "occurrenceOn p loc (t + int i) = Some (s, e)" "now < s"
    by (auto split: option.splits if_splits)
  with i have i: "i \<le> h" "occurrenceOn p loc (t + int i) = Some (s, e)" "now < s" by simp_all
  have "s \<le> s'" if "t \<le> d" "occurrenceOn p loc d = Some (s', e')" "now < s'" for d s' e'
  proof (rule ccontr)
    assume "\<not> s \<le> s'"
    then have "d < t + int i"
      using Date_days_mono [OF assms(1), of "t + int i" d "p_start_minute (pv_row p)"]
        occurrenceOn_SomeD [OF i(2)] occurrenceOn_SomeD [OF that(2)] by force
    then have "nat (d - t) < i" "t + int (nat (d - t)) = d" using that(1) by linarith+
    with none that(2,3) show False by fastforce
  qed
  with i show ?thesis by blast
qed

lemma next_none:
  assumes "first_some (\<lambda>i. case occurrenceOn p loc (t + int i) of
      None \<Rightarrow> None | Some (s, _) \<Rightarrow> if now < s then Some s else None) [0..<h + 1] = None" and "i \<le> h"
    and "occurrenceOn p loc (t + int i) = Some (s, e)"
  shows "s \<le> now"
proof -
  have "i \<in> set [0..<h + 1]" using assms(2) by (simp add: less_Suc_eq_le del: upt_Suc)
  with assms(1) have "(case occurrenceOn p loc (t + int i) of
      None \<Rightarrow> None | Some (s, _) \<Rightarrow> if now < s then Some s else None) = None"
    unfolding first_some_None by blast
  then show ?thesis unfolding assms(3) by (simp split: if_splits)
qed

lemma previous_latest:
  assumes "steady loc" and "first_some (\<lambda>i. case occurrenceOn p loc (t - int i) of
      None \<Rightarrow> None | Some (s, e) \<Rightarrow> if e \<le> now then Some (s, e) else None) [0..<h + 1] = Some (s, e)"
  shows "e \<le> now \<and> (\<exists>i\<le>h. occurrenceOn p loc (t - int i) = Some (s, e))
    \<and> (\<forall>d\<le>t. \<forall>s' e'. occurrenceOn p loc d = Some (s', e') \<and> e' \<le> now \<longrightarrow> s' \<le> s)"
proof -
  from first_some_Some [OF assms(2)] obtain i where i: "i < h + 1"
    and hit: "(case occurrenceOn p loc (t - int i) of
      None \<Rightarrow> None | Some (s, e) \<Rightarrow> if e \<le> now then Some (s, e) else None) = Some (s, e)"
    and none: "\<forall>j<i. (case occurrenceOn p loc (t - int j) of
      None \<Rightarrow> None | Some (s, e) \<Rightarrow> if e \<le> now then Some (s, e) else None) = None" by blast
  from hit have "occurrenceOn p loc (t - int i) = Some (s, e)" "e \<le> now"
    by (auto split: option.splits if_splits)
  with i have i: "i \<le> h" "occurrenceOn p loc (t - int i) = Some (s, e)" "e \<le> now" by simp_all
  have "s' \<le> s" if "d \<le> t" "occurrenceOn p loc d = Some (s', e')" "e' \<le> now" for d s' e'
  proof (rule ccontr)
    assume "\<not> s' \<le> s"
    then have "t - int i < d"
      using Date_days_mono [OF assms(1), of d "t - int i" "p_start_minute (pv_row p)"]
        occurrenceOn_SomeD [OF i(2)] occurrenceOn_SomeD [OF that(2)] by force
    then have "nat (t - d) < i" "t - int (nat (t - d)) = d" using that(1) by linarith+
    with none that(2,3) show False by fastforce
  qed
  with i show ?thesis by blast
qed

lemma previous_none:
  assumes "first_some (\<lambda>i. case occurrenceOn p loc (t - int i) of
      None \<Rightarrow> None | Some (s, e) \<Rightarrow> if e \<le> now then Some (s, e) else None) [0..<h + 1] = None" and "i \<le> h"
    and "occurrenceOn p loc (t - int i) = Some (s, e)"
  shows "now < e"
proof -
  have "i \<in> set [0..<h + 1]" using assms(2) by (simp add: less_Suc_eq_le del: upt_Suc)
  with assms(1) have "(case occurrenceOn p loc (t - int i) of
      None \<Rightarrow> None | Some (s, e) \<Rightarrow> if e \<le> now then Some (s, e) else None) = None"
    unfolding first_some_None by blast
  then show ?thesis unfolding assms(3) by (simp split: if_splits)
qed

text \<open>
  C0. In any zone whose offsets lie less than a day apart, the next occurrence is the earliest
  start after now of the windows of today and later days, and the previous occurrence is the
  latest start of the windows of today and earlier days that have ended, within the two weeks the
  scheduler looks.
\<close>

theorem next_and_previous_occurrence:
  assumes "zones (p_timezone (pv_row p)) = Some loc" and "steady loc"
  shows "(case nextOccurrence zones p now of
      None \<Rightarrow> \<forall>i\<le>policyHorizon. \<forall>s e. occurrenceOn p loc (wall_day loc now + int i) = Some (s, e) \<longrightarrow> s \<le> now
    | Some s \<Rightarrow> now < s \<and> (\<exists>i\<le>policyHorizon. \<exists>e. occurrenceOn p loc (wall_day loc now + int i) = Some (s, e))
        \<and> (\<forall>d\<ge>wall_day loc now. \<forall>s' e'. occurrenceOn p loc d = Some (s', e') \<and> now < s' \<longrightarrow> s \<le> s'))
    \<and> (case previousOccurrence zones p now of
      None \<Rightarrow> \<forall>i\<le>policyHorizon. \<forall>s e. occurrenceOn p loc (wall_day loc now - int i) = Some (s, e) \<longrightarrow> now < e
    | Some (s, e) \<Rightarrow> e \<le> now \<and> (\<exists>i\<le>policyHorizon. occurrenceOn p loc (wall_day loc now - int i) = Some (s, e))
        \<and> (\<forall>d\<le>wall_day loc now. \<forall>s' e'. occurrenceOn p loc d = Some (s', e') \<and> e' \<le> now \<longrightarrow> s' \<le> s))"
proof -
  have nx: "nextOccurrence zones p now = first_some (\<lambda>i. case occurrenceOn p loc (wall_day loc now + int i) of
      None \<Rightarrow> None | Some (s, _) \<Rightarrow> if now < s then Some s else None) [0..<policyHorizon + 1]"
    by (simp add: nextOccurrence_def assms(1))
  have prev: "previousOccurrence zones p now = first_some (\<lambda>i. case occurrenceOn p loc (wall_day loc now - int i) of
      None \<Rightarrow> None | Some (s, e) \<Rightarrow> if e \<le> now then Some (s, e) else None) [0..<policyHorizon + 1]"
    by (simp add: previousOccurrence_def assms(1))
  show ?thesis
  proof (rule conjI)
    show "case nextOccurrence zones p now of
        None \<Rightarrow> \<forall>i\<le>policyHorizon. \<forall>s e. occurrenceOn p loc (wall_day loc now + int i) = Some (s, e) \<longrightarrow> s \<le> now
      | Some s \<Rightarrow> now < s \<and> (\<exists>i\<le>policyHorizon. \<exists>e. occurrenceOn p loc (wall_day loc now + int i) = Some (s, e))
          \<and> (\<forall>d\<ge>wall_day loc now. \<forall>s' e'. occurrenceOn p loc d = Some (s', e') \<and> now < s' \<longrightarrow> s \<le> s')"
      using next_earliest [OF assms(2), where p = p and t = "wall_day loc now" and now = now and h = policyHorizon, folded nx]
        next_none [where p = p and loc = loc and t = "wall_day loc now" and now = now and h = policyHorizon, folded nx]
      by (cases "nextOccurrence zones p now") simp_all
    show "case previousOccurrence zones p now of
        None \<Rightarrow> \<forall>i\<le>policyHorizon. \<forall>s e. occurrenceOn p loc (wall_day loc now - int i) = Some (s, e) \<longrightarrow> now < e
      | Some (s, e) \<Rightarrow> e \<le> now \<and> (\<exists>i\<le>policyHorizon. occurrenceOn p loc (wall_day loc now - int i) = Some (s, e))
          \<and> (\<forall>d\<le>wall_day loc now. \<forall>s' e'. occurrenceOn p loc d = Some (s', e') \<and> e' \<le> now \<longrightarrow> s' \<le> s)"
      using previous_latest [OF assms(2), where p = p and t = "wall_day loc now" and now = now and h = policyHorizon, folded prev]
        previous_none [where p = p and loc = loc and t = "wall_day loc now" and now = now and h = policyHorizon, folded prev]
      by (cases "previousOccurrence zones p now") auto
  qed
qed

theorem next_and_previous_occurrence_witness:
  "case nextOccurrence sample_zones (sample_policy ''America/New_York'' 90 120) (1772700000 * second) of
     None \<Rightarrow> False
   | Some s \<Rightarrow> 1772700000 * second < s \<and> s = 1772951400 * second
      \<and> (\<forall>d\<ge>wall_day new_york (1772700000 * second). \<forall>s' e'.
          occurrenceOn (sample_policy ''America/New_York'' 90 120) new_york d = Some (s', e')
            \<and> 1772700000 * second < s' \<longrightarrow> s \<le> s')"
proof -
  let ?p = "sample_policy ''America/New_York'' 90 120" and ?now = "1772700000 * second"
  have hyps: "sample_zones (p_timezone (pv_row ?p)) = Some new_york" "steady new_york"
    by (simp_all add: sample_window_defs steady_def)
  have "nextOccurrence sample_zones ?p ?now = Some (1772951400 * second)" by code_simp
  with next_and_previous_occurrence [where zones = sample_zones and p = ?p and now = ?now, OF hyps] show ?thesis
    by simp
qed

text \<open>A day whose window has its start after now is found by the search.\<close>

lemma next_found:
  assumes "zones (p_timezone (pv_row p)) = Some loc" and "occurrenceOn p loc d = Some (s, e)" and "now < s"
    and "wall_day loc now \<le> d" and "d \<le> wall_day loc now + int policyHorizon"
  shows "\<exists>s. nextOccurrence zones p now = Some s \<and> now < s"
proof -
  let ?f = "\<lambda>i. case occurrenceOn p loc (wall_day loc now + int i) of
      None \<Rightarrow> None | Some (s, _) \<Rightarrow> if now < s then Some s else None"
  have nx: "nextOccurrence zones p now = first_some ?f [0..<policyHorizon + 1]"
    by (simp add: nextOccurrence_def assms(1))
  have "?f (nat (d - wall_day loc now)) = Some s" using assms(2-4) by simp
  moreover have "nat (d - wall_day loc now) \<in> set [0..<policyHorizon + 1]"
    using assms(4,5) by (simp add: less_Suc_eq_le nat_le_iff del: upt_Suc)
  ultimately have "first_some ?f [0..<policyHorizon + 1] \<noteq> None"
    unfolding first_some_None by (metis option.distinct(1))
  then obtain y where y: "first_some ?f [0..<policyHorizon + 1] = Some y" by blast
  obtain i where "?f i = Some y" using first_some_Some [OF y] by blast
  then have "now < y" by (auto split: option.splits if_splits)
  with y nx show ?thesis by simp
qed

lemma calm_window_found:
  assumes "zones (p_timezone (pv_row p)) = Some loc" and "window_ok p" and "ordered loc"
    and "\<forall>x\<in>zone_offsets loc. \<bar>x\<bar> \<le> 86400"
    and "calm loc (86400 * d + 60 * p_start_minute (pv_row p) - 86400) (86400 * d + 60 * p_start_minute (pv_row p) + 86400)"
    and "int (weekday_of d) \<in> set (pv_weekdays p)"
    and "now div second < 86400 * d + 60 * p_start_minute (pv_row p)
      - offset_at loc (86400 * d + 60 * p_start_minute (pv_row p))"
    and "wall_day loc now \<le> d" and "d \<le> wall_day loc now + int policyHorizon"
  shows "\<exists>s. nextOccurrence zones p now = Some s \<and> now < s"
proof (rule next_found [where zones = zones and p = p, OF assms(1)])
  let ?L = "86400 * d + 60 * p_start_minute (pv_row p)"
  show "occurrenceOn p loc d = Some (Date loc ?L, Date loc (86400 * d + 60 * p_end_minute (pv_row p)))"
    using occurrenceOn_calm [OF assms(2-5)] assms(6) by simp
  have "zone_offset loc ?L = offset_at loc ?L"
    by (rule zone_offset_calm(1) [OF assms(3) _ assms(5)]) (use assms(4) offset_at_in in blast)
  then show "now < Date loc ?L"
    using assms(7) seconds_le [of "?L - offset_at loc ?L" now] by (simp only: Date_def not_le [symmetric]) simp
qed (rule assms)+

lemma one_transition:
  assumes "length (filter P xs) \<le> 1" and "x \<in> set xs" and "P x" and "y \<in> set xs" and "P y"
  shows "x = y"
  using assms by (induction xs) (auto simp: filter_empty_conv split: if_splits)

text \<open>
  C0. Two weeks are enough: when the zone changes its offset at most once from two days before now
  to seventeen days after, every well-formed policy has a next occurrence, after now, also when a
  change of the clocks skips the window of the coming week.
\<close>

theorem next_occurrence_found:
  assumes "zones (p_timezone (pv_row p)) = Some loc" and "window_ok p" and "ordered loc"
    and "\<forall>x\<in>zone_offsets loc. \<bar>x\<bar> \<le> 86400"
    and "length (filter (\<lambda>x. now div second - 2 * 86400 < fst x \<and> fst x \<le> now div second + 17 * 86400) (lo_tx loc)) \<le> 1"
  shows "\<exists>s. nextOccurrence zones p now = Some s \<and> now < s"
proof -
  define n where "n = now div second"
  define off where "off = offset_at loc n"
  define t where "t = wall_day loc now"
  let ?m = "p_start_minute (pv_row p)"
  define L where "L d = 86400 * d + 60 * ?m" for d
  note m = window_ok_bounds [OF assms(2)]
  have off: "\<bar>off\<bar> \<le> 86400" using assms(4) offset_at_in unfolding off_def by blast
  have t: "t * 86400 \<le> n + off" "n + off < t * 86400 + 86400"
    using wall_day_bounds [where loc = loc and now = now] by (simp_all only: t_def off_def n_def)
  obtain w where w: "w \<in> set (pv_weekdays p)" "w \<in> {0..6}"
    using assms(2) unfolding window_ok_def by (meson last_in_set subsetD)
  obtain d where d: "t < d" "d \<le> t + 7" "int (weekday_of d) = w" by (rule next_weekday [OF w(2)])
  have Ld7: "L (d + 7) = L d + 7 * 86400" unfolding L_def by simp
  have Ld0: "t * 86400 + 86400 \<le> L d" "L d \<le> t * 86400 + 8 * 86400" using d m unfolding L_def by linarith+
  have found: ?thesis if "calm loc (L x - 86400) (L x + 86400)" "t < x" "x \<le> t + 14" "int (weekday_of x) = w"
    "n < L x - offset_at loc (L x)" for x
    using calm_window_found [where zones = zones and p = p and d = x and now = now, OF assms(1-4)] that w(1) unfolding L_def n_def t_def policyHorizon_def by simp
  show ?thesis
  proof (cases "calm loc (L (d + 7) - 86400) (L (d + 7) + 86400)")
    case True
    have "\<bar>offset_at loc (L (d + 7))\<bar> \<le> 86400" using assms(4) offset_at_in by blast
    then have "n < L (d + 7) - offset_at loc (L (d + 7))" using t off Ld7 Ld0 by linarith
    with found [OF True] d show ?thesis by (simp add: weekday_of_shift)
  next
    case False
    then obtain x where x: "x \<in> set (lo_tx loc)" "L (d + 7) - 86400 < fst x" "fst x \<le> L (d + 7) + 86400"
      unfolding calm_def by blast
    then have xin: "n - 2 * 86400 < fst x" "fst x \<le> n + 17 * 86400" using t off Ld7 Ld0 by linarith+
    have calm: "calm loc (n - 2 * 86400) (L d + 86400)"
      unfolding calm_def
    proof (intro ballI notI)
      fix y assume y: "y \<in> set (lo_tx loc)" "n - 2 * 86400 < fst y \<and> fst y \<le> L d + 86400"
      then have "fst y \<le> n + 17 * 86400" using t off Ld0 by linarith
      with y x(1) xin one_transition [OF assms(5)] have "x = y" unfolding n_def by blast
      with x(2) y(2) Ld7 show False by simp
    qed
    have Ld: "n + off < L d" "n - 86400 \<le> L d" using t Ld0 off by linarith+
    have same: "offset_at loc (L d) = off"
      unfolding off_def
      by (rule offset_at_between [OF assms(3) calm]) (use Ld0 Ld in linarith)+
    have "calm loc (L d - 86400) (L d + 86400)" by (rule calm_mono [OF calm]) (use Ld in linarith)+
    with found [of d] d Ld same show ?thesis by simp
  qed
qed

theorem next_occurrence_found_witness:
  "\<exists>s. nextOccurrence sample_zones (sample_policy ''America/New_York'' 150 180) (1772700000 * second) = Some s
    \<and> 1772700000 * second < s"
proof (rule next_occurrence_found)
  show "sample_zones (p_timezone (pv_row (sample_policy ''America/New_York'' 150 180))) = Some new_york"
    by (simp add: sample_window_defs)
qed (simp_all add: sample_window_defs)

text \<open>
  What a change of the clocks does to a window that touches it. \<^const>\<open>occurrenceOn\<close> asks whether the
  zone skips the start, not whether it skips the end: with the end in the gap, \<^const>\<open>Date\<close> moves it back
  by the gap, and the Sunday window 01:30 to 02:30 of New York ends when it starts. It never opens
  that day, and once it has passed it is an ended window, to be recorded as missed.
\<close>

theorem window_end_in_gap_never_opens:
  "(wall_day new_york now = 20520 \<longrightarrow>
      policyOccurrence sample_zones (sample_policy ''America/New_York'' 90 150) now
        = Some (1772951400 * second, 1772951400 * second, False))
   \<and> previousOccurrence sample_zones (sample_policy ''America/New_York'' 90 150) (1772960400 * second)
        = Some (1772951400 * second, 1772951400 * second)"
proof
  have occ: "occurrenceOn (sample_policy ''America/New_York'' 90 150) new_york 20520
      = Some (1772951400 * second, 1772951400 * second)" by code_simp
  have zone: "sample_zones (p_timezone (pv_row (sample_policy ''America/New_York'' 90 150))) = Some new_york"
    by (simp add: sample_window_defs)
  show "wall_day new_york now = 20520 \<longrightarrow>
      policyOccurrence sample_zones (sample_policy ''America/New_York'' 90 150) now
        = Some (1772951400 * second, 1772951400 * second, False)"
    using occ by (simp add: policyOccurrence_def zone)
  show "previousOccurrence sample_zones (sample_policy ''America/New_York'' 90 150) (1772960400 * second)
     = Some (1772951400 * second, 1772951400 * second)" by code_simp
qed

text \<open>
  In an overlap the occurrence is one, but not always at the first of the two instants with its
  wall clock: east of Greenwich \<^const>\<open>Date\<close> gives the second. In Berlin 02:30 comes twice on 25 October
  2026, and the window opens at the second.
\<close>

theorem overlap_opens_at_second_mapping:
  "occurrenceOn (sample_policy ''Europe/Berlin'' 150 180) berlin 20751
     = Some (1792891800 * second, 1792893600 * second)
   \<and> wall_clock berlin (1792888200 * second) = wall_clock berlin (1792891800 * second)
   \<and> 1792888200 * second < 1792891800 * second"
  by code_simp

end
