(* ===== verification/Policies.thy ===== *)
theory Policies
  imports Access Windows
begin

text \<open>
  Update policies and their runs, \<^verbatim>\<open>internal/store/policies.go\<close> and \<^verbatim>\<open>policy_schedule.go\<close>: what an
  administrator saves, reads, resumes and deletes, and the scheduler's side, which lists the open
  and missed windows, opens one run per window, settles it and pauses a policy that keeps failing.

  \<open>uuid\<close> is \<^verbatim>\<open>uuid.Parse\<close> followed by \<^verbatim>\<open>String\<close>: the canonical text of an ID, None for its error;
  \<open>zones\<close> is the zone database. A run's outcome is a value of \<^typ>\<open>run_outcome\<close>; \<^const>\<open>RunOpen\<close>
  stands for the empty string and for any other text outside the vocabulary.
\<close>

subsection \<open>What is saved\<close>

definition PolicyModeApply :: string where "PolicyModeApply = ''apply''"
definition PolicyModePlanOnly :: string where "PolicyModePlanOnly = ''plan_only''"
definition MinPolicyWindowMinutes :: int where "MinPolicyWindowMinutes = 15"
definition PolicyFailureLimit :: nat where "PolicyFailureLimit = 3"
definition MaxPolicyRuns :: int where "MaxPolicyRuns = 100"
definition policyRunsShown :: int where "policyRunsShown = 20"

definition PolicyDetailCreatorLost :: string where
  "PolicyDetailCreatorLost = ''the policy'' @ [CHR 0x27] @ ''s creator no longer holds application.deploy''"

definition PolicyDetailRestarted :: string where
  "PolicyDetailRestarted = ''the server restarted during the run''"

definition PolicyReasonFailures :: string where
  "PolicyReasonFailures = ''three consecutive windows failed''"

record PolicyInput =
  pi_mode :: string
  pi_timezone :: string
  pi_weekdays :: "int list"
  pi_start_minute :: int
  pi_end_minute :: int

definition validPolicyZone :: "zone_database \<Rightarrow> string \<Rightarrow> bool" where
  "validPolicyZone zones name \<longleftrightarrow>
    \<not> (name = '''' \<or> name = ''Local'' \<or> length name > 64 \<or> \<not> displaySafe name) \<and> zones name \<noteq> None"

text \<open>Subtraction of Go's 64-bit \<^verbatim>\<open>int\<close> wraps around.\<close>

definition wrap64 :: "int \<Rightarrow> int" where
  "wrap64 x = (x + 2 ^ 63) mod 2 ^ 64 - 2 ^ 63"

definition weekdays :: "zone_database \<Rightarrow> PolicyInput \<Rightarrow> string res" where
  "weekdays zones inp =
    (if pi_mode inp \<noteq> PolicyModeApply \<and> pi_mode inp \<noteq> PolicyModePlanOnly then Inl ErrInvalidMode
     else if \<not> validPolicyZone zones (pi_timezone inp) then Inl ErrInvalidTimezone
     else if length (pi_weekdays inp) = 0 \<or> length (pi_weekdays inp) > 7 then Inl ErrInvalidWeekdays
     else
      let days = sort (pi_weekdays inp) in
      if list_ex (\<lambda>i. days ! i < 0 \<or> days ! i > 6 \<or> (i > 0 \<and> days ! (i - 1) = days ! i)) [0..<length days]
      then Inl ErrInvalidWeekdays
      else if pi_start_minute inp < 0 \<or> pi_end_minute inp > 1440
        \<or> wrap64 (pi_end_minute inp - pi_start_minute inp) < MinPolicyWindowMinutes then Inl ErrInvalidWindow
      else Inr (Join (map Itoa days) CHR '',''))"

subsection \<open>Reading a policy\<close>

fun scan_days :: "string list \<Rightarrow> int list res" where
  "scan_days [] = Inr []"
| "scan_days (d # ds) =
    (case Atoi d of
       None \<Rightarrow> Inl ErrRevisionCorrupt
     | Some n \<Rightarrow> if n < 0 \<or> n > 6 then Inl ErrRevisionCorrupt
        else and_then (scan_days ds) (\<lambda>ns. Inr (n # ns)))"

definition scanPolicy :: "UpdatePolicy \<Rightarrow> PolicyView res" where
  "scanPolicy p =
    and_then (scan_days (Split (p_weekdays p) CHR '','')) (\<lambda>days.
      Inr \<lparr>pv_row = p, pv_weekdays = days, pv_next = None\<rparr>)"

definition readPolicy :: "string \<Rightarrow> db \<Rightarrow> PolicyView res" where
  "readPolicy i d = and_then (row_or ErrNoRow (List.find (\<lambda>p. p_id p = i) (policies d))) scanPolicy"

definition policy_of :: "TenantAccess \<Rightarrow> string \<Rightarrow> UpdatePolicy \<Rightarrow> bool" where
  "policy_of a app p \<longleftrightarrow> p_organization_id p = OrganizationID a \<and> p_environment_id p = EnvironmentID a
    \<and> p_application_id p = app"

definition policyOf :: "TenantAccess \<Rightarrow> string \<Rightarrow> db \<Rightarrow> (string \<times> policy_status) res" where
  "policyOf a app d =
    and_then (row_or ErrNotFound (List.find (policy_of a app) (policies d))) (\<lambda>p. Inr (p_id p, p_status p))"

definition lockApplication :: "TenantAccess \<Rightarrow> string \<Rightarrow> db \<Rightarrow> unit res" where
  "lockApplication a app d =
    require (\<exists>x\<in>set (applications d). app_id x = app \<and> app_organization_id x = OrganizationID a
      \<and> app_environment_id x = EnvironmentID a) ErrAdoptionChanged"

text \<open>A validation as it is shown: the row without its baseline and tenant columns.\<close>

record ValidationRollback =
  vr_deployment_id :: string
  vr_revision :: int
  vr_outcome :: rollback_outcome
  vr_detail :: string

record ValidationView =
  va_deployment_id :: string
  va_policy_run_id :: string
  va_automated :: bool
  va_is_rollback :: bool
  va_phase :: phase
  va_started_at :: time
  va_observe_until :: time
  va_verdict :: verdict
  va_detail :: string
  va_rollback :: "ValidationRollback option"
  va_correlation_id :: string
  va_finished_at :: "time option"

definition or_empty :: "string option \<Rightarrow> string" where
  "or_empty x = (case x of None \<Rightarrow> '''' | Some s \<Rightarrow> s)"

definition rollback_revision :: "db \<Rightarrow> Validation \<Rightarrow> int" where
  "rollback_revision d v =
    (case List.find (\<lambda>x. v_rollback_deployment_id v = Some (d_id x)) (deployments d) of
       None \<Rightarrow> 0 | Some x \<Rightarrow> d_revision x)"

definition shown_validation :: "db \<Rightarrow> Validation \<Rightarrow> ValidationView" where
  "shown_validation d v =
    \<lparr>va_deployment_id = v_deployment_id v, va_policy_run_id = or_empty (v_policy_run_id v), va_automated = v_automated v,
     va_is_rollback = v_is_rollback v, va_phase = v_phase v, va_started_at = v_started_at v,
     va_observe_until = v_observe_until v, va_verdict = v_verdict v, va_detail = v_detail v,
     va_rollback =
      (if or_empty (v_rollback_deployment_id v) \<noteq> '''' \<or> v_rollback_outcome v \<noteq> NoRollback
       then Some \<lparr>vr_deployment_id = or_empty (v_rollback_deployment_id v), vr_revision = rollback_revision d v,
         vr_outcome = v_rollback_outcome v, vr_detail = v_rollback_detail v\<rparr>
       else None),
     va_correlation_id = v_correlation_id v, va_finished_at = v_finished_at v\<rparr>"

text \<open>A LEFT JOIN that found none, or a row with the empty ID, is shown as none.\<close>

definition validation_view :: "db \<Rightarrow> Validation option \<Rightarrow> ValidationView option" where
  "validation_view d joined =
    (case joined of
       None \<Rightarrow> None
     | Some v \<Rightarrow> if v_deployment_id v = '''' then None else Some (shown_validation d v))"

record RunView =
  rv_run :: PolicyRun
  rv_validation :: "ValidationView option"

definition policyRuns :: "string \<Rightarrow> int \<Rightarrow> db \<Rightarrow> RunView list" where
  "policyRuns policy limit d =
    map (\<lambda>r. \<lparr>rv_run = r, rv_validation =
        validation_view d (List.find (\<lambda>v. r_deployment_id r = Some (v_deployment_id v)) (validations d))\<rparr>)
      (take (nat limit) (rev (sort_key (\<lambda>r. (r_occurrence r, r_id r)) (filter (\<lambda>r. r_policy_id r = policy) (policy_runs d)))))"

subsection \<open>The administrator's operations\<close>

text \<open>The CHECK constraints of \<^verbatim>\<open>update_policies\<close> (lengths count characters) and its unique keys.\<close>

definition policy_check :: "UpdatePolicy \<Rightarrow> bool" where
  "policy_check p \<longleftrightarrow>
    1 \<le> length (runes (p_created_by p)) \<and> length (runes (p_created_by p)) \<le> 255
    \<and> p_mode p \<in> {PolicyModeApply, PolicyModePlanOnly}
    \<and> 1 \<le> length (runes (p_timezone p)) \<and> length (runes (p_timezone p)) \<le> 64
    \<and> 1 \<le> length (runes (p_weekdays p)) \<and> length (runes (p_weekdays p)) \<le> 13
    \<and> 0 \<le> p_start_minute p \<and> p_start_minute p \<le> 1425
    \<and> 15 \<le> p_end_minute p \<and> p_end_minute p \<le> 1440 \<and> p_end_minute p - p_start_minute p \<ge> 15
    \<and> length (runes (p_paused_reason p)) \<le> 255"

definition policy_clash :: "UpdatePolicy \<Rightarrow> UpdatePolicy \<Rightarrow> bool" where
  "policy_clash p x \<longleftrightarrow> p_id p = p_id x \<or> p_application_id p = p_application_id x"

definition new_policy :: "time \<Rightarrow> string \<Rightarrow> TenantAccess \<Rightarrow> string \<Rightarrow> PolicyInput \<Rightarrow> string \<Rightarrow> UpdatePolicy" where
  "new_policy now uid a app inp days =
    \<lparr>p_id = uid, p_organization_id = OrganizationID a, p_environment_id = EnvironmentID a, p_application_id = app,
     p_created_by = ActorID a, p_mode = pi_mode inp, p_timezone = pi_timezone inp, p_weekdays = days,
     p_start_minute = pi_start_minute inp, p_end_minute = pi_end_minute inp, p_status = PolicyActive,
     p_paused_reason = '''', p_consecutive_failures = 0, p_created_at = now, p_updated_at = now\<rparr>"

definition saved_policy :: "time \<Rightarrow> TenantAccess \<Rightarrow> PolicyInput \<Rightarrow> string \<Rightarrow> UpdatePolicy \<Rightarrow> UpdatePolicy" where
  "saved_policy now a inp days p =
    p\<lparr>p_created_by := ActorID a, p_mode := pi_mode inp, p_timezone := pi_timezone inp, p_weekdays := days,
      p_start_minute := pi_start_minute inp, p_end_minute := pi_end_minute inp, p_updated_at := now\<rparr>"

text \<open>The INSERT or UPDATE of a save, with the ID written and whether it was created.\<close>

definition save_policy ::
  "time \<Rightarrow> string \<Rightarrow> TenantAccess \<Rightarrow> string \<Rightarrow> PolicyInput \<Rightarrow> string \<Rightarrow> db \<Rightarrow> (db \<times> string \<times> bool) res" where
  "save_policy now uid a app inp days d =
    (case policyOf a app d of
       Inl e \<Rightarrow>
        if e = ErrNotFound then
          and_then (require (policy_check (new_policy now uid a app inp days)) ErrDriver) (\<lambda>_.
          and_then (insert_row policy_clash (new_policy now uid a app inp days) (policies d)) (\<lambda>t.
          Inr (d\<lparr>policies := t\<rparr>, uid, True)))
        else Inl e
     | Inr (i, _) \<Rightarrow>
        if \<exists>p\<in>set (policies d). p_id p = i \<and> \<not> policy_check (saved_policy now a inp days p) then Inl ErrDriver
        else Inr (d\<lparr>policies := update_where (\<lambda>p. p_id p = i) (saved_policy now a inp days) (policies d)\<rparr>, i, False))"

definition put_update_policy ::
  "zone_database \<Rightarrow> time \<Rightarrow> string \<Rightarrow> TenantAccess \<Rightarrow> string \<Rightarrow> PolicyInput \<Rightarrow> (PolicyView \<times> bool) op" where
  "put_update_policy zones now uid a app inp d =
    (let target = app @ ''/policies'' in
     case and_then (weekdays zones inp) (\<lambda>days.
        case lockApplication a app d of
          Inl e \<Rightarrow> Inl (if e = ErrAdoptionChanged then ErrNotFound else e)
        | Inr _ \<Rightarrow> save_policy now uid a app inp days d) of
       Inl e \<Rightarrow> ((target, ''''), Inl e)
     | Inr (d', i, created) \<Rightarrow>
        ((target @ ''/'' @ i, ''''), and_then (readPolicy i d') (\<lambda>p. Inr (d', p, created))))"

definition PutUpdatePolicy ::
  "(string \<Rightarrow> string option) \<Rightarrow> zone_database \<Rightarrow> time \<Rightarrow> string \<Rightarrow> string \<Rightarrow> TenantAccess \<Rightarrow> string \<Rightarrow> PolicyInput \<Rightarrow> db
    \<Rightarrow> db \<times> (PolicyView \<times> bool) res" where
  "PutUpdatePolicy uuid zones now cid uid a app inp d =
    (case uuid app of
       None \<Rightarrow> (d, Inl ErrInvalid)
     | Some appID \<Rightarrow>
        if EnvironmentID a = '''' then (d, Inl ErrInvalid)
        else
         (case run now cid a ApplicationPolicy (appID @ ''/policies'') True (put_update_policy zones now uid a appID inp) d of
            (d', Inl e) \<Rightarrow> (d', Inl e)
          | (d', Inr (p, created)) \<Rightarrow> (d', Inr (p\<lparr>pv_next := nextOccurrenceOf zones p now\<rparr>, created))))"

definition read_update_policy :: "TenantAccess \<Rightarrow> string \<Rightarrow> db \<Rightarrow> (PolicyView option \<times> RunView list) res" where
  "read_update_policy a app d =
    (case List.find (policy_of a app) (policies d) of
       None \<Rightarrow> Inr (None, [])
     | Some p \<Rightarrow> and_then (scanPolicy p) (\<lambda>v. Inr (Some v, policyRuns (p_id p) policyRunsShown d)))"

definition ReadUpdatePolicy ::
  "(string \<Rightarrow> string option) \<Rightarrow> zone_database \<Rightarrow> time \<Rightarrow> string \<Rightarrow> TenantAccess \<Rightarrow> string \<Rightarrow> db
    \<Rightarrow> db \<times> (PolicyView option \<times> RunView list) res" where
  "ReadUpdatePolicy uuid zones now cid a app d =
    (case uuid app of
       None \<Rightarrow> (d, Inl ErrInvalid)
     | Some appID \<Rightarrow>
        if EnvironmentID a = '''' then (d, Inl ErrInvalid)
        else
         (case readTenant now cid a ApplicationRead (read_update_policy a appID) d of
            (d', Inl e) \<Rightarrow> (d', Inl e)
          | (d', Inr (v, runs)) \<Rightarrow>
             (d', Inr (map_option (\<lambda>p. p\<lparr>pv_next := nextOccurrenceOf zones p now\<rparr>) v, runs))))"

text \<open>
  Deleting policies takes their runs with them and clears the runs' mention on deployments and
  validations: the cascades of the schema.
\<close>

definition delete_policies :: "(UpdatePolicy \<Rightarrow> bool) \<Rightarrow> db \<Rightarrow> db" where
  "delete_policies P d =
    (let gone = (\<lambda>i. \<exists>p\<in>set (policies d). P p \<and> p_id p = i);
         lost = (\<lambda>x. \<exists>r\<in>set (policy_runs d). gone (r_policy_id r) \<and> x = Some (r_id r)) in
     d\<lparr>policies := delete_where P (policies d),
       policy_runs := delete_where (\<lambda>r. gone (r_policy_id r)) (policy_runs d),
       deployments := update_where (\<lambda>x. lost (d_policy_run_id x)) (\<lambda>x. x\<lparr>d_policy_run_id := None\<rparr>) (deployments d),
       validations := update_where (\<lambda>v. lost (v_policy_run_id v)) (\<lambda>v. v\<lparr>v_policy_run_id := None\<rparr>) (validations d)\<rparr>)"

definition delete_update_policy :: "TenantAccess \<Rightarrow> string \<Rightarrow> unit op" where
  "delete_update_policy a app d =
    (let target = app @ ''/policies'' in
     case policyOf a app d of
       Inl e \<Rightarrow> ((target, ''''), Inl e)
     | Inr (i, _) \<Rightarrow> ((target @ ''/'' @ i, ''''), Inr (delete_policies (\<lambda>p. p_id p = i) d, ())))"

definition DeleteUpdatePolicy ::
  "(string \<Rightarrow> string option) \<Rightarrow> time \<Rightarrow> string \<Rightarrow> TenantAccess \<Rightarrow> string \<Rightarrow> db \<Rightarrow> db \<times> unit res" where
  "DeleteUpdatePolicy uuid now cid a app d =
    (case uuid app of
       None \<Rightarrow> (d, Inl ErrInvalid)
     | Some appID \<Rightarrow>
        if EnvironmentID a = '''' then (d, Inl ErrInvalid)
        else run now cid a ApplicationPolicy (appID @ ''/policies'') True (delete_update_policy a appID) d)"

definition resumed_policy :: "time \<Rightarrow> UpdatePolicy \<Rightarrow> UpdatePolicy" where
  "resumed_policy now p =
    p\<lparr>p_status := PolicyActive, p_paused_reason := '''', p_consecutive_failures := 0, p_updated_at := now\<rparr>"

definition resume_update_policy :: "time \<Rightarrow> TenantAccess \<Rightarrow> string \<Rightarrow> PolicyView op" where
  "resume_update_policy now a app d =
    (let target = app @ ''/policies'' in
     case policyOf a app d of
       Inl e \<Rightarrow> ((target, ''''), Inl e)
     | Inr (i, status) \<Rightarrow>
        ((target @ ''/'' @ i @ ''/resume'', ''''),
         if status \<noteq> PolicyPaused then Inl ErrPolicyNotPaused
         else
          let d' = d\<lparr>policies := update_where (\<lambda>p. p_id p = i) (resumed_policy now) (policies d)\<rparr>
          in and_then (readPolicy i d') (\<lambda>p. Inr (d', p))))"

definition ResumeUpdatePolicy ::
  "(string \<Rightarrow> string option) \<Rightarrow> zone_database \<Rightarrow> time \<Rightarrow> string \<Rightarrow> TenantAccess \<Rightarrow> string \<Rightarrow> db \<Rightarrow> db \<times> PolicyView res" where
  "ResumeUpdatePolicy uuid zones now cid a app d =
    (case uuid app of
       None \<Rightarrow> (d, Inl ErrInvalid)
     | Some appID \<Rightarrow>
        if EnvironmentID a = '''' then (d, Inl ErrInvalid)
        else
         (case run now cid a ApplicationPolicy (appID @ ''/policies'') True (resume_update_policy now a appID) d of
            (d', Inl e) \<Rightarrow> (d', Inl e)
          | (d', Inr p) \<Rightarrow> (d', Inr (p\<lparr>pv_next := nextOccurrenceOf zones p now\<rparr>))))"

definition ListPolicyRuns ::
  "(string \<Rightarrow> string option) \<Rightarrow> time \<Rightarrow> string \<Rightarrow> TenantAccess \<Rightarrow> string \<Rightarrow> int \<Rightarrow> db \<Rightarrow> db \<times> RunView list res" where
  "ListPolicyRuns uuid now cid a app limit d =
    (case uuid app of
       None \<Rightarrow> (d, Inl ErrInvalid)
     | Some appID \<Rightarrow>
        if EnvironmentID a = '''' then (d, Inl ErrInvalid)
        else
         readTenant now cid a ApplicationRead (\<lambda>d.
           if limit < 1 \<or> limit > MaxPolicyRuns then Inl ErrInvalid
           else case List.find (policy_of a appID) (policies d) of
             None \<Rightarrow> Inr []
           | Some p \<Rightarrow> Inr (policyRuns (p_id p) limit d)) d)"

subsection \<open>The scheduler\<close>

definition AuditPolicyRun :: string where "AuditPolicyRun = ''application.policy.run''"
definition AuditPolicyPaused :: string where "AuditPolicyPaused = ''application.policy.paused''"

fun outcome_name :: "run_outcome \<Rightarrow> string" where
  "outcome_name RunOpen = ''''"
| "outcome_name RunSkippedMissed = ''skipped_missed''"
| "outcome_name RunSkippedBusy = ''skipped_busy''"
| "outcome_name RunNoUpdate = ''no_update''"
| "outcome_name RunPlanned = ''planned''"
| "outcome_name RunApplied = ''applied''"
| "outcome_name RunBlocked = ''blocked''"
| "outcome_name RunFailed = ''failed''"
| "outcome_name RunPaused = ''paused''"

definition policyResults :: "run_outcome \<Rightarrow> string option" where
  "policyResults outcome =
    (if outcome \<in> {RunSkippedMissed, RunSkippedBusy, RunNoUpdate, RunPlanned, RunApplied} then Some ''success''
     else if outcome \<in> {RunBlocked, RunFailed} then Some ''failure''
     else if outcome = RunPaused then Some ''denied''
     else None)"

record ScheduledPolicy =
  sc_policy :: PolicyView
  sc_endpoint_id :: string
  sc_endpoint_busy :: bool
  sc_open :: bool
  sc_occurrence :: time
  sc_missed :: bool
  sc_previous :: time

definition policyRan :: "string \<Rightarrow> time \<Rightarrow> db \<Rightarrow> bool" where
  "policyRan policy occurrence d =
    (count_where (\<lambda>r. r_policy_id r = policy \<and> r_occurrence r = occurrence) (policy_runs d) > 0)"

text \<open>The active policies in order, each with its application's endpoints, the empty ID for none.\<close>

definition active_rows :: "db \<Rightarrow> (UpdatePolicy \<times> string) list" where
  "active_rows d =
    concat (map (\<lambda>p.
        case filter (\<lambda>i. in_application_id i = p_application_id p) (instances d) of
          [] \<Rightarrow> [(p, '''')]
        | ins \<Rightarrow> map (\<lambda>i. (p, in_endpoint_id i)) ins)
      (sort_key (\<lambda>p. (p_created_at p, p_id p)) (filter (\<lambda>p. p_status p = PolicyActive) (policies d))))"

fun scan_active :: "(UpdatePolicy \<times> string) list \<Rightarrow> (PolicyView \<times> string) list res" where
  "scan_active [] = Inr []"
| "scan_active ((p, endpoint) # rows) =
    and_then (scanPolicy p) (\<lambda>v. and_then (scan_active rows) (\<lambda>vs. Inr ((v, endpoint) # vs)))"

definition endpoint_busy :: "time \<Rightarrow> string \<Rightarrow> db \<Rightarrow> bool" where
  "endpoint_busy wall endpoint d =
    (count_where (\<lambda>x. d_endpoint_id x = endpoint
      \<and> (d_state x = DApplying \<or> (d_state x = DPlanned \<and> d_expires_at x > wall))) (deployments d) > 0)"

definition schedule :: "zone_database \<Rightarrow> time \<Rightarrow> time \<Rightarrow> db \<Rightarrow> PolicyView \<times> string \<Rightarrow> ScheduledPolicy" where
  "schedule zones now wall d = (\<lambda>(p, endpoint).
    let i = p_id (pv_row p);
        opened = (case policyOccurrence zones p now of
            Some (start, _, True) \<Rightarrow> if policyRan i start d then None else Some start
          | _ \<Rightarrow> None);
        missed = (case previousOccurrence zones p now of
            Some (start, stop) \<Rightarrow> if stop > p_updated_at (pv_row p) \<and> \<not> policyRan i start d then Some start else None
          | None \<Rightarrow> None)
    in \<lparr>sc_policy = p, sc_endpoint_id = endpoint,
        sc_endpoint_busy = (opened \<noteq> None \<and> endpoint \<noteq> '''' \<and> endpoint_busy wall endpoint d),
        sc_open = (opened \<noteq> None), sc_occurrence = (case opened of None \<Rightarrow> zero_time | Some t \<Rightarrow> t),
        sc_missed = (missed \<noteq> None), sc_previous = (case missed of None \<Rightarrow> zero_time | Some t \<Rightarrow> t)\<rparr>)"

definition SchedulePolicies :: "zone_database \<Rightarrow> time \<Rightarrow> time \<Rightarrow> db \<Rightarrow> ScheduledPolicy list res" where
  "SchedulePolicies zones now wall d =
    and_then (scan_active (active_rows d)) (\<lambda>rows.
      Inr (filter (\<lambda>s. sc_open s \<or> sc_missed s) (map (schedule zones now wall d) rows)))"

subsection \<open>Runs\<close>

definition run_clash :: "PolicyRun \<Rightarrow> PolicyRun \<Rightarrow> bool" where
  "run_clash r x \<longleftrightarrow> r_id r = r_id x \<or> (r_policy_id r = r_policy_id x \<and> r_occurrence r = r_occurrence x)"

definition new_run :: "time \<Rightarrow> string \<Rightarrow> UpdatePolicy \<Rightarrow> time \<Rightarrow> string \<Rightarrow> PolicyRun" where
  "new_run now uid p occurrence correlation =
    \<lparr>r_id = uid, r_policy_id = p_id p, r_organization_id = p_organization_id p, r_environment_id = p_environment_id p,
     r_application_id = p_application_id p, r_occurrence = occurrence, r_started_at = now, r_finished_at = None,
     r_outcome = RunOpen, r_deployment_id = None, r_detail = '''', r_correlation_id = correlation\<rparr>"

definition insertPolicyRun :: "time \<Rightarrow> string \<Rightarrow> string \<Rightarrow> time \<Rightarrow> string \<Rightarrow> db \<Rightarrow> (db \<times> string) res" where
  "insertPolicyRun now uid policy occurrence correlation d =
    and_then (row_or ErrNotFound (List.find (\<lambda>p. p_id p = policy \<and> p_status p = PolicyActive) (policies d))) (\<lambda>p.
    and_then (require (1 \<le> length (runes correlation) \<and> length (runes correlation) \<le> 64) ErrDriver) (\<lambda>_.
    case insert_row run_clash (new_run now uid p occurrence correlation) (policy_runs d) of
      Inl e \<Rightarrow> Inl (if e = ErrConflict then ErrAlreadyExists else e)
    | Inr t \<Rightarrow> Inr (d\<lparr>policy_runs := t\<rparr>, uid)))"

definition BeginPolicyRun :: "time \<Rightarrow> string \<Rightarrow> string \<Rightarrow> time \<Rightarrow> string \<Rightarrow> db \<Rightarrow> (db \<times> string) res" where
  "BeginPolicyRun now uid policy occurrence correlation d = insertPolicyRun now uid policy occurrence correlation d"

definition auditPolicy ::
  "string \<Rightarrow> string \<Rightarrow> string \<Rightarrow> string \<Rightarrow> string \<Rightarrow> string \<Rightarrow> string \<Rightarrow> time \<Rightarrow> db \<Rightarrow> db" where
  "auditPolicy org env resource action details result correlation at d =
    insert_audit \<lparr>au_id = 0, au_user_id = ''system'', au_action = action, au_resource = CleanText resource 255,
      au_details = CleanText details 255, au_ip_address = '''', au_created_at = at, au_scope = ''organization'',
      au_organization_id = org, au_environment_id = env, au_correlation_id = correlation, au_result = result\<rparr> d"

definition finished_run :: "time \<Rightarrow> run_outcome \<Rightarrow> string \<Rightarrow> string \<Rightarrow> PolicyRun \<Rightarrow> PolicyRun" where
  "finished_run now outcome deployment detail r =
    r\<lparr>r_outcome := outcome, r_deployment_id := (if deployment \<noteq> '''' then Some deployment else r_deployment_id r),
      r_detail := CleanText detail 255, r_finished_at := Some now\<rparr>"

text \<open>The count a run leaves on its policy, with the reason to pause it, empty for none.\<close>

definition count_outcome :: "run_outcome \<Rightarrow> string \<Rightarrow> db \<Rightarrow> (db \<times> string) res" where
  "count_outcome outcome policy d =
    (if outcome \<in> {RunBlocked, RunFailed} then
       let d' = d\<lparr>policies := update_where (\<lambda>p. p_id p = policy)
             (\<lambda>p. p\<lparr>p_consecutive_failures := p_consecutive_failures p + 1\<rparr>) (policies d)\<rparr>
       in and_then (row_or ErrNoRow (List.find (\<lambda>p. p_id p = policy) (policies d'))) (\<lambda>p.
            Inr (d', if p_consecutive_failures p \<ge> PolicyFailureLimit then PolicyReasonFailures else ''''))
     else if outcome \<in> {RunApplied, RunPlanned, RunNoUpdate} then
       Inr (d\<lparr>policies := update_where (\<lambda>p. p_id p = policy) (\<lambda>p. p\<lparr>p_consecutive_failures := 0\<rparr>) (policies d)\<rparr>, '''')
     else if outcome = RunPaused then Inr (d, PolicyDetailCreatorLost)
     else Inr (d, ''''))"

definition paused_policy :: "time \<Rightarrow> string \<Rightarrow> UpdatePolicy \<Rightarrow> UpdatePolicy" where
  "paused_policy now reason p = p\<lparr>p_status := PolicyPaused, p_paused_reason := reason, p_updated_at := now\<rparr>"

text \<open>The UPDATE that pauses an active policy, and the number of rows it changed.\<close>

definition pause_policy :: "time \<Rightarrow> string \<Rightarrow> string \<Rightarrow> db \<Rightarrow> db \<times> nat" where
  "pause_policy now policy reason d =
    (let P = (\<lambda>p. p_id p = policy \<and> p_status p = PolicyActive) in
     (d\<lparr>policies := update_where P (paused_policy now reason) (policies d)\<rparr>, count_where P (policies d)))"

definition finishPolicyRun :: "time \<Rightarrow> string \<Rightarrow> run_outcome \<Rightarrow> string \<Rightarrow> string \<Rightarrow> db \<Rightarrow> db res" where
  "finishPolicyRun now i outcome deployment detail d =
    and_then (row_or ErrNotFound (List.find (\<lambda>r. r_id r = i \<and> r_outcome r = RunOpen) (policy_runs d))) (\<lambda>r.
    let d1 = d\<lparr>policy_runs := update_where (\<lambda>x. r_id x = i \<and> r_outcome x = RunOpen)
          (finished_run now outcome deployment detail) (policy_runs d)\<rparr>
    in and_then (count_outcome outcome (r_policy_id r) d1) (\<lambda>(d2, pause).
       let resource = r_application_id r @ ''/policies/'' @ r_policy_id r;
           d3 = auditPolicy (r_organization_id r) (r_environment_id r) (resource @ ''/runs/'' @ i) AuditPolicyRun
             (outcome_name outcome) (or_empty (policyResults outcome)) (r_correlation_id r) now d2
       in if pause = '''' then Inr d3
          else case pause_policy now (r_policy_id r) pause d3 of
            (d4, n) \<Rightarrow>
              if n = 0 then Inr d4
              else Inr (auditPolicy (r_organization_id r) (r_environment_id r) resource AuditPolicyPaused pause
                (if outcome = RunPaused then ''denied'' else ''failure'') (r_correlation_id r) now d4)))"

definition FinishPolicyRun :: "time \<Rightarrow> string \<Rightarrow> run_outcome \<Rightarrow> string \<Rightarrow> string \<Rightarrow> db \<Rightarrow> db res" where
  "FinishPolicyRun now i outcome deployment detail d =
    (if policyResults outcome = None then Inl ErrInvalid else finishPolicyRun now i outcome deployment detail d)"

definition SkipPolicyWindow ::
  "time \<Rightarrow> string \<Rightarrow> string \<Rightarrow> string \<Rightarrow> time \<Rightarrow> run_outcome \<Rightarrow> string \<Rightarrow> db \<Rightarrow> db res" where
  "SkipPolicyWindow now uid cid policy occurrence outcome detail d =
    (if outcome \<noteq> RunSkippedMissed \<and> outcome \<noteq> RunSkippedBusy then Inl ErrInvalid
     else and_then (insertPolicyRun now uid policy occurrence cid d) (\<lambda>(d', i).
       finishPolicyRun now i outcome '''' detail d'))"

definition reconcilePolicyRuns :: "time \<Rightarrow> db \<Rightarrow> db res" where
  "reconcilePolicyRuns now d =
    each (\<lambda>i. finishPolicyRun now i RunFailed '''' PolicyDetailRestarted)
      (map r_id (sort_key (\<lambda>r. (r_started_at r, r_id r)) (filter (\<lambda>r. r_outcome r = RunOpen) (policy_runs d)))) d"

definition AttachPolicyRunDeployment :: "string \<Rightarrow> string \<Rightarrow> db \<Rightarrow> db res" where
  "AttachPolicyRunDeployment i deployment d =
    (let P = (\<lambda>r. r_id r = i \<and> r_outcome r = RunOpen) in
     if count_where P (policy_runs d) \<noteq> 1 then Inl ErrNotFound
     else Inr (d\<lparr>policy_runs := update_where P (\<lambda>r. r\<lparr>r_deployment_id := Some deployment\<rparr>) (policy_runs d)\<rparr>))"

end
