(* ===== verification/Health.thy ===== *)
theory Health
  imports Schema "HOL-Library.AList"
begin

text \<open>
  The verdict rules of health validation, \<^verbatim>\<open>Judge\<close> and \<^verbatim>\<open>BaselineOf\<close> of \<^verbatim>\<open>internal/store/validations.go\<close>: one
  poll of a deployment's services against the baseline of the first observation. A service's own
  verdict is an option: None is \<^verbatim>\<open>unobserved\<close>, \<^const>\<open>NoVerdict\<close> the empty string of a service that
  passes. A Go map is an association list read with \<^const>\<open>map_of\<close>; a missing key reads as the zero value.
\<close>

datatype presence = PresencePresent | PresenceGone | PresenceReplaced | PresenceUnknown

record Observation =
  ob_service :: string
  ob_presence :: presence
  ob_inspection :: "ContainerInspection option"
  ob_generation :: int

definition no_baseline :: ServiceBaseline where
  "no_baseline = \<lparr>sb_container_id = '''', sb_restart_count = 0, sb_pod_restarts = []\<rparr>"

definition baseline_of :: "(string \<times> ServiceBaseline) list \<Rightarrow> string \<Rightarrow> ServiceBaseline" where
  "baseline_of baseline service = (case map_of baseline service of None \<Rightarrow> no_baseline | Some b \<Rightarrow> b)"

fun verdictRank :: "verdict \<Rightarrow> nat" where
  "verdictRank VerdictUnhealthy = 1"
| "verdictRank VerdictRestarting = 2"
| "verdictRank VerdictExited = 3"
| "verdictRank VerdictChanged = 4"
| "verdictRank _ = 0"

subsection \<open>A cluster service\<close>

fun add_restarts :: "string \<Rightarrow> int \<Rightarrow> (string \<times> int) list \<Rightarrow> (string \<times> int) list" where
  "add_restarts uid n [] = [(uid, n)]"
| "add_restarts uid n ((u, m) # ps) = (if u = uid then (u, m + n) # ps else (u, m) # add_restarts uid n ps)"

definition workloadPods :: "WorkloadStatus \<Rightarrow> (string \<times> int) list" where
  "workloadPods w =
    fold (\<lambda>p out. fold (\<lambda>c. add_restarts (ps_uid p) (pc_restart_count c)) (ps_containers p) out) (ws_pods w) []"

definition failingWaits :: "string list" where
  "failingWaits = [''CrashLoopBackOff'', ''ImagePullBackOff'', ''ErrImagePull'', ''CreateContainerConfigError'',
     ''CreateContainerError'']"

text \<open>The Deployment is not the settled one any more: gone, recreated, or edited since.\<close>

definition workload_edited :: "Observation \<Rightarrow> ContainerInspection \<Rightarrow> WorkloadStatus \<Rightarrow> bool" where
  "workload_edited o' i w \<longleftrightarrow>
    ws_missing w \<or> ws_uid w \<noteq> wr_uid (it_workload (ci_target i)) \<or> ws_generation w > ob_generation o'"

text \<open>The loop over the pods' containers: waiting, terminated, and the first failing reason to wait.\<close>

definition container_step :: "PodStatus \<Rightarrow> PodContainer \<Rightarrow> bool \<times> bool \<times> string \<Rightarrow> bool \<times> bool \<times> string" where
  "container_step p c = (\<lambda>(waiting, terminated, reason).
    if pc_state c = ''waiting''
    then (True, terminated, if reason = '''' \<and> pc_reason c \<in> set failingWaits then pc_reason c else reason)
    else if pc_state c = ''terminated''
    then (waiting, terminated \<or> (ps_phase p \<noteq> ''Failed'' \<and> ps_phase p \<noteq> ''Succeeded''), reason)
    else (waiting, terminated, reason))"

definition pod_states :: "WorkloadStatus \<Rightarrow> bool \<times> bool \<times> string" where
  "pod_states w =
    fold (\<lambda>p. fold (container_step p) (ps_containers p)) (ws_pods w) (False, False, '''')"

definition judgeWorkload ::
  "Observation \<Rightarrow> ContainerInspection \<Rightarrow> WorkloadStatus \<Rightarrow> ServiceBaseline \<Rightarrow> bool \<Rightarrow> verdict option \<times> string" where
  "judgeWorkload o' i w b final =
    (if workload_edited o' i w then (Some VerdictChanged, '''')
     else
      let kept = list_ex (\<lambda>(uid, _). map_of (sb_pod_restarts b) uid \<noteq> None) (workloadPods w);
          restarted = list_ex (\<lambda>(uid, n). n > (case map_of (sb_pod_restarts b) uid of None \<Rightarrow> 0 | Some m \<Rightarrow> m)) (workloadPods w)
      in if sb_pod_restarts b \<noteq> [] \<and> ws_pods w \<noteq> [] \<and> \<not> kept \<and> \<not> restarted then (Some VerdictChanged, '''')
         else
          (case pod_states w of (waiting, terminated, reason) \<Rightarrow>
             if terminated \<and> \<not> waiting \<and> ws_available w < ws_desired w then (Some VerdictExited, '''')
             else if restarted then (Some VerdictRestarting, '''')
             else if reason \<noteq> '''' then (Some VerdictUnhealthy, reason)
             else if final \<and> (ws_observed_generation w < ws_generation w \<or> ws_available w < ws_desired w
                 \<or> ws_ready w < ws_desired w \<or> waiting) then (Some VerdictUnhealthy, '''')
             else (Some NoVerdict, '''')))"

subsection \<open>A poll\<close>

definition judgeService :: "Observation \<Rightarrow> ServiceBaseline \<Rightarrow> bool \<Rightarrow> verdict option \<times> string" where
  "judgeService o' b final =
    (case ob_inspection o' of
       Some i \<Rightarrow>
        (case ci_workload i of
           Some w \<Rightarrow> judgeWorkload o' i w b final
         | None \<Rightarrow>
            if ob_presence o' = PresenceReplaced then (Some VerdictChanged, '''')
            else if ob_presence o' = PresenceGone then (Some VerdictExited, '''')
            else if ci_state i \<noteq> ''running'' \<and> ci_state i \<noteq> ''restarting'' then (Some VerdictExited, '''')
            else if ci_state i = ''restarting'' \<or> ci_restart_count i > sb_restart_count b then (Some VerdictRestarting, '''')
            else if ci_health i = ''unhealthy'' \<or> (ci_health i = ''starting'' \<and> final) then (Some VerdictUnhealthy, '''')
            else (Some NoVerdict, ''''))
     | None \<Rightarrow>
        if ob_presence o' = PresenceReplaced then (Some VerdictChanged, '''')
        else if ob_presence o' = PresenceGone then (Some VerdictExited, '''')
        else (None, ''''))"

text \<open>One turn of the loop of \<^verbatim>\<open>Judge\<close> on its state: complete so far, the verdict and its detail.\<close>

definition judge_step ::
  "(string \<times> ServiceBaseline) list \<Rightarrow> bool \<Rightarrow> Observation \<Rightarrow> bool \<times> verdict \<times> string \<Rightarrow> bool \<times> verdict \<times> string" where
  "judge_step baseline final o' = (\<lambda>(complete, verdict, detail).
    case judgeService o' (baseline_of baseline (ob_service o')) final of
      (None, _) \<Rightarrow> (False, verdict, detail)
    | (Some v, reason) \<Rightarrow>
        if verdictRank v > verdictRank verdict
        then (complete, v, if reason \<noteq> '''' then ob_service o' @ '':'' @ reason else ob_service o')
        else (complete, verdict, detail))"

definition Judge :: "Observation list \<Rightarrow> (string \<times> ServiceBaseline) list \<Rightarrow> bool \<Rightarrow> verdict \<times> string" where
  "Judge obs baseline final =
    (case fold (judge_step baseline final) obs (True, NoVerdict, '''') of
       (complete, verdict, detail) \<Rightarrow>
         if verdict = NoVerdict \<and> final \<and> complete then (VerdictHealthy, '''') else (verdict, detail))"

text \<open>One turn of the loop of \<^verbatim>\<open>BaselineOf\<close>; None is its early return.\<close>

definition baseline_step ::
  "Observation \<Rightarrow> (string \<times> ServiceBaseline) list option \<Rightarrow> (string \<times> ServiceBaseline) list option" where
  "baseline_step o' out =
    (case out of
       None \<Rightarrow> None
     | Some m \<Rightarrow>
        (case ob_inspection o' of
           Some i \<Rightarrow>
            (case ci_workload i of
               Some w \<Rightarrow>
                if workload_edited o' i w then Some m
                else Some (AList.update (ob_service o') (no_baseline\<lparr>sb_pod_restarts := workloadPods w\<rparr>) m)
             | None \<Rightarrow>
                Some (AList.update (ob_service o') \<lparr>sb_container_id = it_container_id (ci_target i),
                  sb_restart_count = ci_restart_count i, sb_pod_restarts = []\<rparr> m))
         | None \<Rightarrow> if ob_presence o' \<noteq> PresenceGone \<and> ob_presence o' \<noteq> PresenceReplaced then None else Some m))"

definition BaselineOf :: "Observation list \<Rightarrow> (string \<times> ServiceBaseline) list option" where
  "BaselineOf obs = fold baseline_step obs (Some [])"

subsection \<open>Where a settled container stands\<close>

record boundResource =
  br_container_id :: string
  br_name :: string

definition presence_of :: "DeploymentIdentity \<Rightarrow> (string \<times> boundResource) list \<Rightarrow> Snapshot option \<Rightarrow> presence" where
  "presence_of i bound snap =
    (case map_of bound (di_service i) of
       None \<Rightarrow> PresenceReplaced
     | Some r \<Rightarrow>
        if br_container_id r \<noteq> di_container_id i then PresenceReplaced
        else
         (case snap of
            None \<Rightarrow> PresenceUnknown
          | Some s \<Rightarrow>
             if \<exists>c\<in>set (sn_containers s). co_id c = di_container_id i then PresencePresent
             else if \<exists>c\<in>set (sn_containers s). co_name c = br_name r then PresenceReplaced
             else PresenceGone))"

subsection \<open>What a poll decides\<close>

text \<open>The verdict of one service of a poll, and the detail it leaves.\<close>

definition service_verdict :: "(string \<times> ServiceBaseline) list \<Rightarrow> bool \<Rightarrow> Observation \<Rightarrow> verdict option" where
  "service_verdict baseline final o' = fst (judgeService o' (baseline_of baseline (ob_service o')) final)"

definition service_detail :: "(string \<times> ServiceBaseline) list \<Rightarrow> bool \<Rightarrow> Observation \<Rightarrow> string" where
  "service_detail baseline final o' =
    (let reason = snd (judgeService o' (baseline_of baseline (ob_service o')) final)
     in if reason \<noteq> '''' then ob_service o' @ '':'' @ reason else ob_service o')"

definition service_rank :: "(string \<times> ServiceBaseline) list \<Rightarrow> bool \<Rightarrow> Observation \<Rightarrow> nat" where
  "service_rank baseline final o' = (case service_verdict baseline final o' of None \<Rightarrow> 0 | Some v \<Rightarrow> verdictRank v)"

lemma judge_step_eq:
  "judge_step baseline final x (c, v, t) =
    (if service_verdict baseline final x = None then (False, v, t)
     else if service_rank baseline final x > verdictRank v
     then (c, the (service_verdict baseline final x), service_detail baseline final x)
     else (c, v, t))"
  by (auto simp: judge_step_def service_verdict_def service_rank_def service_detail_def Let_def
      split: prod.splits option.splits)

lemma judge_fold:
  "case fold (judge_step baseline final) obs (True, NoVerdict, '''') of (c, v, t) \<Rightarrow>
     (c \<longleftrightarrow> (\<forall>x\<in>set obs. service_verdict baseline final x \<noteq> None))
     \<and> (\<forall>x\<in>set obs. service_rank baseline final x \<le> verdictRank v)
     \<and> (v = NoVerdict \<and> t = '''' \<or>
        (\<exists>pre x post. obs = pre @ x # post \<and> service_verdict baseline final x = Some v \<and> 0 < verdictRank v
           \<and> t = service_detail baseline final x \<and> (\<forall>y\<in>set pre. service_rank baseline final y < verdictRank v)))"
proof (induction obs rule: rev_induct)
  case (snoc x obs)
  obtain c v t where f: "fold (judge_step baseline final) obs (True, NoVerdict, '''') = (c, v, t)"
    by (cases "fold (judge_step baseline final) obs (True, NoVerdict, '''')") auto
  note IH = snoc.IH [unfolded f, simplified]
  consider (unseen) "service_verdict baseline final x = None"
    | (weaker) w where "service_verdict baseline final x = Some w" "verdictRank w \<le> verdictRank v"
    | (stronger) w where "service_verdict baseline final x = Some w" "verdictRank v < verdictRank w"
    by (metis not_less option.exhaust)
  then show ?case
  proof cases
    case unseen
    then have "service_rank baseline final x = 0" by (simp add: service_rank_def)
    with unseen IH show ?thesis by (simp add: f judge_step_eq) (metis append_Cons append_assoc)
  next
    case weaker
    then have "service_rank baseline final x \<le> verdictRank v" by (simp add: service_rank_def)
    with weaker IH show ?thesis by (simp add: f judge_step_eq) (metis append_Cons append_assoc)
  next
    case stronger
    then have r: "service_rank baseline final x = verdictRank w" by (simp add: service_rank_def)
    have "\<forall>y\<in>set obs. service_rank baseline final y < verdictRank w" using IH stronger(2) by fastforce
    with r stronger IH show ?thesis
      by (simp add: f judge_step_eq) (metis append.right_neutral append_Nil less_imp_le_nat neq0_conv not_less0)
  qed
qed simp

text \<open>
  C0. A poll reports the strongest failing verdict among its services (changed over exited over
  restarting over unhealthy), named by the first service that has it; with no failing service it
  reports healthy exactly when the window has ended and every service was observed, and nothing
  otherwise. So the last poll decides whenever it saw every service.
\<close>

theorem Judge_strongest_verdict:
  "case Judge obs baseline final of (v, t) \<Rightarrow>
     (if \<exists>x\<in>set obs. service_rank baseline final x > 0
      then \<exists>pre x post. obs = pre @ x # post \<and> service_verdict baseline final x = Some v \<and> 0 < verdictRank v
        \<and> t = service_detail baseline final x
        \<and> (\<forall>y\<in>set pre. service_rank baseline final y < verdictRank v)
        \<and> (\<forall>y\<in>set post. service_rank baseline final y \<le> verdictRank v)
      else t = '''' \<and> v = (if final \<and> (\<forall>x\<in>set obs. service_verdict baseline final x \<noteq> None)
        then VerdictHealthy else NoVerdict))"
proof -
  obtain c v t where f: "fold (judge_step baseline final) obs (True, NoVerdict, '''') = (c, v, t)"
    by (cases "fold (judge_step baseline final) obs (True, NoVerdict, '''')") auto
  note F = judge_fold [where baseline = baseline and final = final and obs = obs, unfolded f, simplified]
  show ?thesis
  proof (cases "v = NoVerdict")
    case True
    with F show ?thesis by (auto simp: Judge_def f)
  next
    case False
    with F obtain pre x post where x: "obs = pre @ x # post" "service_verdict baseline final x = Some v" "0 < verdictRank v"
      "t = service_detail baseline final x" "\<forall>y\<in>set pre. service_rank baseline final y < verdictRank v" by blast
    then have "\<exists>x\<in>set obs. service_rank baseline final x > 0" by (auto simp: service_rank_def)
    moreover have "\<forall>y\<in>set post. service_rank baseline final y \<le> verdictRank v" using F x(1) by simp
    moreover have "Judge obs baseline final = (v, t)" by (simp add: Judge_def f False)
    ultimately show ?thesis using x by (simp only: prod.case if_True) blast
  qed
qed

subsection \<open>The baseline\<close>

text \<open>What one observed service leaves in the baseline.\<close>

definition own_baseline :: "Observation \<Rightarrow> ServiceBaseline option" where
  "own_baseline x =
    (case ob_inspection x of
       None \<Rightarrow> None
     | Some i \<Rightarrow>
        (case ci_workload i of
           Some w \<Rightarrow> if workload_edited x i w then None else Some (no_baseline\<lparr>sb_pod_restarts := workloadPods w\<rparr>)
         | None \<Rightarrow> Some \<lparr>sb_container_id = it_container_id (ci_target i), sb_restart_count = ci_restart_count i,
             sb_pod_restarts = []\<rparr>))"

lemma baseline_step_Some:
  "baseline_step x out = Some m' \<Longrightarrow> \<exists>m. out = Some m \<and>
     map_of m' = (case own_baseline x of None \<Rightarrow> map_of m | Some b \<Rightarrow> (map_of m)(ob_service x \<mapsto> b))"
  by (auto simp: baseline_step_def own_baseline_def update_conv' split: option.splits if_splits)

lemma baseline_fold_None: "fold baseline_step xs None = None"
  by (induction xs) (simp_all add: baseline_step_def)

lemma baseline_fold:
  assumes "fold baseline_step xs (Some m) = Some m'" and "distinct (map ob_service xs)"
  shows "(\<forall>s. s \<notin> ob_service ` set xs \<longrightarrow> map_of m' s = map_of m s)
    \<and> (\<forall>x\<in>set xs. map_of m' (ob_service x) =
        (case own_baseline x of None \<Rightarrow> map_of m (ob_service x) | Some b \<Rightarrow> Some b))"
  using assms
proof (induction xs arbitrary: m)
  case (Cons x xs)
  then obtain m1 where m1: "baseline_step x (Some m) = Some m1"
    by (cases "baseline_step x (Some m)") (auto simp: baseline_fold_None)
  with Cons.prems have "fold baseline_step xs (Some m1) = Some m'" "distinct (map ob_service xs)" by simp_all
  note IH = Cons.IH [OF this]
  from baseline_step_Some [OF m1] have "map_of m1 = (case own_baseline x of None \<Rightarrow> map_of m
      | Some b \<Rightarrow> (map_of m)(ob_service x \<mapsto> b))" by auto
  with IH Cons.prems(2) show ?case by (auto split: option.splits) (metis imageI fun_upd_other)+
qed simp

lemma baseline_of_own:
  assumes "BaselineOf obs = Some b" and "distinct (map ob_service obs)" and "x \<in> set obs"
  shows "baseline_of b (ob_service x) = (case own_baseline x of None \<Rightarrow> no_baseline | Some y \<Rightarrow> y)"
  using baseline_fold [of obs "[]" b] assms by (auto simp: BaselineOf_def baseline_of_def split: option.splits)

text \<open>A restart count never exceeds itself, and every counted pod is among the counted.\<close>

lemma distinct_add_restarts: "distinct (map fst ps) \<Longrightarrow> distinct (map fst (add_restarts uid n ps))"
proof -
  have "fst ` set (add_restarts uid n ps) = insert uid (fst ` set ps)" for ps
    by (induction uid n ps rule: add_restarts.induct) (simp_all add: insert_commute)
  then show "distinct (map fst ps) \<Longrightarrow> distinct (map fst (add_restarts uid n ps))"
    by (induction ps) auto
qed

lemma distinct_workloadPods: "distinct (map fst (workloadPods w))"
proof -
  have inner: "distinct (map fst ps) \<Longrightarrow> distinct (map fst (fold (\<lambda>c. add_restarts uid (f c)) cs ps))" for ps uid f cs
    by (induction cs arbitrary: ps) (auto simp: distinct_add_restarts)
  have "distinct (map fst ps) \<Longrightarrow> distinct (map fst (fold (\<lambda>p out. fold (\<lambda>c. add_restarts (ps_uid p)
      (pc_restart_count c)) (ps_containers p) out) pods ps))" for pods ps
    by (induction pods arbitrary: ps) (auto intro: inner)
  from this [of "[]" "ws_pods w"] show ?thesis by (simp add: workloadPods_def)
qed

text \<open>
  C0. The poll that gave the baseline blames nobody for a restart or a change against it: judged
  again, a service is restarting only when its container is in the restarting state, and changed
  only when it was replaced or its Deployment is gone, recreated or edited.
\<close>

theorem baseline_poll_blames_nobody:
  assumes "BaselineOf obs = Some b" and "distinct (map ob_service obs)" and "x \<in> set obs"
  shows "(service_verdict b final x = Some VerdictRestarting \<longrightarrow>
      (\<exists>i. ob_inspection x = Some i \<and> ci_workload i = None \<and> ci_state i = ''restarting''))
    \<and> (service_verdict b final x = Some VerdictChanged \<longrightarrow>
      (\<exists>i w. ob_inspection x = Some i \<and> ci_workload i = Some w \<and> workload_edited x i w)
      \<or> ob_presence x = PresenceReplaced)"
proof (cases "\<exists>i w. ob_inspection x = Some i \<and> ci_workload i = Some w")
  case True
  then obtain i w where i: "ob_inspection x = Some i" "ci_workload i = Some w" by blast
  show ?thesis
  proof (cases "workload_edited x i w")
    case edited: True
    with i show ?thesis by (auto simp: service_verdict_def judgeService_def judgeWorkload_def)
  next
    case False
    have b: "baseline_of b (ob_service x) = no_baseline\<lparr>sb_pod_restarts := workloadPods w\<rparr>"
      using baseline_of_own [OF assms] i False by (simp add: own_baseline_def)
    have self: "map_of (workloadPods w) uid = Some n" if "(uid, n) \<in> set (workloadPods w)" for uid n
      using that distinct_workloadPods by (simp add: map_of_is_SomeI)
    then have "\<not> list_ex (\<lambda>(uid, n). n > (case map_of (workloadPods w) uid of None \<Rightarrow> 0 | Some m \<Rightarrow> m)) (workloadPods w)"
      by (auto simp: list_ex_iff)
    moreover have "workloadPods w \<noteq> [] \<Longrightarrow> list_ex (\<lambda>(uid, _). map_of (workloadPods w) uid \<noteq> None) (workloadPods w)"
      using self by (cases "workloadPods w") auto
    ultimately show ?thesis
      using i False unfolding service_verdict_def judgeService_def i judgeWorkload_def b
      by (auto simp: Let_def i split: prod.splits if_splits)
  qed
next
  case False
  with baseline_of_own [OF assms] show ?thesis
    by (auto simp: service_verdict_def judgeService_def own_baseline_def split: option.splits if_splits)
qed

definition sample_observation :: Observation where
  "sample_observation = \<lparr>ob_service = ''web'', ob_presence = PresencePresent,
     ob_inspection = Some \<lparr>ci_target = no_target, ci_state = ''running'', ci_health = ''healthy'', ci_restart_count = 2,
       ci_workload = None\<rparr>, ob_generation = 0\<rparr>"

theorem baseline_poll_blames_nobody_witness:
  "\<exists>b. BaselineOf [sample_observation] = Some b
    \<and> service_verdict b True sample_observation \<noteq> Some VerdictRestarting
    \<and> service_verdict b True sample_observation \<noteq> Some VerdictChanged"
proof -
  obtain b where b: "BaselineOf [sample_observation] = Some b"
    by (simp add: BaselineOf_def baseline_step_def sample_observation_def)
  from baseline_poll_blames_nobody [OF this, of sample_observation True] b show ?thesis
    by (simp add: sample_observation_def)
qed

end
