(* ===== verification/Validations.thy ===== *)
theory Validations
  imports Policies Health Inventory
begin

text \<open>
  Health validation of applied deployments, the store's side of \<^verbatim>\<open>internal/store/validations.go\<close>: a
  validation is opened when an apply settles, observed, given one verdict, and for an automated
  update that failed its rollback is named and decided and its policy paused.
\<close>

definition ValidationGrace :: duration where "ValidationGrace = 30 * second"
definition ValidationWindow :: duration where "ValidationWindow = 2 * minute"
definition PendingValidationsPerOrg :: nat where "PendingValidationsPerOrg = 2"
definition MaxPendingValidations :: nat where "MaxPendingValidations = 256"
definition AuditValidation :: string where "AuditValidation = ''application.validation''"
definition maxBaselineBytes :: nat where "maxBaselineBytes = 32768"

definition RollbackInterrupted :: string where "RollbackInterrupted = ''interrupted''"

definition ValidationDetailServerDown :: string where
  "ValidationDetailServerDown = ''the server was not running during the window''"
definition ValidationReasonRolledBack :: string where
  "ValidationReasonRolledBack = ''rolled back after a failed update''"
definition ValidationReasonNotRolledBack :: string where
  "ValidationReasonNotRolledBack = ''update failed and could not be rolled back: ''"
definition ValidationReasonUnverified :: string where
  "ValidationReasonUnverified = ''update could not be validated: ''"

fun verdict_name :: "verdict \<Rightarrow> string" where
  "verdict_name NoVerdict = ''''"
| "verdict_name VerdictHealthy = ''healthy''"
| "verdict_name VerdictUnhealthy = ''unhealthy''"
| "verdict_name VerdictExited = ''exited''"
| "verdict_name VerdictRestarting = ''restarting''"
| "verdict_name VerdictUnverifiable = ''unverifiable''"
| "verdict_name VerdictChanged = ''changed''"

definition validationResults :: "verdict \<Rightarrow> string option" where
  "validationResults v =
    (if v = VerdictHealthy then Some ''success'' else if v = NoVerdict then None else Some ''failure'')"

definition rollbackVerdicts :: "verdict \<Rightarrow> bool" where
  "rollbackVerdicts v \<longleftrightarrow> v \<in> {VerdictUnhealthy, VerdictExited, VerdictRestarting}"

definition awaitingRollback :: "Validation \<Rightarrow> bool" where
  "awaitingRollback v \<longleftrightarrow>
    v_phase v = PhaseDone \<and> v_automated v \<and> \<not> v_is_rollback v \<and> v_policy_run_id v \<noteq> None
    \<and> rollbackVerdicts (v_verdict v) \<and> v_rollback_outcome v = NoRollback \<and> v_rollback_deployment_id v = None"

subsection \<open>Opening a validation\<close>

definition new_validation ::
  "string \<Rightarrow> string \<Rightarrow> string \<Rightarrow> string \<Rightarrow> string \<Rightarrow> string \<Rightarrow> string option \<Rightarrow> bool \<Rightarrow> string \<Rightarrow> time \<Rightarrow> Validation" where
  "new_validation org env app inst endpoint deployment policyRun rollback correlation settled =
    \<lparr>v_deployment_id = deployment, v_organization_id = org, v_environment_id = env, v_application_id = app,
     v_instance_id = inst, v_endpoint_id = endpoint, v_policy_run_id = policyRun, v_automated = (policyRun \<noteq> None),
     v_is_rollback = rollback, v_phase = PhaseGrace, v_started_at = settled,
     v_observe_until = settled + (ValidationGrace + ValidationWindow), v_verdict = NoVerdict, v_detail = '''',
     v_baseline = None, v_rollback_deployment_id = None, v_rollback_outcome = NoRollback, v_rollback_detail = '''',
     v_correlation_id = correlation, v_finished_at = None\<rparr>"

definition insertValidation ::
  "string \<Rightarrow> string \<Rightarrow> string \<Rightarrow> string \<Rightarrow> string \<Rightarrow> string \<Rightarrow> string \<Rightarrow> string \<Rightarrow> time \<Rightarrow> db \<Rightarrow> db res" where
  "insertValidation cid org env app inst endpoint deployment correlation settled d =
    and_then (row_or ErrNoRow (List.find (\<lambda>x. d_id x = deployment) (deployments d))) (\<lambda>x.
    let dispatched = count_where (\<lambda>v. v_rollback_deployment_id v = Some deployment) (validations d);
        v = new_validation org env app inst endpoint deployment (d_policy_run_id x) (dispatched > 0)
          (if correlation = '''' then cid else correlation) settled
    in and_then (require (1 \<le> length (runes (v_correlation_id v)) \<and> length (runes (v_correlation_id v)) \<le> 64) ErrDriver) (\<lambda>_.
       and_then (insert_row (\<lambda>r x. v_deployment_id r = v_deployment_id x) v (validations d)) (\<lambda>t.
       Inr (d\<lparr>validations := t\<rparr>))))"

subsection \<open>What is pending\<close>

record PendingValidation =
  pe_validation :: ValidationView
  pe_organization_id :: string
  pe_environment_id :: string
  pe_application_id :: string
  pe_instance_id :: string
  pe_endpoint_id :: string
  pe_baseline :: "(string \<times> ServiceBaseline) list"
  pe_services :: "(DeploymentIdentity \<times> presence) list"
  pe_health :: bool
  pe_kubernetes :: bool
  pe_released :: bool
  pe_policy_id :: string
  pe_created_by :: string

definition boundServices :: "string \<Rightarrow> db \<Rightarrow> (string \<times> boundResource) list" where
  "boundServices inst d =
    rev (map (\<lambda>r. (re_service_name r, \<lparr>br_container_id = re_container_id r, br_name = re_name r\<rparr>))
      (filter (\<lambda>r. re_instance_id r = inst \<and> re_service_name r \<noteq> '''') (resources d)))"

definition latestInventory :: "string \<Rightarrow> db \<Rightarrow> (Snapshot \<times> time) option" where
  "latestInventory endpoint d =
    (case List.find (\<lambda>i. iv_endpoint_id i = endpoint) (inventories d) of
       None \<Rightarrow> None
     | Some i \<Rightarrow>
        (case iv_snapshot i of
           None \<Rightarrow> None
         | Some s \<Rightarrow>
            if length (sn_containers s) > MaxContainers \<or> ''containers'' \<in> set (sn_truncated s) then None
            else Some (s, iv_received_at i)))"

text \<open>Oldest first, by start and then by deployment.\<close>

definition oldest_first :: "Validation list \<Rightarrow> Validation list" where
  "oldest_first = sort_key (\<lambda>v. (v_started_at v, v_deployment_id v))"

text \<open>The rows that still owe something, cut to each organization's share: the window function's rank.\<close>

definition owing :: "Validation \<Rightarrow> bool" where
  "owing v \<longleftrightarrow> v_phase v \<noteq> PhaseDone \<or> awaitingRollback v"

definition within_share :: "Validation list \<Rightarrow> Validation \<Rightarrow> bool" where
  "within_share vs v \<longleftrightarrow>
    v \<in> set (take PendingValidationsPerOrg (oldest_first (filter (\<lambda>x. v_organization_id x = v_organization_id v) vs)))"

definition pending_rows :: "db \<Rightarrow> Validation list" where
  "pending_rows d =
    (let vs = filter owing (validations d) in
     take MaxPendingValidations (oldest_first (filter (\<lambda>v. within_share vs v
       \<and> (\<exists>x\<in>set (deployments d). d_id x = v_deployment_id v)) vs)))"

definition place_services :: "Validation \<Rightarrow> bool \<Rightarrow> DeploymentIdentity list \<Rightarrow> db \<Rightarrow> (DeploymentIdentity \<times> presence) list" where
  "place_services v kubernetes services d =
    (if kubernetes then map (\<lambda>i. (i, PresenceUnknown)) services
     else
      let bound = boundServices (v_instance_id v) d;
          snap = (case latestInventory (v_endpoint_id v) d of
              None \<Rightarrow> None | Some (s, received) \<Rightarrow> if received < v_started_at v then None else Some s)
      in map (\<lambda>i. (i, if di_kind i = KindDeployment then PresenceUnknown else presence_of i bound snap)) services)"

definition pending_validation :: "db \<Rightarrow> Validation \<Rightarrow> PendingValidation res" where
  "pending_validation d v =
    and_then (row_or ErrNoRow (List.find (\<lambda>x. d_id x = v_deployment_id v) (deployments d))) (\<lambda>x.
    and_then (row_or ErrRevisionCorrupt (d_result x)) (\<lambda>stored.
    let policy = (case v_policy_run_id v of
          None \<Rightarrow> None
        | Some i \<Rightarrow>
           (case List.find (\<lambda>r. r_id r = i) (policy_runs d) of
              None \<Rightarrow> None | Some r \<Rightarrow> List.find (\<lambda>p. p_id p = r_policy_id r) (policies d)));
        kubernetes = (case List.find (\<lambda>e. ep_id e = v_endpoint_id v) (endpoints d) of
            None \<Rightarrow> False | Some e \<Rightarrow> ep_runtime e = RuntimeKubernetes)
    in Inr \<lparr>pe_validation = shown_validation d v, pe_organization_id = v_organization_id v, pe_environment_id = v_environment_id v,
         pe_application_id = v_application_id v, pe_instance_id = v_instance_id v, pe_endpoint_id = v_endpoint_id v,
         pe_baseline = (case v_baseline v of None \<Rightarrow> [] | Some b \<Rightarrow> b),
         pe_services = place_services v kubernetes (dr_services stored) d,
         pe_health = (count_where (\<lambda>c. cap_endpoint_id c = v_endpoint_id v
           \<and> cap_capability c \<in> {''container.inspect.health'', ''kubernetes.inspect''}) (capabilities d) > 0),
         pe_kubernetes = kubernetes,
         pe_released = (count_where (\<lambda>i. in_id i = v_instance_id v) (instances d) = 0),
         pe_policy_id = (case policy of None \<Rightarrow> '''' | Some p \<Rightarrow> p_id p),
         pe_created_by = (case policy of None \<Rightarrow> '''' | Some p \<Rightarrow> p_created_by p)\<rparr>))"

fun scan_pending :: "db \<Rightarrow> Validation list \<Rightarrow> PendingValidation list res" where
  "scan_pending d [] = Inr []"
| "scan_pending d (v # vs) =
    and_then (pending_validation d v) (\<lambda>p. and_then (scan_pending d vs) (\<lambda>ps. Inr (p # ps)))"

definition PendingValidations :: "db \<Rightarrow> PendingValidation list res" where
  "PendingValidations d = scan_pending d (pending_rows d)"

subsection \<open>Observing and deciding\<close>

definition json_baseline :: "(string \<times> ServiceBaseline) list \<Rightarrow> json" where
  "json_baseline m = JMap (map (\<lambda>(k, b). (k, JObj ([(''container_id'', JStr (sb_container_id b)),
       (''restart_count'', JNum (sb_restart_count b))]
     @ (if sb_pod_restarts b = [] then []
        else [(''pod_restarts'', JMap (map (\<lambda>(u, n). (u, JNum n)) (sb_pod_restarts b)))])))) m)"

definition BeginObservation :: "string \<Rightarrow> (string \<times> ServiceBaseline) list \<Rightarrow> db \<Rightarrow> db res" where
  "BeginObservation deployment baseline d =
    (let P = (\<lambda>v. v_deployment_id v = deployment \<and> v_phase v = PhaseGrace) in
     if length (Marshal (json_baseline baseline)) > maxBaselineBytes then Inl ErrInvalid
     else if count_where P (validations d) \<noteq> 1 then Inl ErrNotFound
     else Inr (d\<lparr>validations := update_where P (\<lambda>v. v\<lparr>v_phase := PhaseObserving, v_baseline := Some baseline\<rparr>) (validations d)\<rparr>))"

text \<open>An UPDATE that must change exactly one row.\<close>

definition updateOne :: "('r \<Rightarrow> bool) \<Rightarrow> ('r \<Rightarrow> 'r) \<Rightarrow> 'r table \<Rightarrow> 'r table res" where
  "updateOne P f t = (if count_where P t \<noteq> 1 then Inl ErrNotFound else Inr (update_where P f t))"

definition pauseForValidation :: "time \<Rightarrow> string \<Rightarrow> string \<Rightarrow> string \<Rightarrow> db \<Rightarrow> db" where
  "pauseForValidation now i reason0 correlation d =
    (case List.find (\<lambda>r. r_id r = i) (policy_runs d) of
       None \<Rightarrow> d
     | Some r \<Rightarrow>
        (case List.find (\<lambda>p. p_id p = r_policy_id r) (policies d) of
           None \<Rightarrow> d
         | Some p \<Rightarrow>
            let reason = CleanText reason0 255 in
            (case pause_policy now (p_id p) reason d of
               (d', n) \<Rightarrow>
                 if n = 0 then d'
                 else auditPolicy (p_organization_id p) (p_environment_id p) (p_application_id p @ ''/policies/'' @ p_id p)
                   AuditPolicyPaused reason ''failure'' correlation now d')))"

definition finishValidation :: "time \<Rightarrow> string \<Rightarrow> verdict \<Rightarrow> string \<Rightarrow> db \<Rightarrow> (db \<times> bool) res" where
  "finishValidation now deployment verdict detail0 d =
    and_then (row_or ErrNotFound (List.find (\<lambda>v. v_deployment_id v = deployment \<and> v_phase v \<noteq> PhaseDone) (validations d))) (\<lambda>v.
    let detail = CleanText detail0 255 in
    and_then (updateOne (\<lambda>v. v_deployment_id v = deployment \<and> v_phase v \<noteq> PhaseDone)
      (\<lambda>v. v\<lparr>v_phase := PhaseDone, v_verdict := verdict, v_detail := detail, v_finished_at := Some now\<rparr>) (validations d)) (\<lambda>t.
    let d1 = auditPolicy (v_organization_id v) (v_environment_id v) (v_application_id v @ ''/deployments/'' @ deployment)
          AuditValidation (verdict_name verdict) (or_empty (validationResults verdict)) (v_correlation_id v) now
          (d\<lparr>validations := t\<rparr>)
    in case v_policy_run_id v of
         None \<Rightarrow> Inr (d1, False)
       | Some i \<Rightarrow>
          if \<not> v_automated v \<or> v_is_rollback v then Inr (d1, False)
          else if verdict = VerdictUnverifiable
          then Inr (pauseForValidation now i (ValidationReasonUnverified @ detail) (v_correlation_id v) d1, False)
          else Inr (d1, rollbackVerdicts verdict)))"

definition FinishValidation :: "time \<Rightarrow> string \<Rightarrow> verdict \<Rightarrow> string \<Rightarrow> db \<Rightarrow> (db \<times> bool) res" where
  "FinishValidation now deployment verdict detail d =
    (if validationResults verdict = None then Inl ErrInvalid else finishValidation now deployment verdict detail d)"

definition MarkRollbackPlanned :: "string \<Rightarrow> string \<Rightarrow> db \<Rightarrow> db res" where
  "MarkRollbackPlanned deployment rollback d =
    (let P = (\<lambda>v. v_deployment_id v = deployment \<and> awaitingRollback v) in
     if count_where P (validations d) > 0 \<and> (\<exists>v\<in>set (validations d). v_rollback_deployment_id v = Some rollback)
     then Inl ErrConflict
     else and_then (updateOne P (\<lambda>v. v\<lparr>v_rollback_deployment_id := Some rollback\<rparr>) (validations d)) (\<lambda>t.
       Inr (d\<lparr>validations := t\<rparr>)))"

definition markRollbackOutcome :: "time \<Rightarrow> string \<Rightarrow> rollback_outcome \<Rightarrow> string \<Rightarrow> db \<Rightarrow> db res" where
  "markRollbackOutcome now deployment outcome detail0 d =
    and_then (row_or ErrNotFound (List.find (\<lambda>v. v_deployment_id v = deployment \<and> v_phase v = PhaseDone \<and> v_automated v
      \<and> \<not> v_is_rollback v \<and> v_rollback_outcome v = NoRollback) (validations d))) (\<lambda>v.
    if outcome = RollbackApplied \<and> or_empty (v_rollback_deployment_id v) = '''' then Inl ErrInvalid
    else
     let detail = CleanText detail0 255 in
     and_then (updateOne (\<lambda>v. v_deployment_id v = deployment \<and> v_rollback_outcome v = NoRollback \<and> rollbackVerdicts (v_verdict v))
       (\<lambda>v. v\<lparr>v_rollback_outcome := outcome, v_rollback_detail := detail\<rparr>) (validations d)) (\<lambda>t.
     case v_policy_run_id v of
       None \<Rightarrow> Inr (d\<lparr>validations := t\<rparr>)
     | Some i \<Rightarrow> Inr (pauseForValidation now i
         (if outcome \<noteq> RollbackApplied then ValidationReasonNotRolledBack @ detail else ValidationReasonRolledBack)
         (v_correlation_id v) (d\<lparr>validations := t\<rparr>))))"

definition MarkRollbackOutcome :: "time \<Rightarrow> string \<Rightarrow> rollback_outcome \<Rightarrow> string \<Rightarrow> db \<Rightarrow> db res" where
  "MarkRollbackOutcome now deployment outcome detail d =
    (if outcome = NoRollback then Inl ErrInvalid else markRollbackOutcome now deployment outcome detail d)"

text \<open>A named, undecided rollback and the state of its deployment, None when that row is gone.\<close>

definition rollback_deployment :: "db \<Rightarrow> Validation \<Rightarrow> Deployment option" where
  "rollback_deployment d v = List.find (\<lambda>x. v_rollback_deployment_id v = Some (d_id x)) (deployments d)"

definition undecided :: "Validation \<Rightarrow> bool" where
  "undecided v \<longleftrightarrow> v_rollback_deployment_id v \<noteq> None \<and> v_rollback_outcome v = NoRollback"

definition rollback_succeeded :: "db \<Rightarrow> Validation \<Rightarrow> bool" where
  "rollback_succeeded d v = (case rollback_deployment d v of None \<Rightarrow> False | Some x \<Rightarrow> d_state x = DSucceeded)"

definition rollback_interrupted :: "time \<Rightarrow> db \<Rightarrow> Validation \<Rightarrow> bool" where
  "rollback_interrupted now d v =
    (case rollback_deployment d v of
       None \<Rightarrow> True
     | Some x \<Rightarrow> d_state x \<noteq> DSucceeded
         \<and> \<not> (d_state x = DApplying \<or> (d_state x = DPlanned \<and> d_expires_at x > now)))"

definition decide_where :: "time \<Rightarrow> (db \<Rightarrow> Validation \<Rightarrow> bool) \<Rightarrow> rollback_outcome \<Rightarrow> string \<Rightarrow> db \<Rightarrow> db res" where
  "decide_where now P outcome detail d =
    each (\<lambda>i. markRollbackOutcome now i outcome detail)
      (map v_deployment_id (oldest_first (filter (\<lambda>v. undecided v \<and> P d v) (validations d)))) d"

definition decideNamedRollbacks :: "time \<Rightarrow> db \<Rightarrow> db res" where
  "decideNamedRollbacks now d =
    and_then (decide_where now rollback_succeeded RollbackApplied '''' d)
      (decide_where now (rollback_interrupted now) RollbackFailed RollbackInterrupted)"

definition DecideNamedRollbacks :: "time \<Rightarrow> db \<Rightarrow> db res" where
  "DecideNamedRollbacks now d = decideNamedRollbacks now d"

definition reconcileValidations :: "time \<Rightarrow> db \<Rightarrow> db res" where
  "reconcileValidations now d =
    and_then (each (\<lambda>i d. and_then (finishValidation now i VerdictUnverifiable ValidationDetailServerDown d) (\<lambda>(d', _). Inr d'))
      (map v_deployment_id (oldest_first (filter (\<lambda>v. v_phase v = PhaseGrace \<and> v_observe_until v < now) (validations d)))) d)
      (decideNamedRollbacks now)"

end
