(* ===== verification/Spec2Isabelle.thy ===== *)
theory Spec2Isabelle
  imports Grammar EndpointReports Validations
begin

text \<open>
  A verification library for the KyYard server (\<^verbatim>\<open>src/\<close>). KyYard is a multi-tenant control plane:
  a Go server keeps organizations, environments, endpoints, applications, deployments and update
  policies in a SQL store, and agents on the endpoints carry out what it plans.
\<close>

end
